(* ===== verification/Prelude.thy ===== *)
theory Prelude
  imports Complex_Main "HOL-Library.Char_ord" "HOL-Library.List_Lexorder" "HOL-Library.Sublist"
begin

text \<open>
  Shared vocabulary of the development: byte strings with the order of \<open>std::string\<close>, the
  exceptions of the Thrift protocol as an error type, \<open>folly::Try\<close> as a sum, and the ordered
  map \<open>std::map\<close> as a strictly sorted association list with its \<open>insert\<close>, assignment,
  \<open>erase\<close> and \<open>find\<close>.  A \<open>std::string\<close> is a sequence of bytes, modelled by \<open>string\<close>
  (a list of \<open>char\<close>, one \<open>char\<close> per byte); \<open>operator<\<close> on it compares unsigned bytes
  lexicographically, which is the order of \<open>Char_ord\<close> and \<open>List_Lexorder\<close>.
\<close>

named_theorems kv_simps \<open>equations of the ordered-map operations\<close>
named_theorems key_eqs \<open>equations and separations of the database keys\<close>

section \<open>Errors and results\<close>

text \<open>The exceptions of \<open>RelevancedProtocol.thrift\<close>; the code throws them without fields.\<close>

datatype error =
    ECentroidDoesNotExist
  | ECentroidAlreadyExists
  | EDocumentDoesNotExist
  | EDocumentAlreadyExists
  | EDocumentNotInCentroid
  | EDocumentAlreadyInCentroid

text \<open>\<open>folly::Try<T>\<close>: the error on the left, the value on the right.\<close>

type_synonym 'a Try = "error + 'a"

fun hasException :: "'a Try \<Rightarrow> bool" where
  "hasException (Inl e) = True"
| "hasException (Inr x) = False"

text \<open>\<open>util::optionOfTry\<close>.\<close>

fun optionOfTry :: "'a Try \<Rightarrow> 'a option" where
  "optionOfTry (Inl e) = None"
| "optionOfTry (Inr x) = Some x"

section \<open>The order of byte strings\<close>

lemma colon_le_semicolon: "CHR '':'' \<le> c \<Longrightarrow> c < CHR '';'' \<Longrightarrow> c = CHR '':''"
proof -
  assume "CHR '':'' \<le> c" and "c < CHR '';''"
  then have "of_char CHR '':'' \<le> (of_char c :: nat)" and "of_char c < (of_char CHR '';'' :: nat)"
    by (simp_all add: less_eq_char_def less_char_def)
  then have "of_char c = (of_char CHR '':'' :: nat)" by simp
  then show "c = CHR '':''" using of_char_eq_iff [where 'a = nat, of c "CHR '':''"] by simp
qed

text \<open>
  The half-open interval \<open>[prefix ++ ":", prefix ++ ";")\<close> that the prefix iterations scan holds
  exactly the keys that start with \<open>prefix ++ ":"\<close>.
\<close>

lemma colon_range_iff_prefix:
  "p @ '':'' \<le> k \<and> k < p @ '';'' \<longleftrightarrow> prefix (p @ '':'') k"
proof (induction p arbitrary: k)
  case Nil
  show ?case
  proof (cases k)
    case (Cons c k')
    have "CHR '':'' < CHR '';''" by (simp add: less_char_def)
    then show ?thesis using Cons colon_le_semicolon [of c] by (auto simp: order.strict_iff_order)
  qed simp
next
  case (Cons a p)
  show ?case
  proof (cases k)
    case (Cons c k')
    then show ?thesis using Cons.IH [of k'] by auto
  qed simp
qed

lemma append_le_append_iff: "(p @ a :: string) \<le> p @ b \<longleftrightarrow> a \<le> b"
  by (induction p) auto

lemma append_less_append_iff: "(p @ a :: string) < p @ b \<longleftrightarrow> a < b"
  by (induction p) auto

lemma append_less_append_iff_not: "(p @ a :: string) < p @ b \<longleftrightarrow> \<not> b \<le> a"
  by (simp add: append_less_append_iff not_le)

lemma prefix_le: "prefix p k \<Longrightarrow> (p :: string) \<le> k"
  by (auto elim!: prefixE) (metis append_Nil2 append_le_append_iff Nil_le_Cons neq_Nil_conv order_refl)

section \<open>Ordered maps\<close>

text \<open>
  \<open>std::map<K, V>\<close> as the list of its pairs in iteration order: strictly increasing keys.
  \<open>kv_put\<close> is \<open>m[k] = v\<close>, \<open>kv_insert\<close> is \<open>m.insert(\<dots>)\<close> (which keeps an existing
  value), \<open>kv_erase\<close> is \<open>m.erase(k)\<close> and \<open>map_of\<close> is \<open>find\<close>.
\<close>

fun kv_put :: "'k::linorder \<Rightarrow> 'v \<Rightarrow> ('k \<times> 'v) list \<Rightarrow> ('k \<times> 'v) list" where
  "kv_put k v [] = [(k, v)]"
| "kv_put k v (p # m) =
     (if k < fst p then (k, v) # p # m
      else if k = fst p then (k, v) # m
      else p # kv_put k v m)"

definition kv_insert :: "'k::linorder \<Rightarrow> 'v \<Rightarrow> ('k \<times> 'v) list \<Rightarrow> ('k \<times> 'v) list" where
  "kv_insert k v m = (case map_of m k of None \<Rightarrow> kv_put k v m | Some _ \<Rightarrow> m)"

definition kv_erase :: "'k \<Rightarrow> ('k \<times> 'v) list \<Rightarrow> ('k \<times> 'v) list" where
  "kv_erase k m = filter (\<lambda>p. fst p \<noteq> k) m"

abbreviation kv_sorted :: "('k::linorder \<times> 'v) list \<Rightarrow> bool" where
  "kv_sorted m \<equiv> sorted_wrt (<) (map fst m)"

lemma kv_sorted_distinct: "kv_sorted m \<Longrightarrow> distinct (map fst m)"
  by (induction m) auto

lemma set_kv_put_keys: "fst ` set (kv_put k v m) = insert k (fst ` set m)"
  by (induction m) auto

lemma kv_sorted_put: "kv_sorted m \<Longrightarrow> kv_sorted (kv_put k v m)"
proof (induction m)
  case (Cons p m)
  have "x \<in> fst ` set (kv_put k v m) \<Longrightarrow> x = k \<or> x \<in> fst ` set m" for x
    by (simp add: set_kv_put_keys)
  with Cons show ?case by fastforce
qed simp

lemma map_of_kv_put [kv_simps]: "map_of (kv_put k v m) = (map_of m)(k \<mapsto> v)" if "kv_sorted m"
  using that by (induction m) (auto simp: fun_eq_iff)

lemma kv_sorted_erase: "kv_sorted m \<Longrightarrow> kv_sorted (kv_erase k m)"
  by (induction m) (auto simp: kv_erase_def)

lemma map_of_kv_erase [kv_simps]: "map_of (kv_erase k m) = (map_of m)(k := None)"
  by (induction m) (auto simp: kv_erase_def fun_eq_iff)

lemma kv_erase_absent: "map_of m k = None \<Longrightarrow> kv_erase k m = m"
  by (force simp: kv_erase_def filter_id_conv map_of_eq_None_iff)

lemma kv_sorted_insert: "kv_sorted m \<Longrightarrow> kv_sorted (kv_insert k v m)"
  by (simp add: kv_insert_def kv_sorted_put split: option.split)

lemma map_of_kv_insert [kv_simps]:
  "kv_sorted m \<Longrightarrow> map_of (kv_insert k v m) = (case map_of m k of None \<Rightarrow> (map_of m)(k \<mapsto> v) | Some _ \<Rightarrow> map_of m)"
  by (simp add: kv_insert_def map_of_kv_put split: option.split)

lemma kv_mem_map_of: "kv_sorted m \<Longrightarrow> (k, v) \<in> set m \<longleftrightarrow> map_of m k = Some v"
  by (metis kv_sorted_distinct map_of_eq_Some_iff)

lemma kv_key_map_of: "k \<in> fst ` set m \<longleftrightarrow> map_of m k \<noteq> None"
  by (metis map_of_eq_None_iff)

text \<open>On a sorted map the entries from a key on are a suffix, and an interval is a filter.\<close>

lemma kv_dropWhile_less:
  "kv_sorted m \<Longrightarrow> dropWhile (\<lambda>p. fst p < a) m = filter (\<lambda>p. a \<le> fst p) m"
proof (induction m)
  case (Cons p m)
  show ?case
  proof (cases "fst p < a")
    case False
    with Cons.prems have "\<forall>q \<in> set m. a \<le> fst q" by fastforce
    with False show ?thesis by simp
  qed (use Cons in auto)
qed simp

lemma kv_takeWhile_less:
  "kv_sorted m \<Longrightarrow> takeWhile (\<lambda>p. fst p < b) m = filter (\<lambda>p. fst p < b) m"
proof (induction m)
  case (Cons p m)
  show ?case
  proof (cases "fst p < b")
    case False
    with Cons.prems have "\<forall>q \<in> set m. \<not> fst q < b" by fastforce
    with False show ?thesis by (simp add: filter_empty_conv)
  qed (use Cons in auto)
qed simp

lemma kv_sorted_filter: "kv_sorted m \<Longrightarrow> kv_sorted (filter P m)"
  by (induction m) auto

lemma kv_interval:
  assumes "kv_sorted m"
  shows "takeWhile (\<lambda>p. fst p < b) (dropWhile (\<lambda>p. fst p < a) m)
       = filter (\<lambda>p. a \<le> fst p \<and> fst p < b) m"
proof -
  have "takeWhile (\<lambda>p. fst p < b) (dropWhile (\<lambda>p. fst p < a) m)
      = filter (\<lambda>p. fst p < b) (filter (\<lambda>p. a \<le> fst p) m)"
    using assms by (simp add: kv_dropWhile_less kv_takeWhile_less kv_sorted_filter)
  then show ?thesis by (simp add: conj_commute)
qed

end
