(* ===== verification/Options.thy ===== *)
theory Options
  imports Prelude
begin

text \<open>
  \<open>buildServerOptions.h\<close> and \<open>server/RelevanceServerOptions.cpp\<close>: the settings of the server, from
  their defaults, a configuration file, the environment and the command line.
\<close>

section \<open>RelevanceServerOptions\<close>

record RelevanceServerOptions =
  opt_dataDir :: string
  opt_thriftPort :: int
  opt_taskExpireTime :: int
  opt_integrationTestMode :: bool
  opt_rocksdbThreads :: int
  opt_centroidUpdateThreads :: int
  opt_similarityScoreThreads :: int
  opt_documentProcessingThreads :: int

definition new_RelevanceServerOptions :: RelevanceServerOptions where
  "new_RelevanceServerOptions = \<lparr>opt_dataDir = ''/var/lib/relevanced/data'', opt_thriftPort = 8097, opt_taskExpireTime = 60000,
     opt_integrationTestMode = False, opt_rocksdbThreads = 8, opt_centroidUpdateThreads = 4,
     opt_similarityScoreThreads = 4, opt_documentProcessingThreads = 4\<rparr>"

definition setDataDir :: "string \<Rightarrow> RelevanceServerOptions \<Rightarrow> RelevanceServerOptions" where
  "setDataDir dir opts = opts\<lparr>opt_dataDir := dir\<rparr>"

definition setThriftPort :: "int \<Rightarrow> RelevanceServerOptions \<Rightarrow> RelevanceServerOptions" where
  "setThriftPort port opts = opts\<lparr>opt_thriftPort := port\<rparr>"

definition setIntegrationTestMode :: "bool \<Rightarrow> RelevanceServerOptions \<Rightarrow> RelevanceServerOptions" where
  "setIntegrationTestMode mode opts = opts\<lparr>opt_integrationTestMode := mode\<rparr>"

definition setRocksDbThreadCount :: "int \<Rightarrow> RelevanceServerOptions \<Rightarrow> RelevanceServerOptions" where
  "setRocksDbThreadCount n opts = opts\<lparr>opt_rocksdbThreads := n\<rparr>"

definition setDocumentProcessingThreadCount :: "int \<Rightarrow> RelevanceServerOptions \<Rightarrow> RelevanceServerOptions" where
  "setDocumentProcessingThreadCount n opts = opts\<lparr>opt_documentProcessingThreads := n\<rparr>"

definition setSimilarityScoreThreadCount :: "int \<Rightarrow> RelevanceServerOptions \<Rightarrow> RelevanceServerOptions" where
  "setSimilarityScoreThreadCount n opts = opts\<lparr>opt_similarityScoreThreads := n\<rparr>"

definition setCentroidUpdateThreadCount :: "int \<Rightarrow> RelevanceServerOptions \<Rightarrow> RelevanceServerOptions" where
  "setCentroidUpdateThreadCount n opts = opts\<lparr>opt_centroidUpdateThreads := n\<rparr>"

lemmas option_setters = setDataDir_def setThriftPort_def setIntegrationTestMode_def setRocksDbThreadCount_def
  setDocumentProcessingThreadCount_def setSimilarityScoreThreadCount_def setCentroidUpdateThreadCount_def

section \<open>Where the settings come from\<close>

text \<open>The values of the flags of \<open>commandLineFlags.h\<close>, as gflags has parsed them.\<close>

record flags =
  FLAGS_integration_test_mode :: bool
  FLAGS_port :: int
  FLAGS_data_dir :: string
  FLAGS_config_file :: string
  FLAGS_rocks_db_threads :: int
  FLAGS_centroid_update_threads :: int
  FLAGS_similarity_score_threads :: int
  FLAGS_document_processing_threads :: int

definition default_flags :: flags where
  "default_flags = \<lparr>FLAGS_integration_test_mode = False, FLAGS_port = 0, FLAGS_data_dir = '''',
     FLAGS_config_file = '''', FLAGS_rocks_db_threads = 0, FLAGS_centroid_update_threads = 0,
     FLAGS_similarity_score_threads = 0, FLAGS_document_processing_threads = 0\<rparr>"

text \<open>
  The process environment, the file system and folly's parsers: \<open>parseJson\<close> gives the fields of an
  object, \<open>convert_string\<close> and \<open>convert_int\<close> are \<open>convertTo\<close> on a field and \<open>to_int\<close> is
  \<open>folly::to<int>\<close>; \<open>None\<close> is a failure or an exception.
\<close>

record 'j host =
  getenv :: "string \<Rightarrow> string option"
  readFile :: "string \<Rightarrow> string option"
  parseJson :: "string \<Rightarrow> (string \<times> 'j) list option"
  convert_string :: "'j \<Rightarrow> string option"
  convert_int :: "'j \<Rightarrow> int option"
  to_int :: "string \<Rightarrow> int option"

text \<open>The process exits, or an exception leaves \<open>buildOptions\<close>.\<close>

datatype startup_fault = Exits | InvalidJson | NotConvertible

text \<open>The table of the variables, in the order of \<open>std::map\<close>.\<close>

definition envVarMap :: "(string \<times> string) list" where
  "envVarMap = [
     (''RELEVANCED_CENTROID_UPDATE_THREADS'', ''centroid_update_threads''),
     (''RELEVANCED_CONFIG_FILE'', ''config_file''),
     (''RELEVANCED_DATA_DIR'', ''data_dir''),
     (''RELEVANCED_DOCUMENT_PROCESSING_THREADS'', ''document_processing_threads''),
     (''RELEVANCED_PORT'', ''port''),
     (''RELEVANCED_ROCKSDB_THREADS'', ''rocks_db_threads''),
     (''RELEVANCED_SIMILARITY_SCORE_THREADS'', ''similarity_score_threads'')]"

definition getEnvSettings :: "'j host \<Rightarrow> (string \<times> string) list" where
  "getEnvSettings host =
     foldl (\<lambda>output elem. case getenv host (fst elem) of
         None \<Rightarrow> output
       | Some value \<Rightarrow> kv_insert (snd elem) value output) [] envVarMap"

text \<open>A setting that is applied when it is there, and converted before.\<close>

definition apply_setting ::
  "'v option \<Rightarrow> ('v \<Rightarrow> 'a option) \<Rightarrow> ('a \<Rightarrow> RelevanceServerOptions \<Rightarrow> RelevanceServerOptions) \<Rightarrow>
     startup_fault + RelevanceServerOptions \<Rightarrow> startup_fault + RelevanceServerOptions" where
  "apply_setting found convert setter result =
     (case result of
        Inl fault \<Rightarrow> Inl fault
      | Inr opts \<Rightarrow>
          (case found of
             None \<Rightarrow> Inr opts
           | Some v \<Rightarrow> (case convert v of None \<Rightarrow> Inl NotConvertible | Some a \<Rightarrow> Inr (setter a opts))))"

text \<open>The file that is read is the one of the flag, also when the path comes from the environment.\<close>

definition config_settings ::
  "'j host \<Rightarrow> flags \<Rightarrow> (string \<times> string) list \<Rightarrow> startup_fault + RelevanceServerOptions \<Rightarrow> startup_fault + RelevanceServerOptions" where
  "config_settings host flags envSettings result =
     (let configFilePath = FLAGS_config_file flags;
          configFilePath = (if length configFilePath = 0 then
              (case map_of envSettings ''config_file'' of Some path \<Rightarrow> path | None \<Rightarrow> configFilePath)
            else configFilePath)
      in if length configFilePath > 0 then
           (case readFile host (FLAGS_config_file flags) of
              None \<Rightarrow> Inl Exits
            | Some confStr \<Rightarrow>
                (case parseJson host confStr of
                   None \<Rightarrow> Inl InvalidJson
                 | Some parsedConf \<Rightarrow>
                     let result = apply_setting (map_of parsedConf ''data_dir'') (convert_string host) setDataDir result;
                         result = apply_setting (map_of parsedConf ''port'') (convert_int host) setThriftPort result;
                         result = apply_setting (map_of parsedConf ''rocks_db_threads'') (convert_int host) setRocksDbThreadCount result;
                         result = apply_setting (map_of parsedConf ''centroid_update_threads'') (convert_int host) setCentroidUpdateThreadCount result;
                         result = apply_setting (map_of parsedConf ''document_processing_threads'') (convert_int host) setDocumentProcessingThreadCount result
                     in apply_setting (map_of parsedConf ''similarity_score_threads'') (convert_int host) setSimilarityScoreThreadCount result))
         else result)"

definition env_settings ::
  "'j host \<Rightarrow> (string \<times> string) list \<Rightarrow> startup_fault + RelevanceServerOptions \<Rightarrow> startup_fault + RelevanceServerOptions" where
  "env_settings host envSettings result =
     (let result = apply_setting (map_of envSettings ''data_dir'') Some setDataDir result;
          result = apply_setting (map_of envSettings ''port'') (to_int host) setThriftPort result;
          result = apply_setting (map_of envSettings ''rocks_db_threads'') (to_int host) setRocksDbThreadCount result;
          result = apply_setting (map_of envSettings ''centroid_update_threads'') (to_int host) setCentroidUpdateThreadCount result;
          result = apply_setting (map_of envSettings ''document_processing_threads'') (to_int host) setDocumentProcessingThreadCount result
      in apply_setting (map_of envSettings ''similarity_score_threads'') (to_int host) setSimilarityScoreThreadCount result)"

definition flag_settings :: "flags \<Rightarrow> RelevanceServerOptions \<Rightarrow> RelevanceServerOptions" where
  "flag_settings flags opts =
     (let opts = (if length (FLAGS_data_dir flags) > 0 then setDataDir (FLAGS_data_dir flags) opts else opts);
          opts = (if FLAGS_port flags > 0 then setThriftPort (FLAGS_port flags) opts else opts);
          opts = (if FLAGS_rocks_db_threads flags > 0 then setRocksDbThreadCount (FLAGS_rocks_db_threads flags) opts else opts);
          opts = (if FLAGS_centroid_update_threads flags > 0
                  then setCentroidUpdateThreadCount (FLAGS_centroid_update_threads flags) opts else opts);
          opts = (if FLAGS_document_processing_threads flags > 0
                  then setDocumentProcessingThreadCount (FLAGS_document_processing_threads flags) opts else opts);
          opts = (if FLAGS_similarity_score_threads flags > 0
                  then setSimilarityScoreThreadCount (FLAGS_similarity_score_threads flags) opts else opts)
      in setIntegrationTestMode (FLAGS_integration_test_mode flags) opts)"

definition buildOptions :: "'j host \<Rightarrow> flags \<Rightarrow> startup_fault + RelevanceServerOptions" where
  "buildOptions host flags =
     (let envSettings = getEnvSettings host;
          result = config_settings host flags envSettings (Inr new_RelevanceServerOptions);
          result = env_settings host envSettings result
      in map_sum id (flag_settings flags) result)"

section \<open>Precedence\<close>

lemma env_fold_lookup:
  "kv_sorted out \<Longrightarrow> distinct (map snd xs) \<Longrightarrow> \<forall>k \<in> set (map snd xs). map_of out k = None \<Longrightarrow> (name, key) \<in> set xs \<Longrightarrow>
   map_of (foldl (\<lambda>output elem. case getenv host (fst elem) of None \<Rightarrow> output
     | Some value \<Rightarrow> kv_insert (snd elem) value output) out xs) key = getenv host name"
proof (induction xs arbitrary: out)
  case (Cons x xs)
  let ?step = "\<lambda>output elem. case getenv host (fst elem) of None \<Rightarrow> output | Some value \<Rightarrow> kv_insert (snd elem) value output"
  have keep: "map_of (foldl ?step out' ys) k = map_of out' k" if "k \<notin> set (map snd ys)" "kv_sorted out'" for k out' ys
    using that
  proof (induction ys arbitrary: out')
    case (Cons y ys)
    then show ?case
      by (cases "getenv host (fst y)") (auto simp: kv_sorted_insert map_of_kv_insert split: option.split)
  qed simp
  have sorted: "kv_sorted (?step out x)" using Cons.prems(1) by (simp add: kv_sorted_insert split: option.split)
  show ?case
  proof (cases "x = (name, key)")
    case True
    with keep [of key xs "?step out x"] Cons.prems sorted show ?thesis
      by (cases "getenv host name") (simp_all add: map_of_kv_insert)
  next
    case False
    with Cons.prems have "(name, key) \<in> set xs" by auto
    moreover have "\<forall>k \<in> set (map snd xs). map_of (?step out x) k = None"
    proof
      fix k assume "k \<in> set (map snd xs)"
      moreover from this Cons.prems(2) have "k \<noteq> snd x" by (metis distinct.simps(2) list.simps(9))
      ultimately show "map_of (?step out x) k = None"
        using Cons.prems(1,3) by (auto simp: map_of_kv_insert split: option.split)
    qed
    ultimately show ?thesis using Cons.IH [OF sorted] Cons.prems(2) by simp
  qed
qed simp

lemma env_lookup: "(name, key) \<in> set envVarMap \<Longrightarrow> map_of (getEnvSettings host) key = getenv host name"
  unfolding getEnvSettings_def by (rule env_fold_lookup) (simp_all add: envVarMap_def)

text \<open>A setting that succeeded, as a function of the options.\<close>

definition applied :: "'v option \<Rightarrow> ('v \<Rightarrow> 'a option) \<Rightarrow> ('a \<Rightarrow> RelevanceServerOptions \<Rightarrow> RelevanceServerOptions) \<Rightarrow>
    RelevanceServerOptions \<Rightarrow> RelevanceServerOptions" where
  "applied found convert setter opts = (case found of None \<Rightarrow> opts | Some v \<Rightarrow> setter (the (convert v)) opts)"

lemma apply_setting_succeeds:
  "apply_setting found convert setter result = Inr opts \<Longrightarrow> \<exists>opts'. result = Inr opts' \<and> opts = applied found convert setter opts'"
  by (auto simp: apply_setting_def applied_def split: sum.splits option.splits)

lemma applied_others [simp]:
  "opt_thriftPort (applied f c setDataDir opts) = opt_thriftPort opts"
  "opt_rocksdbThreads (applied f c setDataDir opts) = opt_rocksdbThreads opts"
  "opt_centroidUpdateThreads (applied f c setDataDir opts) = opt_centroidUpdateThreads opts"
  "opt_dataDir (applied f' c' setThriftPort opts) = opt_dataDir opts"
  "opt_rocksdbThreads (applied f' c' setThriftPort opts) = opt_rocksdbThreads opts"
  "opt_centroidUpdateThreads (applied f' c' setThriftPort opts) = opt_centroidUpdateThreads opts"
  "opt_dataDir (applied f' c' setRocksDbThreadCount opts) = opt_dataDir opts"
  "opt_thriftPort (applied f' c' setRocksDbThreadCount opts) = opt_thriftPort opts"
  "opt_centroidUpdateThreads (applied f' c' setRocksDbThreadCount opts) = opt_centroidUpdateThreads opts"
  "opt_dataDir (applied f' c' setCentroidUpdateThreadCount opts) = opt_dataDir opts"
  "opt_thriftPort (applied f' c' setCentroidUpdateThreadCount opts) = opt_thriftPort opts"
  "opt_rocksdbThreads (applied f' c' setCentroidUpdateThreadCount opts) = opt_rocksdbThreads opts"
  "opt_dataDir (applied f' c' setDocumentProcessingThreadCount opts) = opt_dataDir opts"
  "opt_thriftPort (applied f' c' setDocumentProcessingThreadCount opts) = opt_thriftPort opts"
  "opt_rocksdbThreads (applied f' c' setDocumentProcessingThreadCount opts) = opt_rocksdbThreads opts"
  "opt_centroidUpdateThreads (applied f' c' setDocumentProcessingThreadCount opts) = opt_centroidUpdateThreads opts"
  "opt_dataDir (applied f' c' setSimilarityScoreThreadCount opts) = opt_dataDir opts"
  "opt_thriftPort (applied f' c' setSimilarityScoreThreadCount opts) = opt_thriftPort opts"
  "opt_rocksdbThreads (applied f' c' setSimilarityScoreThreadCount opts) = opt_rocksdbThreads opts"
  "opt_centroidUpdateThreads (applied f' c' setSimilarityScoreThreadCount opts) = opt_centroidUpdateThreads opts"
  by (simp_all add: applied_def option_setters split: option.split)

text \<open>The setting of the command line, the environment, the configuration file or the default.\<close>

definition chosen :: "int \<Rightarrow> int option \<Rightarrow> int option \<Rightarrow> int \<Rightarrow> int" where
  "chosen flag env conf dflt =
     (if flag > 0 then flag else case env of Some n \<Rightarrow> n | None \<Rightarrow> (case conf of Some n \<Rightarrow> n | None \<Rightarrow> dflt))"

text \<open>The fields of the configuration file of the flag.\<close>

definition file_field :: "'j host \<Rightarrow> flags \<Rightarrow> string \<Rightarrow> 'j option" where
  "file_field host flags key =
     (if FLAGS_config_file flags = '''' then None
      else map_of (the (parseJson host (the (readFile host (FLAGS_config_file flags))))) key)"

lemma config_settings_succeeds:
  assumes "config_settings host flags settings (Inr opts) = Inr opts'" and "readFile host '''' = None"
  shows "opts' = applied (file_field host flags ''similarity_score_threads'') (convert_int host) setSimilarityScoreThreadCount
    (applied (file_field host flags ''document_processing_threads'') (convert_int host) setDocumentProcessingThreadCount
    (applied (file_field host flags ''centroid_update_threads'') (convert_int host) setCentroidUpdateThreadCount
    (applied (file_field host flags ''rocks_db_threads'') (convert_int host) setRocksDbThreadCount
    (applied (file_field host flags ''port'') (convert_int host) setThriftPort
    (applied (file_field host flags ''data_dir'') (convert_string host) setDataDir opts)))))"
proof (cases "FLAGS_config_file flags = ''''")
  case True
  with assms have "opts' = opts"
    by (auto simp: config_settings_def Let_def split: option.splits if_splits)
  then show ?thesis by (simp add: file_field_def True applied_def)
next
  case False
  with assms(1) obtain conf fields where "readFile host (FLAGS_config_file flags) = Some conf" "parseJson host conf = Some fields"
    by (auto simp: config_settings_def Let_def split: option.splits if_splits)
  with False assms(1) show ?thesis
    by (auto simp: config_settings_def file_field_def Let_def dest!: apply_setting_succeeds)
qed

text \<open>
  The settings that are built follow the command line first, then the environment, then the
  configuration file that the command line names, then the defaults; a flag that is not positive (or an
  empty directory) counts as absent.  Here for the directory, the port and two of the pools.
\<close>

theorem settings_follow_precedence:
  assumes "buildOptions host flags = Inr opts" and "readFile host '''' = None"
  shows "opt_dataDir opts =
      (if FLAGS_data_dir flags \<noteq> '''' then FLAGS_data_dir flags
       else case getenv host ''RELEVANCED_DATA_DIR'' of Some dir \<Rightarrow> dir
         | None \<Rightarrow> (case file_field host flags ''data_dir'' of Some v \<Rightarrow> the (convert_string host v) | None \<Rightarrow> ''/var/lib/relevanced/data''))
    \<and> opt_thriftPort opts = chosen (FLAGS_port flags)
        (map_option (the \<circ> to_int host) (getenv host ''RELEVANCED_PORT''))
        (map_option (the \<circ> convert_int host) (file_field host flags ''port'')) 8097
    \<and> opt_rocksdbThreads opts = chosen (FLAGS_rocks_db_threads flags)
        (map_option (the \<circ> to_int host) (getenv host ''RELEVANCED_ROCKSDB_THREADS''))
        (map_option (the \<circ> convert_int host) (file_field host flags ''rocks_db_threads'')) 8
    \<and> opt_centroidUpdateThreads opts = chosen (FLAGS_centroid_update_threads flags)
        (map_option (the \<circ> to_int host) (getenv host ''RELEVANCED_CENTROID_UPDATE_THREADS''))
        (map_option (the \<circ> convert_int host) (file_field host flags ''centroid_update_threads'')) 4"
proof -
  let ?found = "map_of (getEnvSettings host)"
  from assms(1) obtain opts2 where "env_settings host (getEnvSettings host)
      (config_settings host flags (getEnvSettings host) (Inr new_RelevanceServerOptions)) = Inr opts2"
    and opts: "opts = flag_settings flags opts2"
    by (auto simp: buildOptions_def Let_def map_sum_def split: sum.splits)
  then obtain opts1 where
    "config_settings host flags (getEnvSettings host) (Inr new_RelevanceServerOptions) = Inr opts1"
    and opts2: "opts2 = applied (?found ''similarity_score_threads'') (to_int host) setSimilarityScoreThreadCount
      (applied (?found ''document_processing_threads'') (to_int host) setDocumentProcessingThreadCount
      (applied (?found ''centroid_update_threads'') (to_int host) setCentroidUpdateThreadCount
      (applied (?found ''rocks_db_threads'') (to_int host) setRocksDbThreadCount
      (applied (?found ''port'') (to_int host) setThriftPort
      (applied (?found ''data_dir'') Some setDataDir opts1)))))"
    by (auto simp: env_settings_def Let_def dest!: apply_setting_succeeds)
  note opts1 = config_settings_succeeds [OF this(1) assms(2)]
  have env: "?found ''data_dir'' = getenv host ''RELEVANCED_DATA_DIR''" "?found ''port'' = getenv host ''RELEVANCED_PORT''"
    "?found ''rocks_db_threads'' = getenv host ''RELEVANCED_ROCKSDB_THREADS''"
    "?found ''centroid_update_threads'' = getenv host ''RELEVANCED_CENTROID_UPDATE_THREADS''"
    by (rule env_lookup, simp add: envVarMap_def)+
  have flag: "opt_dataDir opts = (if FLAGS_data_dir flags \<noteq> '''' then FLAGS_data_dir flags else opt_dataDir opts2)"
    "opt_thriftPort opts = (if FLAGS_port flags > 0 then FLAGS_port flags else opt_thriftPort opts2)"
    "opt_rocksdbThreads opts = (if FLAGS_rocks_db_threads flags > 0 then FLAGS_rocks_db_threads flags else opt_rocksdbThreads opts2)"
    "opt_centroidUpdateThreads opts = (if FLAGS_centroid_update_threads flags > 0
        then FLAGS_centroid_update_threads flags else opt_centroidUpdateThreads opts2)"
    by (simp_all add: opts flag_settings_def Let_def option_setters)
  have set: "opt_dataDir (applied f c setDataDir o') = (case f of None \<Rightarrow> opt_dataDir o' | Some v \<Rightarrow> the (c v))"
    "opt_thriftPort (applied g d setThriftPort o') = (case g of None \<Rightarrow> opt_thriftPort o' | Some v \<Rightarrow> the (d v))"
    "opt_rocksdbThreads (applied g d setRocksDbThreadCount o') = (case g of None \<Rightarrow> opt_rocksdbThreads o' | Some v \<Rightarrow> the (d v))"
    "opt_centroidUpdateThreads (applied g d setCentroidUpdateThreadCount o') =
      (case g of None \<Rightarrow> opt_centroidUpdateThreads o' | Some v \<Rightarrow> the (d v))"
    for f :: "'b option" and g :: "'c option" and c d o'
    by (simp_all add: applied_def option_setters split: option.split)
  show ?thesis
    unfolding flag opts2 opts1
    by (simp add: set env chosen_def new_RelevanceServerOptions_def split: option.split)
qed

text \<open>
  A configuration file that only the environment names is never read: the empty path of the flag is
  opened instead, and the process exits.
\<close>

theorem env_config_file_exits:
  assumes "FLAGS_config_file flags = ''''" and "getenv host ''RELEVANCED_CONFIG_FILE'' = Some path"
    and "path \<noteq> ''''" and "readFile host '''' = None"
  shows "buildOptions host flags = Inl Exits"
proof -
  have "map_of (getEnvSettings host) ''config_file'' = Some path"
    using env_lookup [of "''RELEVANCED_CONFIG_FILE''" "''config_file''" host] assms(2) by (simp add: envVarMap_def)
  then have "config_settings host flags (getEnvSettings host) (Inr new_RelevanceServerOptions) = Inl Exits"
    using assms by (simp add: config_settings_def Let_def)
  then show ?thesis by (simp add: buildOptions_def env_settings_def apply_setting_def Let_def)
qed

text \<open>A host for the witnesses: one file, and decimal numbers of one digit.\<close>

definition small_host :: "(string \<Rightarrow> string option) \<Rightarrow> string host" where
  "small_host vars = \<lparr>getenv = vars, readFile = (\<lambda>p. if p = '''' then None else Some p),
     parseJson = (\<lambda>conf. Some [(''port'', conf)]), convert_string = Some,
     convert_int = (\<lambda>s. Some (of_char (hd s) - 48)), to_int = (\<lambda>s. Some (of_char (hd s) - 48))\<rparr>"

theorem settings_follow_precedence_witness:
  "\<exists>opts. buildOptions (small_host (\<lambda>v. None)) (default_flags\<lparr>FLAGS_config_file := ''9''\<rparr>) = Inr opts \<and> opt_thriftPort opts = 9"
proof -
  let ?host = "small_host (\<lambda>v. None)" and ?flags = "default_flags\<lparr>FLAGS_config_file := ''9''\<rparr>"
  have "getEnvSettings ?host = []" by (simp add: getEnvSettings_def envVarMap_def small_host_def)
  then obtain opts where opts: "buildOptions ?host ?flags = Inr opts"
    by (simp add: buildOptions_def config_settings_def env_settings_def apply_setting_def small_host_def default_flags_def Let_def)
  with settings_follow_precedence [OF opts] show ?thesis
    by (simp add: chosen_def file_field_def) (simp add: small_host_def default_flags_def)
qed

theorem env_config_file_exits_witness:
  "buildOptions (small_host (\<lambda>v. if v = ''RELEVANCED_CONFIG_FILE'' then Some ''9'' else None)) default_flags = Inl Exits"
  by (rule env_config_file_exits [where path = "''9''"]) (simp_all add: small_host_def default_flags_def)

end
