(* ===== verification/RockHandle.thy ===== *)
theory RockHandle
  imports Prelude
begin

text \<open>
  The key-value stores of \<open>src/src/persistence\<close>: \<open>RockHandle\<close> (over a RocksDB database) and
  \<open>InMemoryRockHandle\<close> (over a \<open>std::map\<close>), which both implement \<open>RockHandleIf\<close>.
  RocksDB is not part of the repository: its calls are the fields of the record
  \<open>rocksdb\<close>, an argument of every definition that uses it, and what the code relies on is
  the locale \<open>rocksdb_contract\<close>.  \<open>RockHandleIf\<close> is the locale \<open>rock_handle\<close>; the
  in-memory store is an instance of it, and \<open>RockHandle\<close> over any database that keeps the
  contract is an instance of its extension \<open>overwriting_handle\<close>.
\<close>

section \<open>RocksDB as a parameter\<close>

text \<open>The outcomes of a \<open>rocksdb::Status\<close> that the code distinguishes.\<close>

datatype status = StatusOk | StatusNotFound | StatusOther

definition status_ok :: "status \<Rightarrow> bool" where
  "status_ok s \<longleftrightarrow> s = StatusOk"

text \<open>
  The calls on a \<open>rocksdb::DB\<close>.  \<open>db_Seek db k\<close> is what an iterator made by \<open>NewIterator\<close>
  yields after \<open>Seek(k)\<close> under repeated \<open>Next\<close> until it is no longer valid: an iterator
  reads the snapshot of its creation, so later writes do not change the list.
\<close>

record 'db rocksdb =
  db_Put :: "'db \<Rightarrow> string \<Rightarrow> string \<Rightarrow> 'db \<times> status"
  db_Get :: "'db \<Rightarrow> string \<Rightarrow> status \<times> string"
  db_Delete :: "'db \<Rightarrow> string \<Rightarrow> 'db \<times> status"
  db_Seek :: "'db \<Rightarrow> string \<Rightarrow> (string \<times> string) list"
  db_Destroy :: "'db \<Rightarrow> 'db \<times> status"
  db_Open :: "'db \<Rightarrow> 'db \<times> status"

section \<open>Iteration callbacks\<close>

text \<open>
  \<open>function<void(const string&, function<void(string&)>, function<void()>)>\<close>: the callback gets
  the key and the value its second argument would read, works on the state it captures, and says
  whether it called the escape function.
\<close>

type_synonym 'c iterFn = "string \<Rightarrow> string \<Rightarrow> 'c \<Rightarrow> 'c \<times> bool"

text \<open>The lambda that \<open>iterPrefixFromOffset\<close> wraps around its callback, in both handles.\<close>

definition offset_callback :: "nat \<Rightarrow> nat \<Rightarrow> 'c iterFn \<Rightarrow> (nat \<times> nat \<times> bool \<times> 'c) iterFn" where
  "offset_callback offset limitCount f key val = (\<lambda>(offsetSeen, limitSeen, anySeen, c).
     let offsetSeen = offsetSeen + 1 in
     if offsetSeen \<le> offset then ((offsetSeen, limitSeen, anySeen, c), False)
     else let limitSeen = limitSeen + 1 in
       if limitSeen > limitCount then ((offsetSeen, limitSeen, True, c), True)
       else let (c', escape) = f key val c in ((offsetSeen, limitSeen, True, c'), escape))"

text \<open>The lambda of \<open>iterPrefixFromMember\<close>.\<close>

definition member_callback :: "nat \<Rightarrow> 'c iterFn \<Rightarrow> (nat \<times> bool \<times> 'c) iterFn" where
  "member_callback limitCount f key val = (\<lambda>(limitSeen, anySeen, c).
     let limitSeen = limitSeen + 1 in
     if limitSeen > limitCount then ((limitSeen, True, c), True)
     else let (c', escape) = f key val c in ((limitSeen, True, c'), escape))"

section \<open>RockHandle\<close>

definition rock_put :: "('db, 'z) rocksdb_scheme \<Rightarrow> 'db \<Rightarrow> string \<Rightarrow> string \<Rightarrow> 'db \<times> bool" where
  "rock_put api db key val = (let (db', status) = db_Put api db key val in (db', status_ok status))"

text \<open>\<open>get(key)\<close> aborts the process (\<open>CHECK\<close>) when the status is not ok: \<open>None\<close>.\<close>

definition rock_get_checked :: "('db, 'z) rocksdb_scheme \<Rightarrow> 'db \<Rightarrow> string \<Rightarrow> string option" where
  "rock_get_checked api db key =
     (let (status, val) = db_Get api db key in if status_ok status then Some val else None)"

text \<open>\<open>get(key, result)\<close>: \<open>true\<close> with the value written, or \<open>false\<close>.\<close>

definition rock_get :: "('db, 'z) rocksdb_scheme \<Rightarrow> 'db \<Rightarrow> string \<Rightarrow> string option" where
  "rock_get api db key =
     (let (status, val) = db_Get api db key in if status_ok status then Some val else None)"

definition rock_exists :: "('db, 'z) rocksdb_scheme \<Rightarrow> 'db \<Rightarrow> string \<Rightarrow> bool" where
  "rock_exists api db key \<longleftrightarrow> fst (db_Get api db key) \<noteq> StatusNotFound"

definition rock_del :: "('db, 'z) rocksdb_scheme \<Rightarrow> 'db \<Rightarrow> string \<Rightarrow> 'db \<times> bool" where
  "rock_del api db key =
     (if \<not> rock_exists api db key then (db, False)
      else let (db', status) = db_Delete api db key in (db', True))"

text \<open>The \<open>for\<close> loop of \<open>iterRange\<close> over what the iterator yields.\<close>

fun rock_iter_loop :: "(string \<times> string) list \<Rightarrow> string \<Rightarrow> 'c iterFn \<Rightarrow> bool \<Rightarrow> 'c \<Rightarrow> bool \<times> 'c" where
  "rock_iter_loop [] end f foundAny c = (foundAny, c)"
| "rock_iter_loop ((key, val) # it) end f foundAny c =
     (if key < end then
        let (c', stop) = f key val c in
        if stop then (True, c') else rock_iter_loop it end f True c'
      else (foundAny, c))"

definition rock_iterRange ::
  "('db, 'z) rocksdb_scheme \<Rightarrow> 'db \<Rightarrow> string \<Rightarrow> string \<Rightarrow> 'c iterFn \<Rightarrow> 'c \<Rightarrow> bool \<times> 'c" where
  "rock_iterRange api db start end f c = rock_iter_loop (db_Seek api db start) end f False c"

definition rock_iterPrefix ::
  "('db, 'z) rocksdb_scheme \<Rightarrow> 'db \<Rightarrow> string \<Rightarrow> 'c iterFn \<Rightarrow> 'c \<Rightarrow> bool \<times> 'c" where
  "rock_iterPrefix api db pre f c = rock_iterRange api db (pre @ '':'') (pre @ '';'') f c"

definition rock_iterPrefixFromOffset ::
  "('db, 'z) rocksdb_scheme \<Rightarrow> 'db \<Rightarrow> string \<Rightarrow> nat \<Rightarrow> nat \<Rightarrow> 'c iterFn \<Rightarrow> 'c \<Rightarrow> bool \<times> 'c" where
  "rock_iterPrefixFromOffset api db pre offset limitCount f c =
     (let (_, offsetSeen, limitSeen, anySeen, c') =
        rock_iterRange api db (pre @ '':'') (pre @ '';'')
          (offset_callback offset limitCount f) (0, 0, False, c)
      in (anySeen, c'))"

definition rock_iterPrefixFromMember ::
  "('db, 'z) rocksdb_scheme \<Rightarrow> 'db \<Rightarrow> string \<Rightarrow> string \<Rightarrow> nat \<Rightarrow> 'c iterFn \<Rightarrow> 'c \<Rightarrow> bool \<times> 'c" where
  "rock_iterPrefixFromMember api db pre member limitCount f c =
     (let (_, limitSeen, anySeen, c') =
        rock_iterRange api db (pre @ '':'' @ member) (pre @ '';'')
          (member_callback limitCount f) (0, False, c)
      in (anySeen, c'))"

definition rock_iterAll :: "('db, 'z) rocksdb_scheme \<Rightarrow> 'db \<Rightarrow> 'c iterFn \<Rightarrow> 'c \<Rightarrow> bool \<times> 'c" where
  "rock_iterAll api db f c = rock_iterRange api db ''a'' ''zzz'' f c"

text \<open>\<open>openDb\<close> aborts (\<open>CHECK\<close>) when the database cannot be opened: \<open>None\<close>.\<close>

definition rock_openDb :: "('db, 'z) rocksdb_scheme \<Rightarrow> 'db \<Rightarrow> 'db option" where
  "rock_openDb api db = (let (db', status) = db_Open api db in if status_ok status then Some db' else None)"

definition rock_eraseEverything :: "('db, 'z) rocksdb_scheme \<Rightarrow> 'db \<Rightarrow> ('db \<times> bool) option" where
  "rock_eraseEverything api db =
     (let (db', status) = db_Destroy api db in
      case rock_openDb api db' of None \<Rightarrow> None | Some db'' \<Rightarrow> Some (db'', status_ok status))"

section \<open>InMemoryRockHandle\<close>

type_synonym memory = "(string \<times> string) list"

definition inmem_put :: "memory \<Rightarrow> string \<Rightarrow> string \<Rightarrow> memory \<times> bool" where
  "inmem_put data key val = (kv_insert key val data, True)"

definition inmem_get_default :: "memory \<Rightarrow> string \<Rightarrow> string" where
  "inmem_get_default data key = (case map_of data key of None \<Rightarrow> '''' | Some v \<Rightarrow> v)"

definition inmem_get :: "memory \<Rightarrow> string \<Rightarrow> string option" where
  "inmem_get data key = (case map_of data key of None \<Rightarrow> None | Some v \<Rightarrow> Some v)"

definition inmem_exists :: "memory \<Rightarrow> string \<Rightarrow> bool" where
  "inmem_exists data key = (case map_of data key of None \<Rightarrow> False | Some _ \<Rightarrow> True)"

definition inmem_del :: "memory \<Rightarrow> string \<Rightarrow> memory \<times> bool" where
  "inmem_del data key =
     (case map_of data key of None \<Rightarrow> (data, False) | Some _ \<Rightarrow> (kv_erase key data, True))"

fun inmem_iter_loop ::
  "(string \<times> string) list \<Rightarrow> string \<Rightarrow> string \<Rightarrow> 'c iterFn \<Rightarrow> bool \<Rightarrow> bool \<Rightarrow> 'c \<Rightarrow> bool \<times> 'c" where
  "inmem_iter_loop [] start end f stop anyVisited c = (anyVisited, c)"
| "inmem_iter_loop ((key, val) # rest) start end f stop anyVisited c =
     (if stop then (anyVisited, c)
      else if key < start then inmem_iter_loop rest start end f stop anyVisited c
      else if key \<ge> end then (anyVisited, c)
      else let (c', escape) = f key val c in
        inmem_iter_loop rest start end f (stop \<or> escape) True c')"

text \<open>\<open>iterRange\<close> copies the map into a vector, sorts it by key and walks it.\<close>

definition inmem_iterRange :: "memory \<Rightarrow> string \<Rightarrow> string \<Rightarrow> 'c iterFn \<Rightarrow> 'c \<Rightarrow> bool \<times> 'c" where
  "inmem_iterRange data start end f c =
     (let sortedKeys = sort_key fst data in inmem_iter_loop sortedKeys start end f False False c)"

definition inmem_iterAll :: "memory \<Rightarrow> 'c iterFn \<Rightarrow> 'c \<Rightarrow> bool \<times> 'c" where
  "inmem_iterAll data f c = inmem_iterRange data ''a'' ''zzz'' f c"

definition inmem_iterPrefix :: "memory \<Rightarrow> string \<Rightarrow> 'c iterFn \<Rightarrow> 'c \<Rightarrow> bool \<times> 'c" where
  "inmem_iterPrefix data pre f c = inmem_iterRange data (pre @ '':'') (pre @ '';'') f c"

definition inmem_iterPrefixFromOffset ::
  "memory \<Rightarrow> string \<Rightarrow> nat \<Rightarrow> nat \<Rightarrow> 'c iterFn \<Rightarrow> 'c \<Rightarrow> bool \<times> 'c" where
  "inmem_iterPrefixFromOffset data pre offset limitCount f c =
     (let (_, offsetSeen, limitSeen, anySeen, c') =
        inmem_iterRange data (pre @ '':'') (pre @ '';'')
          (offset_callback offset limitCount f) (0, 0, False, c)
      in (anySeen, c'))"

definition inmem_iterPrefixFromMember ::
  "memory \<Rightarrow> string \<Rightarrow> string \<Rightarrow> nat \<Rightarrow> 'c iterFn \<Rightarrow> 'c \<Rightarrow> bool \<times> 'c" where
  "inmem_iterPrefixFromMember data pre member limitCount f c =
     (let (_, limitSeen, anySeen, c') =
        inmem_iterRange data (pre @ '':'' @ member) (pre @ '';'')
          (member_callback limitCount f) (0, False, c)
      in (anySeen, c'))"

text \<open>\<open>eraseEverything\<close> does nothing here and returns \<open>false\<close>.\<close>

definition inmem_eraseEverything :: "memory \<Rightarrow> memory \<times> bool" where
  "inmem_eraseEverything data = (data, False)"

section \<open>What an iteration visits\<close>

text \<open>
  The reference for every iteration: run the callback over a list of entries until it escapes.
\<close>

fun visit :: "(string \<times> string) list \<Rightarrow> 'c iterFn \<Rightarrow> 'c \<Rightarrow> 'c" where
  "visit [] f c = c"
| "visit ((key, val) # rest) f c =
     (let (c', stop) = f key val c in if stop then c' else visit rest f c')"

abbreviation kv_range :: "(string \<times> string) list \<Rightarrow> string \<Rightarrow> string \<Rightarrow> (string \<times> string) list" where
  "kv_range m a b \<equiv> filter (\<lambda>p. a \<le> fst p \<and> fst p < b) m"

lemma rock_iter_loop_visit:
  "rock_iter_loop it end f found c =
     (let r = takeWhile (\<lambda>p. fst p < end) it in (found \<or> r \<noteq> [], visit r f c))"
  by (induction it "end" f found c rule: rock_iter_loop.induct) (auto simp: Let_def split: prod.splits)

lemma inmem_iter_loop_visit:
  assumes "kv_sorted m"
  shows "inmem_iter_loop m a b f stop any c =
     (if stop then (any, c) else (any \<or> kv_range m a b \<noteq> [], visit (kv_range m a b) f c))"
  using assms
proof (induction m arbitrary: stop any c)
  case (Cons p m)
  obtain key val where p: "p = (key, val)" by (cases p)
  show ?case
  proof (cases "b \<le> key")
    case True
    have "b \<le> fst q" if "q \<in> set m" for q
      using Cons.prems that True by (fastforce simp: p)
    then have "kv_range m a b = []" by (auto simp: filter_empty_conv not_less)
    moreover have "\<not> key < b" using True by simp
    moreover have "kv_sorted m" using Cons.prems by simp
    ultimately show ?thesis using Cons.IH [of False] True by (simp add: p)
  next
    case False
    with Cons show ?thesis by (auto simp: p Let_def not_less split: prod.splits)
  qed
qed simp

lemma offset_callback_simps:
  "Suc os \<le> off \<Longrightarrow>
     offset_callback off lm f k v (os, ls, any, c) = ((Suc os, ls, any, c), False)"
  "\<not> Suc os \<le> off \<Longrightarrow> lm < Suc ls \<Longrightarrow>
     offset_callback off lm f k v (os, ls, any, c) = ((Suc os, Suc ls, True, c), True)"
  "\<not> Suc os \<le> off \<Longrightarrow> \<not> lm < Suc ls \<Longrightarrow>
     offset_callback off lm f k v (os, ls, any, c) =
       ((Suc os, Suc ls, True, fst (f k v c)), snd (f k v c))"
  by (simp_all add: offset_callback_def case_prod_unfold Let_def)

lemma offset_callback_visit:
  "visit r (offset_callback off lm f) (os, ls, any, c) = (os', ls', any', c') \<Longrightarrow>
     any' = (any \<or> off - os < length r) \<and> c' = visit (take (lm - ls) (drop (off - os) r)) f c"
proof (induction r arbitrary: os ls any c)
  case (Cons p r)
  obtain key val where p: "p = (key, val)" by (cases p)
  show ?case
  proof (cases "Suc os \<le> off")
    case True
    then have "off - os = Suc (off - Suc os)" by simp
    moreover have "visit r (offset_callback off lm f) (Suc os, ls, any, c) = (os', ls', any', c')"
      using Cons.prems True by (simp add: p offset_callback_simps(1))
    ultimately show ?thesis using Cons.IH by (simp add: p)
  next
    case False
    then have off: "off - os = 0" "off - Suc os = 0" by simp_all
    show ?thesis
    proof (cases "lm < Suc ls")
      case True
      with False Cons.prems off show ?thesis by (simp add: p offset_callback_simps)
    next
      case lm: False
      then have "lm - ls = Suc (lm - Suc ls)" by simp
      with lm False Cons.prems off Cons.IH [of "Suc os" "Suc ls" True] show ?thesis
        by (auto simp: p offset_callback_simps Let_def split: prod.splits if_splits)
    qed
  qed
qed simp

lemma member_callback_visit:
  "visit r (member_callback lm f) (ls, any, c) = (ls', any', c') \<Longrightarrow>
     any' = (any \<or> r \<noteq> []) \<and> c' = visit (take (lm - ls) r) f c"
proof (induction r arbitrary: ls any c)
  case (Cons p r)
  obtain key val where p: "p = (key, val)" by (cases p)
  show ?case
  proof (cases "lm < Suc ls")
    case True
    with Cons.prems show ?thesis by (simp add: p member_callback_def)
  next
    case False
    then have "lm - ls = Suc (lm - Suc ls)" by simp
    with False Cons.prems Cons.IH [of "Suc ls" True] show ?thesis
      by (auto simp: p member_callback_def Let_def split: prod.splits if_splits)
  qed
qed simp

section \<open>RockHandleIf as an interface\<close>

text \<open>
  What \<open>SyncPersistence\<close> may rely on for every handle: reads see the contents, a delete removes
  its key and says whether it was there, a put on an absent key adds it, and a range iteration
  visits the entries of the half-open interval in key order.
\<close>

locale rock_handle =
  fixes hput :: "'h \<Rightarrow> string \<Rightarrow> string \<Rightarrow> 'h \<times> bool"
    and hget :: "'h \<Rightarrow> string \<Rightarrow> string option"
    and hexists :: "'h \<Rightarrow> string \<Rightarrow> bool"
    and hdel :: "'h \<Rightarrow> string \<Rightarrow> 'h \<times> bool"
    and hiter :: "'h \<Rightarrow> string \<Rightarrow> string \<Rightarrow> 'c iterFn \<Rightarrow> 'c \<Rightarrow> bool \<times> 'c"
    and contents :: "'h \<Rightarrow> (string \<times> string) list"
    and valid :: "'h \<Rightarrow> bool"
  assumes contents_sorted: "valid h \<Longrightarrow> kv_sorted (contents h)"
    and get_law: "valid h \<Longrightarrow> hget h k = map_of (contents h) k"
    and exists_law: "valid h \<Longrightarrow> hexists h k \<longleftrightarrow> map_of (contents h) k \<noteq> None"
    and del_valid: "valid h \<Longrightarrow> valid (fst (hdel h k))"
    and del_contents: "valid h \<Longrightarrow> contents (fst (hdel h k)) = kv_erase k (contents h)"
    and del_result: "valid h \<Longrightarrow> snd (hdel h k) \<longleftrightarrow> map_of (contents h) k \<noteq> None"
    and put_valid: "valid h \<Longrightarrow> valid (fst (hput h k v))"
    and put_result: "valid h \<Longrightarrow> snd (hput h k v)"
    and put_fresh: "valid h \<Longrightarrow> map_of (contents h) k = None \<Longrightarrow>
      contents (fst (hput h k v)) = kv_put k v (contents h)"
    and iter_law: "valid h \<Longrightarrow>
      hiter h a b f c = (kv_range (contents h) a b \<noteq> [], visit (kv_range (contents h) a b) f c)"
begin

lemma get_after_put_fresh:
  assumes "valid h" and "hget h k = None"
  shows "hget (fst (hput h k v)) k' = (if k' = k then Some v else hget h k')"
  using assms by (simp add: get_law put_valid put_fresh contents_sorted map_of_kv_put)

lemma get_after_del:
  assumes "valid h"
  shows "hget (fst (hdel h k)) k' = (if k' = k then None else hget h k')"
  using assms by (simp add: get_law del_valid del_contents map_of_kv_erase)

lemma exists_iff_get: "valid h \<Longrightarrow> hexists h k \<longleftrightarrow> hget h k \<noteq> None"
  by (simp add: exists_law get_law)

lemma del_twice: "valid h \<Longrightarrow> \<not> snd (hdel (fst (hdel h k)) k)"
  by (simp add: del_result del_valid del_contents map_of_kv_erase)

text \<open>The keys a range iteration presents are exactly the stored keys of the interval.\<close>

lemma iter_keys:
  assumes "valid h"
  shows "k \<in> fst ` set (kv_range (contents h) a b) \<longleftrightarrow> a \<le> k \<and> k < b \<and> hget h k \<noteq> None"
proof -
  have "k \<in> fst ` set (kv_range (contents h) a b) \<longleftrightarrow> a \<le> k \<and> k < b \<and> k \<in> fst ` set (contents h)"
    by force
  with assms show ?thesis by (simp add: kv_key_map_of get_law)
qed

end

text \<open>A handle whose \<open>put\<close> also replaces the value of a present key.\<close>

locale overwriting_handle = rock_handle +
  assumes put_contents: "valid h \<Longrightarrow> contents (fst (hput h k v)) = kv_put k v (contents h)"
begin

lemma get_after_put:
  assumes "valid h"
  shows "hget (fst (hput h k v)) k' = (if k' = k then Some v else hget h k')"
  using assms by (simp add: get_law put_valid put_contents contents_sorted map_of_kv_put)

end

text \<open>
  The contract of RocksDB: \<open>entries db\<close> are the visible key-value pairs, in key order; no call
  fails for reasons outside the data (disk full, corruption); \<open>Put\<close> replaces, \<open>Get\<close> of an
  absent key reports \<open>NotFound\<close>, an iterator yields the entries from the sought key on, and
  a destroyed database opens empty (\<open>create_if_missing\<close> is set).
\<close>

locale rocksdb_contract =
  fixes api :: "('db, 'z) rocksdb_scheme"
    and entries :: "'db \<Rightarrow> (string \<times> string) list"
  assumes entries_sorted: "kv_sorted (entries db)"
    and Put_entries: "entries (fst (db_Put api db k v)) = kv_put k v (entries db)"
    and Put_status: "snd (db_Put api db k v) = StatusOk"
    and Get_some: "map_of (entries db) k = Some v \<Longrightarrow> db_Get api db k = (StatusOk, v)"
    and Get_none: "map_of (entries db) k = None \<Longrightarrow> fst (db_Get api db k) = StatusNotFound"
    and Delete_entries: "entries (fst (db_Delete api db k)) = kv_erase k (entries db)"
    and Seek_entries: "db_Seek api db k = dropWhile (\<lambda>p. fst p < k) (entries db)"
    and Destroy_status: "snd (db_Destroy api db) = StatusOk"
    and Open_status: "snd (db_Open api db) = StatusOk"
    and Open_entries: "entries (fst (db_Open api (fst (db_Destroy api db)))) = []"
begin

lemma rock_get_eq [kv_simps]: "rock_get api db k = map_of (entries db) k"
proof (cases "map_of (entries db) k")
  case None
  then show ?thesis using Get_none [of db k] by (auto simp: rock_get_def status_ok_def split: prod.split)
next
  case (Some v)
  then show ?thesis using Get_some [of db k] by (simp add: rock_get_def status_ok_def)
qed

lemma rock_exists_eq [kv_simps]: "rock_exists api db k \<longleftrightarrow> map_of (entries db) k \<noteq> None"
proof (cases "map_of (entries db) k")
  case None
  then show ?thesis using Get_none [of db k] by (simp add: rock_exists_def)
next
  case (Some v)
  then show ?thesis using Get_some [of db k] by (simp add: rock_exists_def)
qed

lemma rock_put_entries [kv_simps]: "entries (fst (rock_put api db k v)) = kv_put k v (entries db)"
  by (simp add: rock_put_def Put_entries case_prod_unfold Let_def)

lemma rock_put_result [kv_simps]: "snd (rock_put api db k v)"
  by (simp add: rock_put_def Put_status status_ok_def case_prod_unfold Let_def)

lemma rock_del_entries [kv_simps]: "entries (fst (rock_del api db k)) = kv_erase k (entries db)"
proof (cases "map_of (entries db) k")
  case None
  then show ?thesis by (simp add: rock_del_def rock_exists_eq kv_erase_absent)
next
  case (Some v)
  then show ?thesis using Delete_entries [of db k]
    by (simp add: rock_del_def rock_exists_eq case_prod_unfold Let_def)
qed

lemma rock_del_result [kv_simps]: "snd (rock_del api db k) \<longleftrightarrow> map_of (entries db) k \<noteq> None"
  by (simp add: rock_del_def rock_exists_eq split: prod.split)

lemma rock_iterRange_eq [kv_simps]:
  "rock_iterRange api db a b f c = (kv_range (entries db) a b \<noteq> [], visit (kv_range (entries db) a b) f c)"
  by (simp add: rock_iterRange_def rock_iter_loop_visit Let_def Seek_entries kv_interval entries_sorted)

lemma rock_eraseEverything_eq:
  "\<exists>db'. rock_eraseEverything api db = Some (db', True) \<and> entries db' = []"
  using Destroy_status [of db] Open_status [of "fst (db_Destroy api db)"] Open_entries [of db]
  by (simp add: rock_eraseEverything_def rock_openDb_def status_ok_def case_prod_unfold Let_def)

end

sublocale rocksdb_contract \<subseteq> rock: overwriting_handle "rock_put api" "rock_get api" "rock_exists api"
    "rock_del api" "rock_iterRange api" entries "\<lambda>_. True"
  by unfold_locales (simp_all add: kv_simps entries_sorted)

section \<open>The in-memory handle is a RockHandleIf\<close>

lemma kv_sorted_sort_key: "kv_sorted m \<Longrightarrow> sort_key fst m = m"
  by (simp add: sort_key_id_if_sorted strict_sorted_imp_sorted)

lemma inmem_iterRange_visit:
  "kv_sorted m \<Longrightarrow> inmem_iterRange m a b f c = (kv_range m a b \<noteq> [], visit (kv_range m a b) f c)"
  by (simp add: inmem_iterRange_def kv_sorted_sort_key inmem_iter_loop_visit)

interpretation inmem: rock_handle inmem_put inmem_get inmem_exists inmem_del inmem_iterRange
    "\<lambda>m. m" kv_sorted
proof (unfold_locales, goal_cases)
  case (2 h k) then show ?case by (simp add: inmem_get_def split: option.split)
next
  case (3 h k) then show ?case by (simp add: inmem_exists_def split: option.split)
next
  case (4 h k) then show ?case by (simp add: inmem_del_def kv_sorted_erase split: option.split)
next
  case (5 h k) then show ?case by (simp add: inmem_del_def kv_erase_absent split: option.split)
next
  case (6 h k) then show ?case by (simp add: inmem_del_def split: option.split)
next
  case (9 h k v) then show ?case by (simp add: inmem_put_def kv_insert_def)
next
  case (10 h a b f c) then show ?case by (rule inmem_iterRange_visit)
qed (simp_all add: inmem_put_def kv_sorted_insert)

section \<open>A database that keeps the contract\<close>

text \<open>
  A log-structured store: the writes in order, newest first.  It shows that the contract of
  RocksDB can be met, and it is the instance at which the witnesses run.
\<close>

fun log_entries :: "memory \<Rightarrow> memory" where
  "log_entries [] = []"
| "log_entries (p # wl) = kv_put (fst p) (snd p) (log_entries wl)"

definition log_api :: "'z \<Rightarrow> (memory, 'z) rocksdb_scheme" where
  "log_api z = \<lparr>
     db_Put = (\<lambda>wl k v. ((k, v) # wl, StatusOk)),
     db_Get = (\<lambda>wl k. case map_of wl k of Some v \<Rightarrow> (StatusOk, v) | None \<Rightarrow> (StatusNotFound, '''')),
     db_Delete = (\<lambda>wl k. (filter (\<lambda>p. fst p \<noteq> k) wl, StatusOk)),
     db_Seek = (\<lambda>wl k. dropWhile (\<lambda>p. fst p < k) (log_entries wl)),
     db_Destroy = (\<lambda>wl. ([], StatusOk)),
     db_Open = (\<lambda>wl. (wl, StatusOk)), \<dots> = z\<rparr>"

lemma log_entries_sorted: "kv_sorted (log_entries wl)"
  by (induction wl) (simp_all add: kv_sorted_put)

lemma map_of_log_entries: "map_of (log_entries wl) = map_of wl"
  by (induction wl) (auto simp: map_of_kv_put log_entries_sorted fun_eq_iff)

lemma kv_erase_put_same: "kv_sorted m \<Longrightarrow> kv_erase k (kv_put k v m) = kv_erase k m"
  by (induction m) (auto simp: kv_erase_def)

lemma kv_put_below: "\<forall>q \<in> set m. k < fst q \<Longrightarrow> kv_put k v m = (k, v) # m"
  by (cases m) auto

lemma kv_erase_put_other:
  "kv_sorted m \<Longrightarrow> k' \<noteq> k \<Longrightarrow> kv_erase k (kv_put k' v m) = kv_put k' v (kv_erase k m)"
proof (induction m)
  case (Cons p m)
  show ?case
  proof (cases "fst p = k \<and> k' < k")
    case True
    then have "\<forall>q \<in> set (filter (\<lambda>p. fst p \<noteq> k) m). k' < fst q" using Cons.prems by fastforce
    with True show ?thesis by (simp add: kv_erase_def kv_put_below Cons.prems)
  qed (use Cons in \<open>auto simp: kv_erase_def\<close>)
qed (simp add: kv_erase_def)

lemma log_entries_filter: "log_entries (filter (\<lambda>p. fst p \<noteq> k) wl) = kv_erase k (log_entries wl)"
proof (induction wl)
  case (Cons p wl)
  then show ?case
    by (cases "fst p = k") (simp_all add: kv_erase_put_same kv_erase_put_other log_entries_sorted)
qed (simp add: kv_erase_def)

interpretation log_db: rocksdb_contract "log_api z" log_entries for z :: 'z
  by unfold_locales (simp_all add: log_api_def log_entries_sorted map_of_log_entries log_entries_filter)

lemma member_range_iff:
  "pre @ '':'' @ member \<le> k \<and> k < pre @ '';'' \<longleftrightarrow> prefix (pre @ '':'') k \<and> pre @ '':'' @ member \<le> k"
proof -
  have "pre @ '':'' \<le> pre @ '':'' @ member" by (simp add: append_le_append_iff)
  then show ?thesis using colon_range_iff_prefix [of pre k] by (meson order.trans)
qed

context rocksdb_contract
begin

lemma iterPrefix_eq:
  "rock_iterPrefix api db pre f c =
     (filter (\<lambda>p. prefix (pre @ '':'') (fst p)) (entries db) \<noteq> [],
      visit (filter (\<lambda>p. prefix (pre @ '':'') (fst p)) (entries db)) f c)"
  by (simp add: rock_iterPrefix_def rock_iterRange_eq colon_range_iff_prefix)

lemma iterPrefixFromOffset_eq:
  "rock_iterPrefixFromOffset api db pre offset limitCount f c =
    (let r = filter (\<lambda>p. prefix (pre @ '':'') (fst p)) (entries db)
     in (offset < length r, visit (take limitCount (drop offset r)) f c))"
proof -
  let ?r = "filter (\<lambda>p. prefix (pre @ '':'') (fst p)) (entries db)"
  obtain os ls any c' where res:
    "visit ?r (offset_callback offset limitCount f) (0, 0, False, c) = (os, ls, any, c')"
    by (rule prod_cases4)
  have "rock_iterRange api db (pre @ '':'') (pre @ '';'')
      (offset_callback offset limitCount f) (0, 0, False, c) = (?r \<noteq> [], os, ls, any, c')"
    by (simp only: rock_iterRange_eq colon_range_iff_prefix res)
  with offset_callback_visit [OF res] show ?thesis
    by (simp add: rock_iterPrefixFromOffset_def Let_def)
qed

lemma iterPrefixFromMember_eq:
  "rock_iterPrefixFromMember api db pre member limitCount f c =
    (let r = filter (\<lambda>p. prefix (pre @ '':'') (fst p) \<and> pre @ '':'' @ member \<le> fst p) (entries db)
     in (r \<noteq> [], visit (take limitCount r) f c))"
proof -
  let ?r = "filter (\<lambda>p. prefix (pre @ '':'') (fst p) \<and> pre @ '':'' @ member \<le> fst p) (entries db)"
  obtain ls any c' where res:
    "visit ?r (member_callback limitCount f) (0, False, c) = (ls, any, c')"
    by (rule prod_cases3)
  have eq: "kv_range (entries db) (pre @ '':'' @ member) (pre @ '';'') = ?r"
    by (rule filter_cong) (simp_all only: member_range_iff)
  have "rock_iterRange api db (pre @ '':'' @ member) (pre @ '';'')
      (member_callback limitCount f) (0, False, c) = (?r \<noteq> [], ls, any, c')"
    by (simp only: rock_iterRange_eq eq res)
  with member_callback_visit [OF res] show ?thesis
    by (simp add: rock_iterPrefixFromMember_def Let_def)
qed

end

section \<open>Properties of the stores\<close>

text \<open>
  A prefix iteration over a database that keeps the contract visits exactly the stored
  entries whose key starts with \<open>prefix ++ ":"\<close>, in key order, and says whether there are any.
\<close>

theorem rock_iterPrefix_visits_prefix:
  assumes "rocksdb_contract api entries"
  shows "rock_iterPrefix api db pre f c =
    (let r = filter (\<lambda>p. prefix (pre @ '':'') (fst p)) (entries db) in (r \<noteq> [], visit r f c))"
  by (simp add: rocksdb_contract.iterPrefix_eq [OF assms] Let_def)

theorem rock_iterPrefix_visits_prefix_witness:
  "rock_iterPrefix (log_api ()) [(''b:2'', ''y''), (''a:1'', ''x''), (''ab:3'', ''z'')] ''a''
     (\<lambda>k v acc. (acc @ [k], False)) [] = (True, [''a:1''])"
  by (subst rock_iterPrefix_visits_prefix [OF log_db.rocksdb_contract_axioms])
    (simp add: less_char_def)

text \<open>
  Paging: \<open>iterPrefixFromOffset\<close> skips \<open>offset\<close> of the entries under the prefix and
  visits at most \<open>limitCount\<close> of the rest; its result says whether any entry was left after the
  offset (even when \<open>limitCount\<close> is 0).
\<close>

theorem rock_iterPrefixFromOffset_window:
  assumes "rocksdb_contract api entries"
  shows "rock_iterPrefixFromOffset api db pre offset limitCount f c =
    (let r = filter (\<lambda>p. prefix (pre @ '':'') (fst p)) (entries db)
     in (offset < length r, visit (take limitCount (drop offset r)) f c))"
  by (rule rocksdb_contract.iterPrefixFromOffset_eq [OF assms])

theorem rock_iterPrefixFromOffset_window_witness:
  "rock_iterPrefixFromOffset (log_api ()) [(''a:3'', ''z''), (''a:1'', ''x''), (''a:2'', ''y'')] ''a'' 1 1
     (\<lambda>k v acc. (acc @ [k], False)) [] = (True, [''a:2''])"
  by (subst rock_iterPrefixFromOffset_window [OF log_db.rocksdb_contract_axioms])
    (simp add: less_char_def)

text \<open>
  The in-memory handle stands in for RocksDB in the tests: over the same contents, every
  iteration of the two handles has the same result and the same sequence of callbacks.
\<close>

theorem inmem_iterations_agree:
  assumes "rocksdb_contract api entries" and "entries db = m"
  shows "inmem_iterRange m a b f c = rock_iterRange api db a b f c
    \<and> inmem_iterAll m f c = rock_iterAll api db f c
    \<and> inmem_iterPrefix m pre f c = rock_iterPrefix api db pre f c
    \<and> inmem_iterPrefixFromOffset m pre n l f c = rock_iterPrefixFromOffset api db pre n l f c
    \<and> inmem_iterPrefixFromMember m pre x l f c = rock_iterPrefixFromMember api db pre x l f c"
proof -
  have range: "inmem_iterRange m a b g s = rock_iterRange api db a b g s" for a b and g :: "'s iterFn" and s
    using rocksdb_contract.entries_sorted [OF assms(1), of db] assms(2)
    by (simp add: inmem_iterRange_visit rocksdb_contract.rock_iterRange_eq [OF assms(1)])
  show ?thesis
    by (simp add: range inmem_iterAll_def rock_iterAll_def inmem_iterPrefix_def rock_iterPrefix_def
        inmem_iterPrefixFromOffset_def rock_iterPrefixFromOffset_def
        inmem_iterPrefixFromMember_def rock_iterPrefixFromMember_def)
qed

theorem inmem_iterations_agree_witness:
  "inmem_iterPrefix [(''a:1'', ''x''), (''b:2'', ''y'')] ''b'' (\<lambda>k v acc. (acc @ [v], False)) [] = (True, [''y''])"
proof -
  let ?m = "[(''a:1'', ''x''), (''b:2'', ''y'')]" and ?f = "\<lambda>k v acc. (acc @ [v], False)"
  have "log_entries [(''b:2'', ''y''), (''a:1'', ''x'')] = ?m" by (simp add: less_char_def)
  then have "inmem_iterPrefix ?m ''b'' ?f [] =
      rock_iterPrefix (log_api ()) [(''b:2'', ''y''), (''a:1'', ''x'')] ''b'' ?f []"
    by (rule inmem_iterations_agree [OF log_db.rocksdb_contract_axioms,
          THEN conjunct2, THEN conjunct2, THEN conjunct1])
  then show ?thesis
    by (simp add: rock_iterPrefix_def log_db.rock_iterRange_eq less_char_def less_eq_char_def)
qed

text \<open>
  The two handles differ in \<open>put\<close> on a present key: RocksDB replaces the value, while
  \<open>InMemoryRockHandle::put\<close> calls \<open>std::map::insert\<close>, which keeps the old one.
\<close>

theorem put_existing_key_differs:
  assumes "rocksdb_contract api entries" and "kv_sorted m" and "map_of m k = Some old"
  shows "inmem_get (fst (inmem_put m k v)) k = Some old
    \<and> rock_get api (fst (rock_put api db k v)) k = Some v"
  using assms(3)
  by (simp add: inmem_get_def inmem_put_def kv_insert_def map_of_kv_put
      rocksdb_contract.rock_get_eq [OF assms(1)] rocksdb_contract.rock_put_entries [OF assms(1)]
      rocksdb_contract.entries_sorted [OF assms(1)])

theorem put_existing_key_differs_witness:
  "inmem_get (fst (inmem_put [(''k'', ''old'')] ''k'' ''new'')) ''k'' = Some ''old''
    \<and> rock_get (log_api ()) (fst (rock_put (log_api ()) [] ''k'' ''new'')) ''k'' = Some ''new''"
  by (rule put_existing_key_differs [OF log_db.rocksdb_contract_axioms]) simp_all

end
