(* ===== verification/Models.thy ===== *)
theory Models
  imports Prelude "HOL-Library.Word"
begin

text \<open>
  The data of \<open>src/src/models\<close> and \<open>src/src/text_util/ScoredWord\<close>: scored words in their
  fixed 24-byte buffers, processed documents, word vectors, centroids, and the similarity score.
  A \<open>double\<close> is a real number, an infinity or NaN; every operation rounds its exact result with
  \<open>rnd\<close>, an argument that stands for the rounding of the machine (it may also overflow to an
  infinity).  The sign of a zero is not kept.  \<open>std::unordered_map\<close> is an association list with
  distinct keys, in the order in which the map iterates.
\<close>

section \<open>Doubles\<close>

datatype double = Num real | Infty bool | NaN

text \<open>\<open>Infty False\<close> is \<open>+inf\<close> and \<open>Infty True\<close> is \<open>-inf\<close>.\<close>

fun d_add :: "(real \<Rightarrow> double) \<Rightarrow> double \<Rightarrow> double \<Rightarrow> double" where
  "d_add rnd (Num x) (Num y) = rnd (x + y)"
| "d_add rnd (Infty s) (Num y) = Infty s"
| "d_add rnd (Num x) (Infty t) = Infty t"
| "d_add rnd (Infty s) (Infty t) = (if s = t then Infty s else NaN)"
| "d_add rnd NaN y = NaN"
| "d_add rnd x NaN = NaN"

fun d_mul :: "(real \<Rightarrow> double) \<Rightarrow> double \<Rightarrow> double \<Rightarrow> double" where
  "d_mul rnd (Num x) (Num y) = rnd (x * y)"
| "d_mul rnd (Infty s) (Num y) = (if y = 0 then NaN else Infty (s \<noteq> (y < 0)))"
| "d_mul rnd (Num x) (Infty t) = (if x = 0 then NaN else Infty ((x < 0) \<noteq> t))"
| "d_mul rnd (Infty s) (Infty t) = Infty (s \<noteq> t)"
| "d_mul rnd NaN y = NaN"
| "d_mul rnd x NaN = NaN"

fun d_div :: "(real \<Rightarrow> double) \<Rightarrow> double \<Rightarrow> double \<Rightarrow> double" where
  "d_div rnd (Num x) (Num y) =
     (if y = 0 then (if x = 0 then NaN else Infty (x < 0)) else rnd (x / y))"
| "d_div rnd (Infty s) (Num y) = Infty (s \<noteq> (y < 0))"
| "d_div rnd (Num x) (Infty t) = Num 0"
| "d_div rnd (Infty s) (Infty t) = NaN"
| "d_div rnd NaN y = NaN"
| "d_div rnd x NaN = NaN"

fun d_sqrt :: "(real \<Rightarrow> double) \<Rightarrow> double \<Rightarrow> double" where
  "d_sqrt rnd (Num x) = (if x < 0 then NaN else rnd (sqrt x))"
| "d_sqrt rnd (Infty s) = (if s then NaN else Infty False)"
| "d_sqrt rnd NaN = NaN"

text \<open>\<open>pow(x, 2)\<close> and the cast \<open>(double) n\<close>.\<close>

definition d_square :: "(real \<Rightarrow> double) \<Rightarrow> double \<Rightarrow> double" where
  "d_square rnd x = d_mul rnd x x"

definition d_of_nat :: "(real \<Rightarrow> double) \<Rightarrow> nat \<Rightarrow> double" where
  "d_of_nat rnd n = rnd (real n)"

section \<open>Scored words\<close>

abbreviation NUL :: char where "NUL \<equiv> CHR 0x00"

text \<open>\<open>word\<close> is the array \<open>char word[24]\<close>, as its 24 bytes.\<close>

record scored_word =
  sw_word :: string
  sw_score :: double

text \<open>
  \<open>strncpy(dst, src, n)\<close>: the bytes of \<open>src\<close> up to its terminator, at most \<open>n\<close> of them, padded
  with terminators to \<open>n\<close>; the rest of \<open>dst\<close> stays.  A pointer into a buffer is the list of
  the bytes from it on (past the end of the list lies a terminator).
\<close>

definition c_str :: "string \<Rightarrow> string" where
  "c_str buf = takeWhile (\<lambda>c. c \<noteq> NUL) buf"

definition strncpy :: "string \<Rightarrow> string \<Rightarrow> nat \<Rightarrow> string" where
  "strncpy dst src n = take n (c_str src @ replicate n NUL) @ drop n dst"

definition assignWord :: "string \<Rightarrow> string \<Rightarrow> nat \<Rightarrow> string" where
  "assignWord word wordSource len =
     (let len = (if len > 23 then 23 else len);
          word = strncpy word wordSource len;
          word = (if len > 22 then word[22 := NUL] else word[len := NUL])
      in word[23 := char_of len])"

text \<open>
  The constructors; \<open>buf\<close> is the uninitialised array they fill.  The two-argument one leaves the
  default score \<open>1.0\<close>.
\<close>

definition make_ScoredWord :: "string \<Rightarrow> string \<Rightarrow> nat \<Rightarrow> double \<Rightarrow> scored_word" where
  "make_ScoredWord buf wordSource len wordScore =
     \<lparr>sw_word = assignWord buf wordSource len, sw_score = wordScore\<rparr>"

definition make_ScoredWord1 :: "string \<Rightarrow> string \<Rightarrow> nat \<Rightarrow> scored_word" where
  "make_ScoredWord1 buf wordSource len =
     \<lparr>sw_word = assignWord buf wordSource len, sw_score = Num 1\<rparr>"

definition getSize :: "scored_word \<Rightarrow> nat" where
  "getSize w = of_char (sw_word w ! 23)"

section \<open>Documents, word vectors, centroids\<close>

text \<open>\<open>ProcessedDocument\<close>; \<open>created\<close> and \<open>updated\<close> are 64-bit unsigned.\<close>

record ProcessedDocument =
  pd_id :: string
  pd_sha1Hash :: "string option"
  pd_scoredWords :: "scored_word list"
  pd_magnitude :: double
  pd_created :: "64 word"
  pd_updated :: "64 word"

record WordVector =
  wv_scores :: "(string \<times> double) list"
  wv_magnitude :: double
  wv_documentWeight :: double

record Centroid =
  c_id :: string
  c_wordVector :: WordVector

definition empty_WordVector :: WordVector where
  "empty_WordVector = \<lparr>wv_scores = [], wv_magnitude = Num 0, wv_documentWeight = Num 1\<rparr>"

text \<open>\<open>Centroid(id)\<close>.\<close>

definition new_Centroid :: "string \<Rightarrow> Centroid" where
  "new_Centroid i = \<lparr>c_id = i, c_wordVector = empty_WordVector\<rparr>"

section \<open>Similarity scores\<close>

text \<open>The loop of \<open>WordVector::score\<close> over the other vector's words.\<close>

fun dot_loop :: "(real \<Rightarrow> double) \<Rightarrow> (string \<times> double) list \<Rightarrow> (string \<times> double) list \<Rightarrow> double \<Rightarrow> double" where
  "dot_loop rnd scores [] dotProd = dotProd"
| "dot_loop rnd scores ((key, sc) # rest) dotProd =
     (case map_of scores key of
        None \<Rightarrow> dot_loop rnd scores rest dotProd
      | Some selfScore \<Rightarrow> dot_loop rnd scores rest (d_add rnd dotProd (d_mul rnd sc selfScore)))"

definition score_scores :: "(real \<Rightarrow> double) \<Rightarrow> WordVector \<Rightarrow> (string \<times> double) list \<Rightarrow> double \<Rightarrow> double" where
  "score_scores rnd self otherScores otherMagnitude =
     d_div rnd (dot_loop rnd (wv_scores self) otherScores (Num 0))
       (d_mul rnd (wv_magnitude self) otherMagnitude)"

definition score_vector :: "(real \<Rightarrow> double) \<Rightarrow> WordVector \<Rightarrow> WordVector \<Rightarrow> double" where
  "score_vector rnd self other = score_scores rnd self (wv_scores other) (wv_magnitude other)"

text \<open>\<open>score(ProcessedDocument*)\<close>: the key of a word is its buffer read as a C string.\<close>

definition score_document :: "(real \<Rightarrow> double) \<Rightarrow> WordVector \<Rightarrow> ProcessedDocument \<Rightarrow> double" where
  "score_document rnd self other =
     (let dotProd = dot_loop rnd (wv_scores self)
            (map (\<lambda>elem. (c_str (sw_word elem), sw_score elem)) (pd_scoredWords other)) (Num 0)
      in d_div rnd dotProd (d_mul rnd (wv_magnitude self) (pd_magnitude other)))"

text \<open>\<open>Centroid::score\<close> forwards to its word vector.\<close>

definition centroid_score_vector :: "(real \<Rightarrow> double) \<Rightarrow> Centroid \<Rightarrow> WordVector \<Rightarrow> double" where
  "centroid_score_vector rnd c t = score_vector rnd (c_wordVector c) t"

definition centroid_score_document :: "(real \<Rightarrow> double) \<Rightarrow> Centroid \<Rightarrow> ProcessedDocument \<Rightarrow> double" where
  "centroid_score_document rnd c t = score_document rnd (c_wordVector c) t"

section \<open>Facts about scored words\<close>

lemma length_strncpy: "n \<le> length dst \<Longrightarrow> length (strncpy dst src n) = length dst"
  by (simp add: strncpy_def)

lemma length_assignWord: "length buf = 24 \<Longrightarrow> length (assignWord buf src n) = 24"
  by (simp add: assignWord_def Let_def length_strncpy)

lemma c_str_no_NUL: "NUL \<notin> set w \<Longrightarrow> c_str w = w"
  by (auto simp: c_str_def)

lemma c_str_append_NUL: "NUL \<notin> set w \<Longrightarrow> c_str (w @ NUL # rest) = w"
  unfolding c_str_def by (subst takeWhile_append2) auto

text \<open>The bytes of the source that a word of the given length keeps, at most 22 of them.\<close>

definition kept_bytes :: "string \<Rightarrow> nat \<Rightarrow> string" where
  "kept_bytes src n = take (min n 22) (c_str src)"

lemma NUL_notin_c_str: "NUL \<notin> set (c_str src)"
  by (auto simp: c_str_def dest: set_takeWhileD)

lemma c_str_update_NUL:
  assumes "n < length buf" and "NUL \<notin> set (take m buf)" and "m \<le> n"
    and "\<forall>i. m \<le> i \<and> i < n \<longrightarrow> buf ! i = NUL"
  shows "c_str (buf[n := NUL]) = take m buf"
proof -
  have "(buf[n := NUL]) ! m = NUL" using assms by (cases "m = n") auto
  then have "buf[n := NUL] = take m buf @ NUL # drop (Suc m) (buf[n := NUL])"
    using assms(1,3) id_take_nth_drop [of m "buf[n := NUL]"] by simp
  then show ?thesis using assms(2) c_str_append_NUL by metis
qed

lemma strncpy_nth:
  "i < n \<Longrightarrow> n \<le> length dst \<Longrightarrow>
     strncpy dst src n ! i = (if i < length (c_str src) then c_str src ! i else NUL)"
  by (auto simp: strncpy_def nth_append)

lemma take_strncpy:
  "m \<le> n \<Longrightarrow> n \<le> length dst \<Longrightarrow> m \<le> length (c_str src) \<Longrightarrow> take m (strncpy dst src n) = take m (c_str src)"
  by (rule nth_equalityI) (auto simp: length_strncpy strncpy_nth)

lemma c_str_update_late:
  assumes "p < n" and "p < length buf"
  shows "c_str (buf[p := NUL, n := c]) = c_str (buf[p := NUL])"
proof -
  have split: "x = take p x @ NUL # drop (Suc p) x" if "x ! p = NUL" "p < length x" for x
    using that id_take_nth_drop [of p x] by simp
  have cut: "c_str (a @ NUL # r) = c_str a" for a r
  proof (cases "NUL \<in> set a")
    case True
    then show ?thesis unfolding c_str_def by (subst takeWhile_append1) auto
  qed (simp add: c_str_append_NUL c_str_no_NUL)
  have "take p (buf[p := NUL, n := c]) = take p (buf[p := NUL])" using assms by simp
  moreover have "c_str (buf[p := NUL, n := c]) = c_str (take p (buf[p := NUL, n := c]))"
    using assms split [of "buf[p := NUL, n := c]"] cut by (metis length_list_update nth_list_update_eq nth_list_update_neq less_irrefl)
  moreover have "c_str (buf[p := NUL]) = c_str (take p (buf[p := NUL]))"
    using assms split [of "buf[p := NUL]"] cut by (metis length_list_update nth_list_update_eq)
  ultimately show ?thesis by simp
qed

lemma c_str_assignWord:
  assumes "length buf = 24"
  shows "c_str (assignWord buf src n) = take (min n 22) (c_str src)"
proof -
  define len where "len = min n 23"
  define p where "p = min n 22"
  define m where "m = min p (length (c_str src))"
  define s where "s = strncpy buf src len"
  have word: "assignWord buf src n = s[p := NUL, 23 := char_of len]"
    by (auto simp: assignWord_def Let_def len_def p_def s_def min_def)
  have "length s = 24" using assms by (simp add: s_def len_def length_strncpy)
  have "m \<le> p" "p \<le> len" "p < 23" by (auto simp: m_def p_def len_def)
  have take: "take m s = take m (c_str src)"
    unfolding s_def
  proof (rule take_strncpy)
    show "m \<le> len" using \<open>m \<le> p\<close> \<open>p \<le> len\<close> by simp
  qed (simp_all add: assms len_def m_def)
  have "c_str (assignWord buf src n) = c_str (s[p := NUL])"
    unfolding word using \<open>p < 23\<close> \<open>length s = 24\<close> by (intro c_str_update_late) auto
  also have "\<dots> = take m s"
  proof (rule c_str_update_NUL)
    show "NUL \<notin> set (take m s)" unfolding take using NUL_notin_c_str by (auto dest: in_set_takeD)
    show "\<forall>i. m \<le> i \<and> i < p \<longrightarrow> s ! i = NUL"
      using assms \<open>p \<le> len\<close> by (auto simp: s_def strncpy_nth len_def m_def)
  qed (use \<open>m \<le> p\<close> \<open>p < 23\<close> \<open>length s = 24\<close> in auto)
  also have "\<dots> = take (min n 22) (c_str src)"
    unfolding take by (auto simp: m_def p_def min_def)
  finally show ?thesis .
qed

text \<open>
  Whatever its uninitialised buffer held, a scored word reads back as the first bytes of its
  source: at most 22 of them, and none past the source's own terminator.
\<close>

theorem scored_word_reads_back:
  assumes "length buf = 24"
  shows "c_str (sw_word (make_ScoredWord buf src n sc)) = take (min n 22) (c_str src)
    \<and> length (sw_word (make_ScoredWord buf src n sc)) = 24"
  using assms by (simp add: make_ScoredWord_def length_assignWord c_str_assignWord)

theorem scored_word_reads_back_witness:
  "c_str (sw_word (make_ScoredWord (replicate 24 CHR ''x'') ''house of cards'' 5 (Num 1))) = ''house''"
  using scored_word_reads_back [of "replicate 24 CHR ''x''" "''house of cards''" 5 "Num 1"]
  by (simp add: c_str_def)


text \<open>
  The stored length of a 23-byte word is 23, but only 22 bytes are kept: \<open>getSize\<close> and
  the string in the buffer disagree exactly for lengths above 22.
\<close>

theorem getSize_overstates_long_words:
  assumes "length buf = 24" and "NUL \<notin> set src" and "n \<le> length src"
  shows "getSize (make_ScoredWord buf src n sc) = min n 23
    \<and> (getSize (make_ScoredWord buf src n sc) = length (c_str (sw_word (make_ScoredWord buf src n sc)))
         \<longleftrightarrow> n \<le> 22)"
proof -
  have "getSize (make_ScoredWord buf src n sc) = min n 23"
    using assms(1)
    by (auto simp: getSize_def make_ScoredWord_def assignWord_def Let_def length_strncpy min_def)
  moreover have "length (c_str (assignWord buf src n)) = min n 22"
    using assms by (simp add: c_str_assignWord c_str_no_NUL)
  ultimately show ?thesis by (auto simp: make_ScoredWord_def)
qed

theorem getSize_overstates_long_words_witness:
  "getSize (make_ScoredWord (replicate 24 NUL) (replicate 23 CHR ''a'') 23 (Num 1)) = 23"
  using getSize_overstates_long_words [of "replicate 24 NUL" "replicate 23 CHR ''a''" 23 "Num 1"]
  by simp

section \<open>The score as a cosine\<close>

text \<open>
  The reference for the score with exact arithmetic (\<open>rnd = Num\<close>): a word vector is a function
  from words to reals, the score its cosine with the other one.
\<close>

definition finite_scores :: "(string \<times> double) list \<Rightarrow> bool" where
  "finite_scores xs \<longleftrightarrow> (\<forall>p \<in> set xs. \<exists>x. snd p = Num x)"

fun real_of :: "double \<Rightarrow> real" where
  "real_of (Num x) = x"
| "real_of _ = 0"

definition coord :: "(string \<times> double) list \<Rightarrow> string \<Rightarrow> real" where
  "coord xs k = (case map_of xs k of None \<Rightarrow> 0 | Some d \<Rightarrow> real_of d)"

definition wf_vector :: "WordVector \<Rightarrow> bool" where
  "wf_vector v \<longleftrightarrow> distinct (map fst (wv_scores v)) \<and> finite_scores (wv_scores v)
     \<and> wv_magnitude v = Num (sqrt (\<Sum>k \<in> fst ` set (wv_scores v). (coord (wv_scores v) k)\<^sup>2))"

lemma finite_scores_map_of: "finite_scores xs \<Longrightarrow> map_of xs k = Some d \<Longrightarrow> d = Num (real_of d)"
  by (auto simp: finite_scores_def dest!: map_of_SomeD)

lemma dot_loop_exact:
  assumes "finite_scores a" and "finite_scores b"
  shows "dot_loop Num a b (Num d) = Num (d + (\<Sum>p\<leftarrow>b. real_of (snd p) * coord a (fst p)))"
  using assms(2)
proof (induction b arbitrary: d)
  case (Cons p b)
  obtain k s where p: "p = (k, s)" by (cases p)
  obtain x where x: "s = Num x" using Cons.prems by (auto simp: p finite_scores_def)
  have "finite_scores b" using Cons.prems by (simp add: finite_scores_def)
  show ?case
  proof (cases "map_of a k")
    case None
    with Cons.IH [OF \<open>finite_scores b\<close>] show ?thesis by (simp add: p coord_def)
  next
    case (Some e)
    then obtain y where "e = Num y" using finite_scores_map_of [OF assms(1)] by blast
    with Some Cons.IH [OF \<open>finite_scores b\<close>] show ?thesis by (simp add: p x coord_def)
  qed
qed simp

lemma sum_list_coords:
  assumes "distinct (map fst b)"
  shows "(\<Sum>p\<leftarrow>b. real_of (snd p) * g (fst p)) = (\<Sum>k \<in> fst ` set b. coord b k * g k)"
  using assms
proof (induction b)
  case (Cons p b)
  have "(\<Sum>k \<in> fst ` set b. coord (p # b) k * g k) = (\<Sum>k \<in> fst ` set b. coord b k * g k)"
  proof (rule sum.cong)
    fix k assume "k \<in> fst ` set b"
    moreover have "fst p \<notin> fst ` set b" using Cons.prems by simp
    ultimately have "k \<noteq> fst p" by blast
    then show "coord (p # b) k * g k = coord b k * g k" by (cases p) (simp add: coord_def)
  qed simp
  moreover have "coord (p # b) (fst p) = real_of (snd p)" by (cases p) (simp add: coord_def)
  ultimately show ?case using Cons by simp
qed simp

lemma dot_loop_coords:
  assumes "finite_scores a" and "finite_scores b" and "distinct (map fst b)"
    and "finite K" and "fst ` set b \<subseteq> K"
  shows "dot_loop Num a b (Num 0) = Num (\<Sum>k \<in> K. coord b k * coord a k)"
proof -
  have "(\<Sum>k \<in> K. coord b k * coord a k) = (\<Sum>k \<in> fst ` set b. coord b k * coord a k)"
    using assms(4,5)
    by (intro sum.mono_neutral_right) (auto simp: coord_def kv_key_map_of split: option.split)
  then show ?thesis using assms(1-3) by (simp add: dot_loop_exact sum_list_coords)
qed

lemma sum_products_le:
  fixes f g :: "'a \<Rightarrow> real"
  assumes "finite K" and "(\<Sum>k \<in> K. (f k)\<^sup>2) \<noteq> 0" and "(\<Sum>k \<in> K. (g k)\<^sup>2) \<noteq> 0"
  shows "\<bar>\<Sum>k \<in> K. f k * g k\<bar> \<le> sqrt (\<Sum>k \<in> K. (f k)\<^sup>2) * sqrt (\<Sum>k \<in> K. (g k)\<^sup>2)"
proof -
  define m where "m = sqrt (\<Sum>k \<in> K. (f k)\<^sup>2)"
  define n where "n = sqrt (\<Sum>k \<in> K. (g k)\<^sup>2)"
  have pos: "m > 0" "n > 0" using assms by (simp_all add: m_def n_def sum_nonneg less_le)
  have sq: "m\<^sup>2 = (\<Sum>k \<in> K. (f k)\<^sup>2)" "n\<^sup>2 = (\<Sum>k \<in> K. (g k)\<^sup>2)"
    by (simp_all add: m_def n_def sum_nonneg)
  have bound: "\<bar>f k * g k\<bar> \<le> m * n * (((f k)\<^sup>2 / m\<^sup>2 + (g k)\<^sup>2 / n\<^sup>2) / 2)" for k
  proof -
    have "0 \<le> (\<bar>f k\<bar> / m - \<bar>g k\<bar> / n)\<^sup>2" by simp
    then have "2 * ((\<bar>f k\<bar> / m) * (\<bar>g k\<bar> / n)) \<le> (f k)\<^sup>2 / m\<^sup>2 + (g k)\<^sup>2 / n\<^sup>2"
      by (simp add: power2_diff power_divide)
    then have "m * n * (2 * ((\<bar>f k\<bar> / m) * (\<bar>g k\<bar> / n))) \<le> m * n * ((f k)\<^sup>2 / m\<^sup>2 + (g k)\<^sup>2 / n\<^sup>2)"
      using pos by (intro mult_left_mono) auto
    moreover have "m * n * (2 * ((\<bar>f k\<bar> / m) * (\<bar>g k\<bar> / n))) = 2 * \<bar>f k * g k\<bar>"
      using pos by (simp add: abs_mult)
    ultimately show ?thesis by simp
  qed
  have "\<bar>\<Sum>k \<in> K. f k * g k\<bar> \<le> (\<Sum>k \<in> K. \<bar>f k * g k\<bar>)" by (rule sum_abs)
  also have "\<dots> \<le> (\<Sum>k \<in> K. m * n * (((f k)\<^sup>2 / m\<^sup>2 + (g k)\<^sup>2 / n\<^sup>2) / 2))"
    by (intro sum_mono bound)
  also have "\<dots> = m * n * (((\<Sum>k \<in> K. (f k)\<^sup>2) / m\<^sup>2 + (\<Sum>k \<in> K. (g k)\<^sup>2) / n\<^sup>2) / 2)"
    by (simp only: sum_distrib_left [symmetric] sum_divide_distrib [symmetric] sum.distrib)
  also have "\<dots> = m * n" using pos by (simp add: sq [symmetric])
  finally show ?thesis by (simp add: m_def n_def)
qed

lemma coord_extend:
  "finite K \<Longrightarrow> fst ` set xs \<subseteq> K \<Longrightarrow> (\<Sum>k \<in> K. (coord xs k)\<^sup>2) = (\<Sum>k \<in> fst ` set xs. (coord xs k)\<^sup>2)"
  by (intro sum.mono_neutral_right) (auto simp: coord_def kv_key_map_of split: option.split)

lemma wf_magnitude:
  assumes "wf_vector a" and "finite K" and "fst ` set (wv_scores a) \<subseteq> K"
  shows "real_of (wv_magnitude a) = sqrt (\<Sum>k \<in> K. (coord (wv_scores a) k)\<^sup>2)"
  unfolding coord_extend [OF assms(2,3)] using assms(1) by (simp add: wf_vector_def)

text \<open>The cosine of two word vectors over a set of words that covers both.\<close>

definition cosine :: "string set \<Rightarrow> WordVector \<Rightarrow> WordVector \<Rightarrow> real" where
  "cosine K a b = (\<Sum>k \<in> K. coord (wv_scores a) k * coord (wv_scores b) k)
     / (real_of (wv_magnitude a) * real_of (wv_magnitude b))"

lemma score_vector_cosine:
  assumes "wf_vector a" and "wf_vector b" and "wv_magnitude a \<noteq> Num 0" and "wv_magnitude b \<noteq> Num 0"
    and "finite K" and "fst ` set (wv_scores a) \<subseteq> K" and "fst ` set (wv_scores b) \<subseteq> K"
  shows "score_vector Num a b = Num (cosine K a b)"
proof -
  have "dot_loop Num (wv_scores a) (wv_scores b) (Num 0)
      = Num (\<Sum>k \<in> K. coord (wv_scores a) k * coord (wv_scores b) k)"
    using assms by (simp add: dot_loop_coords wf_vector_def mult.commute)
  then show ?thesis using assms(1-4)
    by (auto simp: score_vector_def score_scores_def cosine_def wf_vector_def)
qed

lemma cosine_bounded:
  assumes "wf_vector a" and "wf_vector b" and "wv_magnitude a \<noteq> Num 0" and "wv_magnitude b \<noteq> Num 0"
    and "finite K" and "fst ` set (wv_scores a) \<subseteq> K" and "fst ` set (wv_scores b) \<subseteq> K"
  shows "\<bar>cosine K a b\<bar> \<le> 1"
proof -
  let ?A = "coord (wv_scores a)" and ?B = "coord (wv_scores b)"
  define m where "m = real_of (wv_magnitude a)"
  define n where "n = real_of (wv_magnitude b)"
  have m: "m = sqrt (\<Sum>k \<in> K. (?A k)\<^sup>2)" and n: "n = sqrt (\<Sum>k \<in> K. (?B k)\<^sup>2)"
    by (simp_all only: m_def n_def wf_magnitude assms)
  have "m \<noteq> 0" "n \<noteq> 0" using assms(1-4) by (auto simp: m_def n_def wf_vector_def)
  moreover have "0 \<le> m" "0 \<le> n" unfolding m n by (simp_all add: sum_nonneg)
  ultimately have pos: "0 < m * n" by (simp add: less_le)
  have "(\<Sum>k \<in> K. (?A k)\<^sup>2) \<noteq> 0" "(\<Sum>k \<in> K. (?B k)\<^sup>2) \<noteq> 0"
    using \<open>m \<noteq> 0\<close> \<open>n \<noteq> 0\<close> m n by auto
  then have "\<bar>\<Sum>k \<in> K. ?A k * ?B k\<bar> \<le> m * n"
    unfolding m n by (rule sum_products_le [OF assms(5)])
  with pos have "\<bar>(\<Sum>k \<in> K. ?A k * ?B k) / (m * n)\<bar> \<le> 1"
    by (simp only: abs_divide abs_of_pos divide_le_eq_1_pos)
  then show ?thesis by (simp only: cosine_def m_def n_def)
qed



text \<open>
  A vector of magnitude zero (a document without words, a centroid never calculated) has no
  score: the division \<open>0 / 0\<close> makes it NaN, whatever the other vector.
\<close>

theorem score_of_empty_is_NaN:
  assumes "rnd 0 = Num 0" and "wv_scores a = []" and "wv_magnitude a = Num 0" and "wv_magnitude b = Num m"
  shows "score_vector rnd a b = NaN"
proof -
  have "dot_loop rnd [] xs d = d" for xs d by (induction xs) auto
  then show ?thesis using assms by (simp add: score_vector_def score_scores_def)
qed

theorem score_of_empty_is_NaN_witness:
  "score_vector Num empty_WordVector
     \<lparr>wv_scores = [(''dog'', Num 2)], wv_magnitude = Num 2, wv_documentWeight = Num 1\<rparr> = NaN"
  by (rule score_of_empty_is_NaN) (simp_all add: empty_WordVector_def)

end
