(* ===== verification/Serialization.thy ===== *)
theory Serialization
  imports RockHandle Models
begin

text \<open>
  \<open>src/src/serialization\<close>: the conversion of the model classes to and from the Thrift structs
  that are stored, and to and from \<open>folly::dynamic\<close> for JSON.  The Thrift wire format, the JSON
  text format and \<open>folly::to\<close> are third-party code: the record \<open>env\<close> adds them to the calls of
  RocksDB, so that one argument carries everything outside the repository.  A conversion that
  throws gives \<open>None\<close>.
\<close>

section \<open>Thrift structs\<close>

record WordVectorDTO =
  wvd_magnitude :: double
  wvd_documentWeight :: double
  wvd_scores :: "(string \<times> double) list"

record ScoredWordDTO =
  swd_wordBuff :: string
  swd_score :: double

record CentroidDTO =
  cd_id :: string
  cd_wordVector :: WordVectorDTO

text \<open>An \<open>i64\<close> field holds the 64 bits of the \<open>uint64_t\<close> assigned to it.\<close>

record ProcessedDocumentMetadataDTO =
  md_id :: string
  md_sha1Hash :: string
  md_created :: "64 word"
  md_updated :: "64 word"

record ProcessedDocumentPersistenceDTO =
  pdd_metadata :: ProcessedDocumentMetadataDTO
  pdd_scoredWords :: "ScoredWordDTO list"
  pdd_magnitude :: double

section \<open>Everything outside the repository\<close>

record 'db env = "'db rocksdb" +
  thrift_ser_doc :: "ProcessedDocumentPersistenceDTO \<Rightarrow> string"
  thrift_de_doc :: "string \<Rightarrow> ProcessedDocumentPersistenceDTO option"
  thrift_ser_vector :: "WordVectorDTO \<Rightarrow> string"
  thrift_de_vector :: "string \<Rightarrow> WordVectorDTO option"
  thrift_ser_centroid :: "CentroidDTO \<Rightarrow> string"
  thrift_de_centroid :: "string \<Rightarrow> CentroidDTO option"
  i64_to_string :: "64 word \<Rightarrow> string"
  string_to_i64 :: "string \<Rightarrow> 64 word option"
  u64_to_string :: "64 word \<Rightarrow> string"
  string_to_u64 :: "string \<Rightarrow> 64 word option"

section \<open>Binary serialization\<close>

definition dto_of_vector :: "WordVector \<Rightarrow> WordVectorDTO" where
  "dto_of_vector t = \<lparr>wvd_magnitude = wv_magnitude t,
     wvd_documentWeight = wv_documentWeight t, wvd_scores = wv_scores t\<rparr>"

definition vector_of_dto :: "WordVectorDTO \<Rightarrow> WordVector" where
  "vector_of_dto d = \<lparr>wv_scores = wvd_scores d, wv_magnitude = wvd_magnitude d,
     wv_documentWeight = wvd_documentWeight d\<rparr>"

definition binarySerialize_vector :: "('db, 'z) env_scheme \<Rightarrow> WordVector \<Rightarrow> string" where
  "binarySerialize_vector api t = thrift_ser_vector api (dto_of_vector t)"

definition binaryDeserialize_vector :: "('db, 'z) env_scheme \<Rightarrow> string \<Rightarrow> WordVector option" where
  "binaryDeserialize_vector api data = map_option vector_of_dto (thrift_de_vector api data)"

definition dto_of_centroid :: "Centroid \<Rightarrow> CentroidDTO" where
  "dto_of_centroid t = \<lparr>cd_id = c_id t, cd_wordVector = dto_of_vector (c_wordVector t)\<rparr>"

definition centroid_of_dto :: "CentroidDTO \<Rightarrow> Centroid" where
  "centroid_of_dto d = \<lparr>c_id = cd_id d, c_wordVector = vector_of_dto (cd_wordVector d)\<rparr>"

definition binarySerialize_centroid :: "('db, 'z) env_scheme \<Rightarrow> Centroid \<Rightarrow> string" where
  "binarySerialize_centroid api t = thrift_ser_centroid api (dto_of_centroid t)"

definition binaryDeserialize_centroid :: "('db, 'z) env_scheme \<Rightarrow> string \<Rightarrow> Centroid option" where
  "binaryDeserialize_centroid api data = map_option centroid_of_dto (thrift_de_centroid api data)"

text \<open>\<open>wordDto.wordBuff = elem.word\<close> reads the array as a C string.\<close>

definition dto_of_word :: "scored_word \<Rightarrow> ScoredWordDTO" where
  "dto_of_word w = \<lparr>swd_wordBuff = c_str (sw_word w), swd_score = sw_score w\<rparr>"

definition dto_of_document :: "ProcessedDocument \<Rightarrow> ProcessedDocumentPersistenceDTO" where
  "dto_of_document t =
     \<lparr>pdd_metadata = \<lparr>md_id = pd_id t,
        md_sha1Hash = (case pd_sha1Hash t of Some h \<Rightarrow> h | None \<Rightarrow> ''''),
        md_created = pd_created t, md_updated = pd_updated t\<rparr>,
      pdd_scoredWords = map dto_of_word (pd_scoredWords t),
      pdd_magnitude = pd_magnitude t\<rparr>"

text \<open>
  The array of a word under construction; its bytes are indeterminate in C++, and only those the
  constructor writes are read afterwards (\<open>c_str_assignWord\<close>).
\<close>

definition fresh_buffer :: string where
  "fresh_buffer = replicate 24 NUL"

definition word_of_dto :: "ScoredWordDTO \<Rightarrow> scored_word" where
  "word_of_dto d =
     (let buffSize = length (swd_wordBuff d) mod 256
      in make_ScoredWord fresh_buffer (swd_wordBuff d) buffSize (swd_score d))"

definition document_of_dto :: "ProcessedDocumentPersistenceDTO \<Rightarrow> ProcessedDocument" where
  "document_of_dto d =
     \<lparr>pd_id = md_id (pdd_metadata d),
      pd_sha1Hash = (if length (md_sha1Hash (pdd_metadata d)) > 0
                     then Some (md_sha1Hash (pdd_metadata d)) else None),
      pd_scoredWords = map word_of_dto (pdd_scoredWords d),
      pd_magnitude = pdd_magnitude d,
      pd_created = md_created (pdd_metadata d),
      pd_updated = md_updated (pdd_metadata d)\<rparr>"

definition binarySerialize_document :: "('db, 'z) env_scheme \<Rightarrow> ProcessedDocument \<Rightarrow> string" where
  "binarySerialize_document api t = thrift_ser_doc api (dto_of_document t)"

definition binaryDeserialize_document :: "('db, 'z) env_scheme \<Rightarrow> string \<Rightarrow> ProcessedDocument option" where
  "binaryDeserialize_document api data = map_option document_of_dto (thrift_de_doc api data)"

section \<open>JSON values\<close>

text \<open>The part of \<open>folly::dynamic\<close> that the converters build and read.\<close>

datatype dynamic =
    DString string
  | DDouble double
  | DInt "64 word"
  | DObject "(string \<times> dynamic) list"

text \<open>\<open>dyn[key]\<close> on an object throws when the key is missing.\<close>

fun dyn_at :: "dynamic \<Rightarrow> string \<Rightarrow> dynamic option" where
  "dyn_at (DObject fs) key = map_of fs key"
| "dyn_at _ key = None"

fun as_string :: "dynamic \<Rightarrow> string option" where
  "as_string (DString s) = Some s"
| "as_string _ = None"

fun as_double :: "dynamic \<Rightarrow> double option" where
  "as_double (DDouble d) = Some d"
| "as_double _ = None"

fun as_u64 :: "dynamic \<Rightarrow> 64 word option" where
  "as_u64 (DInt n) = Some n"
| "as_u64 _ = None"

fun as_scores :: "(string \<times> dynamic) list \<Rightarrow> (string \<times> double) list option" where
  "as_scores [] = Some []"
| "as_scores ((k, v) # fs) =
     (case as_double v of None \<Rightarrow> None
      | Some d \<Rightarrow> map_option (\<lambda>r. (k, d) # r) (as_scores fs))"

fun as_score_map :: "dynamic \<Rightarrow> (string \<times> double) list option" where
  "as_score_map (DObject fs) = as_scores fs"
| "as_score_map _ = None"

definition dynamic_of_vector :: "WordVector \<Rightarrow> dynamic" where
  "dynamic_of_vector v = DObject
     [(''magnitude'', DDouble (wv_magnitude v)),
      (''scores'', DObject (map (\<lambda>(k, d). (k, DDouble d)) (wv_scores v))),
      (''documentWeight'', DDouble (wv_documentWeight v))]"

definition vector_of_dynamic :: "dynamic \<Rightarrow> WordVector option" where
  "vector_of_dynamic dyn =
     (case Option.bind (dyn_at dyn ''scores'') as_score_map of None \<Rightarrow> None | Some scores \<Rightarrow>
      case Option.bind (dyn_at dyn ''magnitude'') as_double of None \<Rightarrow> None | Some mag \<Rightarrow>
      case Option.bind (dyn_at dyn ''documentWeight'') as_double of None \<Rightarrow> None | Some w \<Rightarrow>
      Some \<lparr>wv_scores = scores, wv_magnitude = mag, wv_documentWeight = w\<rparr>)"

text \<open>\<open>DynamicConstructor<Centroid>\<close> computes the word vector and does not store it.\<close>

definition dynamic_of_centroid :: "Centroid \<Rightarrow> dynamic" where
  "dynamic_of_centroid c =
     (let wordVec = dynamic_of_vector (c_wordVector c) in DObject [(''id'', DString (c_id c))])"

definition centroid_of_dynamic :: "dynamic \<Rightarrow> Centroid option" where
  "centroid_of_dynamic dyn =
     (case Option.bind (dyn_at dyn ''wordVector'') vector_of_dynamic of None \<Rightarrow> None | Some wv \<Rightarrow>
      case Option.bind (dyn_at dyn ''id'') as_string of None \<Rightarrow> None | Some i \<Rightarrow>
      Some \<lparr>c_id = i, c_wordVector = wv\<rparr>)"

text \<open>\<open>scores.insert(make_pair(k, score))\<close> keeps the first score of a repeated word.\<close>

definition insert_score :: "(string \<times> double) list \<Rightarrow> string \<times> double \<Rightarrow> (string \<times> double) list" where
  "insert_score scores p = (if map_of scores (fst p) = None then scores @ [p] else scores)"

definition dynamic_of_document :: "ProcessedDocument \<Rightarrow> dynamic" where
  "dynamic_of_document doc =
     (let scores = foldl insert_score []
            (map (\<lambda>elem. (c_str (sw_word elem), sw_score elem)) (pd_scoredWords doc));
          wordVec = empty_WordVector\<lparr>wv_scores := scores, wv_magnitude := pd_magnitude doc\<rparr>
      in DObject
        [(''id'', DString (pd_id doc)),
         (''wordVector'', dynamic_of_vector wordVec),
         (''created'', DInt (pd_created doc)),
         (''updated'', DInt (pd_updated doc)),
         (''sha1Hash'', DString (case pd_sha1Hash doc of Some h \<Rightarrow> h | None \<Rightarrow> ''''))])"

text \<open>
  \<open>DynamicConverter<ProcessedDocument>\<close> reads the identifiers and the times only; the magnitude
  of the result is the uninitialised member \<open>mag\<close>.
\<close>

definition document_of_dynamic :: "double \<Rightarrow> dynamic \<Rightarrow> ProcessedDocument option" where
  "document_of_dynamic mag dyn =
     (case Option.bind (dyn_at dyn ''id'') as_string of None \<Rightarrow> None | Some i \<Rightarrow>
      case Option.bind (dyn_at dyn ''updated'') as_u64 of None \<Rightarrow> None | Some updated \<Rightarrow>
      case Option.bind (dyn_at dyn ''created'') as_u64 of None \<Rightarrow> None | Some created \<Rightarrow>
      case Option.bind (dyn_at dyn ''sha1Hash'') as_string of None \<Rightarrow> None | Some hash \<Rightarrow>
      Some \<lparr>pd_id = i, pd_sha1Hash = (if length hash > 0 then Some hash else None),
            pd_scoredWords = [], pd_magnitude = mag, pd_created = created, pd_updated = updated\<rparr>)"

section \<open>An environment that keeps its laws\<close>

text \<open>
  The log-structured database with a codec that stores identifiers and words as C strings and
  numbers in unary.  It is the instance at which the witnesses run.
\<close>

fun c_strings :: "string \<Rightarrow> string \<Rightarrow> string list" where
  "c_strings cur [] = []"
| "c_strings cur (c # cs) = (if c = NUL then cur # c_strings [] cs else c_strings (cur @ [c]) cs)"

definition simple_ser_doc :: "ProcessedDocumentPersistenceDTO \<Rightarrow> string" where
  "simple_ser_doc d = md_id (pdd_metadata d) @ NUL #
     concat (map (\<lambda>w. swd_wordBuff w @ [NUL]) (pdd_scoredWords d))"

definition simple_de_doc :: "string \<Rightarrow> ProcessedDocumentPersistenceDTO option" where
  "simple_de_doc s =
     (case c_strings [] s of [] \<Rightarrow> None | i # ws \<Rightarrow>
        Some \<lparr>pdd_metadata = \<lparr>md_id = i, md_sha1Hash = '''', md_created = 0, md_updated = 0\<rparr>,
              pdd_scoredWords = map (\<lambda>w. \<lparr>swd_wordBuff = w, swd_score = Num 1\<rparr>) ws,
              pdd_magnitude = Num (sqrt (real (length ws)))\<rparr>)"

definition unary :: "64 word \<Rightarrow> string" where
  "unary n = replicate (unat n) CHR ''1''"

definition of_unary :: "string \<Rightarrow> 64 word option" where
  "of_unary s = Some (of_nat (length s))"

definition log_env :: "memory env" where
  "log_env = log_api \<lparr>
     thrift_ser_doc = simple_ser_doc, thrift_de_doc = simple_de_doc,
     thrift_ser_vector = (\<lambda>d. ''''), thrift_de_vector = (\<lambda>s. Some (dto_of_vector empty_WordVector)),
     thrift_ser_centroid = cd_id,
     thrift_de_centroid = (\<lambda>s. Some \<lparr>cd_id = s, cd_wordVector =
       \<lparr>wvd_magnitude = Num 0, wvd_documentWeight = Num 0, wvd_scores = []\<rparr>\<rparr>),
     i64_to_string = unary, string_to_i64 = of_unary,
     u64_to_string = unary, string_to_u64 = of_unary\<rparr>"

lemma of_unary_unary: "of_unary (unary n) = Some n"
  by (simp add: of_unary_def unary_def)

section \<open>Round trips\<close>

text \<open>A word as the document processor builds it: no terminator inside, at most 22 bytes.\<close>

definition wf_word :: "scored_word \<Rightarrow> bool" where
  "wf_word w \<longleftrightarrow> NUL \<notin> set (c_str (sw_word w)) \<and> length (c_str (sw_word w)) \<le> 22
     \<and> sw_word w = assignWord fresh_buffer (c_str (sw_word w)) (length (c_str (sw_word w)))"

lemma word_of_dto_of_word: "wf_word w \<Longrightarrow> word_of_dto (dto_of_word w) = w"
  by (cases w) (simp add: word_of_dto_def dto_of_word_def wf_word_def make_ScoredWord_def)

lemma wf_word_make:
  assumes "NUL \<notin> set s" and "length s \<le> 22"
  shows "wf_word (make_ScoredWord fresh_buffer s (length s) sc)"
  using assms by (simp add: wf_word_def make_ScoredWord_def c_str_assignWord fresh_buffer_def c_str_no_NUL)

text \<open>
  Serializing a processed document and reading it back gives the same document, when the Thrift
  codec returns the struct it was given, every word is at most 22 bytes long, and the hash is not
  the empty string (which is read back as no hash).
\<close>

lemma document_binary_roundtrip:
  assumes "thrift_de_doc api (thrift_ser_doc api (dto_of_document t)) = Some (dto_of_document t)"
    and "\<forall>w \<in> set (pd_scoredWords t). wf_word w"
    and "pd_sha1Hash t \<noteq> Some ''''"
  shows "binaryDeserialize_document api (binarySerialize_document api t) = Some t"
proof -
  have "map word_of_dto (map dto_of_word (pd_scoredWords t)) = pd_scoredWords t"
    using assms(2) by (simp add: map_idI word_of_dto_of_word)
  then have "document_of_dto (dto_of_document t) = t"
    using assms(3) by (cases t) (auto simp: document_of_dto_def dto_of_document_def split: option.split)
  then show ?thesis
    by (simp add: binaryDeserialize_document_def binarySerialize_document_def assms(1))
qed

definition sample_document :: "string \<Rightarrow> ProcessedDocument" where
  "sample_document i = \<lparr>pd_id = i, pd_sha1Hash = None,
     pd_scoredWords = [make_ScoredWord fresh_buffer ''house'' 5 (Num 1)],
     pd_magnitude = Num 1, pd_created = 0, pd_updated = 0\<rparr>"

lemma c_str_house: "c_str (assignWord fresh_buffer ''house'' 5) = ''house''"
  by (simp add: c_str_assignWord fresh_buffer_def c_str_no_NUL)

lemma wf_word_house: "wf_word (make_ScoredWord fresh_buffer ''house'' 5 (Num 1))"
proof -
  have "wf_word (make_ScoredWord fresh_buffer ''house'' (length ''house'') (Num 1))"
    by (rule wf_word_make) simp_all
  moreover have "length ''house'' = 5" by simp
  ultimately show ?thesis by (simp only:)
qed

lemma sample_document_wire:
  "simple_de_doc (simple_ser_doc (dto_of_document (sample_document ''d''))) =
     Some (dto_of_document (sample_document ''d''))"
  by (simp add: simple_de_doc_def simple_ser_doc_def dto_of_document_def sample_document_def
      dto_of_word_def make_ScoredWord_def c_str_house)

lemma log_env_codec [simp]: "thrift_ser_doc log_env = simple_ser_doc" "thrift_de_doc log_env = simple_de_doc"
  by (simp_all add: log_env_def log_api_def)

text \<open>
  The JSON of a word vector reads back as the vector, but the JSON of a centroid never
  does: its constructor drops the word vector that its converter requires.
\<close>

theorem json_vector_roundtrip_centroid_fails:
  "vector_of_dynamic (dynamic_of_vector v) = Some v \<and> centroid_of_dynamic (dynamic_of_centroid c) = None"
proof -
  have "as_scores (map (\<lambda>(k, d). (k, DDouble d)) xs) = Some xs" for xs
    by (induction xs) auto
  then have "vector_of_dynamic (dynamic_of_vector v) = Some v"
    by (cases v) (simp add: vector_of_dynamic_def dynamic_of_vector_def)
  then show ?thesis by (simp add: centroid_of_dynamic_def dynamic_of_centroid_def)
qed

end
