(* ===== verification/SyncPersistence.thy ===== *)
theory SyncPersistence
  imports Serialization
begin

text \<open>
  \<open>src/src/persistence/SyncPersistence.cpp\<close>: documents, centroids, the membership of documents in
  centroids and per-centroid metadata, stored under string keys in one database.  Every operation
  takes the outside world \<open>api\<close> and the database and returns the new database with the result;
  read-only operations return the result alone.  A read of stored bytes that the Thrift codec or
  \<open>folly::to\<close> cannot decode throws, which is \<open>None\<close>.
\<close>

section \<open>Keys\<close>

definition getCentroidsPrefix :: string where
  "getCentroidsPrefix = ''centroids''"

definition getDocumentsPrefix :: string where
  "getDocumentsPrefix = ''documents''"

definition getCentroidKey :: "string \<Rightarrow> string" where
  "getCentroidKey i = getCentroidsPrefix @ '':'' @ i"

definition getDocumentKey :: "string \<Rightarrow> string" where
  "getDocumentKey i = getDocumentsPrefix @ '':'' @ i"

definition getCentroidDocumentPrefix :: "string \<Rightarrow> string" where
  "getCentroidDocumentPrefix i = i @ ''__documents''"

definition getDocumentCentroidsPrefix :: "string \<Rightarrow> string" where
  "getDocumentCentroidsPrefix docId = docId @ ''__centroids''"

definition getDocumentCentroidKey :: "string \<Rightarrow> string \<Rightarrow> string" where
  "getDocumentCentroidKey docId centroidId = docId @ ''__centroids:'' @ centroidId"

definition getCentroidDocumentKey :: "string \<Rightarrow> string \<Rightarrow> string" where
  "getCentroidDocumentKey centroidId docId = centroidId @ ''__documents:'' @ docId"

definition getCentroidMetadataKey :: "string \<Rightarrow> string \<Rightarrow> string" where
  "getCentroidMetadataKey i metaName = i @ ''__centroid_metadata:'' @ metaName"

definition getDocumentMetadataKey :: "string \<Rightarrow> string \<Rightarrow> string" where
  "getDocumentMetadataKey i metaName = i @ ''__document_metadata:'' @ metaName"

text \<open>
  \<open>key.substr(key.find(':') + 1)\<close>: the rest after the first colon; without a colon \<open>find\<close> is
  \<open>npos\<close>, the sum wraps to 0, and the whole key is the result (the \<open>DCHECK\<close> is a debug check).
\<close>

definition key_id :: "string \<Rightarrow> string" where
  "key_id key = (if CHR '':'' \<in> set key then tl (dropWhile (\<lambda>c. c \<noteq> CHR '':'') key) else key)"

text \<open>The callbacks that collect identifiers and that delete what is visited.\<close>

definition collect_id :: "string list iterFn" where
  "collect_id key val ids = (ids @ [key_id key], False)"

definition delete_key :: "('db, 'z) env_scheme \<Rightarrow> 'db iterFn" where
  "delete_key api key val db = (fst (rock_del api db key), False)"

section \<open>Document metadata and membership\<close>

definition getDocumentCreatedTime :: "('db, 'z) env_scheme \<Rightarrow> 'db \<Rightarrow> string \<Rightarrow> 64 word option option" where
  "getDocumentCreatedTime api db i =
     (case rock_get api db (getDocumentMetadataKey i ''created_time'') of
        None \<Rightarrow> Some None
      | Some data \<Rightarrow> map_option Some (string_to_i64 api data))"

definition setDocumentCreatedTime :: "('db, 'z) env_scheme \<Rightarrow> 'db \<Rightarrow> string \<Rightarrow> 64 word \<Rightarrow> 'db" where
  "setDocumentCreatedTime api db i created =
     fst (rock_put api db (getDocumentMetadataKey i ''created_time'') (i64_to_string api created))"

definition isDocumentInAnyCentroid :: "('db, 'z) env_scheme \<Rightarrow> 'db \<Rightarrow> string \<Rightarrow> bool" where
  "isDocumentInAnyCentroid api db documentId =
     fst (rock_iterPrefix api db (getDocumentCentroidsPrefix documentId) (\<lambda>key val c. (c, True)) ())"

definition listDocumentCentroids :: "('db, 'z) env_scheme \<Rightarrow> 'db \<Rightarrow> string \<Rightarrow> string list" where
  "listDocumentCentroids api db documentId =
     snd (rock_iterPrefix api db (getDocumentCentroidsPrefix documentId) collect_id [])"

section \<open>Documents\<close>

definition sp_doesDocumentExist :: "('db, 'z) env_scheme \<Rightarrow> 'db \<Rightarrow> string \<Rightarrow> bool" where
  "sp_doesDocumentExist api db i = rock_exists api db (getDocumentKey i)"

definition sp_saveDocument :: "('db, 'z) env_scheme \<Rightarrow> 'db \<Rightarrow> ProcessedDocument \<Rightarrow> 'db \<times> bool Try" where
  "sp_saveDocument api db doc =
     (let data = binarySerialize_document api doc;
          db = fst (rock_put api db (getDocumentKey (pd_id doc)) data);
          db = setDocumentCreatedTime api db (pd_id doc) (pd_created doc)
      in (db, Inr True))"

definition sp_saveNewDocument :: "('db, 'z) env_scheme \<Rightarrow> 'db \<Rightarrow> ProcessedDocument \<Rightarrow> 'db \<times> bool Try" where
  "sp_saveNewDocument api db doc =
     (if sp_doesDocumentExist api db (pd_id doc) then (db, Inl EDocumentAlreadyExists)
      else sp_saveDocument api db doc)"

definition sp_deleteDocument :: "('db, 'z) env_scheme \<Rightarrow> 'db \<Rightarrow> string \<Rightarrow> 'db \<times> bool Try" where
  "sp_deleteDocument api db i =
     (let mainKey = getDocumentKey i; (db, deleted) = rock_del api db mainKey in
      if deleted then
        let (_, db) = rock_iterPrefix api db (getDocumentCentroidsPrefix i) (delete_key api) db;
            (_, db) = rock_iterPrefix api db (i @ ''__document_metadata'') (delete_key api) db
        in (db, Inr True)
      else (db, Inl EDocumentDoesNotExist))"

text \<open>The callback of \<open>listUnusedDocuments\<close>; its state is \<open>(docIds, numSeen)\<close>.\<close>

definition unused_callback :: "('db, 'z) env_scheme \<Rightarrow> 'db \<Rightarrow> nat \<Rightarrow> (string list \<times> nat) iterFn" where
  "unused_callback api db limit key val = (\<lambda>(docIds, numSeen).
     let i = key_id key in
     if \<not> isDocumentInAnyCentroid api db i then
       let docIds = docIds @ [i] in
       if limit > 0 then
         let numSeen = numSeen + 1 in ((docIds, numSeen), numSeen \<ge> limit)
       else ((docIds, numSeen), False)
     else ((docIds, numSeen), False))"

definition sp_listUnusedDocuments :: "('db, 'z) env_scheme \<Rightarrow> 'db \<Rightarrow> nat \<Rightarrow> string list" where
  "sp_listUnusedDocuments api db limit =
     fst (snd (rock_iterPrefix api db getDocumentsPrefix (unused_callback api db limit) ([], 0)))"

text \<open>
  \<open>deleteOldUnusedDocuments\<close>: the callback works on \<open>(database, numSeen, thrown)\<close>; a stored
  time that cannot be parsed throws out of the iteration.  Times are signed 64-bit.
\<close>

definition old_unused_callback ::
  "('db, 'z) env_scheme \<Rightarrow> 64 word \<Rightarrow> nat \<Rightarrow> ('db \<times> nat \<times> bool) iterFn" where
  "old_unused_callback api cutoff limit key val = (\<lambda>(db, numSeen, thrown).
     let i = key_id key in
     if \<not> isDocumentInAnyCentroid api db i then
       case getDocumentCreatedTime api db i of
         None \<Rightarrow> ((db, numSeen, True), True)
       | Some createdTime \<Rightarrow>
           if (case createdTime of None \<Rightarrow> True | Some t \<Rightarrow> sint t < sint cutoff) then
             let db = fst (sp_deleteDocument api db i) in
             if limit > 0 then
               let numSeen = numSeen + 1 in ((db, numSeen, thrown), numSeen \<ge> limit)
             else ((db, numSeen, thrown), False)
           else ((db, numSeen, thrown), False)
     else ((db, numSeen, thrown), False))"

definition sp_deleteOldUnusedDocuments ::
  "('db, 'z) env_scheme \<Rightarrow> 64 word \<Rightarrow> 'db \<Rightarrow> 64 word \<Rightarrow> nat \<Rightarrow> 'db \<times> nat option" where
  "sp_deleteOldUnusedDocuments api startTime db minAge limit =
     (let cutoff = startTime - minAge;
          (_, db, numSeen, thrown) =
            rock_iterPrefix api db getDocumentsPrefix (old_unused_callback api cutoff limit) (db, 0, False)
      in (db, if thrown then None else Some numSeen))"

definition sp_listAllDocuments :: "('db, 'z) env_scheme \<Rightarrow> 'db \<Rightarrow> string list" where
  "sp_listAllDocuments api db = snd (rock_iterPrefix api db getDocumentsPrefix collect_id [])"

definition sp_listDocumentRangeFromId :: "('db, 'z) env_scheme \<Rightarrow> 'db \<Rightarrow> string \<Rightarrow> nat \<Rightarrow> string list" where
  "sp_listDocumentRangeFromId api db startingDocumentId numToGet =
     snd (rock_iterPrefixFromMember api db getDocumentsPrefix startingDocumentId numToGet collect_id [])"

definition sp_listDocumentRangeFromOffset :: "('db, 'z) env_scheme \<Rightarrow> 'db \<Rightarrow> nat \<Rightarrow> nat \<Rightarrow> string list" where
  "sp_listDocumentRangeFromOffset api db offset numToGet =
     snd (rock_iterPrefixFromOffset api db getDocumentsPrefix offset numToGet collect_id [])"

definition sp_loadDocument :: "('db, 'z) env_scheme \<Rightarrow> 'db \<Rightarrow> string \<Rightarrow> ProcessedDocument Try option" where
  "sp_loadDocument api db docId =
     (case rock_get api db (getDocumentKey docId) of
        None \<Rightarrow> Some (Inl EDocumentDoesNotExist)
      | Some serialized \<Rightarrow> map_option Inr (binaryDeserialize_document api serialized))"

section \<open>Centroids\<close>

definition sp_doesCentroidExist :: "('db, 'z) env_scheme \<Rightarrow> 'db \<Rightarrow> string \<Rightarrow> bool" where
  "sp_doesCentroidExist api db i = rock_exists api db (getCentroidKey i)"

definition sp_saveCentroid :: "('db, 'z) env_scheme \<Rightarrow> 'db \<Rightarrow> string \<Rightarrow> Centroid \<Rightarrow> 'db \<times> bool Try" where
  "sp_saveCentroid api db i centroid =
     (let data = binarySerialize_centroid api centroid
      in (fst (rock_put api db (getCentroidKey i) data), Inr True))"

definition sp_createNewCentroid :: "('db, 'z) env_scheme \<Rightarrow> 'db \<Rightarrow> string \<Rightarrow> 'db \<times> bool Try" where
  "sp_createNewCentroid api db i =
     (if rock_exists api db (getCentroidKey i) then (db, Inl ECentroidAlreadyExists)
      else (fst (sp_saveCentroid api db i (new_Centroid i)), Inr True))"

definition sp_deleteCentroid :: "('db, 'z) env_scheme \<Rightarrow> 'db \<Rightarrow> string \<Rightarrow> 'db \<times> bool Try" where
  "sp_deleteCentroid api db i =
     (let mainKey = getCentroidKey i; (db, deleted) = rock_del api db mainKey in
      if \<not> deleted then (db, Inl ECentroidDoesNotExist)
      else
        let (_, db) = rock_iterPrefix api db (getCentroidDocumentPrefix i) (delete_key api) db;
            (_, db) = rock_iterPrefix api db (i @ ''__centroid_metadata'') (delete_key api) db
        in (db, Inr True))"

definition sp_loadCentroid :: "('db, 'z) env_scheme \<Rightarrow> 'db \<Rightarrow> string \<Rightarrow> Centroid Try option" where
  "sp_loadCentroid api db i =
     (case rock_get api db (getCentroidKey i) of
        None \<Rightarrow> Some (Inl ECentroidDoesNotExist)
      | Some serialized \<Rightarrow> map_option Inr (binaryDeserialize_centroid api serialized))"

definition sp_loadCentroidUniqueOption :: "('db, 'z) env_scheme \<Rightarrow> 'db \<Rightarrow> string \<Rightarrow> Centroid option option" where
  "sp_loadCentroidUniqueOption api db i =
     (case rock_get api db (getCentroidKey i) of
        None \<Rightarrow> Some None
      | Some serialized \<Rightarrow> map_option Some (binaryDeserialize_centroid api serialized))"

definition sp_listAllCentroids :: "('db, 'z) env_scheme \<Rightarrow> 'db \<Rightarrow> string list" where
  "sp_listAllCentroids api db = snd (rock_iterPrefix api db getCentroidsPrefix collect_id [])"

definition sp_listCentroidRangeFromOffset :: "('db, 'z) env_scheme \<Rightarrow> 'db \<Rightarrow> nat \<Rightarrow> nat \<Rightarrow> string list" where
  "sp_listCentroidRangeFromOffset api db offset limit =
     snd (rock_iterPrefixFromOffset api db getCentroidsPrefix offset limit collect_id [])"

definition sp_listCentroidRangeFromId :: "('db, 'z) env_scheme \<Rightarrow> 'db \<Rightarrow> string \<Rightarrow> nat \<Rightarrow> string list" where
  "sp_listCentroidRangeFromId api db startingCentroidId limit =
     snd (rock_iterPrefixFromMember api db getCentroidsPrefix startingCentroidId limit collect_id [])"

section \<open>Documents in centroids\<close>

definition sp_addDocumentToCentroid ::
  "('db, 'z) env_scheme \<Rightarrow> 'db \<Rightarrow> string \<Rightarrow> string \<Rightarrow> 'db \<times> bool Try" where
  "sp_addDocumentToCentroid api db centroidId documentId =
     (if \<not> sp_doesCentroidExist api db centroidId then (db, Inl ECentroidDoesNotExist)
      else if \<not> sp_doesDocumentExist api db documentId then (db, Inl EDocumentDoesNotExist)
      else
        let centroidKey = getCentroidDocumentKey centroidId documentId in
        if rock_exists api db centroidKey then (db, Inl EDocumentAlreadyInCentroid)
        else
          let val = ''1'';
              db = fst (rock_put api db centroidKey val);
              documentKey = getDocumentCentroidKey documentId centroidId;
              db = fst (rock_put api db documentKey val)
          in (db, Inr True))"

definition sp_removeDocumentFromCentroid ::
  "('db, 'z) env_scheme \<Rightarrow> 'db \<Rightarrow> string \<Rightarrow> string \<Rightarrow> 'db \<times> bool Try" where
  "sp_removeDocumentFromCentroid api db centroidId documentId =
     (if \<not> sp_doesCentroidExist api db centroidId then (db, Inl ECentroidDoesNotExist)
      else if \<not> sp_doesDocumentExist api db documentId then (db, Inl EDocumentDoesNotExist)
      else
        let centroidKey = getCentroidDocumentKey centroidId documentId;
            documentKey = getDocumentCentroidKey documentId centroidId;
            db = fst (rock_del api db documentKey);
            (db, deleted) = rock_del api db centroidKey
        in (db, if \<not> deleted then Inl EDocumentNotInCentroid else Inr True))"

definition sp_doesCentroidHaveDocument ::
  "('db, 'z) env_scheme \<Rightarrow> 'db \<Rightarrow> string \<Rightarrow> string \<Rightarrow> bool Try" where
  "sp_doesCentroidHaveDocument api db centroidId documentId =
     (if rock_exists api db (getCentroidDocumentKey centroidId documentId) then Inr True
      else if \<not> sp_doesCentroidExist api db centroidId then Inl ECentroidDoesNotExist
      else Inr False)"

definition listAllDocumentsForCentroidRaw :: "('db, 'z) env_scheme \<Rightarrow> 'db \<Rightarrow> string \<Rightarrow> string list" where
  "listAllDocumentsForCentroidRaw api db centroidId =
     snd (rock_iterPrefix api db (getCentroidDocumentPrefix centroidId) collect_id [])"

definition sp_listAllDocumentsForCentroid ::
  "('db, 'z) env_scheme \<Rightarrow> 'db \<Rightarrow> string \<Rightarrow> string list Try" where
  "sp_listAllDocumentsForCentroid api db centroidId =
     (let docs = listAllDocumentsForCentroidRaw api db centroidId in
      if length docs = 0 \<and> \<not> sp_doesCentroidExist api db centroidId then Inl ECentroidDoesNotExist
      else Inr docs)"

definition sp_listAllDocumentsForCentroidOption ::
  "('db, 'z) env_scheme \<Rightarrow> 'db \<Rightarrow> string \<Rightarrow> string list option" where
  "sp_listAllDocumentsForCentroidOption api db centroidId =
     (let docs = listAllDocumentsForCentroidRaw api db centroidId in
      if length docs = 0 \<and> \<not> sp_doesCentroidExist api db centroidId then None else Some docs)"

definition listCentroidDocumentRangeFromOffsetRaw ::
  "('db, 'z) env_scheme \<Rightarrow> 'db \<Rightarrow> string \<Rightarrow> nat \<Rightarrow> nat \<Rightarrow> string list" where
  "listCentroidDocumentRangeFromOffsetRaw api db centroidId offset limit =
     snd (rock_iterPrefixFromOffset api db (getCentroidDocumentPrefix centroidId) offset limit collect_id [])"

definition sp_listCentroidDocumentRangeFromOffsetOption ::
  "('db, 'z) env_scheme \<Rightarrow> 'db \<Rightarrow> string \<Rightarrow> nat \<Rightarrow> nat \<Rightarrow> string list option" where
  "sp_listCentroidDocumentRangeFromOffsetOption api db centroidId offset limit =
     (let docs = listCentroidDocumentRangeFromOffsetRaw api db centroidId offset limit in
      if length docs = 0 \<and> \<not> sp_doesCentroidExist api db centroidId then None else Some docs)"

definition sp_listCentroidDocumentRangeFromOffset ::
  "('db, 'z) env_scheme \<Rightarrow> 'db \<Rightarrow> string \<Rightarrow> nat \<Rightarrow> nat \<Rightarrow> string list Try" where
  "sp_listCentroidDocumentRangeFromOffset api db centroidId offset limit =
     (let docs = listCentroidDocumentRangeFromOffsetRaw api db centroidId offset limit in
      if length docs = 0 \<and> \<not> sp_doesCentroidExist api db centroidId then Inl ECentroidDoesNotExist
      else Inr docs)"

definition listCentroidDocumentRangeFromDocumentIdRaw ::
  "('db, 'z) env_scheme \<Rightarrow> 'db \<Rightarrow> string \<Rightarrow> string \<Rightarrow> nat \<Rightarrow> string list" where
  "listCentroidDocumentRangeFromDocumentIdRaw api db centroidId startingDocumentId limit =
     snd (rock_iterPrefixFromMember api db (getCentroidDocumentPrefix centroidId)
            startingDocumentId limit collect_id [])"

definition sp_listCentroidDocumentRangeFromDocumentIdOption ::
  "('db, 'z) env_scheme \<Rightarrow> 'db \<Rightarrow> string \<Rightarrow> string \<Rightarrow> nat \<Rightarrow> string list option" where
  "sp_listCentroidDocumentRangeFromDocumentIdOption api db centroidId documentId limit =
     (let docs = listCentroidDocumentRangeFromDocumentIdRaw api db centroidId documentId limit in
      if length docs = 0 \<and> \<not> sp_doesCentroidExist api db centroidId then None else Some docs)"

definition sp_listCentroidDocumentRangeFromDocumentId ::
  "('db, 'z) env_scheme \<Rightarrow> 'db \<Rightarrow> string \<Rightarrow> string \<Rightarrow> nat \<Rightarrow> string list Try" where
  "sp_listCentroidDocumentRangeFromDocumentId api db centroidId documentId limit =
     (let docs = listCentroidDocumentRangeFromDocumentIdRaw api db centroidId documentId limit in
      if length docs = 0 \<and> \<not> sp_doesCentroidExist api db centroidId then Inl ECentroidDoesNotExist
      else Inr docs)"

section \<open>Centroid metadata\<close>

definition sp_getCentroidMetadata ::
  "('db, 'z) env_scheme \<Rightarrow> 'db \<Rightarrow> string \<Rightarrow> string \<Rightarrow> string option" where
  "sp_getCentroidMetadata api db centroidId metadataName =
     rock_get api db (getCentroidMetadataKey centroidId metadataName)"

definition sp_setCentroidMetadata ::
  "('db, 'z) env_scheme \<Rightarrow> 'db \<Rightarrow> string \<Rightarrow> string \<Rightarrow> string \<Rightarrow> 'db \<times> bool Try" where
  "sp_setCentroidMetadata api db centroidId metadataName val =
     (fst (rock_put api db (getCentroidMetadataKey centroidId metadataName) val), Inr True)"

definition sp_debugEraseAllData :: "('db, 'z) env_scheme \<Rightarrow> 'db \<Rightarrow> 'db option" where
  "sp_debugEraseAllData api db = map_option fst (rock_eraseEverything api db)"

end
