(* ===== verification/Catalog.thy ===== *)
theory Catalog
  imports SyncPersistence
begin

text \<open>
  What \<open>SyncPersistence\<close> promises.  The keys of the database are separated by the first colon of
  a key, so identifiers without a colon (\<open>plain\<close>) never collide; over plain identifiers the store
  is a \<open>catalog\<close>: a set of documents, a set of centroids, the membership of documents in centroids
  and the back references from documents to centroids.  Every operation that changes them is
  simulated by an operation on the catalog, and the invariants are proved there.
\<close>

section \<open>Plain identifiers and their keys\<close>

definition plain :: "string \<Rightarrow> bool" where
  "plain i \<longleftrightarrow> CHR '':'' \<notin> set i"

lemma split_at_colon:
  "plain p \<Longrightarrow> plain q \<Longrightarrow> p @ CHR '':'' # x = q @ CHR '':'' # y \<longleftrightarrow> p = q \<and> x = y"
proof (induction p arbitrary: q)
  case Nil
  then show ?case by (cases q) (auto simp: plain_def)
next
  case (Cons a p)
  then show ?case by (cases q) (auto simp: plain_def)
qed

lemma key_id_split: "plain p \<Longrightarrow> key_id (p @ CHR '':'' # x) = x"
proof -
  have "dropWhile (\<lambda>c. c \<noteq> CHR '':'') (p @ CHR '':'' # x) = CHR '':'' # x" if "plain p"
    using that by (induction p) (auto simp: plain_def)
  then show "plain p \<Longrightarrow> key_id (p @ CHR '':'' # x) = x" by (simp add: key_id_def)
qed

lemma plain_append [simp]: "plain (p @ q) \<longleftrightarrow> plain p \<and> plain q"
  by (auto simp: plain_def)

lemma plain_Cons [simp]: "plain (c # q) \<longleftrightarrow> c \<noteq> CHR '':'' \<and> plain q"
  by (auto simp: plain_def)

lemma plain_Nil [simp]: "plain []"
  by (simp add: plain_def)

text \<open>Every key is a plain part, a colon, and a rest.\<close>

lemma key_forms:
  "getDocumentKey i = ''documents'' @ CHR '':'' # i"
  "getCentroidKey i = ''centroids'' @ CHR '':'' # i"
  "getCentroidDocumentKey c d = (c @ ''__documents'') @ CHR '':'' # d"
  "getDocumentCentroidKey d c = (d @ ''__centroids'') @ CHR '':'' # c"
  "getCentroidMetadataKey c n = (c @ ''__centroid_metadata'') @ CHR '':'' # n"
  "getDocumentMetadataKey d n = (d @ ''__document_metadata'') @ CHR '':'' # n"
  by (simp_all add: getDocumentKey_def getDocumentsPrefix_def getCentroidKey_def getCentroidsPrefix_def
      getCentroidDocumentKey_def getDocumentCentroidKey_def getCentroidMetadataKey_def
      getDocumentMetadataKey_def)

lemma append_ends: "p @ a = q @ b \<Longrightarrow> a \<noteq> [] \<Longrightarrow> b \<noteq> [] \<Longrightarrow> last a = last b"
  by (metis last_appendR)

lemma plain_suffixes:
  "plain ''__documents''" "plain ''__centroids''" "plain ''__centroid_metadata''"
  "plain ''__document_metadata''" "plain ''documents''" "plain ''centroids''"
  by simp_all

lemma key_tags:
  "c @ ''__documents'' \<noteq> d @ ''__centroids''"
  "c @ ''__documents'' \<noteq> d @ ''__centroid_metadata''"
  "c @ ''__documents'' \<noteq> d @ ''__document_metadata''"
  "c @ ''__centroids'' \<noteq> d @ ''__centroid_metadata''"
  "c @ ''__centroids'' \<noteq> d @ ''__document_metadata''"
  "c @ ''__documents'' \<noteq> ''documents''"
  "c @ ''__documents'' \<noteq> ''centroids''"
  "c @ ''__centroids'' \<noteq> ''documents''"
  "c @ ''__centroids'' \<noteq> ''centroids''"
  "c @ ''__centroid_metadata'' \<noteq> ''documents''"
  "c @ ''__centroid_metadata'' \<noteq> ''centroids''"
  "c @ ''__document_metadata'' \<noteq> ''documents''"
  "c @ ''__document_metadata'' \<noteq> ''centroids''"
  by (auto dest: append_ends arg_cong [where f = length])

lemma metadata_tags: "c @ ''__centroid_metadata'' \<noteq> d @ ''__document_metadata''"
proof
  assume "c @ ''__centroid_metadata'' = d @ ''__document_metadata''"
  then have "take 10 (rev (c @ ''__centroid_metadata'')) = take 10 (rev (d @ ''__document_metadata''))"
    by simp
  then show False by simp
qed

lemma prefix_key:
  assumes "plain p" and "plain q"
  shows "prefix (p @ '':'') (q @ CHR '':'' # y) \<longleftrightarrow> p = q"
proof
  assume "prefix (p @ '':'') (q @ CHR '':'' # y)"
  then obtain z where "q @ CHR '':'' # y = p @ CHR '':'' # z" by (auto elim!: prefixE)
  with assms show "p = q" using split_at_colon by metis
qed simp

text \<open>Which keys coincide, and which keys lie under which prefix, for plain identifiers.\<close>

lemma key_same [simp]:
  "getDocumentKey i = getDocumentKey j \<longleftrightarrow> i = j"
  "getCentroidKey i = getCentroidKey j \<longleftrightarrow> i = j"
  "getDocumentKey i \<noteq> getCentroidKey j"
  "getCentroidKey j \<noteq> getDocumentKey i"
  by (simp_all add: key_forms)

lemma key_same_pairs [key_eqs]:
  "plain c \<Longrightarrow> plain c' \<Longrightarrow> getCentroidDocumentKey c d = getCentroidDocumentKey c' d' \<longleftrightarrow> c = c' \<and> d = d'"
  "plain d \<Longrightarrow> plain d' \<Longrightarrow> getDocumentCentroidKey d c = getDocumentCentroidKey d' c' \<longleftrightarrow> d = d' \<and> c = c'"
  by (simp_all only: key_forms split_at_colon plain_append plain_suffixes append_same_eq simp_thms)

lemma key_apart [key_eqs]:
  "plain c \<Longrightarrow> getCentroidDocumentKey c d \<noteq> getDocumentKey i"
  "plain c \<Longrightarrow> getCentroidDocumentKey c d \<noteq> getCentroidKey i"
  "plain d \<Longrightarrow> getDocumentCentroidKey d c \<noteq> getDocumentKey i"
  "plain d \<Longrightarrow> getDocumentCentroidKey d c \<noteq> getCentroidKey i"
  "plain c \<Longrightarrow> getCentroidMetadataKey c n \<noteq> getDocumentKey i"
  "plain c \<Longrightarrow> getCentroidMetadataKey c n \<noteq> getCentroidKey i"
  "plain d \<Longrightarrow> getDocumentMetadataKey d n \<noteq> getDocumentKey i"
  "plain d \<Longrightarrow> getDocumentMetadataKey d n \<noteq> getCentroidKey i"
  "plain c \<Longrightarrow> plain d' \<Longrightarrow> getCentroidDocumentKey c d \<noteq> getDocumentCentroidKey d' c'"
  "plain c \<Longrightarrow> plain c' \<Longrightarrow> getCentroidDocumentKey c d \<noteq> getCentroidMetadataKey c' n"
  "plain c \<Longrightarrow> plain d' \<Longrightarrow> getCentroidDocumentKey c d \<noteq> getDocumentMetadataKey d' n"
  "plain d \<Longrightarrow> plain c' \<Longrightarrow> getDocumentCentroidKey d c \<noteq> getCentroidMetadataKey c' n"
  "plain d \<Longrightarrow> plain d' \<Longrightarrow> getDocumentCentroidKey d c \<noteq> getDocumentMetadataKey d' n"
  "plain c \<Longrightarrow> plain d \<Longrightarrow> getCentroidMetadataKey c n \<noteq> getDocumentMetadataKey d n'"
  by (simp_all only: key_forms split_at_colon plain_append plain_suffixes key_tags metadata_tags simp_thms)

lemmas [key_eqs] = key_apart [THEN not_sym]

lemma prefix_key_suffix:
  assumes "plain (p @ t)" and "plain q"
  shows "prefix (p @ t @ '':'') (q @ CHR '':'' # y) \<longleftrightarrow> p @ t = q"
  using prefix_key [OF assms, of y] by (simp del: plain_append)

lemma key_prefixes:
  "plain p \<Longrightarrow> plain c \<Longrightarrow> prefix (p @ ''__documents'' @ '':'') (getCentroidDocumentKey c d) \<longleftrightarrow> c = p"
  "plain p \<Longrightarrow> plain d \<Longrightarrow> prefix (p @ ''__centroids'' @ '':'') (getDocumentCentroidKey d c) \<longleftrightarrow> d = p"
  "plain p \<Longrightarrow> plain d \<Longrightarrow> \<not> prefix (p @ ''__documents'' @ '':'') (getDocumentCentroidKey d c)"
  "plain p \<Longrightarrow> plain c \<Longrightarrow> \<not> prefix (p @ ''__centroids'' @ '':'') (getCentroidDocumentKey c d)"
  "plain p \<Longrightarrow> \<not> prefix (p @ ''__documents'' @ '':'') (getDocumentKey i)"
  "plain p \<Longrightarrow> \<not> prefix (p @ ''__documents'' @ '':'') (getCentroidKey i)"
  "plain p \<Longrightarrow> \<not> prefix (p @ ''__centroids'' @ '':'') (getDocumentKey i)"
  "plain p \<Longrightarrow> \<not> prefix (p @ ''__centroids'' @ '':'') (getCentroidKey i)"
  "plain p \<Longrightarrow> \<not> prefix (p @ ''__centroid_metadata'' @ '':'') (getDocumentKey i)"
  "plain p \<Longrightarrow> \<not> prefix (p @ ''__centroid_metadata'' @ '':'') (getCentroidKey i)"
  "plain p \<Longrightarrow> \<not> prefix (p @ ''__document_metadata'' @ '':'') (getDocumentKey i)"
  "plain p \<Longrightarrow> \<not> prefix (p @ ''__document_metadata'' @ '':'') (getCentroidKey i)"
  "plain p \<Longrightarrow> plain c \<Longrightarrow> \<not> prefix (p @ ''__centroid_metadata'' @ '':'') (getCentroidDocumentKey c d)"
  "plain p \<Longrightarrow> plain d \<Longrightarrow> \<not> prefix (p @ ''__centroid_metadata'' @ '':'') (getDocumentCentroidKey d c)"
  "plain p \<Longrightarrow> plain c \<Longrightarrow> \<not> prefix (p @ ''__document_metadata'' @ '':'') (getCentroidDocumentKey c d)"
  "plain p \<Longrightarrow> plain d \<Longrightarrow> \<not> prefix (p @ ''__document_metadata'' @ '':'') (getDocumentCentroidKey d c)"
  "plain p \<Longrightarrow> plain c \<Longrightarrow> \<not> prefix (p @ ''__document_metadata'' @ '':'') (getCentroidMetadataKey c n)"
  "plain p \<Longrightarrow> plain d \<Longrightarrow> prefix (p @ ''__document_metadata'' @ '':'') (getDocumentMetadataKey d n) \<longleftrightarrow> d = p"
  "plain p \<Longrightarrow> plain d \<Longrightarrow> \<not> prefix (p @ ''__centroids'' @ '':'') (getDocumentMetadataKey d n)"
  "plain p \<Longrightarrow> plain c \<Longrightarrow> \<not> prefix (p @ ''__documents'' @ '':'') (getCentroidMetadataKey c n)"
  "plain p \<Longrightarrow> plain c \<Longrightarrow> prefix (p @ ''__centroid_metadata'' @ '':'') (getCentroidMetadataKey c n) \<longleftrightarrow> c = p"
  by (simp_all only: key_forms prefix_key_suffix plain_append plain_suffixes append_same_eq
      key_tags key_tags [THEN not_sym] metadata_tags metadata_tags [THEN not_sym] eq_commute [of p] simp_thms)

lemmas [key_eqs] = key_prefixes [unfolded append_Cons append_Nil]

section \<open>The laws of the environment\<close>

text \<open>The contract of RocksDB, and \<open>folly::to\<close> reads back the integers it has printed.\<close>

locale env_contract = rocksdb_contract api entries
  for api :: "('db, 'z) env_scheme" and entries :: "'db \<Rightarrow> (string \<times> string) list" +
  assumes i64_roundtrip: "string_to_i64 api (i64_to_string api n) = Some n"
    and u64_roundtrip: "string_to_u64 api (u64_to_string api n) = Some n"
begin

lemma store_put [kv_simps]:
  "map_of (entries (fst (rock_put api db k v))) = (map_of (entries db))(k \<mapsto> v)"
  by (simp add: rock_put_entries map_of_kv_put entries_sorted)

lemma store_del [kv_simps]:
  "map_of (entries (fst (rock_del api db k))) = (map_of (entries db))(k := None)"
  by (simp add: rock_del_entries map_of_kv_erase)

lemma store_visit_delete:
  "map_of (entries (visit r (delete_key api) db)) =
     (\<lambda>k. if k \<in> fst ` set r then None else map_of (entries db) k)"
proof (induction r arbitrary: db)
  case (Cons p r)
  obtain key val where p: "p = (key, val)" by (cases p)
  have "map_of (entries (visit (p # r) (delete_key api) db)) =
      map_of (entries (visit r (delete_key api) (fst (rock_del api db key))))"
    by (simp add: p delete_key_def)
  also have "\<dots> = (\<lambda>k. if k \<in> fst ` set r then None else ((map_of (entries db))(key := None)) k)"
    by (simp only: Cons.IH store_del)
  finally show ?case by (simp add: p fun_eq_iff)
qed simp

lemma store_iterPrefix_delete [kv_simps]:
  "map_of (entries (snd (rock_iterPrefix api db pre (delete_key api) db))) =
     (\<lambda>k. if prefix (pre @ '':'') k then None else map_of (entries db) k)"
proof -
  have "k \<in> fst ` set (filter (\<lambda>p. prefix (pre @ '':'') (fst p)) (entries db))
      \<longleftrightarrow> prefix (pre @ '':'') k \<and> map_of (entries db) k \<noteq> None" for k
    using kv_key_map_of [of k "entries db"] by force
  then show ?thesis by (auto simp: iterPrefix_eq store_visit_delete fun_eq_iff)
qed

lemma isDocumentInAnyCentroid_iff:
  "isDocumentInAnyCentroid api db d \<longleftrightarrow> (\<exists>c. map_of (entries db) (getDocumentCentroidKey d c) \<noteq> None)"
proof -
  have "isDocumentInAnyCentroid api db d \<longleftrightarrow>
      (\<exists>k \<in> fst ` set (entries db). prefix (d @ ''__centroids:'') k)"
    by (auto simp: isDocumentInAnyCentroid_def iterPrefix_eq getDocumentCentroidsPrefix_def
        filter_empty_conv)
  also have "\<dots> \<longleftrightarrow> (\<exists>k. prefix (d @ ''__centroids:'') k \<and> map_of (entries db) k \<noteq> None)"
    unfolding Bex_def kv_key_map_of by blast
  also have "\<dots> \<longleftrightarrow> (\<exists>c. map_of (entries db) (getDocumentCentroidKey d c) \<noteq> None)"
    by (auto simp: prefix_def getDocumentCentroidKey_def)
  finally show ?thesis .
qed

section \<open>The store after each operation\<close>

lemma store_saveDocument:
  "map_of (entries (fst (sp_saveDocument api db doc))) = (map_of (entries db))
     (getDocumentKey (pd_id doc) \<mapsto> binarySerialize_document api doc,
      getDocumentMetadataKey (pd_id doc) ''created_time'' \<mapsto> i64_to_string api (pd_created doc))"
  by (simp add: sp_saveDocument_def setDocumentCreatedTime_def Let_def store_put)

lemma store_deleteDocument:
  "map_of (entries (fst (sp_deleteDocument api db i))) =
     (if map_of (entries db) (getDocumentKey i) = None then map_of (entries db)
      else (\<lambda>k. if k = getDocumentKey i \<or> prefix (i @ ''__centroids:'') k
                   \<or> prefix (i @ ''__document_metadata:'') k then None else map_of (entries db) k))"
  using rock_del_result [of db "getDocumentKey i"] store_del [of db "getDocumentKey i"]
  by (auto simp: sp_deleteDocument_def case_prod_unfold Let_def kv_simps
      getDocumentCentroidsPrefix_def fun_eq_iff)

lemma result_deleteDocument:
  "snd (sp_deleteDocument api db i) =
     (if map_of (entries db) (getDocumentKey i) = None then Inl EDocumentDoesNotExist else Inr True)"
  by (simp add: sp_deleteDocument_def case_prod_unfold Let_def rock_del_result)

lemma store_saveCentroid:
  "map_of (entries (fst (sp_saveCentroid api db i c))) =
     (map_of (entries db))(getCentroidKey i \<mapsto> binarySerialize_centroid api c)"
  by (simp add: sp_saveCentroid_def Let_def store_put)

lemma store_deleteCentroid:
  "map_of (entries (fst (sp_deleteCentroid api db i))) =
     (if map_of (entries db) (getCentroidKey i) = None then map_of (entries db)
      else (\<lambda>k. if k = getCentroidKey i \<or> prefix (i @ ''__documents:'') k
                   \<or> prefix (i @ ''__centroid_metadata:'') k then None else map_of (entries db) k))"
  using rock_del_result [of db "getCentroidKey i"] store_del [of db "getCentroidKey i"]
  by (auto simp: sp_deleteCentroid_def case_prod_unfold Let_def kv_simps
      getCentroidDocumentPrefix_def fun_eq_iff)

lemma result_deleteCentroid:
  "snd (sp_deleteCentroid api db i) =
     (if map_of (entries db) (getCentroidKey i) = None then Inl ECentroidDoesNotExist else Inr True)"
  by (simp add: sp_deleteCentroid_def case_prod_unfold Let_def rock_del_result)

end

section \<open>The abstract catalog\<close>

record catalog =
  cat_docs :: "string set"
  cat_cents :: "string set"
  cat_members :: "(string \<times> string) set"
  cat_refs :: "(string \<times> string) set"

text \<open>
  \<open>cat_members\<close> holds (centroid, document), from the keys under plain centroids; \<open>cat_refs\<close> holds
  (document, centroid), from the keys under plain documents.
\<close>

definition catalog_of :: "(string \<Rightarrow> string option) \<Rightarrow> catalog" where
  "catalog_of m = \<lparr>
     cat_docs = {d. m (getDocumentKey d) \<noteq> None},
     cat_cents = {c. m (getCentroidKey c) \<noteq> None},
     cat_members = {(c, d). plain c \<and> m (getCentroidDocumentKey c d) \<noteq> None},
     cat_refs = {(d, c). plain d \<and> m (getDocumentCentroidKey d c) \<noteq> None}\<rparr>"

text \<open>The operations of \<open>SyncPersistence\<close> that change documents, centroids or memberships.\<close>

datatype request =
    SaveDocument ProcessedDocument
  | SaveNewDocument ProcessedDocument
  | DeleteDocument string
  | CreateNewCentroid string
  | SaveCentroid string Centroid
  | DeleteCentroid string
  | AddDocumentToCentroid string string
  | RemoveDocumentFromCentroid string string
  | SetCentroidMetadata string string string

fun run_request :: "('db, 'z) env_scheme \<Rightarrow> 'db \<Rightarrow> request \<Rightarrow> 'db \<times> bool Try" where
  "run_request api db (SaveDocument doc) = sp_saveDocument api db doc"
| "run_request api db (SaveNewDocument doc) = sp_saveNewDocument api db doc"
| "run_request api db (DeleteDocument d) = sp_deleteDocument api db d"
| "run_request api db (CreateNewCentroid c) = sp_createNewCentroid api db c"
| "run_request api db (SaveCentroid c centroid) = sp_saveCentroid api db c centroid"
| "run_request api db (DeleteCentroid c) = sp_deleteCentroid api db c"
| "run_request api db (AddDocumentToCentroid c d) = sp_addDocumentToCentroid api db c d"
| "run_request api db (RemoveDocumentFromCentroid c d) = sp_removeDocumentFromCentroid api db c d"
| "run_request api db (SetCentroidMetadata c n v) = sp_setCentroidMetadata api db c n v"

fun run_requests :: "('db, 'z) env_scheme \<Rightarrow> 'db \<Rightarrow> request list \<Rightarrow> 'db \<times> bool Try list" where
  "run_requests api db [] = (db, [])"
| "run_requests api db (r # rs) =
     (let (db', res) = run_request api db r; (db'', ress) = run_requests api db' rs
      in (db'', res # ress))"

fun plain_request :: "request \<Rightarrow> bool" where
  "plain_request (SaveDocument doc) = plain (pd_id doc)"
| "plain_request (SaveNewDocument doc) = plain (pd_id doc)"
| "plain_request (DeleteDocument d) = plain d"
| "plain_request (CreateNewCentroid c) = plain c"
| "plain_request (SaveCentroid c centroid) = plain c"
| "plain_request (DeleteCentroid c) = plain c"
| "plain_request (AddDocumentToCentroid c d) = (plain c \<and> plain d)"
| "plain_request (RemoveDocumentFromCentroid c d) = (plain c \<and> plain d)"
| "plain_request (SetCentroidMetadata c n v) = plain c"

text \<open>What each operation promises.\<close>

fun cat_request :: "catalog \<Rightarrow> request \<Rightarrow> catalog \<times> bool Try" where
  "cat_request L (SaveDocument doc) = (L\<lparr>cat_docs := insert (pd_id doc) (cat_docs L)\<rparr>, Inr True)"
| "cat_request L (SaveNewDocument doc) =
     (if pd_id doc \<in> cat_docs L then (L, Inl EDocumentAlreadyExists)
      else (L\<lparr>cat_docs := insert (pd_id doc) (cat_docs L)\<rparr>, Inr True))"
| "cat_request L (DeleteDocument d) =
     (if d \<in> cat_docs L then
        (L\<lparr>cat_docs := cat_docs L - {d}, cat_refs := {p \<in> cat_refs L. fst p \<noteq> d}\<rparr>, Inr True)
      else (L, Inl EDocumentDoesNotExist))"
| "cat_request L (CreateNewCentroid c) =
     (if c \<in> cat_cents L then (L, Inl ECentroidAlreadyExists)
      else (L\<lparr>cat_cents := insert c (cat_cents L)\<rparr>, Inr True))"
| "cat_request L (SaveCentroid c centroid) = (L\<lparr>cat_cents := insert c (cat_cents L)\<rparr>, Inr True)"
| "cat_request L (DeleteCentroid c) =
     (if c \<in> cat_cents L then
        (L\<lparr>cat_cents := cat_cents L - {c}, cat_members := {p \<in> cat_members L. fst p \<noteq> c}\<rparr>, Inr True)
      else (L, Inl ECentroidDoesNotExist))"
| "cat_request L (AddDocumentToCentroid c d) =
     (if c \<notin> cat_cents L then (L, Inl ECentroidDoesNotExist)
      else if d \<notin> cat_docs L then (L, Inl EDocumentDoesNotExist)
      else if (c, d) \<in> cat_members L then (L, Inl EDocumentAlreadyInCentroid)
      else (L\<lparr>cat_members := insert (c, d) (cat_members L),
              cat_refs := insert (d, c) (cat_refs L)\<rparr>, Inr True))"
| "cat_request L (RemoveDocumentFromCentroid c d) =
     (if c \<notin> cat_cents L then (L, Inl ECentroidDoesNotExist)
      else if d \<notin> cat_docs L then (L, Inl EDocumentDoesNotExist)
      else (L\<lparr>cat_members := cat_members L - {(c, d)}, cat_refs := cat_refs L - {(d, c)}\<rparr>,
            if (c, d) \<in> cat_members L then Inr True else Inl EDocumentNotInCentroid))"
| "cat_request L (SetCentroidMetadata c n v) = (L, Inr True)"

fun cat_requests :: "catalog \<Rightarrow> request list \<Rightarrow> catalog \<times> bool Try list" where
  "cat_requests L [] = (L, [])"
| "cat_requests L (r # rs) =
     (let (L', res) = cat_request L r; (L'', ress) = cat_requests L' rs in (L'', res # ress))"

section \<open>Simulation\<close>

context env_contract
begin

lemma exists_simps [kv_simps]:
  "sp_doesDocumentExist api db d \<longleftrightarrow> map_of (entries db) (getDocumentKey d) \<noteq> None"
  "sp_doesCentroidExist api db c \<longleftrightarrow> map_of (entries db) (getCentroidKey c) \<noteq> None"
  by (simp_all add: sp_doesDocumentExist_def sp_doesCentroidExist_def rock_exists_eq)

lemma simulate_saveDocument:
  "plain (pd_id doc) \<Longrightarrow>
   catalog_of (map_of (entries (fst (sp_saveDocument api db doc)))) =
     (catalog_of (map_of (entries db)))
       \<lparr>cat_docs := insert (pd_id doc) (cat_docs (catalog_of (map_of (entries db))))\<rparr>"
  by (auto simp: store_saveDocument catalog_of_def key_eqs)

lemma simulate_deleteDocument:
  "plain d \<Longrightarrow> map_of (entries db) (getDocumentKey d) \<noteq> None \<Longrightarrow>
   catalog_of (map_of (entries (fst (sp_deleteDocument api db d)))) =
     (let L = catalog_of (map_of (entries db)) in
      L\<lparr>cat_docs := cat_docs L - {d}, cat_refs := {p \<in> cat_refs L. fst p \<noteq> d}\<rparr>)"
  by (auto simp: store_deleteDocument catalog_of_def key_eqs)

lemma simulate_saveCentroid:
  "plain c \<Longrightarrow>
   catalog_of (map_of (entries (fst (sp_saveCentroid api db c centroid)))) =
     (catalog_of (map_of (entries db)))
       \<lparr>cat_cents := insert c (cat_cents (catalog_of (map_of (entries db))))\<rparr>"
  by (auto simp: store_saveCentroid catalog_of_def key_eqs)

lemma simulate_deleteCentroid:
  "plain c \<Longrightarrow> map_of (entries db) (getCentroidKey c) \<noteq> None \<Longrightarrow>
   catalog_of (map_of (entries (fst (sp_deleteCentroid api db c)))) =
     (let L = catalog_of (map_of (entries db)) in
      L\<lparr>cat_cents := cat_cents L - {c}, cat_members := {p \<in> cat_members L. fst p \<noteq> c}\<rparr>)"
  by (auto simp: store_deleteCentroid catalog_of_def key_eqs)

lemma simulate_setCentroidMetadata:
  "plain c \<Longrightarrow>
   catalog_of (map_of (entries (fst (sp_setCentroidMetadata api db c n v)))) = catalog_of (map_of (entries db))"
  by (auto simp: sp_setCentroidMetadata_def store_put catalog_of_def key_eqs)

lemma simulate_addDocument:
  "plain c \<Longrightarrow> plain d \<Longrightarrow>
   catalog_of (map_of (entries (fst (rock_put api (fst (rock_put api db (getCentroidDocumentKey c d) v))
       (getDocumentCentroidKey d c) v)))) =
     (let L = catalog_of (map_of (entries db)) in
      L\<lparr>cat_members := insert (c, d) (cat_members L), cat_refs := insert (d, c) (cat_refs L)\<rparr>)"
  by (auto simp: store_put catalog_of_def key_eqs)

lemma simulate_removeDocument:
  "plain c \<Longrightarrow> plain d \<Longrightarrow>
   catalog_of (m(getDocumentCentroidKey d c := None, getCentroidDocumentKey c d := None)) =
     (let L = catalog_of m in
      L\<lparr>cat_members := cat_members L - {(c, d)}, cat_refs := cat_refs L - {(d, c)}\<rparr>)"
  by (auto simp: catalog_of_def key_eqs)

lemma catalog_of_mem:
  "d \<in> cat_docs (catalog_of m) \<longleftrightarrow> m (getDocumentKey d) \<noteq> None"
  "c \<in> cat_cents (catalog_of m) \<longleftrightarrow> m (getCentroidKey c) \<noteq> None"
  "plain c \<Longrightarrow> (c, d) \<in> cat_members (catalog_of m) \<longleftrightarrow> m (getCentroidDocumentKey c d) \<noteq> None"
  "plain d \<Longrightarrow> (d, c) \<in> cat_refs (catalog_of m) \<longleftrightarrow> m (getDocumentCentroidKey d c) \<noteq> None"
  by (simp_all add: catalog_of_def)

lemmas simulate_simps = exists_simps catalog_of_mem rock_exists_eq result_deleteDocument result_deleteCentroid
  simulate_saveDocument simulate_deleteDocument simulate_saveCentroid simulate_deleteCentroid
  simulate_setCentroidMetadata simulate_addDocument simulate_removeDocument rock_del_result store_del

lemma simulate_request:
  assumes "plain_request r"
  shows "cat_request (catalog_of (map_of (entries db))) r =
     (catalog_of (map_of (entries (fst (run_request api db r)))), snd (run_request api db r))"
proof (cases r)
  case (SaveDocument doc)
  with assms show ?thesis by (simp add: simulate_simps) (simp add: sp_saveDocument_def Let_def)
next
  case (SaveNewDocument doc)
  with assms show ?thesis
    by (simp add: simulate_simps sp_saveNewDocument_def) (simp add: sp_saveDocument_def Let_def)
next
  case (DeleteDocument d)
  with assms show ?thesis
    by (auto simp: simulate_simps Let_def) (simp add: store_deleteDocument)
next
  case (CreateNewCentroid c)
  with assms show ?thesis by (auto simp: simulate_simps sp_createNewCentroid_def)
next
  case (SaveCentroid c centroid)
  with assms show ?thesis by (simp add: simulate_simps) (simp add: sp_saveCentroid_def Let_def)
next
  case (DeleteCentroid c)
  with assms show ?thesis
    by (auto simp: simulate_simps Let_def) (simp add: store_deleteCentroid)
next
  case (AddDocumentToCentroid c d)
  with assms show ?thesis by (auto simp: simulate_simps sp_addDocumentToCentroid_def Let_def)
next
  case (RemoveDocumentFromCentroid c d)
  with assms show ?thesis
    by (auto simp: simulate_simps sp_removeDocumentFromCentroid_def Let_def case_prod_unfold key_eqs)
next
  case (SetCentroidMetadata c n v)
  with assms show ?thesis by (simp add: simulate_simps) (simp add: sp_setCentroidMetadata_def)
qed

lemma simulate_requests:
  "list_all plain_request rs \<Longrightarrow>
   cat_requests (catalog_of (map_of (entries db))) rs =
     (catalog_of (map_of (entries (fst (run_requests api db rs)))), snd (run_requests api db rs))"
proof (induction rs arbitrary: db)
  case (Cons r rs)
  then show ?case by (simp add: simulate_request case_prod_unfold Let_def)
qed simp

end

section \<open>The log database keeps the laws\<close>

interpretation log_catalog: env_contract log_env log_entries
proof (rule env_contract.intro)
  show "rocksdb_contract log_env log_entries"
    unfolding log_env_def by (rule log_db.rocksdb_contract_axioms)
  show "env_contract_axioms log_env"
    by unfold_locales (simp_all add: log_env_def log_api_def of_unary_unary)
qed

definition empty_catalog :: catalog where
  "empty_catalog = \<lparr>cat_docs = {}, cat_cents = {}, cat_members = {}, cat_refs = {}\<rparr>"

lemma catalog_of_empty: "catalog_of Map.empty = empty_catalog"
  by (simp add: catalog_of_def empty_catalog_def)

section \<open>Invariants of the catalog\<close>

definition cat_inv :: "catalog \<Rightarrow> bool" where
  "cat_inv L \<longleftrightarrow> fst ` cat_members L \<subseteq> cat_cents L \<and> fst ` cat_refs L \<subseteq> cat_docs L"

lemma cat_inv_step: "cat_inv L \<Longrightarrow> cat_inv (fst (cat_request L r))"
  by (cases r) (auto simp: cat_inv_def image_subset_iff)

lemma cat_inv_requests: "cat_inv L \<Longrightarrow> cat_inv (fst (cat_requests L rs))"
proof (induction rs arbitrary: L)
  case (Cons r rs)
  then show ?case using cat_inv_step [of L r] by (simp add: case_prod_unfold Let_def)
qed simp

fun keeps_data :: "request \<Rightarrow> bool" where
  "keeps_data (DeleteDocument d) = False"
| "keeps_data (DeleteCentroid c) = False"
| "keeps_data r = True"

definition cat_sym :: "catalog \<Rightarrow> bool" where
  "cat_sym L \<longleftrightarrow> cat_refs L = (cat_members L)\<inverse>"

lemma cat_sym_step: "cat_sym L \<Longrightarrow> keeps_data r \<Longrightarrow> cat_sym (fst (cat_request L r))"
  by (cases r) (auto simp: cat_sym_def)

lemma cat_sym_requests:
  "cat_sym L \<Longrightarrow> list_all keeps_data rs \<Longrightarrow> cat_sym (fst (cat_requests L rs))"
proof (induction rs arbitrary: L)
  case (Cons r rs)
  then show ?case using cat_sym_step [of L r] by (simp add: case_prod_unfold Let_def)
qed simp

section \<open>Properties of the store\<close>

text \<open>
  C6.  The store refines the catalog: over plain identifiers, any sequence of the operations that
  change documents, centroids and memberships gives, step by step, the results (errors included)
  of the abstract catalog, and its keys afterwards are the catalog afterwards.
\<close>

theorem store_refines_catalog:
  assumes "env_contract api entries" and "list_all plain_request rs"
  shows "cat_requests (catalog_of (map_of (entries db))) rs =
    (catalog_of (map_of (entries (fst (run_requests api db rs)))), snd (run_requests api db rs))"
  by (rule env_contract.simulate_requests [OF assms])

theorem store_refines_catalog_witness:
  "snd (run_requests log_env [] [CreateNewCentroid ''c'', SaveNewDocument (sample_document ''d''),
      AddDocumentToCentroid ''c'' ''d'', AddDocumentToCentroid ''c'' ''d'', DeleteDocument ''d'',
      RemoveDocumentFromCentroid ''c'' ''d'', DeleteCentroid ''c'', DeleteCentroid ''c'']) =
    [Inr True, Inr True, Inr True, Inl EDocumentAlreadyInCentroid, Inr True,
      Inl EDocumentDoesNotExist, Inr True, Inl ECentroidDoesNotExist]"
proof -
  have "log_entries [] = []" by simp
  then show ?thesis
    using store_refines_catalog [OF log_catalog.env_contract_axioms, of "[CreateNewCentroid ''c'',
      SaveNewDocument (sample_document ''d''), AddDocumentToCentroid ''c'' ''d'',
      AddDocumentToCentroid ''c'' ''d'', DeleteDocument ''d'', RemoveDocumentFromCentroid ''c'' ''d'',
      DeleteCentroid ''c'', DeleteCentroid ''c'']" "[]"]
    by (simp add: catalog_of_empty empty_catalog_def sample_document_def del: run_requests.simps)
qed

end
