(* ===== verification/Listing.thy ===== *)
theory Listing
  imports Catalog
begin

text \<open>
  The listings of \<open>SyncPersistence\<close> over a database that keeps the contract: the identifiers under
  a prefix in key order (\<open>ids_under\<close>), the pages cut out of them by offset and by identifier, the
  unused documents, and the properties of the store that span its operations.
\<close>

section \<open>Identifiers under a prefix\<close>

definition ids_under :: "(string \<times> string) list \<Rightarrow> string \<Rightarrow> string list" where
  "ids_under m pre = map (\<lambda>p. key_id (fst p)) (filter (\<lambda>p. prefix (pre @ '':'') (fst p)) m)"

lemma key_id_under: "plain pre \<Longrightarrow> prefix (pre @ '':'') k \<Longrightarrow> pre @ '':'' @ key_id k = k"
  by (auto elim!: prefixE simp: key_id_split)

lemma ids_under_keys:
  "plain pre \<Longrightarrow> map fst (filter (\<lambda>p. prefix (pre @ '':'') (fst p)) m) = map (\<lambda>i. pre @ '':'' @ i) (ids_under m pre)"
  by (auto simp: ids_under_def dest: key_id_under [THEN sym])

lemma sorted_ids_under:
  assumes "kv_sorted m" and "plain pre"
  shows "sorted_wrt (<) (ids_under m pre)"
proof -
  have "sorted_wrt (<) (map (\<lambda>i. pre @ '':'' @ i) (ids_under m pre))"
    using kv_sorted_filter [OF assms(1)] ids_under_keys [OF assms(2)] by metis
  then show ?thesis by (simp only: sorted_wrt_map append_less_append_iff)
qed

lemma set_ids_under:
  assumes "plain pre"
  shows "i \<in> set (ids_under m pre) \<longleftrightarrow> map_of m (pre @ '':'' @ i) \<noteq> None"
proof -
  have "i \<in> set (ids_under m pre) \<longleftrightarrow> pre @ '':'' @ i \<in> set (map (\<lambda>i. pre @ '':'' @ i) (ids_under m pre))"
    by auto
  also have "\<dots> \<longleftrightarrow> pre @ '':'' @ i \<in> fst ` set m"
    unfolding ids_under_keys [OF assms, symmetric] by force
  finally show ?thesis by (simp only: kv_key_map_of)
qed

lemma visit_collect_id: "visit r collect_id acc = acc @ map (\<lambda>p. key_id (fst p)) r"
  by (induction r arbitrary: acc) (auto simp: collect_id_def)

lemma ids_under_from:
  "plain pre \<Longrightarrow> map (\<lambda>p. key_id (fst p))
     (filter (\<lambda>p. prefix (pre @ '':'') (fst p) \<and> pre @ '':'' @ start \<le> fst p) m) =
   filter (\<lambda>i. start \<le> i) (ids_under m pre)"
proof -
  assume pre: "plain pre"
  have "pre @ '':'' @ start \<le> k \<longleftrightarrow> start \<le> key_id k" if "prefix (pre @ '':'') k" for k
    using key_id_under [OF pre that] append_le_append_iff [of "pre @ '':''" start "key_id k"] by simp
  then have "filter (\<lambda>p. prefix (pre @ '':'') (fst p) \<and> pre @ '':'' @ start \<le> fst p) m =
      filter (\<lambda>p. prefix (pre @ '':'') (fst p) \<and> start \<le> key_id (fst p)) m"
    by (intro filter_cong) auto
  also have "map (\<lambda>p. key_id (fst p)) \<dots> = filter (\<lambda>i. start \<le> i) (ids_under m pre)"
    by (simp add: ids_under_def filter_map o_def conj_commute)
  finally show ?thesis .
qed

context rocksdb_contract
begin

lemma list_under:
  "snd (rock_iterPrefix api db pre collect_id []) = ids_under (entries db) pre"
  "snd (rock_iterPrefixFromOffset api db pre off n collect_id []) = take n (drop off (ids_under (entries db) pre))"
  "plain pre \<Longrightarrow> snd (rock_iterPrefixFromMember api db pre start n collect_id []) =
     take n (filter (\<lambda>i. start \<le> i) (ids_under (entries db) pre))"
  by (simp_all add: iterPrefix_eq iterPrefixFromOffset_eq iterPrefixFromMember_eq visit_collect_id
      Let_def ids_under_from [symmetric] take_map [symmetric] drop_map [symmetric])
    (simp_all add: ids_under_def take_map drop_map)

end

section \<open>The unused documents\<close>

text \<open>A limit of 0 is no limit.\<close>

definition limited :: "nat \<Rightarrow> nat \<Rightarrow> 'a list \<Rightarrow> 'a list" where
  "limited limit seen xs = (if limit = 0 then xs else take (limit - seen) xs)"

lemma limited_simps [simp]:
  "limited limit seen [] = []"
  "limited 0 seen xs = xs"
  "0 < limit \<Longrightarrow> seen \<ge> limit \<Longrightarrow> limited limit seen xs = []"
  "seen < limit \<Longrightarrow> limited limit seen (x # xs) = x # limited limit (Suc seen) xs"
  by (auto simp: limited_def Suc_diff_Suc [symmetric])

lemma visit_unused:
  "limit = 0 \<or> seen < limit \<Longrightarrow>
   fst (visit r (unused_callback api db limit) (acc, seen)) =
     acc @ limited limit seen (filter (\<lambda>i. \<not> isDocumentInAnyCentroid api db i) (map (\<lambda>p. key_id (fst p)) r))"
proof (induction r arbitrary: acc seen)
  case (Cons p r)
  obtain key val where p: "p = (key, val)" by (cases p)
  consider "isDocumentInAnyCentroid api db (key_id key)"
    | "\<not> isDocumentInAnyCentroid api db (key_id key)" "limit = 0"
    | "\<not> isDocumentInAnyCentroid api db (key_id key)" "0 < limit" "Suc seen = limit"
    | "\<not> isDocumentInAnyCentroid api db (key_id key)" "0 < limit" "Suc seen < limit"
    using Cons.prems by linarith
  then show ?case
    by cases (use Cons in \<open>auto simp: p unused_callback_def Let_def\<close>)
qed simp

definition old_unused :: "('db, 'z) env_scheme \<Rightarrow> 64 word \<Rightarrow> 'db \<Rightarrow> string \<Rightarrow> bool" where
  "old_unused api cutoff db i \<longleftrightarrow> \<not> isDocumentInAnyCentroid api db i \<and>
     (case getDocumentCreatedTime api db i of
        Some (Some t) \<Rightarrow> sint t < sint cutoff
      | _ \<Rightarrow> True)"

lemma old_unused_step:
  "getDocumentCreatedTime api db (key_id key) \<noteq> None \<Longrightarrow>
   old_unused_callback api cutoff limit key val (db, seen, False) =
     (if old_unused api cutoff db (key_id key) then
        let db = fst (sp_deleteDocument api db (key_id key)) in
        if limit > 0 then ((db, Suc seen, False), Suc seen \<ge> limit) else ((db, seen, False), False)
      else ((db, seen, False), False))"
  by (auto simp: old_unused_callback_def old_unused_def Let_def split: option.split)

context env_contract
begin

lemma doc_reads_after_delete:
  assumes "plain i" and "plain j" and "i \<noteq> j"
  shows "isDocumentInAnyCentroid api (fst (sp_deleteDocument api db i)) j = isDocumentInAnyCentroid api db j"
    and "getDocumentCreatedTime api (fst (sp_deleteDocument api db i)) j = getDocumentCreatedTime api db j"
  using assms
  by (auto simp: isDocumentInAnyCentroid_iff getDocumentCreatedTime_def rock_get_eq store_deleteDocument key_eqs)

lemma old_unused_after_delete:
  "plain i \<Longrightarrow> plain j \<Longrightarrow> i \<noteq> j \<Longrightarrow>
   old_unused api cutoff (fst (sp_deleteDocument api db i)) j = old_unused api cutoff db j"
  by (simp add: old_unused_def doc_reads_after_delete)

lemma visit_old_unused:
  assumes "limit = 0 \<or> seen < limit"
    and "distinct (map (\<lambda>p. key_id (fst p)) r)"
    and "\<forall>p \<in> set r. plain (key_id (fst p)) \<and> getDocumentCreatedTime api db (key_id (fst p)) \<noteq> None"
  shows "visit r (old_unused_callback api cutoff limit) (db, seen, False) =
    (let del = limited limit seen (filter (old_unused api cutoff db) (map (\<lambda>p. key_id (fst p)) r))
     in (fold (\<lambda>i db. fst (sp_deleteDocument api db i)) del db,
         (if limit = 0 then seen else seen + length del), False))"
  using assms
proof (induction r arbitrary: db seen)
  case (Cons p r)
  obtain key val where p: "p = (key, val)" by (cases p)
  let ?i = "key_id key" and ?db = "fst (sp_deleteDocument api db (key_id key))"
  have "getDocumentCreatedTime api db ?i \<noteq> None" "plain ?i" using Cons.prems(3) by (simp_all add: p)
  note step = old_unused_step [OF this(1)]
  have same: "filter (old_unused api cutoff ?db) (map (\<lambda>p. key_id (fst p)) r) =
      filter (old_unused api cutoff db) (map (\<lambda>p. key_id (fst p)) r)"
    by (intro filter_cong refl old_unused_after_delete) (use Cons.prems in \<open>auto simp: p\<close>)
  have later: "\<forall>p \<in> set r. plain (key_id (fst p)) \<and> getDocumentCreatedTime api ?db (key_id (fst p)) \<noteq> None"
  proof
    fix q assume q: "q \<in> set r"
    then have "key_id key \<noteq> key_id (fst q)" using Cons.prems(2) by (force simp: p)
    with q Cons.prems(3) show "plain (key_id (fst q)) \<and> getDocumentCreatedTime api ?db (key_id (fst q)) \<noteq> None"
      by (simp add: p doc_reads_after_delete)
  qed
  consider "\<not> old_unused api cutoff db ?i"
    | "old_unused api cutoff db ?i" "limit = 0"
    | "old_unused api cutoff db ?i" "0 < limit" "Suc seen = limit"
    | "old_unused api cutoff db ?i" "0 < limit" "Suc seen < limit"
    using Cons.prems(1) by linarith
  then show ?case
  proof cases
    case 1
    with Cons show ?thesis by (simp add: p step)
  next
    case 2
    with Cons.prems Cons.IH [of seen ?db] later show ?thesis by (simp add: p step same Let_def)
  next
    case 3
    with Cons.prems show ?thesis by (simp add: p step Let_def)
  next
    case 4
    with Cons.prems Cons.IH [of "Suc seen" ?db] later show ?thesis by (simp add: p step same Let_def)
  qed
qed simp

lemma exists_after_deletes:
  "\<forall>i \<in> set del. plain i \<Longrightarrow>
   sp_doesDocumentExist api (fold (\<lambda>i db. fst (sp_deleteDocument api db i)) del db) d \<longleftrightarrow>
     sp_doesDocumentExist api db d \<and> d \<notin> set del"
  by (induction del arbitrary: db) (auto simp: exists_simps store_deleteDocument key_eqs)

end

context env_contract
begin

lemma members_listed:
  "plain c \<Longrightarrow> d \<in> set (listAllDocumentsForCentroidRaw api db c) \<longleftrightarrow>
     (c, d) \<in> cat_members (catalog_of (map_of (entries db)))"
  by (simp add: listAllDocumentsForCentroidRaw_def list_under getCentroidDocumentPrefix_def
      set_ids_under plain_suffixes catalog_of_mem getCentroidDocumentKey_def)

lemma refs_listed:
  "plain d \<Longrightarrow> c \<in> set (listDocumentCentroids api db d) \<longleftrightarrow>
     (d, c) \<in> cat_refs (catalog_of (map_of (entries db)))"
  by (simp add: listDocumentCentroids_def list_under getDocumentCentroidsPrefix_def
      set_ids_under plain_suffixes catalog_of_mem getDocumentCentroidKey_def)

lemma exists_listed:
  "sp_doesDocumentExist api db d \<longleftrightarrow> d \<in> cat_docs (catalog_of (map_of (entries db)))"
  "sp_doesCentroidExist api db c \<longleftrightarrow> c \<in> cat_cents (catalog_of (map_of (entries db)))"
  by (simp_all add: exists_simps catalog_of_mem)

lemma catalog_after_requests:
  "entries db = [] \<Longrightarrow> list_all plain_request rs \<Longrightarrow>
   catalog_of (map_of (entries (fst (run_requests api db rs)))) = fst (cat_requests empty_catalog rs)"
  using simulate_requests [of rs db] by (simp add: catalog_of_empty)

lemma listing_invariant:
  assumes "entries db = []" and "list_all plain_request rs" and "plain c" and "plain d"
  shows "isDocumentInAnyCentroid api (fst (run_requests api db rs)) d \<Longrightarrow>
           sp_doesDocumentExist api (fst (run_requests api db rs)) d"
    and "listAllDocumentsForCentroidRaw api (fst (run_requests api db rs)) c \<noteq> [] \<Longrightarrow>
           sp_doesCentroidExist api (fst (run_requests api db rs)) c"
proof -
  have "cat_inv (fst (cat_requests empty_catalog rs))"
    by (rule cat_inv_requests) (simp add: cat_inv_def empty_catalog_def)
  then have inv: "cat_inv (catalog_of (map_of (entries (fst (run_requests api db rs)))))"
    by (simp add: catalog_after_requests assms)
  show "sp_doesDocumentExist api (fst (run_requests api db rs)) d"
    if "isDocumentInAnyCentroid api (fst (run_requests api db rs)) d"
    using that inv assms(4) by (force simp: isDocumentInAnyCentroid_iff exists_simps cat_inv_def catalog_of_def)
  show "sp_doesCentroidExist api (fst (run_requests api db rs)) c"
    if nonempty: "listAllDocumentsForCentroidRaw api (fst (run_requests api db rs)) c \<noteq> []"
  proof -
    obtain d where "d \<in> set (listAllDocumentsForCentroidRaw api (fst (run_requests api db rs)) c)"
      using nonempty by (meson last_in_set)
    with inv show ?thesis
      by (auto simp: members_listed [OF assms(3)] exists_listed cat_inv_def)
  qed
qed

lemma listing_symmetric:
  assumes "entries db = []" and "list_all plain_request rs" and "list_all keeps_data rs"
    and "plain c" and "plain d"
  shows "d \<in> set (listAllDocumentsForCentroidRaw api (fst (run_requests api db rs)) c) \<longleftrightarrow>
         c \<in> set (listDocumentCentroids api (fst (run_requests api db rs)) d)"
proof -
  have "cat_sym (fst (cat_requests empty_catalog rs))"
    by (rule cat_sym_requests) (simp_all add: cat_sym_def empty_catalog_def assms)
  then show ?thesis
    by (simp add: members_listed refs_listed catalog_after_requests assms cat_sym_def)
qed

end

context env_contract
begin

lemma catalog_after_request:
  "plain_request r \<Longrightarrow>
   catalog_of (map_of (entries (fst (run_request api db r)))) =
     fst (cat_request (catalog_of (map_of (entries db))) r)"
  by (simp add: simulate_request)

lemma result_of_request:
  "plain_request r \<Longrightarrow>
   snd (run_request api db r) = snd (cat_request (catalog_of (map_of (entries db))) r)"
  by (simp add: simulate_request)

lemmas after_delete = catalog_after_request [of "DeleteDocument d" for d, simplified]
  catalog_after_request [of "SaveNewDocument doc" for doc, simplified]
  catalog_after_request [of "DeleteCentroid c" for c, simplified]

lemma membership_fails:
  "\<not> sp_doesDocumentExist api db d \<Longrightarrow> sp_doesCentroidExist api db c \<Longrightarrow>
     sp_removeDocumentFromCentroid api db c d = (db, Inl EDocumentDoesNotExist)"
  "sp_doesDocumentExist api db d \<Longrightarrow> sp_doesCentroidExist api db c \<Longrightarrow> plain c \<Longrightarrow>
     d \<in> set (listAllDocumentsForCentroidRaw api db c) \<Longrightarrow>
     sp_addDocumentToCentroid api db c d = (db, Inl EDocumentAlreadyInCentroid)"
  by (auto simp: sp_removeDocumentFromCentroid_def sp_addDocumentToCentroid_def members_listed
      catalog_of_mem rock_exists_eq)

lemma in_any_centroid:
  "plain d \<Longrightarrow> isDocumentInAnyCentroid api db d \<longleftrightarrow> (\<exists>c. (d, c) \<in> cat_refs (catalog_of (map_of (entries db))))"
  by (simp add: isDocumentInAnyCentroid_iff catalog_of_mem)

lemma deleted_document_stays:
  assumes "plain c" and "plain d" and "pd_id doc = d"
    and "sp_doesCentroidExist api db c" and "sp_doesDocumentExist api db d"
    and "d \<in> set (listAllDocumentsForCentroidRaw api db c)"
  shows "let db1 = fst (sp_deleteDocument api db d); db2 = fst (sp_saveNewDocument api db1 doc) in
    d \<in> set (listAllDocumentsForCentroidRaw api db1 c)
    \<and> sp_removeDocumentFromCentroid api db1 c d = (db1, Inl EDocumentDoesNotExist)
    \<and> sp_addDocumentToCentroid api db2 c d = (db2, Inl EDocumentAlreadyInCentroid)
    \<and> \<not> isDocumentInAnyCentroid api db2 d"
  unfolding Let_def using assms
  by (intro conjI membership_fails)
    (simp_all add: members_listed exists_listed after_delete in_any_centroid)

lemma deleted_centroid_stays_referenced:
  assumes "plain c" and "plain d" and "isDocumentInAnyCentroid api db d"
  shows "isDocumentInAnyCentroid api (fst (sp_deleteCentroid api db c)) d"
  using assms by (auto simp: in_any_centroid after_delete)

end

section \<open>Properties of the store\<close>

text \<open>
  C29.  From an empty database, after any operations over plain identifiers: a document that is in
  some centroid exists, and a centroid that lists a document exists, so that the listing of a
  centroid's documents fails exactly when the centroid does not exist.
\<close>

theorem listings_are_of_existing:
  assumes "env_contract api entries" and "entries db = []" and "list_all plain_request rs"
    and "plain c" and "plain d"
  shows "let db' = fst (run_requests api db rs) in
    (isDocumentInAnyCentroid api db' d \<longrightarrow> sp_doesDocumentExist api db' d) \<and>
    sp_listAllDocumentsForCentroid api db' c =
      (if sp_doesCentroidExist api db' c then Inr (listAllDocumentsForCentroidRaw api db' c)
       else Inl ECentroidDoesNotExist)"
  using env_contract.listing_invariant [OF assms]
  by (auto simp: sp_listAllDocumentsForCentroid_def Let_def)

theorem listings_are_of_existing_witness:
  "let db' = fst (run_requests log_env [] [CreateNewCentroid ''c'', DeleteCentroid ''c'']) in
    sp_listAllDocumentsForCentroid log_env db' ''c'' = Inl ECentroidDoesNotExist"
proof -
  have "\<not> sp_doesCentroidExist log_env
      (fst (run_requests log_env [] [CreateNewCentroid ''c'', DeleteCentroid ''c''])) ''c''"
    by (subst log_catalog.exists_listed, subst log_catalog.catalog_after_requests)
      (simp_all add: empty_catalog_def)
  then show ?thesis
    using listings_are_of_existing [OF log_catalog.env_contract_axioms, of "[]"
        "[CreateNewCentroid ''c'', DeleteCentroid ''c'']" "''c''" "''d''"]
    by (simp add: Let_def del: run_requests.simps)
qed

text \<open>
  C30.  From an empty database, after any operations over identifiers without colons of which none deletes a
  document or a centroid, the two indices agree: a centroid lists a document exactly when the document lists
  the centroid.
\<close>

theorem membership_indices_agree:
  assumes "env_contract api entries" and "entries db = []" and "list_all plain_request rs"
    and "list_all keeps_data rs" and "plain c" and "plain d"
  shows "d \<in> set (listAllDocumentsForCentroidRaw api (fst (run_requests api db rs)) c) \<longleftrightarrow>
         c \<in> set (listDocumentCentroids api (fst (run_requests api db rs)) d)"
  by (rule env_contract.listing_symmetric [OF assms])

theorem membership_indices_agree_witness:
  "''c'' \<in> set (listDocumentCentroids log_env (fst (run_requests log_env [] [CreateNewCentroid ''c'',
      SaveNewDocument (sample_document ''d''), AddDocumentToCentroid ''c'' ''d''])) ''d'')"
  by (subst membership_indices_agree [OF log_catalog.env_contract_axioms, symmetric])
    (simp_all add: log_catalog.members_listed log_catalog.catalog_after_requests
      sample_document_def empty_catalog_def del: run_requests.simps)

text \<open>
  Deleting a document leaves it in the listing of its centroids, and the entry stays: it
  cannot be removed from the centroid any more (the check that the document exists comes first,
  so nothing is written), and after the document is created again it cannot be added either,
  although it counts as a document of no centroid.
\<close>

theorem deleted_document_stays_listed:
  assumes "env_contract api entries" and "plain c" and "plain d" and "pd_id doc = d"
    and "sp_doesCentroidExist api db c" and "sp_doesDocumentExist api db d"
    and "d \<in> set (listAllDocumentsForCentroidRaw api db c)"
  shows "let db1 = fst (sp_deleteDocument api db d); db2 = fst (sp_saveNewDocument api db1 doc) in
    d \<in> set (listAllDocumentsForCentroidRaw api db1 c)
    \<and> sp_removeDocumentFromCentroid api db1 c d = (db1, Inl EDocumentDoesNotExist)
    \<and> sp_addDocumentToCentroid api db2 c d = (db2, Inl EDocumentAlreadyInCentroid)
    \<and> \<not> isDocumentInAnyCentroid api db2 d"
  by (rule env_contract.deleted_document_stays [OF assms])

definition sample_requests :: "request list" where
  "sample_requests = [CreateNewCentroid ''c'', SaveNewDocument (sample_document ''d''),
     AddDocumentToCentroid ''c'' ''d'']"

lemma sample_store:
  "sp_doesCentroidExist log_env (fst (run_requests log_env [] sample_requests)) ''c''"
  "sp_doesDocumentExist log_env (fst (run_requests log_env [] sample_requests)) ''d''"
  "''d'' \<in> set (listAllDocumentsForCentroidRaw log_env (fst (run_requests log_env [] sample_requests)) ''c'')"
  "isDocumentInAnyCentroid log_env (fst (run_requests log_env [] sample_requests)) ''d''"
  by (simp_all add: log_catalog.exists_listed log_catalog.members_listed log_catalog.in_any_centroid
      log_catalog.catalog_after_requests sample_requests_def sample_document_def empty_catalog_def
      del: run_requests.simps)

theorem deleted_document_stays_listed_witness:
  "let db1 = fst (sp_deleteDocument log_env (fst (run_requests log_env [] sample_requests)) ''d'') in
    sp_removeDocumentFromCentroid log_env db1 ''c'' ''d'' = (db1, Inl EDocumentDoesNotExist)"
  using deleted_document_stays_listed [OF log_catalog.env_contract_axioms, of "''c''" "''d''"
      "sample_document ''d''", OF _ _ _ sample_store(1-3)]
  by (simp add: Let_def sample_document_def)

text \<open>
  Deleting a centroid leaves the back references of its documents: a document of the deleted
  centroid keeps counting as used.
\<close>

theorem deleted_centroid_keeps_documents_used:
  assumes "env_contract api entries" and "plain c" and "plain d"
    and "isDocumentInAnyCentroid api db d"
  shows "isDocumentInAnyCentroid api (fst (sp_deleteCentroid api db c)) d"
  by (rule env_contract.deleted_centroid_stays_referenced [OF assms])

theorem deleted_centroid_keeps_documents_used_witness:
  "isDocumentInAnyCentroid log_env
     (fst (sp_deleteCentroid log_env (fst (run_requests log_env [] sample_requests)) ''c'')) ''d''"
  by (rule deleted_centroid_keeps_documents_used [OF log_catalog.env_contract_axioms _ _ sample_store(4)])
    simp_all

text \<open>
  Identifiers are not escaped in keys: adding a document to a centroid whose identifier
  starts with \<open>documents:\<close> creates the key of a document that nobody saved.
\<close>

theorem colon_identifier_forges_document:
  assumes "env_contract api entries"
    and "snd (sp_addDocumentToCentroid api db (''documents:'' @ a) d) = Inr True"
  shows "sp_doesDocumentExist api (fst (sp_addDocumentToCentroid api db (''documents:'' @ a) d))
           (a @ ''__documents:'' @ d)"
proof -
  have "getCentroidDocumentKey (''documents:'' @ a) d = getDocumentKey (a @ ''__documents:'' @ d)"
    by (simp add: getCentroidDocumentKey_def getDocumentKey_def getDocumentsPrefix_def)
  with assms(2) show ?thesis
    by (auto simp: sp_addDocumentToCentroid_def Let_def env_contract.exists_simps [OF assms(1)]
        env_contract.store_put [OF assms(1)] split: if_splits)
qed

theorem colon_identifier_forges_document_witness:
  "sp_doesDocumentExist log_env (fst (sp_addDocumentToCentroid log_env
      (fst (sp_saveDocument log_env (fst (sp_createNewCentroid log_env [] ''documents:a''))
        (sample_document ''d''))) ''documents:a'' ''d'')) ''a__documents:d''"
proof -
  let ?db = "fst (sp_saveDocument log_env (fst (sp_createNewCentroid log_env [] ''documents:a''))
        (sample_document ''d''))"
  have "snd (sp_addDocumentToCentroid log_env ?db (''documents:'' @ ''a'') ''d'') = Inr True"
    by (simp add: sp_addDocumentToCentroid_def log_catalog.exists_simps log_catalog.rock_exists_eq
        log_catalog.store_saveDocument log_catalog.store_saveCentroid sp_createNewCentroid_def
        Let_def key_forms sample_document_def)
  from colon_identifier_forges_document [OF log_catalog.env_contract_axioms this] show ?thesis by simp
qed

context env_contract
begin

lemma documents_under:
  "sp_listAllDocuments api db = ids_under (entries db) ''documents''"
  "sp_listDocumentRangeFromOffset api db off n = take n (drop off (ids_under (entries db) ''documents''))"
  "sp_listDocumentRangeFromId api db start n =
     take n (filter (\<lambda>i. start \<le> i) (ids_under (entries db) ''documents''))"
  "sp_listAllCentroids api db = ids_under (entries db) ''centroids''"
  "sp_listCentroidRangeFromOffset api db off n = take n (drop off (ids_under (entries db) ''centroids''))"
  "sp_listCentroidRangeFromId api db start n =
     take n (filter (\<lambda>i. start \<le> i) (ids_under (entries db) ''centroids''))"
  by (simp_all add: sp_listAllDocuments_def sp_listDocumentRangeFromOffset_def sp_listDocumentRangeFromId_def
      sp_listAllCentroids_def sp_listCentroidRangeFromOffset_def sp_listCentroidRangeFromId_def
      list_under getDocumentsPrefix_def getCentroidsPrefix_def)

lemma documents_listed:
  "sorted_wrt (<) (sp_listAllDocuments api db)"
  "i \<in> set (sp_listAllDocuments api db) \<longleftrightarrow> sp_doesDocumentExist api db i"
  "sorted_wrt (<) (sp_listAllCentroids api db)"
  "i \<in> set (sp_listAllCentroids api db) \<longleftrightarrow> sp_doesCentroidExist api db i"
  by (simp_all add: documents_under sorted_ids_under entries_sorted set_ids_under exists_simps
      getDocumentKey_def getCentroidKey_def getDocumentsPrefix_def getCentroidsPrefix_def)

lemma centroid_documents_under:
  "listAllDocumentsForCentroidRaw api db c = ids_under (entries db) (c @ ''__documents'')"
  "listCentroidDocumentRangeFromOffsetRaw api db c off n =
     take n (drop off (ids_under (entries db) (c @ ''__documents'')))"
  "plain c \<Longrightarrow> listCentroidDocumentRangeFromDocumentIdRaw api db c start n =
     take n (filter (\<lambda>i. start \<le> i) (ids_under (entries db) (c @ ''__documents'')))"
  by (simp_all add: listAllDocumentsForCentroidRaw_def listCentroidDocumentRangeFromOffsetRaw_def
      listCentroidDocumentRangeFromDocumentIdRaw_def list_under getCentroidDocumentPrefix_def plain_suffixes)

lemma unused_listed:
  "sp_listUnusedDocuments api db limit =
     limited limit 0 (filter (\<lambda>i. \<not> isDocumentInAnyCentroid api db i) (sp_listAllDocuments api db))"
proof -
  have "limit = 0 \<or> 0 < limit" by auto
  then show ?thesis
    by (simp add: visit_unused sp_listUnusedDocuments_def iterPrefix_eq documents_under ids_under_def getDocumentsPrefix_def)
qed

lemma old_unused_deleted:
  assumes "\<forall>i. sp_doesDocumentExist api db i \<longrightarrow> plain i \<and> getDocumentCreatedTime api db i \<noteq> None"
  shows "let del = limited limit 0 (filter (old_unused api (now - minAge) db) (sp_listAllDocuments api db));
             (db', res) = sp_deleteOldUnusedDocuments api now db minAge limit
         in (\<forall>i. sp_doesDocumentExist api db' i \<longleftrightarrow> sp_doesDocumentExist api db i \<and> i \<notin> set del)
            \<and> res = Some (if limit = 0 then 0 else length del)"
proof -
  let ?r = "filter (\<lambda>p. prefix (''documents:'') (fst p)) (entries db)"
  let ?ids = "map (\<lambda>p. key_id (fst p)) ?r"
  let ?del = "limited limit 0 (filter (old_unused api (now - minAge) db) ?ids)"
  have ids: "?ids = sp_listAllDocuments api db" by (simp add: documents_under ids_under_def)
  then have dist: "distinct ?ids"
    using documents_listed(1) by (metis strict_sorted_iff)
  have ok: "\<forall>p \<in> set ?r. plain (key_id (fst p)) \<and> getDocumentCreatedTime api db (key_id (fst p)) \<noteq> None"
  proof
    fix p assume "p \<in> set ?r"
    then have "key_id (fst p) \<in> set ?ids" by simp
    then show "plain (key_id (fst p)) \<and> getDocumentCreatedTime api db (key_id (fst p)) \<noteq> None"
      using assms documents_listed(2) by (metis ids)
  qed
  have lim: "limit = 0 \<or> 0 < limit" by auto
  have run: "sp_deleteOldUnusedDocuments api now db minAge limit =
      (fold (\<lambda>i db. fst (sp_deleteDocument api db i)) ?del db, Some (if limit = 0 then 0 else length ?del))"
    using visit_old_unused [OF lim dist ok, of "now - minAge"]
    by (cases "limit = 0") (simp_all add: sp_deleteOldUnusedDocuments_def iterPrefix_eq getDocumentsPrefix_def Let_def)
  have "set ?del \<subseteq> set ?ids" by (auto simp: limited_def dest: in_set_takeD)
  moreover have "\<forall>i \<in> set ?ids. plain i"
    unfolding ids documents_listed(2) [THEN eq_reflection] Ball_def using assms by blast
  ultimately have "\<forall>i \<in> set ?del. plain i" by (meson subsetD)
  note ex = exists_after_deletes [OF this, of db, unfolded ids]
  show ?thesis unfolding run [unfolded ids] Let_def prod.case by (intro conjI allI ex refl)
qed

lemma load_after_save:
  assumes "thrift_de_doc api (thrift_ser_doc api (dto_of_document doc)) = Some (dto_of_document doc)"
    and "\<forall>w \<in> set (pd_scoredWords doc). wf_word w" and "pd_sha1Hash doc \<noteq> Some ''''"
    and "plain (pd_id doc)"
  shows "let db' = fst (sp_saveDocument api db doc) in
    sp_loadDocument api db' (pd_id doc) = Some (Inr doc)
    \<and> getDocumentCreatedTime api db' (pd_id doc) = Some (Some (pd_created doc))
    \<and> (\<forall>i. i \<noteq> pd_id doc \<longrightarrow> sp_loadDocument api db' i = sp_loadDocument api db i)
    \<and> (\<forall>c. sp_loadCentroid api db' c = sp_loadCentroid api db c)"
  using assms
  by (auto simp: Let_def sp_loadDocument_def sp_loadCentroid_def getDocumentCreatedTime_def rock_get_eq
      store_saveDocument key_eqs document_binary_roundtrip i64_roundtrip)

end

text \<open>
  C9.  The listing of all documents is in strictly increasing byte order and holds exactly the
  existing documents; the page of \<open>n\<close> from an offset is that window of it, and the page from an
  identifier (which need not exist) starts at the first identifier that is not smaller.
\<close>

theorem document_pages:
  assumes "env_contract api entries"
  shows "let ids = sp_listAllDocuments api db in
    sorted_wrt (<) ids \<and> (\<forall>i. i \<in> set ids \<longleftrightarrow> sp_doesDocumentExist api db i)
    \<and> sp_listDocumentRangeFromOffset api db off n = take n (drop off ids)
    \<and> sp_listDocumentRangeFromId api db start n = take n (filter (\<lambda>i. start \<le> i) ids)"
  using env_contract.documents_listed(1,2) [OF assms]
  by (simp add: Let_def env_contract.documents_under [OF assms])

theorem document_pages_witness:
  "sp_listDocumentRangeFromId log_env [(''documents:b'', ''''), (''documents:a'', ''''), (''other:c'', '''')]
     ''aa'' 5 = [''b'']"
proof -
  have "log_entries [(''documents:b'', ''''), (''documents:a'', ''''), (''other:c'', '''')] =
      [(''documents:a'', ''''), (''documents:b'', ''''), (''other:c'', '''')]"
    by (simp add: less_char_def)
  then have "sp_listAllDocuments log_env
      [(''documents:b'', ''''), (''documents:a'', ''''), (''other:c'', '''')] = [''a'', ''b'']"
    by (simp add: log_catalog.documents_under ids_under_def key_id_def)
  then show ?thesis
    using document_pages [OF log_catalog.env_contract_axioms,
        of "[(''documents:b'', ''''), (''documents:a'', ''''), (''other:c'', '''')]" 0 5 "''aa''"]
    by (simp add: Let_def less_eq_char_def)
qed

text \<open>
  C38.  The documents of a centroid (without a colon in its identifier) are listed in strictly increasing
  byte order; the pages by offset and by identifier are windows of this listing, and they fail with
  \<open>ECentroidDoesNotExist\<close> exactly when the page is empty and the centroid does not exist.
\<close>

theorem centroid_document_pages:
  assumes "env_contract api entries" and "plain c"
  shows "let ids = listAllDocumentsForCentroidRaw api db c;
             result = (\<lambda>page. if page = [] \<and> \<not> sp_doesCentroidExist api db c then Inl ECentroidDoesNotExist else Inr page)
    in sorted_wrt (<) ids \<and> sp_listAllDocumentsForCentroid api db c = result ids
    \<and> sp_listCentroidDocumentRangeFromOffset api db c off n = result (take n (drop off ids))
    \<and> sp_listCentroidDocumentRangeFromDocumentId api db c start n =
        result (take n (filter (\<lambda>i. start \<le> i) ids))
    \<and> sp_listCentroidDocumentRangeFromOffsetOption api db c off n =
        optionOfTry (result (take n (drop off ids)))
    \<and> sp_listCentroidDocumentRangeFromDocumentIdOption api db c start n =
        optionOfTry (result (take n (filter (\<lambda>i. start \<le> i) ids)))"
  using env_contract.centroid_documents_under [OF assms(1)] assms(2)
    sorted_ids_under [OF rocksdb_contract.entries_sorted [OF env_contract.axioms(1) [OF assms(1)]]]
  by (simp add: plain_suffixes Let_def sp_listAllDocumentsForCentroid_def sp_listCentroidDocumentRangeFromOffset_def
      sp_listCentroidDocumentRangeFromDocumentId_def sp_listCentroidDocumentRangeFromOffsetOption_def
      sp_listCentroidDocumentRangeFromDocumentIdOption_def)

theorem centroid_document_pages_witness:
  "sp_listCentroidDocumentRangeFromOffset log_env [] ''c'' 0 3 = Inl ECentroidDoesNotExist"
proof -
  have "listAllDocumentsForCentroidRaw log_env [] ''c'' = []"
    by (simp add: log_catalog.centroid_documents_under ids_under_def)
  then show ?thesis
    using centroid_document_pages [OF log_catalog.env_contract_axioms, of "''c''" "[]" 0 3 "''''"]
    by (simp add: Let_def log_catalog.exists_simps)
qed

text \<open>
  C39.  On a store in which no document has a colon in its identifier and every document has a created time
  or none, but not one that cannot be parsed: the unused documents are the listed documents without a back
  reference, in order, cut at the limit (0 for no limit); \<open>deleteOldUnusedDocuments\<close> deletes
  exactly those of them whose created time is unknown or older than the cutoff, up to the limit, while it
  iterates, and leaves every other document.  The count it returns is 0 whenever there is no limit.
\<close>

theorem deleteOldUnused_deletes_exactly:
  assumes "env_contract api entries"
    and "\<forall>i. sp_doesDocumentExist api db i \<longrightarrow> plain i \<and> getDocumentCreatedTime api db i \<noteq> None"
  shows "sp_listUnusedDocuments api db limit =
      limited limit 0 (filter (\<lambda>i. \<not> isDocumentInAnyCentroid api db i) (sp_listAllDocuments api db))
    \<and> (let del = limited limit 0 (filter (old_unused api (now - minAge) db) (sp_listAllDocuments api db));
           (db', res) = sp_deleteOldUnusedDocuments api now db minAge limit
       in (\<forall>i. sp_doesDocumentExist api db' i \<longleftrightarrow> sp_doesDocumentExist api db i \<and> i \<notin> set del)
          \<and> res = Some (if limit = 0 then 0 else length del))"
  using env_contract.unused_listed [OF assms(1)] env_contract.old_unused_deleted [OF assms]
  by blast

theorem deleteOldUnused_deletes_exactly_witness:
  "let (db', res) = sp_deleteOldUnusedDocuments log_env 100 [(''documents:a'', '''')] 10 0
    in \<not> sp_doesDocumentExist log_env db' ''a'' \<and> res = Some 0"
proof -
  let ?db = "[(''documents:a'', '''')]"
  have ids: "sp_listAllDocuments log_env ?db = [''a'']"
    by (simp add: log_catalog.documents_under ids_under_def key_id_def)
  have ex: "sp_doesDocumentExist log_env ?db i \<longleftrightarrow> i = ''a''" for i
    by (simp add: log_catalog.documents_listed(2) [symmetric] ids)
  have time: "getDocumentCreatedTime log_env ?db ''a'' = Some None"
    by (simp add: getDocumentCreatedTime_def log_catalog.rock_get_eq key_forms)
  have unused: "old_unused log_env cutoff ?db ''a''" for cutoff
    by (simp add: old_unused_def time log_catalog.isDocumentInAnyCentroid_iff key_forms)
  show ?thesis
    using deleteOldUnused_deletes_exactly [OF log_catalog.env_contract_axioms, of ?db 0 100 10]
    by (simp add: ex time ids unused Let_def case_prod_unfold)
qed

text \<open>
  C15.  A saved document reads back as it was saved, with its created time, and saving it changes no other
  document and no centroid, when there is no colon in its identifier, the Thrift codec returns the struct it
  was given, every word is at most 22 bytes long, and the hash is not the empty string.
\<close>

theorem saved_document_loads:
  assumes "env_contract api entries"
    and "thrift_de_doc api (thrift_ser_doc api (dto_of_document doc)) = Some (dto_of_document doc)"
    and "\<forall>w \<in> set (pd_scoredWords doc). wf_word w" and "pd_sha1Hash doc \<noteq> Some ''''"
    and "plain (pd_id doc)"
  shows "let db' = fst (sp_saveDocument api db doc) in
    sp_loadDocument api db' (pd_id doc) = Some (Inr doc)
    \<and> getDocumentCreatedTime api db' (pd_id doc) = Some (Some (pd_created doc))
    \<and> (\<forall>i. i \<noteq> pd_id doc \<longrightarrow> sp_loadDocument api db' i = sp_loadDocument api db i)
    \<and> (\<forall>c. sp_loadCentroid api db' c = sp_loadCentroid api db c)"
  by (rule env_contract.load_after_save [OF assms])

theorem saved_document_loads_witness:
  "sp_loadDocument log_env (fst (sp_saveDocument log_env [] (sample_document ''d''))) ''d''
     = Some (Inr (sample_document ''d''))"
proof -
  have "pd_id (sample_document ''d'') = ''d''" by (simp add: sample_document_def)
  then show ?thesis
    using saved_document_loads [OF log_catalog.env_contract_axioms, of "sample_document ''d''" "[]"]
    by (simp add: Let_def sample_document_wire) (simp add: sample_document_def wf_word_house)
qed

end
