(* ===== verification/Persistence.thy ===== *)
theory Persistence
  imports Listing "HOL-Library.State_Monad"
begin

text \<open>
  \<open>src/src/persistence/Persistence.cpp\<close> and \<open>CentroidMetadataDb.cpp\<close>.  \<open>Persistence\<close> runs every
  operation of \<open>SyncPersistence\<close> on a thread pool and returns a future.  A future of type
  \<open>('db, 'a) state\<close> is the computation that it will run on the database; \<open>.then\<close> is the bind of
  the state monad, and a future that is submitted without being waited for runs where it is
  submitted.  This is the execution in which the pool takes the tasks in the order of submission
  and runs each to its end before the next one.
\<close>

section \<open>Futures on the thread pool\<close>

definition addFuture :: "('db \<Rightarrow> 'db \<times> 'a) \<Rightarrow> ('db, 'a) state" where
  "addFuture task = State (\<lambda>db. case task db of (db', r) \<Rightarrow> (r, db'))"

lemma run_addFuture [simp]: "run_state (addFuture task) db = (snd (task db), fst (task db))"
  by (simp add: addFuture_def case_prod_unfold)

section \<open>Persistence\<close>

definition p_doesDocumentExist ::
  "('db, 'z) env_scheme \<Rightarrow> string \<Rightarrow> ('db, bool) state" where
  "p_doesDocumentExist api i =
     addFuture (\<lambda>db. (db, sp_doesDocumentExist api db i))"

definition p_saveDocument ::
  "('db, 'z) env_scheme \<Rightarrow> ProcessedDocument \<Rightarrow> ('db, bool Try) state" where
  "p_saveDocument api doc =
     addFuture (\<lambda>db. sp_saveDocument api db doc)"

definition p_saveNewDocument ::
  "('db, 'z) env_scheme \<Rightarrow> ProcessedDocument \<Rightarrow> ('db, bool Try) state" where
  "p_saveNewDocument api doc =
     addFuture (\<lambda>db. sp_saveNewDocument api db doc)"

definition p_deleteDocument ::
  "('db, 'z) env_scheme \<Rightarrow> string \<Rightarrow> ('db, bool Try) state" where
  "p_deleteDocument api i =
     addFuture (\<lambda>db. sp_deleteDocument api db i)"

definition p_listAllDocuments ::
  "('db, 'z) env_scheme \<Rightarrow> ('db, string list) state" where
  "p_listAllDocuments api =
     addFuture (\<lambda>db. (db, sp_listAllDocuments api db))"

definition p_listUnusedDocuments ::
  "('db, 'z) env_scheme \<Rightarrow> nat \<Rightarrow> ('db, string list) state" where
  "p_listUnusedDocuments api limit =
     addFuture (\<lambda>db. (db, sp_listUnusedDocuments api db limit))"

definition p_listDocumentRangeFromId ::
  "('db, 'z) env_scheme \<Rightarrow> string \<Rightarrow> nat \<Rightarrow> ('db, string list) state" where
  "p_listDocumentRangeFromId api startingDocumentId numToGet =
     addFuture (\<lambda>db. (db, sp_listDocumentRangeFromId api db startingDocumentId numToGet))"

definition p_listDocumentRangeFromOffset ::
  "('db, 'z) env_scheme \<Rightarrow> nat \<Rightarrow> nat \<Rightarrow> ('db, string list) state" where
  "p_listDocumentRangeFromOffset api offset numToGet =
     addFuture (\<lambda>db. (db, sp_listDocumentRangeFromOffset api db offset numToGet))"

definition p_loadDocument ::
  "('db, 'z) env_scheme \<Rightarrow> string \<Rightarrow> ('db, ProcessedDocument Try option) state" where
  "p_loadDocument api docId =
     addFuture (\<lambda>db. (db, sp_loadDocument api db docId))"

definition p_doesCentroidExist ::
  "('db, 'z) env_scheme \<Rightarrow> string \<Rightarrow> ('db, bool) state" where
  "p_doesCentroidExist api i =
     addFuture (\<lambda>db. (db, sp_doesCentroidExist api db i))"

definition p_createNewCentroid ::
  "('db, 'z) env_scheme \<Rightarrow> string \<Rightarrow> ('db, bool Try) state" where
  "p_createNewCentroid api i =
     addFuture (\<lambda>db. sp_createNewCentroid api db i)"

definition p_deleteCentroid ::
  "('db, 'z) env_scheme \<Rightarrow> string \<Rightarrow> ('db, bool Try) state" where
  "p_deleteCentroid api i =
     addFuture (\<lambda>db. sp_deleteCentroid api db i)"

definition p_saveCentroid ::
  "('db, 'z) env_scheme \<Rightarrow> string \<Rightarrow> Centroid \<Rightarrow> ('db, bool Try) state" where
  "p_saveCentroid api i centroid =
     addFuture (\<lambda>db. sp_saveCentroid api db i centroid)"

definition p_loadCentroid ::
  "('db, 'z) env_scheme \<Rightarrow> string \<Rightarrow> ('db, Centroid Try option) state" where
  "p_loadCentroid api i =
     addFuture (\<lambda>db. (db, sp_loadCentroid api db i))"

definition p_loadCentroidUniqueOption ::
  "('db, 'z) env_scheme \<Rightarrow> string \<Rightarrow> ('db, Centroid option option) state" where
  "p_loadCentroidUniqueOption api i =
     addFuture (\<lambda>db. (db, sp_loadCentroidUniqueOption api db i))"

definition p_listAllCentroids ::
  "('db, 'z) env_scheme \<Rightarrow> ('db, string list) state" where
  "p_listAllCentroids api =
     addFuture (\<lambda>db. (db, sp_listAllCentroids api db))"

definition p_listCentroidRangeFromOffset ::
  "('db, 'z) env_scheme \<Rightarrow> nat \<Rightarrow> nat \<Rightarrow> ('db, string list) state" where
  "p_listCentroidRangeFromOffset api offset limit =
     addFuture (\<lambda>db. (db, sp_listCentroidRangeFromOffset api db offset limit))"

definition p_listCentroidRangeFromId ::
  "('db, 'z) env_scheme \<Rightarrow> string \<Rightarrow> nat \<Rightarrow> ('db, string list) state" where
  "p_listCentroidRangeFromId api startingCentroidId limit =
     addFuture (\<lambda>db. (db, sp_listCentroidRangeFromId api db startingCentroidId limit))"

definition p_addDocumentToCentroid ::
  "('db, 'z) env_scheme \<Rightarrow> string \<Rightarrow> string \<Rightarrow> ('db, bool Try) state" where
  "p_addDocumentToCentroid api centroidId documentId =
     addFuture (\<lambda>db. sp_addDocumentToCentroid api db centroidId documentId)"

definition p_removeDocumentFromCentroid ::
  "('db, 'z) env_scheme \<Rightarrow> string \<Rightarrow> string \<Rightarrow> ('db, bool Try) state" where
  "p_removeDocumentFromCentroid api centroidId documentId =
     addFuture (\<lambda>db. sp_removeDocumentFromCentroid api db centroidId documentId)"

definition p_doesCentroidHaveDocument ::
  "('db, 'z) env_scheme \<Rightarrow> string \<Rightarrow> string \<Rightarrow> ('db, bool Try) state" where
  "p_doesCentroidHaveDocument api centroidId documentId =
     addFuture (\<lambda>db. (db, sp_doesCentroidHaveDocument api db centroidId documentId))"

definition p_listAllDocumentsForCentroid ::
  "('db, 'z) env_scheme \<Rightarrow> string \<Rightarrow> ('db, string list Try) state" where
  "p_listAllDocumentsForCentroid api centroidId =
     addFuture (\<lambda>db. (db, sp_listAllDocumentsForCentroid api db centroidId))"

definition p_listAllDocumentsForCentroidOption ::
  "('db, 'z) env_scheme \<Rightarrow> string \<Rightarrow> ('db, string list option) state" where
  "p_listAllDocumentsForCentroidOption api centroidId =
     addFuture (\<lambda>db. (db, sp_listAllDocumentsForCentroidOption api db centroidId))"

definition p_listCentroidDocumentRangeFromOffset ::
  "('db, 'z) env_scheme \<Rightarrow> string \<Rightarrow> nat \<Rightarrow> nat \<Rightarrow> ('db, string list Try) state" where
  "p_listCentroidDocumentRangeFromOffset api centroidId offset limit =
     addFuture (\<lambda>db. (db, sp_listCentroidDocumentRangeFromOffset api db centroidId offset limit))"

definition p_listCentroidDocumentRangeFromOffsetOption ::
  "('db, 'z) env_scheme \<Rightarrow> string \<Rightarrow> nat \<Rightarrow> nat \<Rightarrow> ('db, string list option) state" where
  "p_listCentroidDocumentRangeFromOffsetOption api centroidId offset limit =
     addFuture (\<lambda>db. (db, sp_listCentroidDocumentRangeFromOffsetOption api db centroidId offset limit))"

definition p_listCentroidDocumentRangeFromDocumentId ::
  "('db, 'z) env_scheme \<Rightarrow> string \<Rightarrow> string \<Rightarrow> nat \<Rightarrow> ('db, string list Try) state" where
  "p_listCentroidDocumentRangeFromDocumentId api centroidId documentId limit =
     addFuture (\<lambda>db. (db, sp_listCentroidDocumentRangeFromDocumentId api db centroidId documentId limit))"

definition p_listCentroidDocumentRangeFromDocumentIdOption ::
  "('db, 'z) env_scheme \<Rightarrow> string \<Rightarrow> string \<Rightarrow> nat \<Rightarrow> ('db, string list option) state" where
  "p_listCentroidDocumentRangeFromDocumentIdOption api centroidId documentId limit =
     addFuture (\<lambda>db. (db, sp_listCentroidDocumentRangeFromDocumentIdOption api db centroidId documentId limit))"

definition p_getCentroidMetadata ::
  "('db, 'z) env_scheme \<Rightarrow> string \<Rightarrow> string \<Rightarrow> ('db, string option) state" where
  "p_getCentroidMetadata api centroidId metadataName =
     addFuture (\<lambda>db. (db, sp_getCentroidMetadata api db centroidId metadataName))"

definition p_setCentroidMetadata ::
  "('db, 'z) env_scheme \<Rightarrow> string \<Rightarrow> string \<Rightarrow> string \<Rightarrow> ('db, bool Try) state" where
  "p_setCentroidMetadata api centroidId metadataName val =
     addFuture (\<lambda>db. sp_setCentroidMetadata api db centroidId metadataName val)"

text \<open>\<open>debugEraseAllData\<close> aborts the process when the database cannot be opened again: \<open>None\<close>.\<close>

definition p_debugEraseAllData :: "('db, 'z) env_scheme \<Rightarrow> ('db, unit option) state" where
  "p_debugEraseAllData api =
     addFuture (\<lambda>db. case sp_debugEraseAllData api db of None \<Rightarrow> (db, None) | Some db' \<Rightarrow> (db', Some ()))"

section \<open>CentroidMetadataDb\<close>

text \<open>Timestamps are 64-bit unsigned; a stored string that is not a number throws (\<open>None\<close>).\<close>

definition getMetadata ::
  "('db, 'z) env_scheme \<Rightarrow> string \<Rightarrow> string \<Rightarrow> ('db, 64 word option option) state" where
  "getMetadata api centroidId metadataName = do {
     keyVal \<leftarrow> p_getCentroidMetadata api centroidId metadataName;
     State_Monad.return (case keyVal of
         None \<Rightarrow> Some None
       | Some s \<Rightarrow> map_option Some (string_to_u64 api s))
   }"

definition setMetadata ::
  "('db, 'z) env_scheme \<Rightarrow> string \<Rightarrow> string \<Rightarrow> 64 word \<Rightarrow> ('db, bool Try) state" where
  "setMetadata api centroidId metadataName val =
     p_setCentroidMetadata api centroidId metadataName (u64_to_string api val)"

definition getCreatedTimestamp :: "('db, 'z) env_scheme \<Rightarrow> string \<Rightarrow> ('db, 64 word option option) state" where
  "getCreatedTimestamp api centroidId = getMetadata api centroidId ''created''"

definition getLastCalculatedTimestamp :: "('db, 'z) env_scheme \<Rightarrow> string \<Rightarrow> ('db, 64 word option option) state" where
  "getLastCalculatedTimestamp api centroidId = getMetadata api centroidId ''lastCalculated''"

definition getLastDocumentChangeTimestamp ::
  "('db, 'z) env_scheme \<Rightarrow> string \<Rightarrow> ('db, 64 word option option) state" where
  "getLastDocumentChangeTimestamp api centroidId = getMetadata api centroidId ''lastDocumentChange''"

definition isCentroidUpToDate :: "('db, 'z) env_scheme \<Rightarrow> string \<Rightarrow> ('db, bool Try option) state" where
  "isCentroidUpToDate api centroidId = do {
     stamp0 \<leftarrow> getLastCalculatedTimestamp api centroidId;
     stamp1 \<leftarrow> getLastDocumentChangeTimestamp api centroidId;
     case (stamp0, stamp1) of
       (Some lastCalculated, Some lastChanged) \<Rightarrow>
         if lastChanged = None \<and> lastCalculated = None then do {
           exists \<leftarrow> p_doesCentroidExist api centroidId;
           State_Monad.return (Some (if exists then Inr True else Inl ECentroidDoesNotExist))
         }
         else State_Monad.return (Some (case (lastChanged, lastCalculated) of
             (None, _) \<Rightarrow> Inr True
           | (_, None) \<Rightarrow> Inr False
           | (Some changed, Some calculated) \<Rightarrow> if changed > calculated then Inr False else Inr True))
     | _ \<Rightarrow> State_Monad.return None
   }"

definition setCreatedTimestamp :: "('db, 'z) env_scheme \<Rightarrow> string \<Rightarrow> 64 word \<Rightarrow> ('db, bool Try) state" where
  "setCreatedTimestamp api centroidId timestamp = setMetadata api centroidId ''created'' timestamp"

definition setLastCalculatedTimestamp :: "('db, 'z) env_scheme \<Rightarrow> string \<Rightarrow> 64 word \<Rightarrow> ('db, bool Try) state" where
  "setLastCalculatedTimestamp api centroidId timestamp = setMetadata api centroidId ''lastCalculated'' timestamp"

definition setLastDocumentChangeTimestamp ::
  "('db, 'z) env_scheme \<Rightarrow> string \<Rightarrow> 64 word \<Rightarrow> ('db, bool Try) state" where
  "setLastDocumentChangeTimestamp api centroidId timestamp =
     setMetadata api centroidId ''lastDocumentChange'' timestamp"

section \<open>Running futures\<close>

lemma run_bind [simp]: "run_state (State_Monad.bind f k) s = (let (a, s') = run_state f s in run_state (k a) s')"
  by (simp add: State_Monad.bind_def)

lemma run_return [simp]: "run_state (State_Monad.return a) s = (a, s)"
  by (simp add: State_Monad.return_def)

text \<open>The database and the result after a future.\<close>

abbreviation db_after :: "('s, 'a) state \<Rightarrow> 's \<Rightarrow> 's" where
  "db_after fut s \<equiv> snd (run_state fut s)"

abbreviation result_of :: "('s, 'a) state \<Rightarrow> 's \<Rightarrow> 'a" where
  "result_of fut s \<equiv> fst (run_state fut s)"

section \<open>PersistenceIf as a metadata store\<close>

text \<open>
  What \<open>CentroidMetadataDb\<close> relies on: for identifiers whose keys do not clash, a named value that
  was written is read back, and writing it changes no other value.
\<close>

locale metadata_store =
  fixes meta_get :: "'s \<Rightarrow> string \<Rightarrow> string \<Rightarrow> string option"
    and meta_set :: "'s \<Rightarrow> string \<Rightarrow> string \<Rightarrow> string \<Rightarrow> 's"
    and valid :: "string \<Rightarrow> bool"
  assumes get_set: "meta_get (meta_set s c n v) c n = Some v"
    and get_set_other: "valid c \<Longrightarrow> valid c' \<Longrightarrow> (c', n') \<noteq> (c, n) \<Longrightarrow>
          meta_get (meta_set s c n v) c' n' = meta_get s c' n'"
begin

lemma get_after_two:
  "valid c \<Longrightarrow> valid c' \<Longrightarrow> (c', n') \<noteq> (c, n) \<Longrightarrow>
   meta_get (meta_set (meta_set s c n v) c' n' v') c n = Some v"
  using get_set_other [of c' c n n' "meta_set s c n v" v'] by (auto simp: get_set)

end

lemma metadata_keys_apart:
  "plain c \<Longrightarrow> plain c' \<Longrightarrow> getCentroidMetadataKey c n = getCentroidMetadataKey c' n' \<longleftrightarrow> c = c' \<and> n = n'"
  by (simp_all only: key_forms split_at_colon plain_append plain_suffixes append_same_eq simp_thms)

sublocale env_contract \<subseteq> meta: metadata_store "sp_getCentroidMetadata api"
    "\<lambda>db c n v. fst (sp_setCentroidMetadata api db c n v)" plain
  by unfold_locales
    (auto simp: sp_getCentroidMetadata_def sp_setCentroidMetadata_def rock_get_eq store_put metadata_keys_apart)

context env_contract
begin

text \<open>A timestamp as the store has it: unreadable, absent, or a value.\<close>

lemma run_getMetadata:
  "run_state (getMetadata api c n) db =
     (case sp_getCentroidMetadata api db c n of
        None \<Rightarrow> Some None | Some s \<Rightarrow> map_option Some (string_to_u64 api s), db)"
  by (simp add: getMetadata_def p_getCentroidMetadata_def)

lemma run_setMetadata:
  "run_state (setMetadata api c n t) db =
     (Inr True, fst (sp_setCentroidMetadata api db c n (u64_to_string api t)))"
  by (simp add: setMetadata_def p_setCentroidMetadata_def sp_setCentroidMetadata_def)

lemma setMetadata_keeps_existence:
  "plain c \<Longrightarrow> sp_doesCentroidExist api (fst (sp_setCentroidMetadata api db c n v)) c' \<longleftrightarrow> sp_doesCentroidExist api db c'"
  by (auto simp: exists_simps sp_setCentroidMetadata_def store_put key_eqs)

lemma upToDate_after_stamps:
  assumes "plain c"
  shows "result_of (isCentroidUpToDate api c)
      (db_after (setLastDocumentChangeTimestamp api c changed)
        (db_after (setLastCalculatedTimestamp api c calculated) db)) = Some (Inr (changed \<le> calculated))"
    and "result_of (isCentroidUpToDate api c)
      (db_after (setLastCalculatedTimestamp api c calculated)
        (db_after (setLastDocumentChangeTimestamp api c changed) db)) = Some (Inr (changed \<le> calculated))"
  using assms
  by (auto simp: isCentroidUpToDate_def setLastDocumentChangeTimestamp_def setLastCalculatedTimestamp_def
      getLastDocumentChangeTimestamp_def getLastCalculatedTimestamp_def run_getMetadata run_setMetadata
      meta.get_set meta.get_set_other u64_roundtrip)

lemma metadata_of_deleted_centroid:
  "plain c \<Longrightarrow> sp_doesCentroidExist api db c \<Longrightarrow>
   sp_getCentroidMetadata api (fst (sp_deleteCentroid api db c)) c n = None"
  by (auto simp: sp_getCentroidMetadata_def rock_get_eq exists_simps store_deleteCentroid key_eqs)

lemma upToDate_without_stamps:
  assumes "sp_getCentroidMetadata api db c ''lastCalculated'' = None"
    and "sp_getCentroidMetadata api db c ''lastDocumentChange'' = None"
  shows "result_of (isCentroidUpToDate api c) db =
    Some (if sp_doesCentroidExist api db c then Inr True else Inl ECentroidDoesNotExist)"
  using assms
  by (simp add: isCentroidUpToDate_def getLastDocumentChangeTimestamp_def getLastCalculatedTimestamp_def
      run_getMetadata p_doesCentroidExist_def)

end

section \<open>Properties of the metadata\<close>

text \<open>
  C10.  Once both timestamps of a centroid without a colon in its identifier are written, in either order,
  it counts as up to date exactly when its last document change is not later than its last calculation; a
  change in the same second as the calculation started counts as contained in it.
\<close>

theorem upToDate_compares_seconds:
  assumes "env_contract api entries" and "plain c"
  shows "result_of (isCentroidUpToDate api c)
      (db_after (setLastDocumentChangeTimestamp api c changed)
        (db_after (setLastCalculatedTimestamp api c calculated) db)) = Some (Inr (changed \<le> calculated))
    \<and> result_of (isCentroidUpToDate api c)
      (db_after (setLastCalculatedTimestamp api c calculated)
        (db_after (setLastDocumentChangeTimestamp api c changed) db)) = Some (Inr (changed \<le> calculated))"
  using env_contract.upToDate_after_stamps [OF assms] by simp

theorem upToDate_compares_seconds_witness:
  "result_of (isCentroidUpToDate log_env ''c'')
     (db_after (setLastDocumentChangeTimestamp log_env ''c'' 5)
       (db_after (setLastCalculatedTimestamp log_env ''c'' 5) [])) = Some (Inr True)"
  using upToDate_compares_seconds [OF log_catalog.env_contract_axioms, of "''c''" 5 5 "[]"] by simp

text \<open>
  Deleting a centroid deletes its timestamps: the question whether it is up to date then
  fails with \<open>ECentroidDoesNotExist\<close>, and after it is created again it counts as up to date.
\<close>

theorem deleted_centroid_forgets_stamps:
  assumes "env_contract api entries" and "plain c" and "sp_doesCentroidExist api db c"
  shows "let db1 = fst (sp_deleteCentroid api db c) in
    result_of (isCentroidUpToDate api c) db1 = Some (Inl ECentroidDoesNotExist)
    \<and> result_of (isCentroidUpToDate api c) (fst (sp_createNewCentroid api db1 c)) = Some (Inr True)"
proof -
  let ?db1 = "fst (sp_deleteCentroid api db c)"
  note forget = env_contract.metadata_of_deleted_centroid [OF assms]
  have gone: "\<not> sp_doesCentroidExist api ?db1 c"
    using assms(2,3) by (simp add: env_contract.exists_simps [OF assms(1)] env_contract.store_deleteCentroid [OF assms(1)])
  have "sp_getCentroidMetadata api (fst (sp_createNewCentroid api ?db1 c)) c n = None" for n
    using forget [of n] assms(2)
    by (auto simp: sp_createNewCentroid_def sp_saveCentroid_def sp_getCentroidMetadata_def Let_def
        rocksdb_contract.rock_get_eq [OF env_contract.axioms(1) [OF assms(1)]]
        env_contract.store_put [OF assms(1)] key_eqs)
  moreover have "sp_doesCentroidExist api (fst (sp_createNewCentroid api ?db1 c)) c"
    using gone by (auto simp: sp_createNewCentroid_def sp_doesCentroidExist_def [symmetric] sp_saveCentroid_def Let_def
        env_contract.exists_simps [OF assms(1)] env_contract.store_put [OF assms(1)])
  ultimately show ?thesis
    by (simp add: env_contract.upToDate_without_stamps [OF assms(1)] forget gone Let_def)
qed

theorem deleted_centroid_forgets_stamps_witness:
  "result_of (isCentroidUpToDate log_env ''c'')
     (fst (sp_deleteCentroid log_env (fst (run_requests log_env [] sample_requests)) ''c''))
     = Some (Inl ECentroidDoesNotExist)"
  using deleted_centroid_forgets_stamps [OF log_catalog.env_contract_axioms _ sample_store(1)]
  by (simp add: Let_def)

end
