(* ===== verification/CentroidUpdate.thy ===== *)
theory CentroidUpdate
  imports Persistence
begin

text \<open>
  \<open>src/src/centroid_update_worker/DocumentAccumulator\<close> and \<open>CentroidUpdater\<close>: the recomputation of a
  centroid from its documents.  The identifiers are read in pages of 500, the documents of a page
  in batches; every document found is added to the accumulator, the sums become the centroid.
\<close>

section \<open>DocumentAccumulator\<close>

text \<open>\<open>scores_\<close> is the unordered map as an association list in the order of insertion.\<close>

record DocumentAccumulator =
  documentCount :: nat
  acc_scores :: "(string \<times> double) list"
  acc_magnitude :: double
  staleMagnitude :: bool

definition new_accumulator :: DocumentAccumulator where
  "new_accumulator = \<lparr>documentCount = 0, acc_scores = [], acc_magnitude = Num 0, staleMagnitude = True\<rparr>"

definition add_score ::
  "(real \<Rightarrow> double) \<Rightarrow> (string \<times> double) list \<Rightarrow> string \<Rightarrow> double \<Rightarrow> (string \<times> double) list" where
  "add_score rnd scores key sc =
     (case map_of scores key of
        None \<Rightarrow> scores @ [(key, sc)]
      | Some old \<Rightarrow> map (\<lambda>p. if fst p = key then (key, d_add rnd old sc) else p) scores)"

definition addDocument :: "(real \<Rightarrow> double) \<Rightarrow> DocumentAccumulator \<Rightarrow> ProcessedDocument \<Rightarrow> DocumentAccumulator" where
  "addDocument rnd acc document =
     (let acc = acc\<lparr>staleMagnitude := True\<rparr>;
          acc = acc\<lparr>documentCount := documentCount acc + 1\<rparr>
      in acc\<lparr>acc_scores := foldl (\<lambda>scores elem. add_score rnd scores (c_str (sw_word elem)) (sw_score elem))
              (acc_scores acc) (pd_scoredWords document)\<rparr>)"

text \<open>\<open>getScores\<close> moves the map out; \<open>getMagnitude\<close> fills the cached magnitude.\<close>

definition getScores :: "DocumentAccumulator \<Rightarrow> (string \<times> double) list \<times> DocumentAccumulator" where
  "getScores acc = (acc_scores acc, acc\<lparr>acc_scores := []\<rparr>)"

definition getMagnitude :: "(real \<Rightarrow> double) \<Rightarrow> DocumentAccumulator \<Rightarrow> double \<times> DocumentAccumulator" where
  "getMagnitude rnd acc =
     (if staleMagnitude acc then
        let centroidMagnitude = foldl (\<lambda>m elem. d_add rnd m (d_square rnd (snd elem))) (Num 0) (acc_scores acc);
            centroidMagnitude = d_sqrt rnd centroidMagnitude
        in (centroidMagnitude, acc\<lparr>acc_magnitude := centroidMagnitude, staleMagnitude := False\<rparr>)
      else (acc_magnitude acc, acc))"

definition getCount :: "DocumentAccumulator \<Rightarrow> nat" where
  "getCount acc = documentCount acc"

section \<open>CentroidUpdater::run\<close>

abbreviation idListBatchSize :: nat where "idListBatchSize \<equiv> 500"
abbreviation documentBatchSize :: nat where "documentBatchSize \<equiv> 20"

text \<open>
  The futures of a batch are submitted and collected in order.  A document that does not exist is
  \<open>None\<close>; a document that cannot be decoded makes \<open>collect(\<dots>).get()\<close> throw (the outer \<open>None\<close>).
\<close>

definition load_option ::
  "('db, 'z) env_scheme \<Rightarrow> string \<Rightarrow> ('db, ProcessedDocument option option) state" where
  "load_option api docId = do {
     res \<leftarrow> p_loadDocument api docId;
     State_Monad.return (map_option optionOfTry res)
   }"

fun load_batch ::
  "('db, 'z) env_scheme \<Rightarrow> string list \<Rightarrow> ('db, ProcessedDocument option list option) state" where
  "load_batch api [] = State_Monad.return (Some [])"
| "load_batch api (docId # docIds) = do {
     doc \<leftarrow> load_option api docId;
     docs \<leftarrow> load_batch api docIds;
     State_Monad.return (case (doc, docs) of (Some d, Some ds) \<Rightarrow> Some (d # ds) | _ \<Rightarrow> None)
   }"

text \<open>
  The loop over \<open>loadedDocuments\<close> at index \<open>i\<close>: a missing document is reported as \<open>idSet.at(i)\<close>,
  the \<open>i\<close>-th identifier of the page (not of the batch), and that one is removed from the centroid.
\<close>

fun add_loaded ::
  "('db, 'z) env_scheme \<Rightarrow> (real \<Rightarrow> double) \<Rightarrow> string \<Rightarrow> string list \<Rightarrow> nat \<Rightarrow>
     ProcessedDocument option list \<Rightarrow> DocumentAccumulator \<Rightarrow> ('db, DocumentAccumulator) state" where
  "add_loaded api rnd centroidId idSet i [] acc = State_Monad.return acc"
| "add_loaded api rnd centroidId idSet i (None # docs) acc = do {
     _ \<leftarrow> p_removeDocumentFromCentroid api centroidId (idSet ! i);
     add_loaded api rnd centroidId idSet (i + 1) docs acc
   }"
| "add_loaded api rnd centroidId idSet i (Some doc # docs) acc =
     add_loaded api rnd centroidId idSet (i + 1) docs (addDocument rnd acc doc)"

text \<open>The loop over the batches of a page, from \<open>docNum\<close>.\<close>

definition batch_ids :: "string list \<Rightarrow> nat \<Rightarrow> string list" where
  "batch_ids idSet docNum =
     (let lastDocIndex = min (length idSet - 1) (docNum + documentBatchSize)
      in map (\<lambda>i. idSet ! i) [docNum..<lastDocIndex + 1])"

function process_page ::
  "('db, 'z) env_scheme \<Rightarrow> (real \<Rightarrow> double) \<Rightarrow> string \<Rightarrow> string list \<Rightarrow> nat \<Rightarrow> DocumentAccumulator \<Rightarrow>
     ('db, DocumentAccumulator option) state" where
  "process_page api rnd centroidId idSet docNum acc =
     (if docNum < length idSet then do {
        loadedDocuments \<leftarrow> load_batch api (batch_ids idSet docNum);
        case loadedDocuments of
          None \<Rightarrow> State_Monad.return None
        | Some docs \<Rightarrow> do {
            acc \<leftarrow> add_loaded api rnd centroidId idSet 0 docs acc;
            process_page api rnd centroidId idSet (docNum + documentBatchSize) acc
          }
      }
      else State_Monad.return (Some acc))"
  by pat_completeness auto
termination
  by (relation "measure (\<lambda>(api, rnd, c, idSet, docNum, acc). length idSet - docNum)") auto

declare process_page.simps [simp del]

datatype 'a page_result = Threw | CentroidGone | Finished 'a

text \<open>
  The \<open>do \<dots> while\<close> over the pages.  Its value is \<open>None\<close> when the loop does not end.  The next page
  is submitted before the current one is processed; it starts at the last identifier of the
  current page.
\<close>

partial_function (option) page_loop ::
  "('db, 'z) env_scheme \<Rightarrow> (real \<Rightarrow> double) \<Rightarrow> string \<Rightarrow> string list \<Rightarrow> DocumentAccumulator \<Rightarrow> 'db \<Rightarrow>
     (DocumentAccumulator page_result \<times> 'db) option" where
  "page_loop api rnd centroidId idSet acc db =
     (let (nextIdSet, db) = run_state (p_listCentroidDocumentRangeFromDocumentIdOption api
            centroidId (last idSet) idListBatchSize) db;
          (acc', db) = run_state (process_page api rnd centroidId idSet 0 acc) db
      in case acc' of
           None \<Rightarrow> Some (Threw, db)
         | Some acc \<Rightarrow>
             (case nextIdSet of
                None \<Rightarrow> Some (CentroidGone, db)
              | Some idSet \<Rightarrow>
                  if length idSet \<ge> idListBatchSize then page_loop api rnd centroidId idSet acc db
                  else Some (Finished acc, db)))"

text \<open>
  The result of \<open>run\<close>: outer \<open>None\<close> for an endless loop, inner \<open>None\<close> for a thrown exception.
  The last write is submitted and not waited for.
\<close>

definition finish_run ::
  "('db, 'z) env_scheme \<Rightarrow> (real \<Rightarrow> double) \<Rightarrow> string \<Rightarrow> 64 word \<Rightarrow> DocumentAccumulator \<Rightarrow> ('db, bool Try) state" where
  "finish_run api rnd centroidId startTimestamp accumulator =
     (let centroid = new_Centroid centroidId;
          (mag, accumulator) = getMagnitude rnd accumulator;
          weight = d_of_nat rnd (getCount accumulator);
          (scores, accumulator) = getScores accumulator;
          centroid = centroid\<lparr>c_wordVector :=
            \<lparr>wv_scores = scores, wv_magnitude = mag, wv_documentWeight = weight\<rparr>\<rparr>
      in do {
        exists \<leftarrow> p_doesCentroidExist api centroidId;
        if \<not> exists then State_Monad.return (Inl ECentroidDoesNotExist)
        else do {
          _ \<leftarrow> p_saveCentroid api centroidId centroid;
          _ \<leftarrow> setLastCalculatedTimestamp api centroidId startTimestamp;
          State_Monad.return (Inr True)
        }
      })"

definition updater_run ::
  "('db, 'z) env_scheme \<Rightarrow> (real \<Rightarrow> double) \<Rightarrow> 64 word \<Rightarrow> string \<Rightarrow> 'db \<Rightarrow> (bool Try option \<times> 'db) option" where
  "updater_run api rnd epochTime centroidId db =
     (let (exists, db) = run_state (p_doesCentroidExist api centroidId) db in
      if \<not> exists then Some (Some (Inl ECentroidDoesNotExist), db)
      else
        let startTimestamp = epochTime;
            (firstIdSet, db) = run_state (p_listCentroidDocumentRangeFromOffsetOption api
               centroidId 0 idListBatchSize) db
        in case firstIdSet of
             None \<Rightarrow> Some (Some (Inl ECentroidDoesNotExist), db)
           | Some idSet \<Rightarrow>
               (case (if length idSet > 0 then page_loop api rnd centroidId idSet new_accumulator db
                      else Some (Finished new_accumulator, db)) of
                  None \<Rightarrow> None
                | Some (Threw, db) \<Rightarrow> Some (None, db)
                | Some (CentroidGone, db) \<Rightarrow> Some (Some (Inl ECentroidDoesNotExist), db)
                | Some (Finished acc, db) \<Rightarrow>
                    (case run_state (finish_run api rnd centroidId startTimestamp acc) db of
                       (res, db) \<Rightarrow> Some (Some res, db))))"

section \<open>The updater only removes entries\<close>

lemma run_load_batch_db: "db_after (load_batch api docIds) db = db"
proof (induction docIds arbitrary: db)
  case (Cons i docIds)
  then show ?case by (simp add: load_option_def p_loadDocument_def case_prod_unfold Let_def)
qed simp

context env_contract
begin

lemma removeDocument_shrinks:
  "map_of (entries (fst (sp_removeDocumentFromCentroid api db c d))) \<subseteq>\<^sub>m map_of (entries db)"
  by (auto simp: sp_removeDocumentFromCentroid_def Let_def case_prod_unfold store_del map_le_def)

lemma add_loaded_shrinks:
  "map_of (entries (db_after (add_loaded api rnd c idSet i docs acc) db)) \<subseteq>\<^sub>m map_of (entries db)"
proof (induction docs arbitrary: i acc db)
  case (Cons doc docs)
  show ?case
  proof (cases doc)
    case None
    then show ?thesis
      by (simp add: p_removeDocumentFromCentroid_def Let_def)
        (rule map_le_trans [OF Cons.IH removeDocument_shrinks])
  qed (simp add: Cons.IH)
qed simp

lemma process_page_shrinks:
  "map_of (entries (db_after (process_page api rnd c idSet docNum acc) db)) \<subseteq>\<^sub>m map_of (entries db)"
proof (induction "length idSet - docNum" arbitrary: docNum acc db rule: less_induct)
  case less
  show ?case
  proof (cases "docNum < length idSet")
    case True
    obtain docs where load: "run_state (load_batch api (batch_ids idSet docNum)) db = (docs, db)"
      using run_load_batch_db [of api _ db] by (metis prod.collapse)
    have smaller: "length idSet - (docNum + documentBatchSize) < length idSet - docNum"
      using True by simp
    show ?thesis
    proof (cases docs)
      case None
      then show ?thesis using True by (subst process_page.simps) (simp add: load)
    next
      case (Some ds)
      then show ?thesis
        using True
        by (subst process_page.simps) (simp add: load Let_def case_prod_unfold,
            rule map_le_trans [OF less [OF smaller] add_loaded_shrinks])
    qed
  qed (subst process_page.simps, simp)
qed

section \<open>The loop over the pages ends\<close>

abbreviation members :: "'db \<Rightarrow> string \<Rightarrow> string set" where
  "members db c \<equiv> set (listAllDocumentsForCentroidRaw api db c)"

lemma members_shrink:
  assumes "plain c" and "map_of (entries db') \<subseteq>\<^sub>m map_of (entries db)"
  shows "members db' c \<subseteq> members db c"
proof
  fix d assume "d \<in> members db' c"
  then obtain v where "map_of (entries db') (getCentroidDocumentKey c d) = Some v"
    using assms(1) by (auto simp: members_listed catalog_of_mem)
  then have "map_of (entries db) (getCentroidDocumentKey c d) = Some v"
    using assms(2) by (metis map_le_def domI)
  then show "d \<in> members db c" using assms(1) by (simp add: members_listed catalog_of_mem)
qed

lemma sorted_members: "plain c \<Longrightarrow> sorted_wrt (<) (listAllDocumentsForCentroidRaw api db c)"
  by (simp add: centroid_documents_under sorted_ids_under entries_sorted plain_suffixes)

lemma next_page_advances:
  fixes ids :: "string list"
  assumes "sorted_wrt (<) ids" and "page = take n (filter (\<lambda>i. start \<le> i) ids)" and "2 \<le> length page"
  shows "start < last page" and "\<exists>i \<in> set ids. start \<le> i \<and> i < last page" and "set page \<subseteq> set ids"
proof -
  have "sorted_wrt (<) page" using assms(1,2) by (simp add: sorted_wrt_take sorted_wrt_filter)
  moreover have "page ! 0 \<in> set page" "last page = page ! (length page - 1)"
    using assms(3) by (auto simp: last_conv_nth neq_Nil_conv Suc_le_length_iff numeral_2_eq_2)
  moreover have "\<forall>i \<in> set page. start \<le> i \<and> i \<in> set ids"
    using assms(2) by (auto dest: in_set_takeD)
  moreover have "0 < length page - 1" "length page - 1 < length page" using assms(3) by linarith+
  ultimately have "page ! 0 < last page" "start \<le> page ! 0" "page ! 0 \<in> set ids"
    by (auto simp: sorted_wrt_iff_nth_less)
  then show "start < last page" and "\<exists>i \<in> set ids. start \<le> i \<and> i < last page"
    by (auto intro: order.strict_trans1)
  show "set page \<subseteq> set ids" using assms(2) by (auto dest: in_set_takeD)
qed

lemma page_loop_returns:
  assumes "plain c"
  shows "\<exists>r. page_loop api rnd c idSet acc db = Some r"
proof (induction "card {i \<in> members db c. last idSet \<le> i}" arbitrary: idSet acc db rule: less_induct)
  case less
  let ?next = "listCentroidDocumentRangeFromDocumentIdRaw api db c (last idSet) idListBatchSize"
  obtain acc' db' where run: "run_state (process_page api rnd c idSet 0 acc) db = (acc', db')"
    by fastforce
  then have "map_of (entries db') \<subseteq>\<^sub>m map_of (entries db)"
    using process_page_shrinks [of rnd c idSet 0 acc db] by simp
  from members_shrink [OF assms this] have sub: "members db' c \<subseteq> members db c" .
  have nxt: "?next = take 500 (filter (\<lambda>i. last idSet \<le> i) (listAllDocumentsForCentroidRaw api db c))"
    using assms by (simp add: centroid_documents_under)
  have "\<exists>r. page_loop api rnd c ?next acc'' db' = Some r" if long: "500 \<le> length ?next" for acc''
  proof (rule less)
    have two: "2 \<le> length ?next" using long by linarith
    note adv = next_page_advances [OF sorted_members [OF assms] nxt two]
    have "{i \<in> members db' c. last ?next \<le> i} \<subset> {i \<in> members db c. last idSet \<le> i}"
      using adv(1,2) sub by (auto simp: psubset_eq set_eq_iff) (meson leD)
    then show "card {i \<in> members db' c. last ?next \<le> i} < card {i \<in> members db c. last idSet \<le> i}"
      by (intro psubset_card_mono) auto
  qed
  then show ?case
    by (subst page_loop.simps)
      (auto simp: run p_listCentroidDocumentRangeFromDocumentIdOption_def Let_def
        sp_listCentroidDocumentRangeFromDocumentIdOption_def split: option.split)
qed

end

section \<open>Which documents are added\<close>

text \<open>
  The documents a page adds, in order: each batch runs from its first index to the first index of
  the next batch, both included.
\<close>

function page_loads :: "'a list \<Rightarrow> 'a list" where
  "page_loads xs = (if xs = [] then [] else take 21 xs @ page_loads (drop 20 xs))"
  by pat_completeness auto
termination by (relation "measure length") auto

declare page_loads.simps [simp del]

lemma page_loads_Nil [simp]: "page_loads [] = []"
  by (simp add: page_loads.simps)

lemma page_loads_short: "length xs \<le> 20 \<Longrightarrow> page_loads xs = xs"
  by (subst page_loads.simps) simp

lemma length_page_loads: "length (page_loads xs) = length xs + (length xs - 1) div 20"
proof (induction xs rule: page_loads.induct)
  case (1 xs)
  show ?case
  proof (cases "length xs \<le> 20")
    case True
    then show ?thesis by (simp add: page_loads_short)
  next
    case False
    then obtain k where "length xs = k + 21" by (auto simp: not_le dest: less_imp_Suc_add)
    then have "(length xs - 1) div 20 = Suc ((length xs - 20 - 1) div 20)" by simp
    with False 1 show ?thesis by (subst page_loads.simps) auto
  qed
qed

lemma set_page_loads: "set (page_loads xs) = set xs"
proof (induction xs rule: page_loads.induct)
  case (1 xs)
  have "set xs = set (take 21 xs) \<union> set (drop 20 xs)"
    using set_append [of "take 20 xs" "drop 20 xs"] set_take_subset_set_take [of 20 21 xs]
      set_take_subset [of 21 xs] set_drop_subset [of 20 xs] by auto
  with 1 show ?case by (subst page_loads.simps) auto
qed

lemma batch_ids_eq: "docNum < length idSet \<Longrightarrow> batch_ids idSet docNum = take 21 (drop docNum idSet)"
  by (rule nth_equalityI) (auto simp: batch_ids_def Let_def nth_append simp del: upt_Suc)

text \<open>
  The documents all pages add: each page of 500 starts at the last identifier of the one before, and a
  further page counts only when it is full.
\<close>

function updater_loads :: "'a list \<Rightarrow> 'a list" where
  "updater_loads ids = page_loads (take 500 ids) @ (if 999 \<le> length ids then updater_loads (drop 499 ids) else [])"
  by pat_completeness auto
termination by (relation "measure length") auto

declare updater_loads.simps [simp del]

lemma updater_loads_Nil [simp]: "updater_loads [] = []"
  by (simp add: updater_loads.simps)

text \<open>How many of \<open>n\<close> documents are added at all.\<close>

definition covered :: "nat \<Rightarrow> nat" where
  "covered n = (if n \<le> 500 then n else 500 + 499 * ((n - 500) div 499))"

lemma covered_step: "999 \<le> n \<Longrightarrow> covered n = 499 + covered (n - 499)"
proof -
  assume "999 \<le> n"
  then obtain m where n: "n = m + 999" by (auto simp: nat_le_iff_add add.commute)
  have "(m + 499) div 499 = Suc (m div 499)" by simp
  then show ?thesis by (cases "m = 0") (simp_all add: n covered_def)
qed

lemma set_updater_loads: "set (updater_loads ids) = set (take (covered (length ids)) ids)"
proof (induction ids rule: updater_loads.induct)
  case (1 ids)
  show ?case
  proof (cases "999 \<le> length ids")
    case True
    have "take (covered (length ids)) ids = take 499 ids @ take (covered (length ids - 499)) (drop 499 ids)"
      using True by (simp add: covered_step take_add)
    moreover have "set (take 500 ids) \<subseteq> set (take 499 ids) \<union> set (take (covered (length ids - 499)) (drop 499 ids))"
    proof -
      have "take 500 ids = take 499 ids @ take 1 (drop 499 ids)" using take_add [of 499 1 ids] by simp
      moreover have "1 \<le> length ids - 499" using True by arith
      then have "1 \<le> covered (length ids - 499)" by (auto simp: covered_def)
      ultimately show ?thesis using set_take_subset_set_take [of 1 _ "drop 499 ids"] by fastforce
    qed
    moreover have "set (take 499 ids) \<subseteq> set (take 500 ids)" by (rule set_take_subset_set_take) simp
    ultimately show ?thesis using 1 True by (subst updater_loads.simps) (auto simp: set_page_loads)
  next
    case False
    then have "take 500 ids = take (covered (length ids)) ids" by (auto simp: covered_def)
    with False show ?thesis by (subst updater_loads.simps) (simp add: set_page_loads)
  qed
qed

text \<open>When every document of the page loads, the page is a fold over its loads.\<close>

definition loads_to :: "('db, 'z) env_scheme \<Rightarrow> 'db \<Rightarrow> string \<Rightarrow> ProcessedDocument \<Rightarrow> bool" where
  "loads_to api db i doc \<longleftrightarrow> sp_loadDocument api db i = Some (Inr doc)"

lemma load_batch_ok:
  "\<forall>i \<in> set ids. loads_to api db i (f i) \<Longrightarrow>
   run_state (load_batch api ids) db = (Some (map (\<lambda>i. Some (f i)) ids), db)"
  by (induction ids) (auto simp: load_option_def p_loadDocument_def loads_to_def)

lemma add_loaded_ok:
  "run_state (add_loaded api rnd c idSet i (map (\<lambda>i. Some (f i)) ids) acc) db =
     (foldl (addDocument rnd) acc (map f ids), db)"
  by (induction ids arbitrary: i acc) simp_all

lemma process_page_ok:
  assumes "\<forall>i \<in> set idSet. loads_to api db i (f i)"
  shows "run_state (process_page api rnd c idSet docNum acc) db =
    (Some (foldl (addDocument rnd) acc (map f (page_loads (drop docNum idSet)))), db)"
proof (induction "length idSet - docNum" arbitrary: docNum acc rule: less_induct)
  case less
  show ?case
  proof (cases "docNum < length idSet")
    case True
    have sub: "\<forall>i \<in> set (take 21 (drop docNum idSet)). loads_to api db i (f i)"
      using assms by (auto dest: in_set_takeD in_set_dropD)
    have smaller: "length idSet - (docNum + documentBatchSize) < length idSet - docNum"
      using True by simp
    have "page_loads (drop docNum idSet) = take 21 (drop docNum idSet) @ page_loads (drop (docNum + 20) idSet)"
      using True by (subst page_loads.simps) (simp add: add.commute)
    then show ?thesis
      using True less [OF smaller]
      by (subst process_page.simps)
        (simp add: batch_ids_eq load_batch_ok [OF sub] add_loaded_ok Let_def)
  next
    case False
    then show ?thesis by (subst process_page.simps) simp
  qed
qed

lemma documentCount_fold: "documentCount (foldl (addDocument rnd) acc docs) = documentCount acc + length docs"
  by (induction docs arbitrary: acc) (simp_all add: addDocument_def)

context env_contract
begin

lemma result_finish_run:
  "sp_doesCentroidExist api db c \<Longrightarrow> result_of (finish_run api rnd c t acc) db = Inr True"
  by (simp add: finish_run_def p_doesCentroidExist_def case_prod_unfold Let_def)

lemma filter_from_last:
  fixes ids :: "string list"
  assumes "sorted_wrt (<) ids" and "0 < n" and "n \<le> length ids"
  shows "filter (\<lambda>i. last (take n ids) \<le> i) ids = drop (n - 1) ids"
proof -
  have last: "last (take n ids) = ids ! (n - 1)"
    using assms(2,3) by (subst last_conv_nth) (auto simp: min_absorb2)
  have split: "ids = take (n - 1) ids @ drop (n - 1) ids" by simp
  have "\<forall>i \<in> set (take (n - 1) ids). \<not> ids ! (n - 1) \<le> i"
    using assms by (auto simp: in_set_conv_nth sorted_wrt_iff_nth_less not_le)
  moreover have "\<forall>i \<in> set (drop (n - 1) ids). ids ! (n - 1) \<le> i"
  proof
    fix i assume "i \<in> set (drop (n - 1) ids)"
    then obtain k where "i = ids ! (n - 1 + k)" "n - 1 + k < length ids"
      by (auto simp: in_set_conv_nth)
    then show "ids ! (n - 1) \<le> i"
      using assms(1) by (cases k) (auto simp: sorted_wrt_iff_nth_less intro: less_imp_le)
  qed
  ultimately show ?thesis
    using split unfolding last by (metis (no_types, lifting) filter_False filter_True filter_append append_Nil)
qed

lemma page_loop_all:
  assumes "plain c" and "sp_doesCentroidExist api db c" and ids: "ids = listAllDocumentsForCentroidRaw api db c"
    and loads: "\<forall>i \<in> set ids. loads_to api db i (f i)" and "o' < length ids"
  shows "page_loop api rnd c (take 500 (drop o' ids)) acc db =
    Some (Finished (foldl (addDocument rnd) acc (map f (updater_loads (drop o' ids)))), db)"
  using assms(5)
proof (induction "length ids - o'" arbitrary: o' acc rule: less_induct)
  case less
  let ?page = "take 500 (drop o' ids)" and ?n = "min 500 (length ids - o')"
  have "last ?page = last (take (o' + ?n) ids)"
    using less.prems by (simp add: take_add min_def)
  moreover have "filter (\<lambda>i. last (take (o' + ?n) ids) \<le> i) ids = drop (o' + ?n - 1) ids"
    using less.prems sorted_members [OF assms(1), of db] by (intro filter_from_last) (auto simp: ids)
  ultimately have "listCentroidDocumentRangeFromDocumentIdRaw api db c (last ?page) 500 = take 500 (drop (o' + ?n - 1) ids)"
    using assms(1) by (simp add: centroid_documents_under ids)
  then have nxt: "sp_listCentroidDocumentRangeFromDocumentIdOption api db c (last ?page) 500 =
      Some (take 500 (drop (o' + ?n - 1) ids))"
    using assms(2) by (simp add: sp_listCentroidDocumentRangeFromDocumentIdOption_def)
  have "\<forall>i \<in> set ?page. loads_to api db i (f i)" using loads by (auto dest: in_set_takeD in_set_dropD)
  note page = process_page_ok [OF this, of rnd c 0 acc]
  let ?acc = "foldl (addDocument rnd) acc (map f (page_loads ?page))"
  have step: "page_loop api rnd c ?page acc db =
      (if 500 \<le> length (take 500 (drop (o' + ?n - 1) ids)) then page_loop api rnd c (take 500 (drop (o' + ?n - 1) ids)) ?acc db
       else Some (Finished ?acc, db))"
    using nxt page by (subst page_loop.simps)
      (simp add: p_listCentroidDocumentRangeFromDocumentIdOption_def Let_def cong: if_cong)
  show ?case
  proof (cases "999 \<le> length (drop o' ids)")
    case True
    then have next_page: "o' + ?n - 1 = o' + 499" and full: "500 \<le> length (take 500 (drop (o' + ?n - 1) ids))" by auto
    have "page_loop api rnd c (take 500 (drop (o' + 499) ids)) ?acc db =
        Some (Finished (foldl (addDocument rnd) ?acc (map f (updater_loads (drop (o' + 499) ids)))), db)"
      using True by (intro less.hyps) auto
    moreover have "updater_loads (drop o' ids) = page_loads ?page @ updater_loads (drop (o' + 499) ids)"
      using True by (subst updater_loads.simps) (simp add: add.commute)
    ultimately show ?thesis using step full next_page by (simp add: add.commute [of o'])
  next
    case False
    then have "\<not> 500 \<le> length (take 500 (drop (o' + ?n - 1) ids))" using less.prems by auto
    moreover have "updater_loads (drop o' ids) = page_loads ?page"
      using False by (subst updater_loads.simps) simp
    ultimately show ?thesis using step by simp
  qed
qed

lemma updater_run_loads:
  assumes "plain c" and "sp_doesCentroidExist api db c"
    and ids: "ids = listAllDocumentsForCentroidRaw api db c"
    and loads: "\<forall>i \<in> set ids. loads_to api db i (f i)"
  shows "updater_run api rnd t c db =
    Some (Some (Inr True), db_after (finish_run api rnd c t
      (foldl (addDocument rnd) new_accumulator (map f (updater_loads ids)))) db)"
proof -
  have first: "sp_listCentroidDocumentRangeFromOffsetOption api db c 0 500 = Some (take 500 ids)"
    using assms(2) by (simp add: sp_listCentroidDocumentRangeFromOffsetOption_def Let_def centroid_documents_under ids)
  show ?thesis
    unfolding updater_run_def Let_def
    using result_finish_run [OF assms(2), of rnd t] page_loop_all [OF assms, of 0 rnd new_accumulator]
    by (cases "ids = []") (simp_all add: p_doesCentroidExist_def assms(2)
        p_listCentroidDocumentRangeFromOffsetOption_def first case_prod_unfold)
qed

lemma updater_run_returns:
  assumes "plain c"
  shows "\<exists>r. updater_run api rnd t c db = Some r"
proof -
  have some: "(page_loop api rnd c idSet new_accumulator db' = None) = False" for idSet db'
    using page_loop_returns [OF assms] by simp
  then show ?thesis
    unfolding updater_run_def Let_def case_prod_unfold
    by (simp add: some split: option.split page_result.split if_split)
qed

end

section \<open>What the accumulator computes\<close>

definition finite_document :: "ProcessedDocument \<Rightarrow> bool" where
  "finite_document doc \<longleftrightarrow> (\<forall>w \<in> set (pd_scoredWords doc). \<exists>x. sw_score w = Num x)"

text \<open>The total score of a word in a document.\<close>

definition doc_coord :: "string \<Rightarrow> ProcessedDocument \<Rightarrow> real" where
  "doc_coord k doc = (\<Sum>w\<leftarrow>pd_scoredWords doc. if c_str (sw_word w) = k then real_of (sw_score w) else 0)"

definition exact_scores :: "(string \<times> double) list \<Rightarrow> bool" where
  "exact_scores xs \<longleftrightarrow> distinct (map fst xs) \<and> finite_scores xs"

lemma map_of_update_key:
  "map_of (map (\<lambda>p. if fst p = key then (key, v) else p) xs) k =
     (if k = key then (if map_of xs key = None then None else Some v) else map_of xs k)"
  by (induction xs) auto

lemma keys_update_key: "map fst (map (\<lambda>p. if fst p = key then (key, v) else p) xs) = map fst xs"
  by simp

lemma add_score_exact:
  assumes "exact_scores xs"
  shows "exact_scores (add_score Num xs key (Num x))"
    and "coord (add_score Num xs key (Num x)) k = coord xs k + (if key = k then x else 0)"
proof -
  have "exact_scores (add_score Num xs key (Num x)) \<and>
    coord (add_score Num xs key (Num x)) k = coord xs k + (if key = k then x else 0)"
  proof (cases "map_of xs key")
    case None
    then have "key \<notin> fst ` set xs" by (simp add: map_of_eq_None_iff)
    with None assms show ?thesis
      by (auto simp: add_score_def exact_scores_def finite_scores_def coord_def map_add_def split: option.split)
  next
    case (Some d)
    then obtain y where key: "map_of xs key = Some (Num y)"
      using assms finite_scores_map_of [of xs key d] by (auto simp: exact_scores_def)
    then have added: "add_score Num xs key (Num x) = map (\<lambda>p. if fst p = key then (key, Num (y + x)) else p) xs"
      by (simp add: add_score_def cong: if_cong)
    have "exact_scores (map (\<lambda>p. if fst p = key then (key, Num (y + x)) else p) xs)"
      using assms by (auto simp: exact_scores_def finite_scores_def keys_update_key simp del: map_map)
    with key show ?thesis unfolding added by (auto simp: coord_def map_of_update_key)
  qed
  then show "exact_scores (add_score Num xs key (Num x))"
    and "coord (add_score Num xs key (Num x)) k = coord xs k + (if key = k then x else 0)" by auto
qed

lemma add_words_exact:
  assumes "exact_scores xs" and "\<forall>w \<in> set ws. \<exists>x. sw_score w = Num x"
  shows "exact_scores (foldl (\<lambda>scores elem. add_score Num scores (c_str (sw_word elem)) (sw_score elem)) xs ws)
    \<and> coord (foldl (\<lambda>scores elem. add_score Num scores (c_str (sw_word elem)) (sw_score elem)) xs ws) k =
      coord xs k + (\<Sum>w\<leftarrow>ws. if c_str (sw_word w) = k then real_of (sw_score w) else 0)"
  using assms
proof (induction ws arbitrary: xs)
  case (Cons w ws)
  then obtain x where "sw_score w = Num x" by auto
  with Cons show ?case by (auto simp: add_score_exact)
qed simp

lemma addDocuments_exact:
  assumes "exact_scores (acc_scores acc)" and "\<forall>doc \<in> set docs. finite_document doc" and "staleMagnitude acc"
  shows "exact_scores (acc_scores (foldl (addDocument Num) acc docs))
    \<and> coord (acc_scores (foldl (addDocument Num) acc docs)) k =
        coord (acc_scores acc) k + (\<Sum>doc\<leftarrow>docs. doc_coord k doc)
    \<and> staleMagnitude (foldl (addDocument Num) acc docs)"
  using assms
proof (induction docs arbitrary: acc)
  case (Cons doc docs)
  then show ?case
    using add_words_exact [of "acc_scores acc" "pd_scoredWords doc"]
    by (auto simp: addDocument_def Let_def finite_document_def doc_coord_def)
qed simp

lemma square_sum_exact:
  "finite_scores xs \<Longrightarrow>
   foldl (\<lambda>m elem. d_add Num m (d_square Num (snd elem))) (Num s) xs = Num (s + (\<Sum>p\<leftarrow>xs. (real_of (snd p))\<^sup>2))"
proof (induction xs arbitrary: s)
  case (Cons p xs)
  obtain x where "snd p = Num x" using Cons.prems by (auto simp: finite_scores_def)
  moreover have "finite_scores xs" using Cons.prems by (simp add: finite_scores_def)
  moreover have "d_square Num (Num x) = Num (x\<^sup>2)" by (simp add: d_square_def power2_eq_square)
  ultimately show ?case by (simp add: Cons.IH)
qed simp

lemma sum_list_coord:
  assumes "distinct (map fst xs)"
  shows "(\<Sum>p\<leftarrow>xs. (real_of (snd p))\<^sup>2) = (\<Sum>k \<in> fst ` set xs. (coord xs k)\<^sup>2)"
proof -
  have "(\<Sum>p\<leftarrow>xs. (real_of (snd p))\<^sup>2) = (\<Sum>p\<leftarrow>xs. (coord xs (fst p))\<^sup>2)"
    using assms by (intro arg_cong [where f = sum_list] map_cong) (auto simp: coord_def)
  also have "\<dots> = (\<Sum>k\<leftarrow>map fst xs. (coord xs k)\<^sup>2)" by (simp add: o_def)
  also have "\<dots> = (\<Sum>k \<in> set (map fst xs). (coord xs k)\<^sup>2)"
    by (rule sum_list_distinct_conv_sum_set) (rule assms)
  finally show ?thesis by simp
qed

section \<open>Properties of the updater\<close>

text \<open>
  C22.  For a centroid without a colon in its identifier the updater always ends: although the next page
  starts at the last identifier of the current one, every further page advances, because only pages of 500
  identifiers continue and the updater removes memberships but adds none.  (With a colon it may not end, see
  ColonCentroid.)
\<close>

theorem updater_ends:
  assumes "env_contract api entries" and "plain c"
  shows "\<exists>r. updater_run api rnd t c db = Some r"
  by (rule env_contract.updater_run_returns [OF assms])

theorem updater_ends_witness: "\<exists>r. updater_run log_env Num 7 ''c'' [] = Some r"
  by (rule updater_ends [OF log_catalog.env_contract_axioms]) simp

text \<open>
  C8.  For an existing centroid without a colon in its identifier whose documents all load, the updater
  succeeds and saves the accumulation of \<open>updater_loads\<close> of its documents.  Up to 500 documents
  are all added; of more, only the pages that are full are added, so that up to 498 of the last documents
  are left out.  The batches and the pages overlap: within a page of 500 the 21st, the 41st and so on are
  added twice, and so is the document where two pages meet; the document weight counts these repetitions.
\<close>

theorem updater_adds_page_loads:
  assumes "env_contract api entries" and "plain c" and "sp_doesCentroidExist api db c"
    and "ids = listAllDocumentsForCentroidRaw api db c"
    and "\<forall>i \<in> set ids. loads_to api db i (f i)"
  shows "let acc = foldl (addDocument rnd) new_accumulator (map f (updater_loads ids)) in
    updater_run api rnd t c db = Some (Some (Inr True), db_after (finish_run api rnd c t acc) db)
    \<and> documentCount acc = length (updater_loads ids)
    \<and> set (updater_loads ids) = set (take (covered (length ids)) ids)
    \<and> (length ids \<le> 500 \<longrightarrow> documentCount acc = length ids + (length ids - 1) div 20)"
proof -
  have "length (updater_loads ids) = length ids + (length ids - 1) div 20" if "length ids \<le> 500"
    using that by (subst updater_loads.simps) (simp add: length_page_loads)
  then show ?thesis
    using env_contract.updater_run_loads [OF assms]
    by (simp add: Let_def documentCount_fold set_updater_loads new_accumulator_def)
qed

theorem updater_adds_page_loads_witness:
  "fst (the (updater_run log_env Num 7 ''c'' (fst (sp_createNewCentroid log_env [] ''c'')))) = Some (Inr True)"
proof -
  let ?db = "fst (sp_createNewCentroid log_env [] ''c'')"
  have "sp_doesCentroidExist log_env ?db ''c''"
    by (simp add: log_catalog.exists_simps sp_createNewCentroid_def sp_saveCentroid_def
        log_catalog.rock_exists_eq log_catalog.store_put Let_def)
  moreover have "[] = listAllDocumentsForCentroidRaw log_env ?db ''c''"
  proof -
    have "d \<notin> set (listAllDocumentsForCentroidRaw log_env ?db ''c'')" for d
      by (simp add: log_catalog.members_listed log_catalog.catalog_of_mem sp_createNewCentroid_def
          sp_saveCentroid_def log_catalog.rock_exists_eq log_catalog.store_put Let_def key_eqs)
    then show ?thesis by (metis list.set_intros(1) neq_Nil_conv)
  qed
  ultimately show ?thesis
    using updater_adds_page_loads [OF log_catalog.env_contract_axioms, of "''c''" ?db "[]" sample_document Num 7]
    by (simp add: Let_def)
qed

lemma accumulator_sums:
  assumes "\<forall>doc \<in> set docs. finite_document doc"
  shows "let acc = foldl (addDocument Num) new_accumulator docs in
    wf_vector \<lparr>wv_scores = fst (getScores acc), wv_magnitude = fst (getMagnitude Num acc), wv_documentWeight = w\<rparr>
    \<and> coord (fst (getScores acc)) k = (\<Sum>doc\<leftarrow>docs. doc_coord k doc)"
proof -
  let ?acc = "foldl (addDocument Num) new_accumulator docs"
  have "exact_scores (acc_scores new_accumulator)" "staleMagnitude new_accumulator"
    and zero: "coord (acc_scores new_accumulator) k = 0"
    by (simp_all add: new_accumulator_def exact_scores_def finite_scores_def coord_def)
  note exact = addDocuments_exact [OF this(1) assms this(2)]
  then have "fst (getMagnitude Num ?acc) =
      Num (sqrt (\<Sum>k \<in> fst ` set (acc_scores ?acc). (coord (acc_scores ?acc) k)\<^sup>2))"
    by (simp add: getMagnitude_def square_sum_exact exact_scores_def sum_list_coord sum_nonneg not_less)
  with exact zero show ?thesis
    by (simp add: wf_vector_def getScores_def exact_scores_def Let_def)
qed

text \<open>
  With exact arithmetic the accumulator is the sum of its documents: the score of a word is
  the total of its scores, and the magnitude is the Euclidean norm, so that the vector it yields
  is well formed for the similarity score.
\<close>

theorem accumulator_sums_documents:
  assumes "\<forall>doc \<in> set docs. finite_document doc"
  shows "let acc = foldl (addDocument Num) new_accumulator docs in
    wf_vector \<lparr>wv_scores = fst (getScores acc), wv_magnitude = fst (getMagnitude Num acc), wv_documentWeight = w\<rparr>
    \<and> coord (fst (getScores acc)) k = (\<Sum>doc\<leftarrow>docs. doc_coord k doc)"
  by (rule accumulator_sums [OF assms])

theorem accumulator_sums_documents_witness:
  "coord (fst (getScores (foldl (addDocument Num) new_accumulator [sample_document ''a'', sample_document ''b''])))
     ''house'' = 2"
proof -
  have "\<forall>doc \<in> set [sample_document ''a'', sample_document ''b'']. finite_document doc"
    by (simp add: finite_document_def sample_document_def make_ScoredWord_def)
  from accumulator_sums_documents [OF this, of undefined "''house''"] show ?thesis
    by (simp add: Let_def doc_coord_def sample_document_def make_ScoredWord_def c_str_house)
qed

section \<open>A missing document in a later batch\<close>

lemma load_batch_results:
  "\<forall>i \<in> set ids. sp_loadDocument api db i = Some (g i) \<Longrightarrow>
   run_state (load_batch api ids) db = (Some (map (\<lambda>i. optionOfTry (g i)) ids), db)"
  by (induction ids) (auto simp: load_option_def p_loadDocument_def)

lemma add_loaded_append:
  "run_state (add_loaded api rnd c idSet i (map (\<lambda>i. Some (f i)) xs @ docs) acc) db =
     run_state (add_loaded api rnd c idSet (i + length xs) docs (foldl (addDocument rnd) acc (map f xs))) db"
  by (induction xs arbitrary: i acc) simp_all

lemma add_loaded_missing:
  "run_state (add_loaded api rnd c idSet 0 (map (\<lambda>i. Some (f i)) xs @ None # map (\<lambda>i. Some (f i)) ys) acc) db =
     (foldl (addDocument rnd) acc (map f (xs @ ys)), fst (sp_removeDocumentFromCentroid api db c (idSet ! length xs)))"
  by (simp add: add_loaded_append p_removeDocumentFromCentroid_def add_loaded_ok Let_def)

text \<open>A page of at most 40 documents, of which only the one at index \<open>j > 20\<close> is missing.\<close>

lemma process_page_missing:
  assumes len: "length ids \<le> 40" "20 < j" "j < length ids" and dist: "distinct ids"
    and loads: "\<forall>i \<in> set ids. i \<noteq> ids ! j \<longrightarrow> loads_to api db i (f i)"
    and missing: "\<not> sp_doesDocumentExist api db (ids ! j)" "rock_get api db (getDocumentKey (ids ! j)) = None"
  shows "\<exists>acc'. run_state (process_page api rnd c ids 0 acc) db =
    (Some acc', fst (sp_removeDocumentFromCentroid api db c (ids ! (j - 20))))"
proof -
  let ?xs = "take (j - 20) (drop 20 ids)" and ?ys = "drop (Suc (j - 20)) (drop 20 ids)"
  have two: "drop 20 ids = ?xs @ ids ! j # ?ys"
    using len id_take_nth_drop [of "j - 20" "drop 20 ids"] by simp
  have "\<forall>i \<in> set (take 21 ids). i \<noteq> ids ! j"
    using len dist by (auto simp: in_set_conv_nth nth_eq_iff_index_eq)
  then have "\<forall>i \<in> set (take 21 ids). loads_to api db i (f i)"
    using loads by (auto dest: in_set_takeD)
  note first = load_batch_ok [OF this]
  have "distinct (?xs @ ids ! j # ?ys)" using dist two by (metis distinct_drop)
  then have other: "\<forall>i \<in> set ?xs \<union> set ?ys. i \<noteq> ids ! j \<and> i \<in> set ids"
    by (auto dest: in_set_takeD in_set_dropD)
  define g where "g = (\<lambda>i. if i = ids ! j then Inl EDocumentDoesNotExist else Inr (f i))"
  have "\<forall>i \<in> set (drop 20 ids). sp_loadDocument api db i = Some (g i)"
    using loads missing(2) by (auto simp: g_def loads_to_def sp_loadDocument_def dest: in_set_dropD)
  from load_batch_results [OF this]
  have "run_state (load_batch api (drop 20 ids)) db =
      (Some (map (\<lambda>i. optionOfTry (g i)) (?xs @ ids ! j # ?ys)), db)"
    unfolding two [symmetric] .
  also have "map (\<lambda>i. optionOfTry (g i)) (?xs @ ids ! j # ?ys) =
      map (\<lambda>i. Some (f i)) ?xs @ None # map (\<lambda>i. Some (f i)) ?ys"
    using other by (auto simp: g_def simp del: drop_drop)
  finally have second: "run_state (load_batch api (drop 20 ids)) db =
      (Some (map (\<lambda>i. Some (f i)) ?xs @ None # map (\<lambda>i. Some (f i)) ?ys), db)" .
  have batches: "batch_ids ids 0 = take 21 ids" "batch_ids ids 20 = drop 20 ids"
    using len batch_ids_eq [of 0 ids] batch_ids_eq [of 20 ids] by (cases "ids = []"; auto)+
  have lxs: "length ?xs = j - 20" using len by simp
  have last: "run_state (process_page api rnd c ids 40 acc) db' = (Some acc, db')" for acc db'
    using len by (subst process_page.simps) simp
  have later: "\<exists>acc'. run_state (process_page api rnd c ids 20 acc) db =
      (Some acc', fst (sp_removeDocumentFromCentroid api db c (ids ! (j - 20))))" for acc
    using len by (subst process_page.simps)
      (simp add: batches second add_loaded_missing lxs last Let_def del: drop_drop map_append)
  show ?thesis
    using len later
    by (subst process_page.simps) (auto simp: batches first add_loaded_ok Let_def)
qed

context env_contract
begin

lemma members_after_finish_run:
  "plain c \<Longrightarrow> members (db_after (finish_run api rnd c t acc) db) c = members db c"
  by (auto simp: members_listed catalog_of_mem finish_run_def case_prod_unfold Let_def p_doesCentroidExist_def
      p_saveCentroid_def setLastCalculatedTimestamp_def run_setMetadata sp_setCentroidMetadata_def
      store_put store_saveCentroid key_eqs)

lemma updater_removes_wrong:
  assumes "plain c" and "plain (ids ! j)" and "plain (ids ! (j - 20))" and "sp_doesCentroidExist api db c"
    and ids: "ids = listAllDocumentsForCentroidRaw api db c"
    and len: "length ids \<le> 40" "20 < j" "j < length ids"
    and loads: "\<forall>i \<in> set ids. i \<noteq> ids ! j \<longrightarrow> loads_to api db i (f i)"
    and missing: "\<not> sp_doesDocumentExist api db (ids ! j)"
  shows "\<exists>db'. updater_run api rnd t c db = Some (Some (Inr True), db')
    \<and> ids ! (j - 20) \<notin> members db' c \<and> ids ! j \<in> members db' c"
proof -
  have dist: "distinct ids" using sorted_members [OF assms(1), of db] ids by (metis strict_sorted_iff)
  have get: "rock_get api db (getDocumentKey (ids ! j)) = None"
    using missing by (simp add: exists_simps rock_get_eq)
  have wrong: "ids ! (j - 20) \<noteq> ids ! j" using len dist by (simp add: nth_eq_iff_index_eq)
  obtain acc' where page: "run_state (process_page api rnd c ids 0 new_accumulator) db =
      (Some acc', fst (sp_removeDocumentFromCentroid api db c (ids ! (j - 20))))"
    using process_page_missing [OF len dist loads missing get] by blast
  let ?db1 = "fst (sp_removeDocumentFromCentroid api db c (ids ! (j - 20)))"
  have "sp_doesDocumentExist api db (ids ! (j - 20))"
    using loads wrong len by (auto simp: loads_to_def sp_loadDocument_def exists_simps rock_get_eq split: option.splits)
  then have db1: "catalog_of (map_of (entries ?db1)) =
      (let L = catalog_of (map_of (entries db)) in
       L\<lparr>cat_members := cat_members L - {(c, ids ! (j - 20))}, cat_refs := cat_refs L - {(ids ! (j - 20), c)}\<rparr>)"
    using catalog_after_request [of "RemoveDocumentFromCentroid c (ids ! (j - 20))" db] assms(1,3,4)
    by (simp add: exists_listed Let_def)
  have alive: "sp_doesCentroidExist api ?db1 c" using assms(4) by (simp add: exists_listed db1 Let_def)
  have under: "ids = ids_under (entries db) (c @ ''__documents'')"
    using ids by (simp add: centroid_documents_under)
  have first: "sp_listCentroidDocumentRangeFromOffsetOption api db c 0 500 = Some ids"
    using assms(4) len(1) by (simp add: sp_listCentroidDocumentRangeFromOffsetOption_def Let_def
        centroid_documents_under under [symmetric])
  have nxt: "\<exists>nextIds. sp_listCentroidDocumentRangeFromDocumentIdOption api db c (last ids) 500 = Some nextIds
      \<and> length nextIds < 500"
  proof -
    have "length (filter ((\<le>) (last ids)) ids) < 500"
      using len(1) length_filter_le [of "(\<le>) (last ids)" ids] by linarith
    then show ?thesis
      using assms(4) by (auto simp: sp_listCentroidDocumentRangeFromDocumentIdOption_def Let_def
          centroid_documents_under(3) [OF assms(1)] under [symmetric] min_def)
  qed
  then have loop: "page_loop api rnd c ids new_accumulator db = Some (Finished acc', ?db1)"
    by (subst page_loop.simps) (auto simp: page p_listCentroidDocumentRangeFromDocumentIdOption_def Let_def)
  have "ids \<noteq> []" using len by auto
  then have "updater_run api rnd t c db =
      Some (Some (Inr True), db_after (finish_run api rnd c t acc') ?db1)"
    unfolding updater_run_def Let_def
    using result_finish_run [OF alive, of rnd t acc'] loop
    by (simp add: p_doesCentroidExist_def assms(4) p_listCentroidDocumentRangeFromOffsetOption_def first
        case_prod_unfold)
  moreover have "ids ! j \<in> members db c" using len ids by simp
  then have "ids ! (j - 20) \<notin> members ?db1 c \<and> ids ! j \<in> members ?db1 c"
    using wrong by (simp add: assms(1) members_listed db1 Let_def)
  ultimately show ?thesis
    unfolding members_after_finish_run [OF assms(1), of rnd t acc' ?db1, symmetric] by blast
qed

end

text \<open>
  A missing document in the second batch costs another document its membership: the updater
  takes its index in the batch for its index in the page, removes the document twenty places
  earlier (which exists) from the centroid, and keeps the missing one.
\<close>

theorem updater_removes_wrong_document:
  assumes "env_contract api entries" and "plain c" and "plain (ids ! j)" and "plain (ids ! (j - 20))"
    and "sp_doesCentroidExist api db c" and "ids = listAllDocumentsForCentroidRaw api db c"
    and "length ids \<le> 40" and "20 < j" and "j < length ids"
    and "\<forall>i \<in> set ids. i \<noteq> ids ! j \<longrightarrow> loads_to api db i (f i)"
    and "\<not> sp_doesDocumentExist api db (ids ! j)"
  shows "\<exists>db'. updater_run api rnd t c db = Some (Some (Inr True), db')
    \<and> ids ! (j - 20) \<notin> set (listAllDocumentsForCentroidRaw api db' c)
    \<and> ids ! j \<in> set (listAllDocumentsForCentroidRaw api db' c)"
  by (rule env_contract.updater_removes_wrong [OF assms])

text \<open>The store of the witness: 22 documents \<open>a\<close>, \<open>aa\<close>, \<dots> in the centroid, the last one missing.\<close>

definition wide_ids :: "string list" where
  "wide_ids = map (\<lambda>n. replicate (Suc n) CHR ''a'') [0..<22]"

definition wide_store :: memory where
  "wide_store = (getCentroidKey ''c'', '''') #
     map (\<lambda>i. (getCentroidDocumentKey ''c'' i, ''1'')) wide_ids @
     map (\<lambda>i. (getDocumentKey i, simple_ser_doc (dto_of_document (sample_document i)))) (butlast wide_ids)"

lemma replicate_less: "m < n \<Longrightarrow> replicate m (a :: char) < replicate n a"
proof (induction m arbitrary: n)
  case 0
  then show ?case by (cases n) auto
next
  case (Suc m)
  then show ?case by (cases n) auto
qed

lemma sorted_wide_ids: "sorted_wrt (<) wide_ids"
  by (simp add: wide_ids_def sorted_wrt_map sorted_wrt_iff_nth_less replicate_less del: upt_Suc replicate.simps)

lemma plain_wide: "plain (replicate n CHR ''a'')"
  by (simp add: plain_def)

lemma wide_nth: "k < 22 \<Longrightarrow> wide_ids ! k = replicate (Suc k) CHR ''a''"
  by (simp add: wide_ids_def del: upt_Suc replicate.simps)

lemma length_wide: "length wide_ids = 22"
  by (simp add: wide_ids_def)

lemma map_of_keyed: "inj k \<Longrightarrow> map_of (map (\<lambda>i. (k i, v i)) xs) (k i) = (if i \<in> set xs then Some (v i) else None)"
  by (induction xs) (auto dest: injD)

lemma map_of_not_keyed: "\<forall>i. k i \<noteq> x \<Longrightarrow> map_of (map (\<lambda>i. (k i, v i)) xs) x = None"
  by (induction xs) auto

lemma wide_lookup:
  "map_of wide_store (getCentroidKey ''c'') = Some ''''"
  "map_of wide_store (getCentroidDocumentKey ''c'' i) = (if i \<in> set wide_ids then Some ''1'' else None)"
  "map_of wide_store (getDocumentKey i) =
     (if i \<in> set (butlast wide_ids) then Some (simple_ser_doc (dto_of_document (sample_document i))) else None)"
proof -
  have inj: "inj getDocumentKey" "inj (getCentroidDocumentKey ''c'')"
    by (simp_all add: inj_def key_eqs)
  show "map_of wide_store (getCentroidKey ''c'') = Some ''''" by (simp add: wide_store_def)
  show "map_of wide_store (getCentroidDocumentKey ''c'' i) = (if i \<in> set wide_ids then Some ''1'' else None)"
    using map_of_keyed [OF inj(2), of "\<lambda>i. ''1''" wide_ids i]
    by (simp add: wide_store_def map_add_def map_of_not_keyed key_eqs)
  show "map_of wide_store (getDocumentKey i) =
     (if i \<in> set (butlast wide_ids) then Some (simple_ser_doc (dto_of_document (sample_document i))) else None)"
    using map_of_keyed [OF inj(1), of "\<lambda>i. simple_ser_doc (dto_of_document (sample_document i))" "butlast wide_ids" i]
    by (simp add: wide_store_def map_add_def map_of_not_keyed key_eqs)
qed

lemma map_of_wide: "map_of (log_entries wide_store) = map_of wide_store"
  by (rule map_of_log_entries)

lemma c_strings_id: "NUL \<notin> set i \<Longrightarrow> c_strings cur (i @ NUL # rest) = (cur @ i) # c_strings [] rest"
  by (induction i arbitrary: cur) auto

lemma wide_decodes:
  "NUL \<notin> set i \<Longrightarrow> \<exists>d. simple_de_doc (simple_ser_doc (dto_of_document (sample_document i))) = Some d"
  by (simp add: simple_ser_doc_def simple_de_doc_def dto_of_document_def sample_document_def c_strings_id)

lemma wide_members: "wide_ids = listAllDocumentsForCentroidRaw log_env wide_store ''c''"
proof (rule strict_sorted_equal)
  show "sorted_wrt (<) wide_ids" by (rule sorted_wide_ids)
  show "sorted_wrt (<) (listAllDocumentsForCentroidRaw log_env wide_store ''c'')"
    by (rule log_catalog.sorted_members) simp
  show "set wide_ids = set (listAllDocumentsForCentroidRaw log_env wide_store ''c'')"
    by (auto simp: log_catalog.members_listed log_catalog.catalog_of_mem map_of_wide wide_lookup split: if_splits)
qed

theorem updater_removes_wrong_document_witness:
  "\<exists>db'. updater_run log_env Num 7 ''c'' wide_store = Some (Some (Inr True), db')
    \<and> replicate 2 CHR ''a'' \<notin> set (listAllDocumentsForCentroidRaw log_env db' ''c'')
    \<and> replicate 22 CHR ''a'' \<in> set (listAllDocumentsForCentroidRaw log_env db' ''c'')"
proof -
  have exists: "sp_doesCentroidExist log_env wide_store ''c''"
    by (simp add: log_catalog.exists_simps map_of_wide wide_lookup)
  have dist: "distinct wide_ids" using sorted_wide_ids by (metis strict_sorted_iff)
  have snoc: "wide_ids = butlast wide_ids @ [wide_ids ! 21]"
    using length_wide append_butlast_last_id [of wide_ids] last_conv_nth [of wide_ids] by fastforce
  have gone: "\<not> sp_doesDocumentExist log_env wide_store (wide_ids ! 21)"
    using dist snoc by (simp add: log_catalog.exists_simps map_of_wide wide_lookup) (metis distinct_butlast not_distinct_conv_prefix distinct_append disjoint_iff list.set_intros(1))
  have "\<forall>i \<in> set wide_ids. i \<noteq> wide_ids ! 21 \<longrightarrow> (\<exists>doc. loads_to log_env wide_store i doc)"
  proof (intro ballI impI)
    fix i assume i: "i \<in> set wide_ids" "i \<noteq> wide_ids ! 21"
    then have "i \<in> set (butlast wide_ids)" using snoc by (metis in_set_butlast_appendI rotate1.simps(2) set_rotate1 set_ConsD)
    moreover have "NUL \<notin> set i" using i(1) by (auto simp: wide_ids_def)
    ultimately show "\<exists>doc. loads_to log_env wide_store i doc"
      using wide_decodes [of i]
      by (auto simp: loads_to_def sp_loadDocument_def log_catalog.rock_get_eq map_of_wide wide_lookup
          binaryDeserialize_document_def)
  qed
  then obtain f where "\<forall>i \<in> set wide_ids. i \<noteq> wide_ids ! 21 \<longrightarrow> loads_to log_env wide_store i (f i)" by metis
  from updater_removes_wrong_document [OF log_catalog.env_contract_axioms _ _ _ exists wide_members _ _ _ this gone]
  show ?thesis by (simp add: wide_nth length_wide plain_wide numeral_2_eq_2 del: replicate.simps)
qed

end
