(* ===== verification/MultiVersion.thy ===== *)
theory MultiVersion
  imports Prelude
begin

text \<open>
  \<open>util/MultiVersionPtr.h\<close>: the reference-counted pointer that the score worker's map keeps its
  centroids in.  The state is an explicit heap.  A node is a \<open>MultiVersionPtr\<close> object with its
  pointer and its usage count; a proxy is a \<open>Proxy\<close> object with its atomic base pointer.  Addresses
  are list positions; a deleted object leaves \<open>None\<close> at its position.  Every operation yields
  \<open>None\<close> when it touches a deleted object or a null pointer.  The first part runs the operations one
  at a time; the second interleaves the atomic accesses of a copy and of an assignment.
\<close>

section \<open>Nodes and proxies\<close>

record 'v node =
  node_ptr :: "'v option"
  node_usage :: nat

record 'v mv =
  mv_nodes :: "'v node option list"
  mv_proxies :: "nat option option list"

definition mv_empty :: "'v mv" where
  "mv_empty = \<lparr>mv_nodes = [], mv_proxies = []\<rparr>"

definition node_at :: "'v mv \<Rightarrow> nat \<Rightarrow> 'v node option" where
  "node_at s a = (if a < length (mv_nodes s) then mv_nodes s ! a else None)"

definition base_at :: "'v mv \<Rightarrow> nat \<Rightarrow> nat option option" where
  "base_at s p = (if p < length (mv_proxies s) then mv_proxies s ! p else None)"

definition incrCount :: "'v mv \<Rightarrow> nat \<Rightarrow> 'v mv option" where
  "incrCount s a = (case node_at s a of
       None \<Rightarrow> None
     | Some n \<Rightarrow> Some (s\<lparr>mv_nodes := (mv_nodes s)[a := Some (n\<lparr>node_usage := node_usage n + 1\<rparr>)]\<rparr>))"

text \<open>
  \<open>decrCount\<close> deletes the value when the count reaches 0, and returns the count.  Decrementing a count
  of 0 would wrap around: it is a fault here.
\<close>

definition decrCount :: "'v mv \<Rightarrow> nat \<Rightarrow> (nat \<times> 'v mv) option" where
  "decrCount s a = (case node_at s a of
       None \<Rightarrow> None
     | Some n \<Rightarrow>
         if node_usage n = 0 then None
         else
           let count = node_usage n - 1;
               n = n\<lparr>node_usage := count\<rparr>;
               n = (if count = 0 then n\<lparr>node_ptr := None\<rparr> else n)
           in Some (count, s\<lparr>mv_nodes := (mv_nodes s)[a := Some n]\<rparr>))"

text \<open>The statements \<open>if (base->decrCount() == 0) delete base;\<close> of \<open>decrBase\<close> and \<open>setBase\<close>.\<close>

definition release :: "'v mv \<Rightarrow> nat \<Rightarrow> 'v mv option" where
  "release s a = (case decrCount s a of
       None \<Rightarrow> None
     | Some (count, s) \<Rightarrow> Some (if count = 0 then s\<lparr>mv_nodes := (mv_nodes s)[a := None]\<rparr> else s))"

definition release_opt :: "'v mv \<Rightarrow> nat option \<Rightarrow> 'v mv option" where
  "release_opt s prev = (case prev of None \<Rightarrow> Some s | Some a \<Rightarrow> release s a)"

section \<open>Operations on proxies\<close>

text \<open>
  \<open>setBase\<close>: run alone, the compare-and-swap succeeds at once.
\<close>

definition setBase :: "'v mv \<Rightarrow> nat \<Rightarrow> nat option \<Rightarrow> 'v mv option" where
  "setBase s p parent = (case base_at s p of
       None \<Rightarrow> None
     | Some prevBase \<Rightarrow>
         if prevBase = parent then Some s
         else
           let s = s\<lparr>mv_proxies := (mv_proxies s)[p := Some parent]\<rparr> in
           case (case parent of None \<Rightarrow> Some s | Some a \<Rightarrow> incrCount s a) of
             None \<Rightarrow> None
           | Some s \<Rightarrow> release_opt s prevBase)"

definition decrBase :: "'v mv \<Rightarrow> nat \<Rightarrow> 'v mv option" where
  "decrBase s p = (case base_at s p of
       None \<Rightarrow> None
     | Some currentBase \<Rightarrow>
         release_opt (s\<lparr>mv_proxies := (mv_proxies s)[p := Some None]\<rparr>) currentBase)"

text \<open>\<open>Proxy()\<close>, the copy constructor, the destructor, \<open>reset\<close>, \<open>get\<close> and \<open>create\<close>.\<close>

definition proxy_new :: "'v mv \<Rightarrow> nat \<times> 'v mv" where
  "proxy_new s = (length (mv_proxies s), s\<lparr>mv_proxies := mv_proxies s @ [Some None]\<rparr>)"

definition proxy_copy :: "'v mv \<Rightarrow> nat \<Rightarrow> (nat \<times> 'v mv) option" where
  "proxy_copy s other = (case base_at s other of
       None \<Rightarrow> None
     | Some parent \<Rightarrow>
         let (p, s) = proxy_new s in map_option (Pair p) (setBase s p parent))"

definition proxy_destroy :: "'v mv \<Rightarrow> nat \<Rightarrow> 'v mv option" where
  "proxy_destroy s p =
     map_option (\<lambda>s. s\<lparr>mv_proxies := (mv_proxies s)[p := None]\<rparr>) (decrBase s p)"

definition proxy_reset :: "'v mv \<Rightarrow> nat \<Rightarrow> 'v \<Rightarrow> 'v mv option" where
  "proxy_reset s p v =
     (let a = length (mv_nodes s);
          s = s\<lparr>mv_nodes := mv_nodes s @ [Some \<lparr>node_ptr = Some v, node_usage = 0\<rparr>]\<rparr>
      in setBase s p (Some a))"

definition proxy_get :: "'v mv \<Rightarrow> nat \<Rightarrow> 'v option" where
  "proxy_get s p = (case base_at s p of
       Some (Some a) \<Rightarrow> (case node_at s a of None \<Rightarrow> None | Some n \<Rightarrow> node_ptr n)
     | _ \<Rightarrow> None)"

text \<open>\<open>create\<close>: the move constructor copies the base, and the local proxy is destroyed.\<close>

definition proxy_create :: "'v mv \<Rightarrow> 'v \<Rightarrow> (nat \<times> 'v mv) option" where
  "proxy_create s v =
     (let (p, s) = proxy_new s in
      case proxy_reset s p v of
        None \<Rightarrow> None
      | Some s \<Rightarrow>
          (case proxy_copy s p of
             None \<Rightarrow> None
           | Some (q, s) \<Rightarrow> map_option (Pair q) (proxy_destroy s p)))"

section \<open>Counting\<close>

definition refs :: "'v mv \<Rightarrow> nat \<Rightarrow> nat" where
  "refs s a = count_list (mv_proxies s) (Some (Some a))"

definition ptr_at :: "'v mv \<Rightarrow> nat \<Rightarrow> 'v option" where
  "ptr_at s a = Option.bind (node_at s a) node_ptr"

text \<open>The counts are right: every node counts its proxies and has a value, and no proxy dangles.\<close>

definition balanced :: "'v mv \<Rightarrow> bool" where
  "balanced s \<longleftrightarrow> (\<forall>a. case node_at s a of
       None \<Rightarrow> refs s a = 0
     | Some n \<Rightarrow> node_usage n = refs s a \<and> node_ptr n \<noteq> None)"

definition mv_ok :: "'v mv \<Rightarrow> bool" where
  "mv_ok s \<longleftrightarrow> balanced s \<and> (\<forall>a. node_at s a \<noteq> None \<longrightarrow> refs s a > 0)"

lemma count_list_update:
  "p < length xs \<Longrightarrow>
   count_list (xs[p := y]) x + (if xs ! p = x then 1 else 0) = count_list xs x + (if y = x then 1 else 0)"
proof (induction xs arbitrary: p)
  case (Cons z zs)
  show ?case
  proof (cases p)
    case (Suc k)
    with Cons.IH [of k] Cons.prems show ?thesis by auto
  qed auto
qed simp

lemma count_list_positive: "p < length xs \<Longrightarrow> xs ! p = x \<Longrightarrow> count_list xs x > 0"
  by (metis count_list_0_iff nth_mem gr0I)

lemma refs_simps [simp]:
  "refs (s\<lparr>mv_nodes := ns\<rparr>) a = refs s a"
  "refs \<lparr>mv_nodes = ns, mv_proxies = []\<rparr> a = 0"
  by (simp_all add: refs_def)

lemma node_at_simps [simp]:
  "node_at (s\<lparr>mv_proxies := ps\<rparr>) a = node_at s a"
  "base_at (s\<lparr>mv_nodes := ns\<rparr>) p = base_at s p"
  by (simp_all add: node_at_def base_at_def)

lemma node_at_update [simp]:
  "node_at s a \<noteq> None \<Longrightarrow> node_at (s\<lparr>mv_nodes := (mv_nodes s)[a := x]\<rparr>) b = (if b = a then x else node_at s b)"
  by (auto simp: node_at_def split: if_splits)

lemma base_at_update [simp]:
  "base_at s p \<noteq> None \<Longrightarrow> base_at (s\<lparr>mv_proxies := (mv_proxies s)[p := x]\<rparr>) q = (if q = p then x else base_at s q)"
  by (auto simp: base_at_def split: if_splits)

lemma refs_update:
  assumes "base_at s p = Some b"
  shows "refs (s\<lparr>mv_proxies := (mv_proxies s)[p := x]\<rparr>) a + (if b = Some a then 1 else 0)
    = refs s a + (if x = Some (Some a) then 1 else 0)"
  using assms count_list_update [of p "mv_proxies s" x "Some (Some a)"]
  by (auto simp: base_at_def refs_def split: if_splits)

lemma refs_positive: "base_at s p = Some (Some a) \<Longrightarrow> refs s a > 0"
  by (auto simp: base_at_def refs_def intro: count_list_positive split: if_splits)

lemma balanced_base: "balanced s \<Longrightarrow> base_at s p = Some (Some a) \<Longrightarrow> node_at s a \<noteq> None"
  using refs_positive [of s p a] by (auto simp: balanced_def split: option.splits)

lemma same_proxies: "mv_proxies s' = mv_proxies s \<Longrightarrow> refs s' = refs s \<and> base_at s' = base_at s"
  by (simp add: fun_eq_iff refs_def base_at_def)

lemma incrCount_spec:
  assumes "node_at s a = Some n"
  obtains s' where "incrCount s a = Some s'" and "mv_proxies s' = mv_proxies s"
    and "\<And>x. node_at s' x = (if x = a then Some (n\<lparr>node_usage := node_usage n + 1\<rparr>) else node_at s x)"
  using assms by (simp add: incrCount_def)

lemma release_spec:
  assumes "node_at s a = Some n" and "node_usage n > 0"
  obtains s' where "release s a = Some s'" and "mv_proxies s' = mv_proxies s"
    and "\<And>x. node_at s' x = (if x = a then
        if node_usage n = 1 then None else Some (n\<lparr>node_usage := node_usage n - 1\<rparr>) else node_at s x)"
proof (cases "node_usage n = 1")
  case True
  with assms that show ?thesis by (simp add: release_def decrCount_def)
next
  case False
  with assms that show ?thesis by (auto simp: release_def decrCount_def Let_def)
qed

text \<open>
  The main fact: making a proxy point elsewhere keeps the counts right, frees the old node exactly
  when nobody refers to it any more, and leaves every value that is still referred to alone.
\<close>

lemma setBase_spec:
  assumes bal: "balanced s" and base: "base_at s p = Some b"
    and par: "\<And>a. parent = Some a \<Longrightarrow> node_at s a \<noteq> None"
    and pos: "\<And>a. node_at s a \<noteq> None \<Longrightarrow> parent \<noteq> Some a \<Longrightarrow> refs s a > 0"
  shows "\<exists>s'. setBase s p parent = Some s' \<and> mv_ok s'
    \<and> (\<forall>q. base_at s' q = (if q = p then Some parent else base_at s q))
    \<and> (\<forall>a. refs s' a > 0 \<longrightarrow> ptr_at s' a = ptr_at s a)"
proof (cases "b = parent")
  case True
  then have "refs s a > 0" if "node_at s a \<noteq> None" for a
    using pos [OF that] refs_positive base by (cases "parent = Some a") auto
  with True bal base show ?thesis by (auto simp: setBase_def mv_ok_def)
next
  case False
  define s1 where "s1 = s\<lparr>mv_proxies := (mv_proxies s)[p := Some parent]\<rparr>"
  have node1: "node_at s1 = node_at s" by (simp add: s1_def fun_eq_iff)
  have base1: "base_at s1 q = (if q = p then Some parent else base_at s q)" for q
    using base by (simp add: s1_def)
  have refs1: "refs s1 a + (if b = Some a then 1 else 0) = refs s a + (if parent = Some a then 1 else 0)" for a
    using refs_update [OF base, of "Some parent" a] by (simp add: s1_def)
  have "\<exists>s2. (case parent of None \<Rightarrow> Some s1 | Some a \<Rightarrow> incrCount s1 a) = Some s2
      \<and> mv_proxies s2 = mv_proxies s1
      \<and> (\<forall>x. node_at s2 x = (if parent = Some x
           then map_option (\<lambda>n. n\<lparr>node_usage := node_usage n + 1\<rparr>) (node_at s x) else node_at s x))"
  proof (cases parent)
    case None
    then show ?thesis by (simp add: node1)
  next
    case (Some a)
    with par obtain n where n: "node_at s1 a = Some n" "node_at s a = Some n" by (auto simp: node1)
    from n(1) obtain s2 where "incrCount s1 a = Some s2" "mv_proxies s2 = mv_proxies s1"
      "\<And>x. node_at s2 x = (if x = a then Some (n\<lparr>node_usage := node_usage n + 1\<rparr>) else node_at s1 x)"
      by (rule incrCount_spec) blast
    with n(2) Some show ?thesis by (auto simp: node1)
  qed
  then obtain s2 where incr: "(case parent of None \<Rightarrow> Some s1 | Some a \<Rightarrow> incrCount s1 a) = Some s2"
    and prox2: "mv_proxies s2 = mv_proxies s1"
    and node2: "\<And>x. node_at s2 x = (if parent = Some x
           then map_option (\<lambda>n. n\<lparr>node_usage := node_usage n + 1\<rparr>) (node_at s x) else node_at s x)" by auto
  have usage: "node_usage n = refs s x" "node_ptr n \<noteq> None" if "node_at s x = Some n" for x n
    using bal that by (auto simp: balanced_def dest: spec [of _ x])
  have dead: "refs s x = 0" if "node_at s x = None" for x
    using bal that by (auto simp: balanced_def dest: spec [of _ x])
  have "\<exists>s3. release_opt s2 b = Some s3 \<and> mv_proxies s3 = mv_proxies s1
      \<and> (\<forall>x. node_at s3 x = (if b = Some x
           then if refs s x = 1 then None else map_option (\<lambda>n. n\<lparr>node_usage := node_usage n - 1\<rparr>) (node_at s x)
           else node_at s2 x))"
  proof (cases b)
    case None
    then show ?thesis by (simp add: release_opt_def prox2)
  next
    case (Some a)
    with False have "parent \<noteq> Some a" by simp
    moreover from Some base have "refs s a > 0" using refs_positive by auto
    moreover from Some base bal obtain n where "node_at s a = Some n" using balanced_base by fastforce
    ultimately have n: "node_at s2 a = Some n" "node_usage n = refs s a" "node_usage n > 0"
      using usage(1) [of a n] by (simp_all add: node2)
    from n(1,3) obtain s3 where "release s2 a = Some s3" "mv_proxies s3 = mv_proxies s2"
      "\<And>x. node_at s3 x = (if x = a then
        if node_usage n = 1 then None else Some (n\<lparr>node_usage := node_usage n - 1\<rparr>) else node_at s2 x)"
      by (rule release_spec) blast
    with \<open>parent \<noteq> Some a\<close> Some n \<open>node_at s a = Some n\<close> show ?thesis
      by (auto simp: release_opt_def prox2)
  qed
  then obtain s3 where rel: "release_opt s2 b = Some s3" and prox3: "mv_proxies s3 = mv_proxies s1"
    and node3: "\<And>x. node_at s3 x = (if b = Some x
           then if refs s x = 1 then None else map_option (\<lambda>n. n\<lparr>node_usage := node_usage n - 1\<rparr>) (node_at s x)
           else node_at s2 x)" by auto
  have refs3: "refs s3 = refs s1" and base3: "base_at s3 = base_at s1" using same_proxies [OF prox3] by auto
  have result: "setBase s p parent = Some s3"
    using base False incr rel by (simp add: setBase_def s1_def [symmetric])
  have each: "case node_at s3 x of None \<Rightarrow> refs s3 x = 0
      | Some n \<Rightarrow> node_usage n = refs s3 x \<and> node_ptr n \<noteq> None \<and> refs s3 x > 0" for x
  proof (cases "node_at s x")
    case None
    then have "parent \<noteq> Some x" "b \<noteq> Some x"
      using par base balanced_base [OF bal, of p x] by auto
    with None dead [OF None] refs1 [of x] show ?thesis by (simp add: node3 node2 refs3)
  next
    case (Some n)
    with usage [OF Some] pos [of x] refs1 [of x] False show ?thesis
      by (cases "b = Some x"; cases "parent = Some x") (auto simp: node3 node2 refs3)
  qed
  have "case node_at s3 x of None \<Rightarrow> refs s3 x = 0 | Some n \<Rightarrow> node_usage n = refs s3 x \<and> node_ptr n \<noteq> None" for x
    using each [of x] by (cases "node_at s3 x") simp_all
  moreover have "node_at s3 x \<noteq> None \<longrightarrow> refs s3 x > 0" for x
    using each [of x] by (cases "node_at s3 x") simp_all
  ultimately have ok: "mv_ok s3" by (simp add: mv_ok_def balanced_def)
  have "ptr_at s3 a = ptr_at s a" if "refs s3 a > 0" for a
  proof (cases "node_at s a")
    case None
    then have "parent \<noteq> Some a" "b \<noteq> Some a"
      using par base balanced_base [OF bal, of p a] by auto
    with None show ?thesis by (simp add: ptr_at_def node3 node2)
  next
    case (Some n)
    with that refs1 [of a] False show ?thesis
      by (cases "b = Some a"; cases "parent = Some a") (auto simp: ptr_at_def node3 node2 refs3)
  qed
  with result ok base1 base3 show ?thesis by auto
qed

lemma setBase_length: "setBase s p parent = Some s' \<Longrightarrow> length (mv_proxies s') = length (mv_proxies s)"
  by (auto simp: setBase_def incrCount_def release_opt_def release_def decrCount_def Let_def
      split: option.splits if_splits)

section \<open>Each operation on its own\<close>

lemma new_proxy_simps:
  "fst (proxy_new s) = length (mv_proxies s)"
  "node_at (snd (proxy_new s)) = node_at s"
  "refs (snd (proxy_new s)) a = refs s a"
  "base_at (snd (proxy_new s)) q = (if q = length (mv_proxies s) then Some None else base_at s q)"
  by (auto simp: proxy_new_def node_at_def refs_def base_at_def nth_append fun_eq_iff)

lemma fresh_proxy: "base_at s (length (mv_proxies s)) = None"
  by (simp add: base_at_def)

text \<open>What a live proxy reads; every live proxy that is not null reads a value.\<close>

lemma proxy_get_eq: "proxy_get s p = (case base_at s p of Some (Some a) \<Rightarrow> ptr_at s a | _ \<Rightarrow> None)"
  by (auto simp: proxy_get_def ptr_at_def split: option.splits)

lemma mv_okD: "mv_ok s \<Longrightarrow> balanced s" "mv_ok s \<Longrightarrow> node_at s a \<noteq> None \<Longrightarrow> refs s a > 0"
  by (simp_all add: mv_ok_def)

lemma get_after:
  assumes "\<And>a. refs s' a > 0 \<Longrightarrow> ptr_at s' a = ptr_at s a" and "base_at s' q = base_at s q"
  shows "proxy_get s' q = proxy_get s q"
  using assms refs_positive [of s' q] by (auto simp: proxy_get_eq split: option.splits)

lemma balanced_new: "balanced s \<Longrightarrow> balanced (snd (proxy_new s))"
  unfolding balanced_def new_proxy_simps by assumption

lemma proxy_copy_spec:
  assumes ok: "mv_ok s" and live: "base_at s other = Some b"
  obtains s' where "proxy_copy s other = Some (length (mv_proxies s), s')" and "mv_ok s'"
    and "base_at s' (length (mv_proxies s)) = Some b"
    and "proxy_get s' (length (mv_proxies s)) = proxy_get s other"
    and "\<And>q. q \<noteq> length (mv_proxies s) \<Longrightarrow> base_at s' q = base_at s q \<and> proxy_get s' q = proxy_get s q"
proof -
  let ?p = "length (mv_proxies s)" and ?s1 = "snd (proxy_new s)"
  have "\<exists>s'. setBase ?s1 ?p b = Some s' \<and> mv_ok s'
      \<and> (\<forall>q. base_at s' q = (if q = ?p then Some b else base_at ?s1 q))
      \<and> (\<forall>a. refs s' a > 0 \<longrightarrow> ptr_at s' a = ptr_at ?s1 a)"
  proof (rule setBase_spec)
    show "balanced ?s1" using ok by (simp add: mv_okD balanced_new)
    show "base_at ?s1 ?p = Some None" by (simp add: new_proxy_simps)
    show "node_at ?s1 a \<noteq> None" if "b = Some a" for a
      using balanced_base [OF mv_okD(1) [OF ok], of other a] live that by (simp add: new_proxy_simps)
    show "refs ?s1 a > 0" if "node_at ?s1 a \<noteq> None" for a
      using mv_okD(2) [OF ok, of a] that by (simp add: new_proxy_simps)
  qed
  then obtain s' where set: "setBase ?s1 ?p b = Some s'" and ok': "mv_ok s'"
    and base': "\<And>q. base_at s' q = (if q = ?p then Some b else base_at ?s1 q)"
    and ptr': "\<And>a. refs s' a > 0 \<Longrightarrow> ptr_at s' a = ptr_at ?s1 a" by auto
  have ptr: "ptr_at s' a = ptr_at s a" if "refs s' a > 0" for a
    using ptr' [OF that] by (simp add: ptr_at_def new_proxy_simps)
  have "proxy_copy s other = Some (?p, s')"
    using live set by (simp add: proxy_copy_def new_proxy_simps split_def)
  moreover have "proxy_get s' ?p = proxy_get s other"
    using refs_positive [of s' ?p] ptr live base' [of ?p] by (auto simp: proxy_get_eq split: option.splits)
  moreover have "base_at s' q = base_at s q \<and> proxy_get s' q = proxy_get s q" if "q \<noteq> ?p" for q
  proof -
    have "base_at s' q = base_at s q" using that by (simp add: base' new_proxy_simps)
    with get_after [of s' s q] ptr show ?thesis by simp
  qed
  ultimately show ?thesis using that ok' base' [of ?p] by simp
qed

lemma proxy_reset_spec:
  assumes ok: "mv_ok s" and live: "base_at s p = Some b"
  obtains s' where "proxy_reset s p v = Some s'" and "mv_ok s'" and "proxy_get s' p = Some v"
    and "base_at s' p \<noteq> None" and "length (mv_proxies s') = length (mv_proxies s)"
    and "\<And>q. q \<noteq> p \<Longrightarrow> base_at s' q = base_at s q \<and> proxy_get s' q = proxy_get s q"
proof -
  let ?a = "length (mv_nodes s)"
  define s1 where "s1 = s\<lparr>mv_nodes := mv_nodes s @ [Some \<lparr>node_ptr = Some v, node_usage = 0\<rparr>]\<rparr>"
  have node1: "node_at s1 x = (if x = ?a then Some \<lparr>node_ptr = Some v, node_usage = 0\<rparr> else node_at s x)" for x
    by (auto simp: node_at_def s1_def nth_append)
  have same: "refs s1 x = refs s x" "base_at s1 q = base_at s q" for x q
    by (simp_all add: s1_def)
  have none: "refs s ?a = 0"
    using mv_okD(1) [OF ok] by (auto simp: balanced_def node_at_def dest: spec [of _ ?a])
  have "\<exists>s'. setBase s1 p (Some ?a) = Some s' \<and> mv_ok s'
      \<and> (\<forall>q. base_at s' q = (if q = p then Some (Some ?a) else base_at s1 q))
      \<and> (\<forall>a. refs s' a > 0 \<longrightarrow> ptr_at s' a = ptr_at s1 a)"
  proof (rule setBase_spec)
    have "case node_at s1 x of None \<Rightarrow> refs s1 x = 0
        | Some n \<Rightarrow> node_usage n = refs s1 x \<and> node_ptr n \<noteq> None" for x
      using mv_okD(1) [OF ok, unfolded balanced_def, rule_format, of x] none
      by (auto simp: node1 same split: option.splits)
    then show "balanced s1" by (simp add: balanced_def)
    show "base_at s1 p = Some b" using live by (simp add: same)
    show "node_at s1 a \<noteq> None" if "Some ?a = Some a" for a using that by (simp add: node1)
    show "refs s1 a > 0" if "node_at s1 a \<noteq> None" "Some ?a \<noteq> Some a" for a
      using mv_okD(2) [OF ok, of a] that by (simp add: node1 same)
  qed
  then obtain s' where set: "setBase s1 p (Some ?a) = Some s'" and ok': "mv_ok s'"
    and base': "\<And>q. base_at s' q = (if q = p then Some (Some ?a) else base_at s q)"
    and ptr': "\<And>a. refs s' a > 0 \<Longrightarrow> ptr_at s' a = ptr_at s1 a" by (auto simp: same)
  have reset: "proxy_reset s p v = Some s'" using set by (simp add: proxy_reset_def s1_def)
  have val: "proxy_get s' p = Some v"
    using refs_positive [of s' p ?a] ptr' [of ?a] base' [of p] by (simp add: proxy_get_eq ptr_at_def node1)
  have others: "base_at s' q = base_at s q \<and> proxy_get s' q = proxy_get s q" if "q \<noteq> p" for q
  proof -
    have base: "base_at s' q = base_at s q" using that by (simp add: base')
    have "ptr_at s' a = ptr_at s a" if "base_at s q = Some (Some a)" for a
    proof -
      have "refs s a > 0" using that by (rule refs_positive)
      then have "a \<noteq> ?a" using none by auto
      then show ?thesis using refs_positive [of s' q a] ptr' [of a] that base by (simp add: ptr_at_def node1)
    qed
    with base show ?thesis by (auto simp: proxy_get_eq split: option.splits)
  qed
  have len: "length (mv_proxies s') = length (mv_proxies s)"
    using setBase_length [OF set] by (simp add: s1_def)
  from that [OF reset ok' val _ len others] base' [of p] show ?thesis by simp
qed

lemma decrBase_eq: "base_at s p = Some b \<Longrightarrow> decrBase s p = setBase s p None"
proof -
  assume base: "base_at s p = Some b"
  then have "(mv_proxies s)[p := Some None] = mv_proxies s" if "b = None"
    using that by (metis base_at_def list_update_id option.distinct(1))
  with base show ?thesis by (cases b) (simp_all add: decrBase_def setBase_def release_opt_def)
qed

lemma proxy_destroy_spec:
  assumes ok: "mv_ok s" and live: "base_at s p = Some b"
  obtains s' where "proxy_destroy s p = Some s'" and "mv_ok s'" and "base_at s' p = None"
    and "length (mv_proxies s') = length (mv_proxies s)"
    and "\<And>q. q \<noteq> p \<Longrightarrow> base_at s' q = base_at s q \<and> proxy_get s' q = proxy_get s q"
proof -
  have "\<exists>s'. setBase s p None = Some s' \<and> mv_ok s'
      \<and> (\<forall>q. base_at s' q = (if q = p then Some None else base_at s q))
      \<and> (\<forall>a. refs s' a > 0 \<longrightarrow> ptr_at s' a = ptr_at s a)"
    by (rule setBase_spec [OF mv_okD(1) [OF ok] live]) (simp_all add: mv_okD(2) [OF ok])
  then obtain s1 where set: "setBase s p None = Some s1" and ok1: "mv_ok s1"
    and base1: "\<And>q. base_at s1 q = (if q = p then Some None else base_at s q)"
    and ptr1: "\<And>a. refs s1 a > 0 \<Longrightarrow> ptr_at s1 a = ptr_at s a" by auto
  define s2 where "s2 = s1\<lparr>mv_proxies := (mv_proxies s1)[p := None]\<rparr>"
  have "proxy_destroy s p = Some s2"
    using set by (simp add: proxy_destroy_def decrBase_eq [OF live] s2_def)
  moreover have refs2: "refs s2 = refs s1"
    using refs_update [of s1 p None None] base1 [of p] by (simp add: s2_def fun_eq_iff)
  have node2: "node_at s2 = node_at s1" by (simp add: s2_def fun_eq_iff)
  have "mv_ok s2" using ok1 unfolding mv_ok_def balanced_def refs2 node2 .
  moreover have base2: "base_at s2 q = (if q = p then None else base_at s q)" for q
    using base1 by (simp add: s2_def)
  moreover have "base_at s2 q = base_at s q \<and> proxy_get s2 q = proxy_get s q" if "q \<noteq> p" for q
    using get_after [of s2 s q] ptr1 refs2 base2 [of q] that by (simp add: ptr_at_def node2)
  moreover have "length (mv_proxies s2) = length (mv_proxies s)"
    using setBase_length [OF set] by (simp add: s2_def)
  ultimately show ?thesis using that by simp
qed

lemma proxy_new_spec:
  assumes "mv_ok s"
  shows "mv_ok (snd (proxy_new s))" and "base_at (snd (proxy_new s)) (length (mv_proxies s)) = Some None"
    and "q \<noteq> length (mv_proxies s) \<Longrightarrow> base_at (snd (proxy_new s)) q = base_at s q
      \<and> proxy_get (snd (proxy_new s)) q = proxy_get s q"
  using assms
  by (auto simp: mv_ok_def balanced_new new_proxy_simps proxy_get_eq ptr_at_def split: option.splits)

lemma proxy_create_spec:
  assumes ok: "mv_ok s"
  obtains q s' where "proxy_create s v = Some (q, s')" and "mv_ok s'" and "proxy_get s' q = Some v"
    and "base_at s q = None" and "base_at s' q \<noteq> None"
    and "\<And>r. base_at s r \<noteq> None \<Longrightarrow> base_at s' r = base_at s r \<and> proxy_get s' r = proxy_get s r"
proof -
  let ?p = "length (mv_proxies s)" and ?s1 = "snd (proxy_new s)"
  note new = proxy_new_spec [OF ok]
  obtain s2 where s2: "proxy_reset ?s1 ?p v = Some s2" "mv_ok s2" "proxy_get s2 ?p = Some v"
      "base_at s2 ?p \<noteq> None" "length (mv_proxies s2) = length (mv_proxies ?s1)"
      "\<And>q. q \<noteq> ?p \<Longrightarrow> base_at s2 q = base_at ?s1 q \<and> proxy_get s2 q = proxy_get ?s1 q"
    using proxy_reset_spec [OF new(1,2)] by blast
  let ?q = "length (mv_proxies s2)"
  have q: "?q = Suc ?p" using s2(5) by (simp add: proxy_new_def)
  from s2(4) obtain b where b: "base_at s2 ?p = Some b" by auto
  obtain s3 where s3: "proxy_copy s2 ?p = Some (?q, s3)" "mv_ok s3" "base_at s3 ?q = Some b"
      "proxy_get s3 ?q = proxy_get s2 ?p"
      "\<And>r. r \<noteq> ?q \<Longrightarrow> base_at s3 r = base_at s2 r \<and> proxy_get s3 r = proxy_get s2 r"
    using proxy_copy_spec [OF s2(2) b] by blast
  have "base_at s3 ?p = Some b" using s3(5) [of ?p] q b by simp
  from proxy_destroy_spec [OF s3(2) this] obtain s4 where
    s4: "proxy_destroy s3 ?p = Some s4" "mv_ok s4" "base_at s4 ?p = None"
      "\<And>r. r \<noteq> ?p \<Longrightarrow> base_at s4 r = base_at s3 r \<and> proxy_get s4 r = proxy_get s3 r" by blast
  have p1: "fst (proxy_new s) = ?p" by (simp add: proxy_new_def)
  have create: "proxy_create s v = Some (?q, s4)"
    by (simp add: proxy_create_def split_def p1 s2(1) s3(1) s4(1))
  show ?thesis
  proof (rule that [OF create s4(2)])
    show "proxy_get s4 ?q = Some v" using s4(4) [of ?q] q s3(4) s2(3) by simp
    show "base_at s ?q = None" using q by (simp add: base_at_def)
    show "base_at s4 ?q \<noteq> None" using s4(4) [of ?q] q s3(3) by simp
    show "base_at s4 r = base_at s r \<and> proxy_get s4 r = proxy_get s r" if "base_at s r \<noteq> None" for r
    proof -
      have "r < ?p" using that by (auto simp: base_at_def split: if_splits)
      then show ?thesis using s4(4) [of r] s3(5) [of r] s2(6) [of r] new(3) [of r] q by simp
    qed
  qed
qed

section \<open>Interleaving a copy with an assignment\<close>

text \<open>
  One thread copies the proxy \<open>q\<close> while another assigns it a new value.  A step is one atomic access:
  the load of \<open>other.base\<close>, the compare-and-swap on the own base, the increment, the decrement, the
  deletion.  A schedule says whose turn it is; \<open>None\<close> is an access to a deleted object.
\<close>

datatype reader_pc = RLoad | RSwap "nat option" | RCount nat | RDone
datatype writer_pc = WBuild | WSwap nat | WCount nat "nat option" | WDrop "nat option" | WFree nat | WDone

record 'v race =
  r_mem :: "'v mv"
  r_proxy :: nat
  r_pc :: reader_pc
  w_pc :: writer_pc

definition race_start :: "'v mv \<Rightarrow> 'v race" where
  "race_start s = \<lparr>r_mem = s, r_proxy = length (mv_proxies s), r_pc = RLoad, w_pc = WBuild\<rparr>"

definition reader_step :: "nat \<Rightarrow> 'v race \<Rightarrow> 'v race option" where
  "reader_step q st = (case r_pc st of
       RLoad \<Rightarrow> (case base_at (r_mem st) q of
           None \<Rightarrow> None
         | Some parent \<Rightarrow>
             let (p, s) = proxy_new (r_mem st) in Some (st\<lparr>r_mem := s, r_proxy := p, r_pc := RSwap parent\<rparr>))
     | RSwap None \<Rightarrow> Some (st\<lparr>r_pc := RDone\<rparr>)
     | RSwap (Some a) \<Rightarrow>
         Some (st\<lparr>r_mem := (r_mem st)\<lparr>mv_proxies := (mv_proxies (r_mem st))[r_proxy st := Some (Some a)]\<rparr>,
                  r_pc := RCount a\<rparr>)
     | RCount a \<Rightarrow> map_option (\<lambda>s. st\<lparr>r_mem := s, r_pc := RDone\<rparr>) (incrCount (r_mem st) a)
     | RDone \<Rightarrow> Some st)"

definition writer_step :: "nat \<Rightarrow> 'v \<Rightarrow> 'v race \<Rightarrow> 'v race option" where
  "writer_step q v st = (case w_pc st of
       WBuild \<Rightarrow>
         let s = r_mem st; a = length (mv_nodes s) in
         Some (st\<lparr>r_mem := s\<lparr>mv_nodes := mv_nodes s @ [Some \<lparr>node_ptr = Some v, node_usage = 0\<rparr>]\<rparr>,
                  w_pc := WSwap a\<rparr>)
     | WSwap a \<Rightarrow> (case base_at (r_mem st) q of
           None \<Rightarrow> None
         | Some prevBase \<Rightarrow>
             Some (st\<lparr>r_mem := (r_mem st)\<lparr>mv_proxies := (mv_proxies (r_mem st))[q := Some (Some a)]\<rparr>,
                      w_pc := WCount a prevBase\<rparr>))
     | WCount a prevBase \<Rightarrow>
         map_option (\<lambda>s. st\<lparr>r_mem := s, w_pc := WDrop prevBase\<rparr>) (incrCount (r_mem st) a)
     | WDrop None \<Rightarrow> Some (st\<lparr>w_pc := WDone\<rparr>)
     | WDrop (Some b) \<Rightarrow>
         map_option (\<lambda>(count, s). st\<lparr>r_mem := s, w_pc := (if count = 0 then WFree b else WDone)\<rparr>)
           (decrCount (r_mem st) b)
     | WFree b \<Rightarrow>
         Some (st\<lparr>r_mem := (r_mem st)\<lparr>mv_nodes := (mv_nodes (r_mem st))[b := None]\<rparr>, w_pc := WDone\<rparr>)
     | WDone \<Rightarrow> Some st)"

datatype turn = Reader | Writer

fun run_race :: "nat \<Rightarrow> 'v \<Rightarrow> turn list \<Rightarrow> 'v race \<Rightarrow> 'v race option" where
  "run_race q v [] st = Some st"
| "run_race q v (Reader # ts) st = Option.bind (reader_step q st) (run_race q v ts)"
| "run_race q v (Writer # ts) st = Option.bind (writer_step q v st) (run_race q v ts)"

lemma run_race_append: "run_race q v (ts @ us) st = Option.bind (run_race q v ts st) (run_race q v us)"
  by (induction q v ts st rule: run_race.induct) (auto split: bind_splits)

lemma reader_alone:
  assumes "proxy_copy (r_mem st) q = Some (p, s')" and "base_at (r_mem st) q = Some (Some a)" and "r_pc st = RLoad"
  shows "run_race q v [Reader, Reader, Reader] st = Some (st\<lparr>r_mem := s', r_proxy := p, r_pc := RDone\<rparr>)"
  using assms
  by (auto simp: reader_step_def proxy_copy_def setBase_def release_opt_def proxy_new_def base_at_def
      nth_append split: option.splits)

lemma writer_alone:
  assumes "proxy_reset (r_mem st) q v = Some s'" and "base_at (r_mem st) q = Some (Some b)"
    and "b < length (mv_nodes (r_mem st))" and "w_pc st = WBuild"
  shows "run_race q v (replicate 5 Writer) st = Some (st\<lparr>r_mem := s', w_pc := WDone\<rparr>)"
  using assms
  by (auto simp: numeral_eq_Suc writer_step_def proxy_reset_def setBase_def release_opt_def release_def
      Let_def split: option.splits if_splits)

section \<open>Property of the pointer\<close>

text \<open>
  C37.  A proxy that is copied while it is assigned can be left with a deleted object: when the
  assignment of the last proxy of a node runs between the load and the increment of the copy, the
  increment touches the deleted node.  When the copy runs first, both succeed, the counts are
  right, and the copy keeps reading the old value.
\<close>

theorem copy_races_with_reset:
  assumes "mv_ok s" and "base_at s q = Some (Some a)" and "refs s a = 1"
  shows "run_race q v ([Reader] @ replicate 5 Writer @ [Reader, Reader]) (race_start s) = None
    \<and> (\<exists>st. run_race q v ([Reader, Reader, Reader] @ replicate 5 Writer) (race_start s) = Some st
         \<and> mv_ok (r_mem st) \<and> proxy_get (r_mem st) (r_proxy st) = proxy_get s q
         \<and> proxy_get (r_mem st) q = Some v)"
proof
  have node: "node_at s a \<noteq> None" using balanced_base [OF mv_okD(1) [OF assms(1)] assms(2)] .
  then have a: "a < length (mv_nodes s)" by (auto simp: node_at_def split: if_splits)
  let ?p = "length (mv_proxies s)"
  obtain n where n: "node_at s a = Some n" "node_usage n = 1"
    using node assms(1,3) by (auto simp: mv_ok_def balanced_def dest: spec [of _ a])
  have q: "q < ?p" "mv_proxies s ! q = Some (Some a)"
    using assms(2) by (auto simp: base_at_def split: if_splits)
  show "run_race q v ([Reader] @ replicate 5 Writer @ [Reader, Reader]) (race_start s) = None"
    using a n q
    by (simp add: numeral_eq_Suc race_start_def reader_step_def writer_step_def proxy_new_def base_at_def
        incrCount_def decrCount_def node_at_def nth_append)
  from proxy_copy_spec [OF assms(1,2)] obtain s1 where
    s1: "proxy_copy s q = Some (?p, s1)" "mv_ok s1" "base_at s1 ?p = Some (Some a)"
      "proxy_get s1 ?p = proxy_get s q"
      "\<And>r. r \<noteq> ?p \<Longrightarrow> base_at s1 r = base_at s r \<and> proxy_get s1 r = proxy_get s r" by blast
  have base1: "base_at s1 q = Some (Some a)" using s1(5) [of q] q assms(2) by simp
  have a1: "a < length (mv_nodes s1)"
    using balanced_base [OF mv_okD(1) [OF s1(2)] base1] by (auto simp: node_at_def split: if_splits)
  from proxy_reset_spec [OF s1(2) base1, of v] obtain s2 where
    s2: "proxy_reset s1 q v = Some s2" "mv_ok s2" "proxy_get s2 q = Some v"
      "\<And>r. r \<noteq> q \<Longrightarrow> base_at s2 r = base_at s1 r \<and> proxy_get s2 r = proxy_get s1 r" by blast
  let ?st = "(race_start s)\<lparr>r_mem := s1, r_proxy := ?p, r_pc := RDone\<rparr>"
  have "run_race q v [Reader, Reader, Reader] (race_start s) = Some ?st"
    by (rule reader_alone [of _ _ _ _ a]) (simp_all add: race_start_def s1(1) assms(2))
  moreover have "run_race q v (replicate 5 Writer) ?st = Some (?st\<lparr>r_mem := s2, w_pc := WDone\<rparr>)"
    by (rule writer_alone [of _ _ _ _ a]) (simp_all add: s2(1) base1 a1 race_start_def)
  ultimately have "run_race q v ([Reader, Reader, Reader] @ replicate 5 Writer) (race_start s)
      = Some (?st\<lparr>r_mem := s2, w_pc := WDone\<rparr>)" unfolding run_race_append by simp
  moreover have "proxy_get s2 ?p = proxy_get s q" using s2(4) [of ?p] q(1) s1(4) by simp
  ultimately show "\<exists>st. run_race q v ([Reader, Reader, Reader] @ replicate 5 Writer) (race_start s) = Some st
         \<and> mv_ok (r_mem st) \<and> proxy_get (r_mem st) (r_proxy st) = proxy_get s q
         \<and> proxy_get (r_mem st) q = Some v"
    using s2(2,3) by auto
qed

theorem copy_races_with_reset_witness:
  "run_race 0 (2::nat) ([Reader] @ replicate 5 Writer @ [Reader, Reader])
     (race_start \<lparr>mv_nodes = [Some \<lparr>node_ptr = Some 1, node_usage = 1\<rparr>], mv_proxies = [Some (Some 0)]\<rparr>) = None"
proof -
  let ?s = "\<lparr>mv_nodes = [Some \<lparr>node_ptr = Some (1::nat), node_usage = 1\<rparr>], mv_proxies = [Some (Some 0)]\<rparr>"
  have "mv_ok ?s" by (auto simp: mv_ok_def balanced_def node_at_def refs_def)
  then show ?thesis using copy_races_with_reset [of ?s 0 0 2] by (simp add: base_at_def refs_def)
qed

end
