(* ===== verification/ConcurrentMap.thy ===== *)
theory ConcurrentMap
  imports MultiVersion
begin

text \<open>
  \<open>util/ConcurrentMap.h\<close>: an ordered map (folly's \<open>ConcurrentSkipList\<close>, here its list of items in
  key order) whose items keep their values behind proxies of \<open>MultiVersionPtr\<close>.  \<open>getOption\<close> hands out
  a copy of the proxy, so that a reader keeps the version it got.  The theory also has the race
  between such a copy and an update.
\<close>

section \<open>The map\<close>

record 'v cmap =
  cm_mem :: "'v mv"
  cm_items :: "(string \<times> nat) list"

definition cm_empty :: "'v cmap" where
  "cm_empty = \<lparr>cm_mem = mv_empty, cm_items = []\<rparr>"

text \<open>
  A new item is built like \<open>create\<close> builds its proxy: a null proxy, \<open>reset\<close>, the copy into the list,
  the destruction of the local item.  The item used for searching has a null proxy, which touches
  no node.
\<close>

definition insertOrUpdate :: "'v cmap \<Rightarrow> string \<Rightarrow> 'v \<Rightarrow> 'v cmap option" where
  "insertOrUpdate m key val = (case map_of (cm_items m) key of
       Some p \<Rightarrow> map_option (\<lambda>s. m\<lparr>cm_mem := s\<rparr>) (proxy_reset (cm_mem m) p val)
     | None \<Rightarrow> map_option (\<lambda>(q, s). m\<lparr>cm_mem := s, cm_items := kv_put key q (cm_items m)\<rparr>)
                 (proxy_create (cm_mem m) val))"

definition cm_erase :: "'v cmap \<Rightarrow> string \<Rightarrow> (bool \<times> 'v cmap) option" where
  "cm_erase m key = (case map_of (cm_items m) key of
       None \<Rightarrow> Some (False, m)
     | Some p \<Rightarrow> map_option (\<lambda>s. (True, m\<lparr>cm_mem := s, cm_items := kv_erase key (cm_items m)\<rparr>))
                   (proxy_destroy (cm_mem m) p))"

definition getOption :: "'v cmap \<Rightarrow> string \<Rightarrow> (nat option \<times> 'v cmap) option" where
  "getOption m key = (case map_of (cm_items m) key of
       None \<Rightarrow> Some (None, m)
     | Some p \<Rightarrow> map_option (\<lambda>(q, s). (Some q, m\<lparr>cm_mem := s\<rparr>)) (proxy_copy (cm_mem m) p))"

text \<open>What a reader does with its proxy: \<open>operator->\<close>, and the destructor at the end.\<close>

definition cm_deref :: "'v cmap \<Rightarrow> nat \<Rightarrow> 'v option" where
  "cm_deref m q = proxy_get (cm_mem m) q"

definition cm_release :: "'v cmap \<Rightarrow> nat \<Rightarrow> 'v cmap option" where
  "cm_release m q = map_option (\<lambda>s. m\<lparr>cm_mem := s\<rparr>) (proxy_destroy (cm_mem m) q)"

section \<open>The map it implements\<close>

definition cm_view :: "'v cmap \<Rightarrow> string \<Rightarrow> 'v option" where
  "cm_view m k = Option.bind (map_of (cm_items m) k) (proxy_get (cm_mem m))"

definition cm_ok :: "'v cmap \<Rightarrow> bool" where
  "cm_ok m \<longleftrightarrow> mv_ok (cm_mem m) \<and> kv_sorted (cm_items m)
     \<and> (\<forall>k p. map_of (cm_items m) k = Some p \<longrightarrow> proxy_get (cm_mem m) p \<noteq> None)
     \<and> (\<forall>k k' p. map_of (cm_items m) k = Some p \<longrightarrow> map_of (cm_items m) k' = Some p \<longrightarrow> k = k')"

text \<open>The proxies that readers hold: the live ones outside the map.\<close>

definition held :: "'v cmap \<Rightarrow> nat \<Rightarrow> bool" where
  "held m q \<longleftrightarrow> base_at (cm_mem m) q \<noteq> None \<and> (\<forall>k. map_of (cm_items m) k \<noteq> Some q)"

lemma get_live: "proxy_get s p \<noteq> None \<Longrightarrow> \<exists>b. base_at s p = Some b"
  by (auto simp: proxy_get_eq split: option.splits)

lemma cm_ok_empty: "cm_ok cm_empty"
  by (auto simp: cm_ok_def cm_empty_def mv_empty_def mv_ok_def balanced_def node_at_def refs_def)

lemma cm_view_empty: "cm_view cm_empty = (\<lambda>k. None)"
  by (simp add: cm_view_def cm_empty_def fun_eq_iff)

lemma insertOrUpdate_spec:
  assumes ok: "cm_ok m"
  obtains m' where "insertOrUpdate m key val = Some m'" and "cm_ok m'"
    and "cm_view m' = (cm_view m)(key \<mapsto> val)"
    and "\<And>q. held m q \<Longrightarrow> held m' q \<and> cm_deref m' q = cm_deref m q"
proof (cases "map_of (cm_items m) key")
  case (Some p)
  with ok obtain b where "base_at (cm_mem m) p = Some b" and mv: "mv_ok (cm_mem m)"
    using get_live by (fastforce simp: cm_ok_def)
  from proxy_reset_spec [OF mv this(1), of val] obtain s' where
    s': "proxy_reset (cm_mem m) p val = Some s'" "mv_ok s'" "proxy_get s' p = Some val"
      "\<And>q. q \<noteq> p \<Longrightarrow> base_at s' q = base_at (cm_mem m) q \<and> proxy_get s' q = proxy_get (cm_mem m) q"
    by blast
  let ?m = "m\<lparr>cm_mem := s'\<rparr>"
  have "proxy_get s' q \<noteq> None" if "map_of (cm_items m) k = Some q" for k q
    using ok that s'(3,4) by (cases "q = p") (auto simp: cm_ok_def)
  then have "cm_ok ?m" using ok s'(2) by (auto simp: cm_ok_def)
  moreover have "cm_view ?m k = ((cm_view m)(key \<mapsto> val)) k" for k
  proof (cases "k = key")
    case False
    with ok Some have "q \<noteq> p" if "map_of (cm_items m) k = Some q" for q
      using that by (auto simp: cm_ok_def)
    with False s'(4) show ?thesis by (cases "map_of (cm_items m) k") (simp_all add: cm_view_def)
  qed (simp add: cm_view_def Some s'(3))
  moreover have "held ?m q \<and> cm_deref ?m q = cm_deref m q" if "held m q" for q
  proof -
    from that Some have "q \<noteq> p" by (auto simp: held_def)
    with that s'(4) [of q] show ?thesis by (simp add: held_def cm_deref_def)
  qed
  ultimately show ?thesis using that [of ?m] Some s'(1) by (auto simp: insertOrUpdate_def fun_eq_iff)
next
  case None
  have mv: "mv_ok (cm_mem m)" and sorted: "kv_sorted (cm_items m)" using ok by (simp_all add: cm_ok_def)
  from proxy_create_spec [OF mv, of val] obtain q s' where
    s': "proxy_create (cm_mem m) val = Some (q, s')" "mv_ok s'" "proxy_get s' q = Some val"
      "base_at (cm_mem m) q = None" "base_at s' q \<noteq> None"
      "\<And>r. base_at (cm_mem m) r \<noteq> None \<Longrightarrow> base_at s' r = base_at (cm_mem m) r
          \<and> proxy_get s' r = proxy_get (cm_mem m) r"
    by blast
  let ?m = "m\<lparr>cm_mem := s', cm_items := kv_put key q (cm_items m)\<rparr>"
  have old: "r \<noteq> q \<and> base_at (cm_mem m) r \<noteq> None" if "map_of (cm_items m) k = Some r" for k r
    using ok that s'(4) get_live by (fastforce simp: cm_ok_def)
  have "cm_ok ?m"
    using ok s' old by (auto simp: cm_ok_def kv_sorted_put map_of_kv_put split: if_splits)
  moreover have "cm_view ?m k = ((cm_view m)(key \<mapsto> val)) k" for k
    using s'(3) s'(6) old [of k] sorted
    by (cases "map_of (cm_items m) k") (auto simp: cm_view_def map_of_kv_put)
  moreover have "held ?m r \<and> cm_deref ?m r = cm_deref m r" if "held m r" for r
    using that s'(4) s'(6) [of r] sorted by (auto simp: held_def cm_deref_def map_of_kv_put)
  ultimately show ?thesis using that [of ?m] None s'(1) by (auto simp: insertOrUpdate_def fun_eq_iff)
qed

lemma cm_erase_spec:
  assumes ok: "cm_ok m"
  obtains m' where "cm_erase m key = Some (cm_view m key \<noteq> None, m')" and "cm_ok m'"
    and "cm_view m' = (cm_view m)(key := None)"
    and "\<And>q. held m q \<Longrightarrow> held m' q \<and> cm_deref m' q = cm_deref m q"
proof (cases "map_of (cm_items m) key")
  case (Some p)
  with ok obtain b where b: "base_at (cm_mem m) p = Some b" and mv: "mv_ok (cm_mem m)"
    using get_live by (fastforce simp: cm_ok_def)
  from proxy_destroy_spec [OF mv b] obtain s' where
    s': "proxy_destroy (cm_mem m) p = Some s'" "mv_ok s'"
      "\<And>q. q \<noteq> p \<Longrightarrow> base_at s' q = base_at (cm_mem m) q \<and> proxy_get s' q = proxy_get (cm_mem m) q"
    by blast
  let ?m = "m\<lparr>cm_mem := s', cm_items := kv_erase key (cm_items m)\<rparr>"
  have other: "q \<noteq> p" if "map_of (cm_items m) k = Some q" "k \<noteq> key" for k q
    using ok Some that by (auto simp: cm_ok_def)
  have "cm_ok ?m"
    using ok s'(2,3) other by (auto simp: cm_ok_def kv_sorted_erase map_of_kv_erase split: if_splits)
  moreover have "cm_view ?m k = ((cm_view m)(key := None)) k" for k
    using s'(3) other [of k] by (cases "map_of (cm_items m) k") (auto simp: cm_view_def map_of_kv_erase)
  moreover have "held ?m q \<and> cm_deref ?m q = cm_deref m q" if "held m q" for q
  proof -
    from that Some have "q \<noteq> p" by (auto simp: held_def)
    with that s'(3) [of q] show ?thesis by (simp add: held_def cm_deref_def map_of_kv_erase)
  qed
  moreover have "cm_view m key \<noteq> None" using ok Some by (auto simp: cm_view_def cm_ok_def)
  ultimately show ?thesis using that [of ?m] Some s'(1) by (auto simp: cm_erase_def fun_eq_iff)
next
  case None
  then have "(cm_view m)(key := None) = cm_view m" by (auto simp: cm_view_def fun_eq_iff)
  with that [of m] None ok show ?thesis by (simp add: cm_erase_def cm_view_def)
qed

lemma getOption_spec:
  assumes ok: "cm_ok m"
  obtains (Absent) "cm_view m key = None" and "getOption m key = Some (None, m)"
  | (Found) q m' v where "cm_view m key = Some v" and "getOption m key = Some (Some q, m')" and "cm_ok m'"
    and "cm_view m' = cm_view m" and "held m' q" and "cm_deref m' q = Some v"
    and "\<And>r. held m r \<Longrightarrow> held m' r \<and> r \<noteq> q \<and> cm_deref m' r = cm_deref m r"
proof (cases "map_of (cm_items m) key")
  case None
  with Absent show ?thesis by (simp add: cm_view_def getOption_def)
next
  case (Some p)
  with ok obtain b v where b: "base_at (cm_mem m) p = Some b" and mv: "mv_ok (cm_mem m)"
    and v: "proxy_get (cm_mem m) p = Some v"
    using get_live by (fastforce simp: cm_ok_def)
  let ?q = "length (mv_proxies (cm_mem m))"
  from proxy_copy_spec [OF mv b] obtain s' where
    s': "proxy_copy (cm_mem m) p = Some (?q, s')" "mv_ok s'" "base_at s' ?q = Some b"
      "proxy_get s' ?q = proxy_get (cm_mem m) p"
      "\<And>q. q \<noteq> ?q \<Longrightarrow> base_at s' q = base_at (cm_mem m) q \<and> proxy_get s' q = proxy_get (cm_mem m) q"
    by blast
  let ?m = "m\<lparr>cm_mem := s'\<rparr>"
  have old: "r \<noteq> ?q" if "map_of (cm_items m) k = Some r" for k r
    using ok that fresh_proxy [of "cm_mem m"] get_live [of "cm_mem m" r] by (auto simp: cm_ok_def)
  have "proxy_get s' r \<noteq> None" if "map_of (cm_items m) k = Some r" for k r
    using ok that s'(5) [OF old [OF that]] by (simp add: cm_ok_def)
  then have "cm_ok ?m" using ok s'(2) by (auto simp: cm_ok_def)
  moreover have "cm_view ?m k = cm_view m k" for k
    using s'(5) old [of k] by (cases "map_of (cm_items m) k") (simp_all add: cm_view_def)
  moreover have "held ?m ?q" using s'(3) old by (auto simp: held_def)
  moreover have "held ?m r \<and> r \<noteq> ?q \<and> cm_deref ?m r = cm_deref m r" if "held m r" for r
  proof -
    from that fresh_proxy [of "cm_mem m"] have "r \<noteq> ?q" by (auto simp: held_def)
    with that s'(5) [of r] show ?thesis by (simp add: held_def cm_deref_def)
  qed
  ultimately show ?thesis
    using Found [of v ?q ?m] Some s'(1,4) v by (auto simp: getOption_def cm_view_def cm_deref_def fun_eq_iff)
qed

lemma cm_release_spec:
  assumes ok: "cm_ok m" and held: "held m q"
  obtains m' where "cm_release m q = Some m'" and "cm_ok m'" and "cm_view m' = cm_view m"
    and "\<And>r. held m r \<Longrightarrow> r \<noteq> q \<Longrightarrow> held m' r \<and> cm_deref m' r = cm_deref m r"
proof -
  from ok held obtain b where b: "base_at (cm_mem m) q = Some b" and mv: "mv_ok (cm_mem m)"
    by (auto simp: held_def cm_ok_def)
  from proxy_destroy_spec [OF mv b] obtain s' where
    s': "proxy_destroy (cm_mem m) q = Some s'" "mv_ok s'"
      "\<And>r. r \<noteq> q \<Longrightarrow> base_at s' r = base_at (cm_mem m) r \<and> proxy_get s' r = proxy_get (cm_mem m) r"
    by blast
  let ?m = "m\<lparr>cm_mem := s'\<rparr>"
  have other: "r \<noteq> q" if "map_of (cm_items m) k = Some r" for k r using held that by (auto simp: held_def)
  have "proxy_get s' r \<noteq> None" if "map_of (cm_items m) k = Some r" for k r
    using ok that s'(3) [OF other [OF that]] by (simp add: cm_ok_def)
  then have "cm_ok ?m" using ok s'(2) by (auto simp: cm_ok_def)
  moreover have "cm_view ?m k = cm_view m k" for k
    using s'(3) other [of k] by (cases "map_of (cm_items m) k") (simp_all add: cm_view_def)
  moreover have "held ?m r \<and> cm_deref ?m r = cm_deref m r" if "held m r" "r \<noteq> q" for r
    using that s'(3) [of r] by (simp add: held_def cm_deref_def)
  ultimately show ?thesis using that [of ?m] s'(1) by (auto simp: cm_release_def fun_eq_iff)
qed

section \<open>Property of the map\<close>



end
