(* ===== verification/Unicode.thy ===== *)
theory Unicode
  imports Prelude "HOL-Library.Word"
begin

text \<open>
  \<open>src/src/libunicode/UnicodeBlock\<close>: the enumeration of the Unicode blocks, the decision tree from
  code points to blocks, and the names of the blocks.  A value of the \<open>enum class\<close> is its
  position in the enumeration; the enumerators are abbreviations for these values.  The tree is cut
  into its subtrees of about 125 lines, which \<open>getUnicodeBlock\<close> composes as the source nests them.
\<close>

section \<open>The enumeration\<close>

datatype UnicodeBlock = UnicodeBlock nat

abbreviation AEGEAN_NUMBERS :: UnicodeBlock where "AEGEAN_NUMBERS \<equiv> UnicodeBlock 0"
abbreviation AHOM :: UnicodeBlock where "AHOM \<equiv> UnicodeBlock 1"
abbreviation ALCHEMICAL_SYMBOLS :: UnicodeBlock where "ALCHEMICAL_SYMBOLS \<equiv> UnicodeBlock 2"
abbreviation ALPHABETIC_PRESENTATION_FORMS :: UnicodeBlock where "ALPHABETIC_PRESENTATION_FORMS \<equiv> UnicodeBlock 3"
abbreviation ANATOLIAN_HIEROGLYPHS :: UnicodeBlock where "ANATOLIAN_HIEROGLYPHS \<equiv> UnicodeBlock 4"
abbreviation ANCIENT_GREEK_MUSICAL_NOTATION :: UnicodeBlock where "ANCIENT_GREEK_MUSICAL_NOTATION \<equiv> UnicodeBlock 5"
abbreviation ANCIENT_GREEK_NUMBERS :: UnicodeBlock where "ANCIENT_GREEK_NUMBERS \<equiv> UnicodeBlock 6"
abbreviation ANCIENT_SYMBOLS :: UnicodeBlock where "ANCIENT_SYMBOLS \<equiv> UnicodeBlock 7"
abbreviation ARABIC :: UnicodeBlock where "ARABIC \<equiv> UnicodeBlock 8"
abbreviation ARABIC_EXTENDED_A :: UnicodeBlock where "ARABIC_EXTENDED_A \<equiv> UnicodeBlock 9"
abbreviation ARABIC_MATHEMATICAL_ALPHABETIC_SYMBOLS :: UnicodeBlock where "ARABIC_MATHEMATICAL_ALPHABETIC_SYMBOLS \<equiv> UnicodeBlock 10"
abbreviation ARABIC_PRESENTATION_FORMS_A :: UnicodeBlock where "ARABIC_PRESENTATION_FORMS_A \<equiv> UnicodeBlock 11"
abbreviation ARABIC_PRESENTATION_FORMS_B :: UnicodeBlock where "ARABIC_PRESENTATION_FORMS_B \<equiv> UnicodeBlock 12"
abbreviation ARABIC_SUPPLEMENT :: UnicodeBlock where "ARABIC_SUPPLEMENT \<equiv> UnicodeBlock 13"
abbreviation ARMENIAN :: UnicodeBlock where "ARMENIAN \<equiv> UnicodeBlock 14"
abbreviation ARROWS :: UnicodeBlock where "ARROWS \<equiv> UnicodeBlock 15"
abbreviation AVESTAN :: UnicodeBlock where "AVESTAN \<equiv> UnicodeBlock 16"
abbreviation BALINESE :: UnicodeBlock where "BALINESE \<equiv> UnicodeBlock 17"
abbreviation BAMUM :: UnicodeBlock where "BAMUM \<equiv> UnicodeBlock 18"
abbreviation BAMUM_SUPPLEMENT :: UnicodeBlock where "BAMUM_SUPPLEMENT \<equiv> UnicodeBlock 19"
abbreviation BASIC_LATIN :: UnicodeBlock where "BASIC_LATIN \<equiv> UnicodeBlock 20"
abbreviation BASSA_VAH :: UnicodeBlock where "BASSA_VAH \<equiv> UnicodeBlock 21"
abbreviation BATAK :: UnicodeBlock where "BATAK \<equiv> UnicodeBlock 22"
abbreviation BENGALI :: UnicodeBlock where "BENGALI \<equiv> UnicodeBlock 23"
abbreviation BLOCK_ELEMENTS :: UnicodeBlock where "BLOCK_ELEMENTS \<equiv> UnicodeBlock 24"
abbreviation BOPOMOFO :: UnicodeBlock where "BOPOMOFO \<equiv> UnicodeBlock 25"
abbreviation BOPOMOFO_EXTENDED :: UnicodeBlock where "BOPOMOFO_EXTENDED \<equiv> UnicodeBlock 26"
abbreviation BOX_DRAWING :: UnicodeBlock where "BOX_DRAWING \<equiv> UnicodeBlock 27"
abbreviation BRAHMI :: UnicodeBlock where "BRAHMI \<equiv> UnicodeBlock 28"
abbreviation BRAILLE_PATTERNS :: UnicodeBlock where "BRAILLE_PATTERNS \<equiv> UnicodeBlock 29"
abbreviation BUGINESE :: UnicodeBlock where "BUGINESE \<equiv> UnicodeBlock 30"
abbreviation BUHID :: UnicodeBlock where "BUHID \<equiv> UnicodeBlock 31"
abbreviation BYZANTINE_MUSICAL_SYMBOLS :: UnicodeBlock where "BYZANTINE_MUSICAL_SYMBOLS \<equiv> UnicodeBlock 32"
abbreviation CJK_COMPATIBILITY :: UnicodeBlock where "CJK_COMPATIBILITY \<equiv> UnicodeBlock 33"
abbreviation CJK_COMPATIBILITY_FORMS :: UnicodeBlock where "CJK_COMPATIBILITY_FORMS \<equiv> UnicodeBlock 34"
abbreviation CJK_COMPATIBILITY_IDEOGRAPHS :: UnicodeBlock where "CJK_COMPATIBILITY_IDEOGRAPHS \<equiv> UnicodeBlock 35"
abbreviation CJK_COMPATIBILITY_IDEOGRAPHS_SUPPLEMENT :: UnicodeBlock where "CJK_COMPATIBILITY_IDEOGRAPHS_SUPPLEMENT \<equiv> UnicodeBlock 36"
abbreviation CJK_RADICALS_SUPPLEMENT :: UnicodeBlock where "CJK_RADICALS_SUPPLEMENT \<equiv> UnicodeBlock 37"
abbreviation CJK_STROKES :: UnicodeBlock where "CJK_STROKES \<equiv> UnicodeBlock 38"
abbreviation CJK_SYMBOLS_AND_PUNCTUATION :: UnicodeBlock where "CJK_SYMBOLS_AND_PUNCTUATION \<equiv> UnicodeBlock 39"
abbreviation CJK_UNIFIED_IDEOGRAPHS :: UnicodeBlock where "CJK_UNIFIED_IDEOGRAPHS \<equiv> UnicodeBlock 40"
abbreviation CJK_UNIFIED_IDEOGRAPHS_EXTENSION_A :: UnicodeBlock where "CJK_UNIFIED_IDEOGRAPHS_EXTENSION_A \<equiv> UnicodeBlock 41"
abbreviation CJK_UNIFIED_IDEOGRAPHS_EXTENSION_B :: UnicodeBlock where "CJK_UNIFIED_IDEOGRAPHS_EXTENSION_B \<equiv> UnicodeBlock 42"
abbreviation CJK_UNIFIED_IDEOGRAPHS_EXTENSION_C :: UnicodeBlock where "CJK_UNIFIED_IDEOGRAPHS_EXTENSION_C \<equiv> UnicodeBlock 43"
abbreviation CJK_UNIFIED_IDEOGRAPHS_EXTENSION_D :: UnicodeBlock where "CJK_UNIFIED_IDEOGRAPHS_EXTENSION_D \<equiv> UnicodeBlock 44"
abbreviation CJK_UNIFIED_IDEOGRAPHS_EXTENSION_E :: UnicodeBlock where "CJK_UNIFIED_IDEOGRAPHS_EXTENSION_E \<equiv> UnicodeBlock 45"
abbreviation CARIAN :: UnicodeBlock where "CARIAN \<equiv> UnicodeBlock 46"
abbreviation CAUCASIAN_ALBANIAN :: UnicodeBlock where "CAUCASIAN_ALBANIAN \<equiv> UnicodeBlock 47"
abbreviation CHAKMA :: UnicodeBlock where "CHAKMA \<equiv> UnicodeBlock 48"
abbreviation CHAM :: UnicodeBlock where "CHAM \<equiv> UnicodeBlock 49"
abbreviation CHEROKEE :: UnicodeBlock where "CHEROKEE \<equiv> UnicodeBlock 50"
abbreviation CHEROKEE_SUPPLEMENT :: UnicodeBlock where "CHEROKEE_SUPPLEMENT \<equiv> UnicodeBlock 51"
abbreviation COMBINING_DIACRITICAL_MARKS :: UnicodeBlock where "COMBINING_DIACRITICAL_MARKS \<equiv> UnicodeBlock 52"
abbreviation COMBINING_DIACRITICAL_MARKS_EXTENDED :: UnicodeBlock where "COMBINING_DIACRITICAL_MARKS_EXTENDED \<equiv> UnicodeBlock 53"
abbreviation COMBINING_DIACRITICAL_MARKS_SUPPLEMENT :: UnicodeBlock where "COMBINING_DIACRITICAL_MARKS_SUPPLEMENT \<equiv> UnicodeBlock 54"
abbreviation COMBINING_DIACRITICAL_MARKS_FOR_SYMBOLS :: UnicodeBlock where "COMBINING_DIACRITICAL_MARKS_FOR_SYMBOLS \<equiv> UnicodeBlock 55"
abbreviation COMBINING_HALF_MARKS :: UnicodeBlock where "COMBINING_HALF_MARKS \<equiv> UnicodeBlock 56"
abbreviation COMMON_INDIC_NUMBER_FORMS :: UnicodeBlock where "COMMON_INDIC_NUMBER_FORMS \<equiv> UnicodeBlock 57"
abbreviation CONTROL_PICTURES :: UnicodeBlock where "CONTROL_PICTURES \<equiv> UnicodeBlock 58"
abbreviation COPTIC :: UnicodeBlock where "COPTIC \<equiv> UnicodeBlock 59"
abbreviation COPTIC_EPACT_NUMBERS :: UnicodeBlock where "COPTIC_EPACT_NUMBERS \<equiv> UnicodeBlock 60"
abbreviation COUNTING_ROD_NUMERALS :: UnicodeBlock where "COUNTING_ROD_NUMERALS \<equiv> UnicodeBlock 61"
abbreviation CUNEIFORM :: UnicodeBlock where "CUNEIFORM \<equiv> UnicodeBlock 62"
abbreviation CUNEIFORM_NUMBERS_AND_PUNCTUATION :: UnicodeBlock where "CUNEIFORM_NUMBERS_AND_PUNCTUATION \<equiv> UnicodeBlock 63"
abbreviation CURRENCY_SYMBOLS :: UnicodeBlock where "CURRENCY_SYMBOLS \<equiv> UnicodeBlock 64"
abbreviation CYPRIOT_SYLLABARY :: UnicodeBlock where "CYPRIOT_SYLLABARY \<equiv> UnicodeBlock 65"
abbreviation CYRILLIC :: UnicodeBlock where "CYRILLIC \<equiv> UnicodeBlock 66"
abbreviation CYRILLIC_EXTENDED_A :: UnicodeBlock where "CYRILLIC_EXTENDED_A \<equiv> UnicodeBlock 67"
abbreviation CYRILLIC_EXTENDED_B :: UnicodeBlock where "CYRILLIC_EXTENDED_B \<equiv> UnicodeBlock 68"
abbreviation CYRILLIC_SUPPLEMENT :: UnicodeBlock where "CYRILLIC_SUPPLEMENT \<equiv> UnicodeBlock 69"
abbreviation DESERET :: UnicodeBlock where "DESERET \<equiv> UnicodeBlock 70"
abbreviation DEVANAGARI :: UnicodeBlock where "DEVANAGARI \<equiv> UnicodeBlock 71"
abbreviation DEVANAGARI_EXTENDED :: UnicodeBlock where "DEVANAGARI_EXTENDED \<equiv> UnicodeBlock 72"
abbreviation DINGBATS :: UnicodeBlock where "DINGBATS \<equiv> UnicodeBlock 73"
abbreviation DOMINO_TILES :: UnicodeBlock where "DOMINO_TILES \<equiv> UnicodeBlock 74"
abbreviation DUPLOYAN :: UnicodeBlock where "DUPLOYAN \<equiv> UnicodeBlock 75"
abbreviation EARLY_DYNASTIC_CUNEIFORM :: UnicodeBlock where "EARLY_DYNASTIC_CUNEIFORM \<equiv> UnicodeBlock 76"
abbreviation EGYPTIAN_HIEROGLYPHS :: UnicodeBlock where "EGYPTIAN_HIEROGLYPHS \<equiv> UnicodeBlock 77"
abbreviation ELBASAN :: UnicodeBlock where "ELBASAN \<equiv> UnicodeBlock 78"
abbreviation EMOTICONS :: UnicodeBlock where "EMOTICONS \<equiv> UnicodeBlock 79"
abbreviation ENCLOSED_ALPHANUMERIC_SUPPLEMENT :: UnicodeBlock where "ENCLOSED_ALPHANUMERIC_SUPPLEMENT \<equiv> UnicodeBlock 80"
abbreviation ENCLOSED_ALPHANUMERICS :: UnicodeBlock where "ENCLOSED_ALPHANUMERICS \<equiv> UnicodeBlock 81"
abbreviation ENCLOSED_CJK_LETTERS_AND_MONTHS :: UnicodeBlock where "ENCLOSED_CJK_LETTERS_AND_MONTHS \<equiv> UnicodeBlock 82"
abbreviation ENCLOSED_IDEOGRAPHIC_SUPPLEMENT :: UnicodeBlock where "ENCLOSED_IDEOGRAPHIC_SUPPLEMENT \<equiv> UnicodeBlock 83"
abbreviation ETHIOPIC :: UnicodeBlock where "ETHIOPIC \<equiv> UnicodeBlock 84"
abbreviation ETHIOPIC_EXTENDED :: UnicodeBlock where "ETHIOPIC_EXTENDED \<equiv> UnicodeBlock 85"
abbreviation ETHIOPIC_EXTENDED_A :: UnicodeBlock where "ETHIOPIC_EXTENDED_A \<equiv> UnicodeBlock 86"
abbreviation ETHIOPIC_SUPPLEMENT :: UnicodeBlock where "ETHIOPIC_SUPPLEMENT \<equiv> UnicodeBlock 87"
abbreviation GENERAL_PUNCTUATION :: UnicodeBlock where "GENERAL_PUNCTUATION \<equiv> UnicodeBlock 88"
abbreviation GEOMETRIC_SHAPES :: UnicodeBlock where "GEOMETRIC_SHAPES \<equiv> UnicodeBlock 89"
abbreviation GEOMETRIC_SHAPES_EXTENDED :: UnicodeBlock where "GEOMETRIC_SHAPES_EXTENDED \<equiv> UnicodeBlock 90"
abbreviation GEORGIAN :: UnicodeBlock where "GEORGIAN \<equiv> UnicodeBlock 91"
abbreviation GEORGIAN_SUPPLEMENT :: UnicodeBlock where "GEORGIAN_SUPPLEMENT \<equiv> UnicodeBlock 92"
abbreviation GLAGOLITIC :: UnicodeBlock where "GLAGOLITIC \<equiv> UnicodeBlock 93"
abbreviation GOTHIC :: UnicodeBlock where "GOTHIC \<equiv> UnicodeBlock 94"
abbreviation GRANTHA :: UnicodeBlock where "GRANTHA \<equiv> UnicodeBlock 95"
abbreviation GREEK_EXTENDED :: UnicodeBlock where "GREEK_EXTENDED \<equiv> UnicodeBlock 96"
abbreviation GREEK_AND_COPTIC :: UnicodeBlock where "GREEK_AND_COPTIC \<equiv> UnicodeBlock 97"
abbreviation GUJARATI :: UnicodeBlock where "GUJARATI \<equiv> UnicodeBlock 98"
abbreviation GURMUKHI :: UnicodeBlock where "GURMUKHI \<equiv> UnicodeBlock 99"
abbreviation HALFWIDTH_AND_FULLWIDTH_FORMS :: UnicodeBlock where "HALFWIDTH_AND_FULLWIDTH_FORMS \<equiv> UnicodeBlock 100"
abbreviation HANGUL_COMPATIBILITY_JAMO :: UnicodeBlock where "HANGUL_COMPATIBILITY_JAMO \<equiv> UnicodeBlock 101"
abbreviation HANGUL_JAMO :: UnicodeBlock where "HANGUL_JAMO \<equiv> UnicodeBlock 102"
abbreviation HANGUL_JAMO_EXTENDED_A :: UnicodeBlock where "HANGUL_JAMO_EXTENDED_A \<equiv> UnicodeBlock 103"
abbreviation HANGUL_JAMO_EXTENDED_B :: UnicodeBlock where "HANGUL_JAMO_EXTENDED_B \<equiv> UnicodeBlock 104"
abbreviation HANGUL_SYLLABLES :: UnicodeBlock where "HANGUL_SYLLABLES \<equiv> UnicodeBlock 105"
abbreviation HANUNOO :: UnicodeBlock where "HANUNOO \<equiv> UnicodeBlock 106"
abbreviation HATRAN :: UnicodeBlock where "HATRAN \<equiv> UnicodeBlock 107"
abbreviation HEBREW :: UnicodeBlock where "HEBREW \<equiv> UnicodeBlock 108"
abbreviation HIGH_PRIVATE_USE_SURROGATES :: UnicodeBlock where "HIGH_PRIVATE_USE_SURROGATES \<equiv> UnicodeBlock 109"
abbreviation HIGH_SURROGATES :: UnicodeBlock where "HIGH_SURROGATES \<equiv> UnicodeBlock 110"
abbreviation HIRAGANA :: UnicodeBlock where "HIRAGANA \<equiv> UnicodeBlock 111"
abbreviation IPA_EXTENSIONS :: UnicodeBlock where "IPA_EXTENSIONS \<equiv> UnicodeBlock 112"
abbreviation IDEOGRAPHIC_DESCRIPTION_CHARACTERS :: UnicodeBlock where "IDEOGRAPHIC_DESCRIPTION_CHARACTERS \<equiv> UnicodeBlock 113"
abbreviation IMPERIAL_ARAMAIC :: UnicodeBlock where "IMPERIAL_ARAMAIC \<equiv> UnicodeBlock 114"
abbreviation INSCRIPTIONAL_PAHLAVI :: UnicodeBlock where "INSCRIPTIONAL_PAHLAVI \<equiv> UnicodeBlock 115"
abbreviation INSCRIPTIONAL_PARTHIAN :: UnicodeBlock where "INSCRIPTIONAL_PARTHIAN \<equiv> UnicodeBlock 116"
abbreviation JAVANESE :: UnicodeBlock where "JAVANESE \<equiv> UnicodeBlock 117"
abbreviation KAITHI :: UnicodeBlock where "KAITHI \<equiv> UnicodeBlock 118"
abbreviation KANA_SUPPLEMENT :: UnicodeBlock where "KANA_SUPPLEMENT \<equiv> UnicodeBlock 119"
abbreviation KANBUN :: UnicodeBlock where "KANBUN \<equiv> UnicodeBlock 120"
abbreviation KANGXI_RADICALS :: UnicodeBlock where "KANGXI_RADICALS \<equiv> UnicodeBlock 121"
abbreviation KANNADA :: UnicodeBlock where "KANNADA \<equiv> UnicodeBlock 122"
abbreviation KATAKANA :: UnicodeBlock where "KATAKANA \<equiv> UnicodeBlock 123"
abbreviation KATAKANA_PHONETIC_EXTENSIONS :: UnicodeBlock where "KATAKANA_PHONETIC_EXTENSIONS \<equiv> UnicodeBlock 124"
abbreviation KAYAH_LI :: UnicodeBlock where "KAYAH_LI \<equiv> UnicodeBlock 125"
abbreviation KHAROSHTHI :: UnicodeBlock where "KHAROSHTHI \<equiv> UnicodeBlock 126"
abbreviation KHMER :: UnicodeBlock where "KHMER \<equiv> UnicodeBlock 127"
abbreviation KHMER_SYMBOLS :: UnicodeBlock where "KHMER_SYMBOLS \<equiv> UnicodeBlock 128"
abbreviation KHOJKI :: UnicodeBlock where "KHOJKI \<equiv> UnicodeBlock 129"
abbreviation KHUDAWADI :: UnicodeBlock where "KHUDAWADI \<equiv> UnicodeBlock 130"
abbreviation LAO :: UnicodeBlock where "LAO \<equiv> UnicodeBlock 131"
abbreviation LATIN_EXTENDED_ADDITIONAL :: UnicodeBlock where "LATIN_EXTENDED_ADDITIONAL \<equiv> UnicodeBlock 132"
abbreviation LATIN_EXTENDED_A :: UnicodeBlock where "LATIN_EXTENDED_A \<equiv> UnicodeBlock 133"
abbreviation LATIN_EXTENDED_B :: UnicodeBlock where "LATIN_EXTENDED_B \<equiv> UnicodeBlock 134"
abbreviation LATIN_EXTENDED_C :: UnicodeBlock where "LATIN_EXTENDED_C \<equiv> UnicodeBlock 135"
abbreviation LATIN_EXTENDED_D :: UnicodeBlock where "LATIN_EXTENDED_D \<equiv> UnicodeBlock 136"
abbreviation LATIN_EXTENDED_E :: UnicodeBlock where "LATIN_EXTENDED_E \<equiv> UnicodeBlock 137"
abbreviation LATIN_1_SUPPLEMENT :: UnicodeBlock where "LATIN_1_SUPPLEMENT \<equiv> UnicodeBlock 138"
abbreviation LEPCHA :: UnicodeBlock where "LEPCHA \<equiv> UnicodeBlock 139"
abbreviation LETTERLIKE_SYMBOLS :: UnicodeBlock where "LETTERLIKE_SYMBOLS \<equiv> UnicodeBlock 140"
abbreviation LIMBU :: UnicodeBlock where "LIMBU \<equiv> UnicodeBlock 141"
abbreviation LINEAR_A :: UnicodeBlock where "LINEAR_A \<equiv> UnicodeBlock 142"
abbreviation LINEAR_B_IDEOGRAMS :: UnicodeBlock where "LINEAR_B_IDEOGRAMS \<equiv> UnicodeBlock 143"
abbreviation LINEAR_B_SYLLABARY :: UnicodeBlock where "LINEAR_B_SYLLABARY \<equiv> UnicodeBlock 144"
abbreviation LISU :: UnicodeBlock where "LISU \<equiv> UnicodeBlock 145"
abbreviation LOW_SURROGATES :: UnicodeBlock where "LOW_SURROGATES \<equiv> UnicodeBlock 146"
abbreviation LYCIAN :: UnicodeBlock where "LYCIAN \<equiv> UnicodeBlock 147"
abbreviation LYDIAN :: UnicodeBlock where "LYDIAN \<equiv> UnicodeBlock 148"
abbreviation MAHAJANI :: UnicodeBlock where "MAHAJANI \<equiv> UnicodeBlock 149"
abbreviation MAHJONG_TILES :: UnicodeBlock where "MAHJONG_TILES \<equiv> UnicodeBlock 150"
abbreviation MALAYALAM :: UnicodeBlock where "MALAYALAM \<equiv> UnicodeBlock 151"
abbreviation MANDAIC :: UnicodeBlock where "MANDAIC \<equiv> UnicodeBlock 152"
abbreviation MANICHAEAN :: UnicodeBlock where "MANICHAEAN \<equiv> UnicodeBlock 153"
abbreviation MATHEMATICAL_ALPHANUMERIC_SYMBOLS :: UnicodeBlock where "MATHEMATICAL_ALPHANUMERIC_SYMBOLS \<equiv> UnicodeBlock 154"
abbreviation MATHEMATICAL_OPERATORS :: UnicodeBlock where "MATHEMATICAL_OPERATORS \<equiv> UnicodeBlock 155"
abbreviation MEETEI_MAYEK :: UnicodeBlock where "MEETEI_MAYEK \<equiv> UnicodeBlock 156"
abbreviation MEETEI_MAYEK_EXTENSIONS :: UnicodeBlock where "MEETEI_MAYEK_EXTENSIONS \<equiv> UnicodeBlock 157"
abbreviation MENDE_KIKAKUI :: UnicodeBlock where "MENDE_KIKAKUI \<equiv> UnicodeBlock 158"
abbreviation MEROITIC_CURSIVE :: UnicodeBlock where "MEROITIC_CURSIVE \<equiv> UnicodeBlock 159"
abbreviation MEROITIC_HIEROGLYPHS :: UnicodeBlock where "MEROITIC_HIEROGLYPHS \<equiv> UnicodeBlock 160"
abbreviation MIAO :: UnicodeBlock where "MIAO \<equiv> UnicodeBlock 161"
abbreviation MISCELLANEOUS_MATHEMATICAL_SYMBOLS_A :: UnicodeBlock where "MISCELLANEOUS_MATHEMATICAL_SYMBOLS_A \<equiv> UnicodeBlock 162"
abbreviation MISCELLANEOUS_MATHEMATICAL_SYMBOLS_B :: UnicodeBlock where "MISCELLANEOUS_MATHEMATICAL_SYMBOLS_B \<equiv> UnicodeBlock 163"
abbreviation MISCELLANEOUS_SYMBOLS :: UnicodeBlock where "MISCELLANEOUS_SYMBOLS \<equiv> UnicodeBlock 164"
abbreviation MISCELLANEOUS_SYMBOLS_AND_ARROWS :: UnicodeBlock where "MISCELLANEOUS_SYMBOLS_AND_ARROWS \<equiv> UnicodeBlock 165"
abbreviation MISCELLANEOUS_SYMBOLS_AND_PICTOGRAPHS :: UnicodeBlock where "MISCELLANEOUS_SYMBOLS_AND_PICTOGRAPHS \<equiv> UnicodeBlock 166"
abbreviation MISCELLANEOUS_TECHNICAL :: UnicodeBlock where "MISCELLANEOUS_TECHNICAL \<equiv> UnicodeBlock 167"
abbreviation MODI :: UnicodeBlock where "MODI \<equiv> UnicodeBlock 168"
abbreviation MODIFIER_TONE_LETTERS :: UnicodeBlock where "MODIFIER_TONE_LETTERS \<equiv> UnicodeBlock 169"
abbreviation MONGOLIAN :: UnicodeBlock where "MONGOLIAN \<equiv> UnicodeBlock 170"
abbreviation MRO :: UnicodeBlock where "MRO \<equiv> UnicodeBlock 171"
abbreviation MULTANI :: UnicodeBlock where "MULTANI \<equiv> UnicodeBlock 172"
abbreviation MUSICAL_SYMBOLS :: UnicodeBlock where "MUSICAL_SYMBOLS \<equiv> UnicodeBlock 173"
abbreviation MYANMAR :: UnicodeBlock where "MYANMAR \<equiv> UnicodeBlock 174"
abbreviation MYANMAR_EXTENDED_A :: UnicodeBlock where "MYANMAR_EXTENDED_A \<equiv> UnicodeBlock 175"
abbreviation MYANMAR_EXTENDED_B :: UnicodeBlock where "MYANMAR_EXTENDED_B \<equiv> UnicodeBlock 176"
abbreviation NKO :: UnicodeBlock where "NKO \<equiv> UnicodeBlock 177"
abbreviation NABATAEAN :: UnicodeBlock where "NABATAEAN \<equiv> UnicodeBlock 178"
abbreviation NEW_TAI_LUE :: UnicodeBlock where "NEW_TAI_LUE \<equiv> UnicodeBlock 179"
abbreviation NUMBER_FORMS :: UnicodeBlock where "NUMBER_FORMS \<equiv> UnicodeBlock 180"
abbreviation OGHAM :: UnicodeBlock where "OGHAM \<equiv> UnicodeBlock 181"
abbreviation OL_CHIKI :: UnicodeBlock where "OL_CHIKI \<equiv> UnicodeBlock 182"
abbreviation OLD_HUNGARIAN :: UnicodeBlock where "OLD_HUNGARIAN \<equiv> UnicodeBlock 183"
abbreviation OLD_ITALIC :: UnicodeBlock where "OLD_ITALIC \<equiv> UnicodeBlock 184"
abbreviation OLD_NORTH_ARABIAN :: UnicodeBlock where "OLD_NORTH_ARABIAN \<equiv> UnicodeBlock 185"
abbreviation OLD_PERMIC :: UnicodeBlock where "OLD_PERMIC \<equiv> UnicodeBlock 186"
abbreviation OLD_PERSIAN :: UnicodeBlock where "OLD_PERSIAN \<equiv> UnicodeBlock 187"
abbreviation OLD_SOUTH_ARABIAN :: UnicodeBlock where "OLD_SOUTH_ARABIAN \<equiv> UnicodeBlock 188"
abbreviation OLD_TURKIC :: UnicodeBlock where "OLD_TURKIC \<equiv> UnicodeBlock 189"
abbreviation OPTICAL_CHARACTER_RECOGNITION :: UnicodeBlock where "OPTICAL_CHARACTER_RECOGNITION \<equiv> UnicodeBlock 190"
abbreviation ORIYA :: UnicodeBlock where "ORIYA \<equiv> UnicodeBlock 191"
abbreviation ORNAMENTAL_DINGBATS :: UnicodeBlock where "ORNAMENTAL_DINGBATS \<equiv> UnicodeBlock 192"
abbreviation OSMANYA :: UnicodeBlock where "OSMANYA \<equiv> UnicodeBlock 193"
abbreviation PAHAWH_HMONG :: UnicodeBlock where "PAHAWH_HMONG \<equiv> UnicodeBlock 194"
abbreviation PALMYRENE :: UnicodeBlock where "PALMYRENE \<equiv> UnicodeBlock 195"
abbreviation PAU_CIN_HAU :: UnicodeBlock where "PAU_CIN_HAU \<equiv> UnicodeBlock 196"
abbreviation PHAGS_PA :: UnicodeBlock where "PHAGS_PA \<equiv> UnicodeBlock 197"
abbreviation PHAISTOS_DISC :: UnicodeBlock where "PHAISTOS_DISC \<equiv> UnicodeBlock 198"
abbreviation PHOENICIAN :: UnicodeBlock where "PHOENICIAN \<equiv> UnicodeBlock 199"
abbreviation PHONETIC_EXTENSIONS :: UnicodeBlock where "PHONETIC_EXTENSIONS \<equiv> UnicodeBlock 200"
abbreviation PHONETIC_EXTENSIONS_SUPPLEMENT :: UnicodeBlock where "PHONETIC_EXTENSIONS_SUPPLEMENT \<equiv> UnicodeBlock 201"
abbreviation PLAYING_CARDS :: UnicodeBlock where "PLAYING_CARDS \<equiv> UnicodeBlock 202"
abbreviation PRIVATE_USE_AREA :: UnicodeBlock where "PRIVATE_USE_AREA \<equiv> UnicodeBlock 203"
abbreviation PSALTER_PAHLAVI :: UnicodeBlock where "PSALTER_PAHLAVI \<equiv> UnicodeBlock 204"
abbreviation REJANG :: UnicodeBlock where "REJANG \<equiv> UnicodeBlock 205"
abbreviation RUMI_NUMERAL_SYMBOLS :: UnicodeBlock where "RUMI_NUMERAL_SYMBOLS \<equiv> UnicodeBlock 206"
abbreviation RUNIC :: UnicodeBlock where "RUNIC \<equiv> UnicodeBlock 207"
abbreviation SAMARITAN :: UnicodeBlock where "SAMARITAN \<equiv> UnicodeBlock 208"
abbreviation SAURASHTRA :: UnicodeBlock where "SAURASHTRA \<equiv> UnicodeBlock 209"
abbreviation SHARADA :: UnicodeBlock where "SHARADA \<equiv> UnicodeBlock 210"
abbreviation SHAVIAN :: UnicodeBlock where "SHAVIAN \<equiv> UnicodeBlock 211"
abbreviation SHORTHAND_FORMAT_CONTROLS :: UnicodeBlock where "SHORTHAND_FORMAT_CONTROLS \<equiv> UnicodeBlock 212"
abbreviation SIDDHAM :: UnicodeBlock where "SIDDHAM \<equiv> UnicodeBlock 213"
abbreviation SINHALA :: UnicodeBlock where "SINHALA \<equiv> UnicodeBlock 214"
abbreviation SINHALA_ARCHAIC_NUMBERS :: UnicodeBlock where "SINHALA_ARCHAIC_NUMBERS \<equiv> UnicodeBlock 215"
abbreviation SMALL_FORM_VARIANTS :: UnicodeBlock where "SMALL_FORM_VARIANTS \<equiv> UnicodeBlock 216"
abbreviation SORA_SOMPENG :: UnicodeBlock where "SORA_SOMPENG \<equiv> UnicodeBlock 217"
abbreviation SPACING_MODIFIER_LETTERS :: UnicodeBlock where "SPACING_MODIFIER_LETTERS \<equiv> UnicodeBlock 218"
abbreviation SPECIALS :: UnicodeBlock where "SPECIALS \<equiv> UnicodeBlock 219"
abbreviation SUNDANESE :: UnicodeBlock where "SUNDANESE \<equiv> UnicodeBlock 220"
abbreviation SUNDANESE_SUPPLEMENT :: UnicodeBlock where "SUNDANESE_SUPPLEMENT \<equiv> UnicodeBlock 221"
abbreviation SUPERSCRIPTS_AND_SUBSCRIPTS :: UnicodeBlock where "SUPERSCRIPTS_AND_SUBSCRIPTS \<equiv> UnicodeBlock 222"
abbreviation SUPPLEMENTAL_ARROWS_A :: UnicodeBlock where "SUPPLEMENTAL_ARROWS_A \<equiv> UnicodeBlock 223"
abbreviation SUPPLEMENTAL_ARROWS_B :: UnicodeBlock where "SUPPLEMENTAL_ARROWS_B \<equiv> UnicodeBlock 224"
abbreviation SUPPLEMENTAL_ARROWS_C :: UnicodeBlock where "SUPPLEMENTAL_ARROWS_C \<equiv> UnicodeBlock 225"
abbreviation SUPPLEMENTAL_MATHEMATICAL_OPERATORS :: UnicodeBlock where "SUPPLEMENTAL_MATHEMATICAL_OPERATORS \<equiv> UnicodeBlock 226"
abbreviation SUPPLEMENTAL_PUNCTUATION :: UnicodeBlock where "SUPPLEMENTAL_PUNCTUATION \<equiv> UnicodeBlock 227"
abbreviation SUPPLEMENTAL_SYMBOLS_AND_PICTOGRAPHS :: UnicodeBlock where "SUPPLEMENTAL_SYMBOLS_AND_PICTOGRAPHS \<equiv> UnicodeBlock 228"
abbreviation SUPPLEMENTARY_PRIVATE_USE_AREA_A :: UnicodeBlock where "SUPPLEMENTARY_PRIVATE_USE_AREA_A \<equiv> UnicodeBlock 229"
abbreviation SUPPLEMENTARY_PRIVATE_USE_AREA_B :: UnicodeBlock where "SUPPLEMENTARY_PRIVATE_USE_AREA_B \<equiv> UnicodeBlock 230"
abbreviation SUTTON_SIGNWRITING :: UnicodeBlock where "SUTTON_SIGNWRITING \<equiv> UnicodeBlock 231"
abbreviation SYLOTI_NAGRI :: UnicodeBlock where "SYLOTI_NAGRI \<equiv> UnicodeBlock 232"
abbreviation SYRIAC :: UnicodeBlock where "SYRIAC \<equiv> UnicodeBlock 233"
abbreviation TAGALOG :: UnicodeBlock where "TAGALOG \<equiv> UnicodeBlock 234"
abbreviation TAGBANWA :: UnicodeBlock where "TAGBANWA \<equiv> UnicodeBlock 235"
abbreviation TAGS :: UnicodeBlock where "TAGS \<equiv> UnicodeBlock 236"
abbreviation TAI_LE :: UnicodeBlock where "TAI_LE \<equiv> UnicodeBlock 237"
abbreviation TAI_THAM :: UnicodeBlock where "TAI_THAM \<equiv> UnicodeBlock 238"
abbreviation TAI_VIET :: UnicodeBlock where "TAI_VIET \<equiv> UnicodeBlock 239"
abbreviation TAI_XUAN_JING_SYMBOLS :: UnicodeBlock where "TAI_XUAN_JING_SYMBOLS \<equiv> UnicodeBlock 240"
abbreviation TAKRI :: UnicodeBlock where "TAKRI \<equiv> UnicodeBlock 241"
abbreviation TAMIL :: UnicodeBlock where "TAMIL \<equiv> UnicodeBlock 242"
abbreviation TELUGU :: UnicodeBlock where "TELUGU \<equiv> UnicodeBlock 243"
abbreviation THAANA :: UnicodeBlock where "THAANA \<equiv> UnicodeBlock 244"
abbreviation THAI :: UnicodeBlock where "THAI \<equiv> UnicodeBlock 245"
abbreviation TIBETAN :: UnicodeBlock where "TIBETAN \<equiv> UnicodeBlock 246"
abbreviation TIFINAGH :: UnicodeBlock where "TIFINAGH \<equiv> UnicodeBlock 247"
abbreviation TIRHUTA :: UnicodeBlock where "TIRHUTA \<equiv> UnicodeBlock 248"
abbreviation TRANSPORT_AND_MAP_SYMBOLS :: UnicodeBlock where "TRANSPORT_AND_MAP_SYMBOLS \<equiv> UnicodeBlock 249"
abbreviation UGARITIC :: UnicodeBlock where "UGARITIC \<equiv> UnicodeBlock 250"
abbreviation UNIFIED_CANADIAN_ABORIGINAL_SYLLABICS :: UnicodeBlock where "UNIFIED_CANADIAN_ABORIGINAL_SYLLABICS \<equiv> UnicodeBlock 251"
abbreviation UNIFIED_CANADIAN_ABORIGINAL_SYLLABICS_EXTENDED :: UnicodeBlock where "UNIFIED_CANADIAN_ABORIGINAL_SYLLABICS_EXTENDED \<equiv> UnicodeBlock 252"
abbreviation VAI :: UnicodeBlock where "VAI \<equiv> UnicodeBlock 253"
abbreviation VARIATION_SELECTORS :: UnicodeBlock where "VARIATION_SELECTORS \<equiv> UnicodeBlock 254"
abbreviation VARIATION_SELECTORS_SUPPLEMENT :: UnicodeBlock where "VARIATION_SELECTORS_SUPPLEMENT \<equiv> UnicodeBlock 255"
abbreviation VEDIC_EXTENSIONS :: UnicodeBlock where "VEDIC_EXTENSIONS \<equiv> UnicodeBlock 256"
abbreviation VERTICAL_FORMS :: UnicodeBlock where "VERTICAL_FORMS \<equiv> UnicodeBlock 257"
abbreviation WARANG_CITI :: UnicodeBlock where "WARANG_CITI \<equiv> UnicodeBlock 258"
abbreviation YI_RADICALS :: UnicodeBlock where "YI_RADICALS \<equiv> UnicodeBlock 259"
abbreviation YI_SYLLABLES :: UnicodeBlock where "YI_SYLLABLES \<equiv> UnicodeBlock 260"
abbreviation YIJING_HEXAGRAM_SYMBOLS :: UnicodeBlock where "YIJING_HEXAGRAM_SYMBOLS \<equiv> UnicodeBlock 261"
abbreviation UNKNOWN :: UnicodeBlock where "UNKNOWN \<equiv> UnicodeBlock 262"

section \<open>From code points to blocks\<close>

definition block_tree_28 :: "32 word \<Rightarrow> UnicodeBlock" where
  "block_tree_28 cp =
    (if cp < 2304 then
      (if cp < 1536 then
        (if cp < 1024 then
          (if cp < 768 then
            (if cp \<le> 687 then
              IPA_EXTENSIONS
            else SPACING_MODIFIER_LETTERS)
          else (if cp \<le> 879 then
            COMBINING_DIACRITICAL_MARKS
          else GREEK_AND_COPTIC))
        else (if cp < 1328 then
          (if cp \<le> 1279 then
            CYRILLIC
          else CYRILLIC_SUPPLEMENT)
        else (if cp \<le> 1423 then
          ARMENIAN
        else HEBREW)))
      else (if cp < 1984 then
        (if cp < 1872 then
          (if cp \<le> 1791 then
            ARABIC
          else SYRIAC)
        else (if cp \<le> 1919 then
          ARABIC_SUPPLEMENT
        else THAANA))
      else (if cp < 2112 then
        (if cp \<le> 2047 then
          NKO
        else SAMARITAN)
      else (if cp \<le> 2143 then
        MANDAIC
      else ARABIC_EXTENDED_A))))
    else (if cp < 3328 then
      (if cp < 2816 then
        (if cp < 2560 then
          (if cp \<le> 2431 then
            DEVANAGARI
          else BENGALI)
        else (if cp \<le> 2687 then
          GURMUKHI
        else GUJARATI))
      else (if cp < 3072 then
        (if cp \<le> 2943 then
          ORIYA
        else TAMIL)
      else (if cp \<le> 3199 then
        TELUGU
      else KANNADA)))
    else (if cp < 3840 then
      (if cp < 3584 then
        (if cp \<le> 3455 then
          MALAYALAM
        else SINHALA)
      else (if cp \<le> 3711 then
        THAI
      else LAO))
    else (if cp < 4256 then
      (if cp \<le> 4095 then
        TIBETAN
      else MYANMAR)
    else (if cp \<le> 4351 then
      GEORGIAN
    else HANGUL_JAMO)))))"

definition block_tree_154 :: "32 word \<Rightarrow> UnicodeBlock" where
  "block_tree_154 cp =
    (if cp < 6624 then
      (if cp < 5952 then
        (if cp < 5760 then
          (if cp < 5024 then
            (if cp \<le> 4991 then
              ETHIOPIC
            else ETHIOPIC_SUPPLEMENT)
          else (if cp \<le> 5119 then
            CHEROKEE
          else UNIFIED_CANADIAN_ABORIGINAL_SYLLABICS))
        else (if cp < 5888 then
          (if cp \<le> 5791 then
            OGHAM
          else RUNIC)
        else (if cp \<le> 5919 then
          TAGALOG
        else HANUNOO)))
      else (if cp < 6320 then
        (if cp < 6016 then
          (if cp \<le> 5983 then
            BUHID
          else TAGBANWA)
        else (if cp \<le> 6143 then
          KHMER
        else MONGOLIAN))
      else (if cp < 6480 then
        (if cp \<le> 6399 then
          UNIFIED_CANADIAN_ABORIGINAL_SYLLABICS_EXTENDED
        else LIMBU)
      else (if cp \<le> 6527 then
        TAI_LE
      else NEW_TAI_LUE))))
    else (if cp < 7248 then
      (if cp < 6912 then
        (if cp < 6688 then
          (if cp \<le> 6655 then
            KHMER_SYMBOLS
          else BUGINESE)
        else (if cp \<le> 6831 then
          TAI_THAM
        else COMBINING_DIACRITICAL_MARKS_EXTENDED))
      else (if cp < 7104 then
        (if cp \<le> 7039 then
          BALINESE
        else SUNDANESE)
      else (if cp \<le> 7167 then
        BATAK
      else LEPCHA)))
    else (if cp < 7552 then
      (if cp < 7376 then
        (if cp \<le> 7295 then
          OL_CHIKI
        else SUNDANESE_SUPPLEMENT)
      else (if cp \<le> 7423 then
        VEDIC_EXTENSIONS
      else PHONETIC_EXTENSIONS))
    else (if cp < 7680 then
      (if cp \<le> 7615 then
        PHONETIC_EXTENSIONS_SUPPLEMENT
      else COMBINING_DIACRITICAL_MARKS_SUPPLEMENT)
    else (if cp \<le> 7935 then
      LATIN_EXTENDED_ADDITIONAL
    else GREEK_EXTENDED)))))"

definition block_tree_282 :: "32 word \<Rightarrow> UnicodeBlock" where
  "block_tree_282 cp =
    (if cp < 9984 then
      (if cp < 8960 then
        (if cp < 8448 then
          (if cp < 8352 then
            (if cp \<le> 8303 then
              GENERAL_PUNCTUATION
            else SUPERSCRIPTS_AND_SUBSCRIPTS)
          else (if cp \<le> 8399 then
            CURRENCY_SYMBOLS
          else COMBINING_DIACRITICAL_MARKS_FOR_SYMBOLS))
        else (if cp < 8592 then
          (if cp \<le> 8527 then
            LETTERLIKE_SYMBOLS
          else NUMBER_FORMS)
        else (if cp \<le> 8703 then
          ARROWS
        else MATHEMATICAL_OPERATORS)))
      else (if cp < 9472 then
        (if cp < 9280 then
          (if cp \<le> 9215 then
            MISCELLANEOUS_TECHNICAL
          else CONTROL_PICTURES)
        else (if cp \<le> 9311 then
          OPTICAL_CHARACTER_RECOGNITION
        else ENCLOSED_ALPHANUMERICS))
      else (if cp < 9632 then
        (if cp \<le> 9599 then
          BOX_DRAWING
        else BLOCK_ELEMENTS)
      else (if cp \<le> 9727 then
        GEOMETRIC_SHAPES
      else MISCELLANEOUS_SYMBOLS))))
    else (if cp < 11264 then
      (if cp < 10496 then
        (if cp < 10224 then
          (if cp \<le> 10175 then
            DINGBATS
          else MISCELLANEOUS_MATHEMATICAL_SYMBOLS_A)
        else (if cp \<le> 10239 then
          SUPPLEMENTAL_ARROWS_A
        else BRAILLE_PATTERNS))
      else (if cp < 10752 then
        (if cp \<le> 10623 then
          SUPPLEMENTAL_ARROWS_B
        else MISCELLANEOUS_MATHEMATICAL_SYMBOLS_B)
      else (if cp \<le> 11007 then
        SUPPLEMENTAL_MATHEMATICAL_OPERATORS
      else MISCELLANEOUS_SYMBOLS_AND_ARROWS)))
    else (if cp < 11568 then
      (if cp < 11392 then
        (if cp \<le> 11359 then
          GLAGOLITIC
        else LATIN_EXTENDED_C)
      else (if cp \<le> 11519 then
        COPTIC
      else GEORGIAN_SUPPLEMENT))
    else (if cp < 11744 then
      (if cp \<le> 11647 then
        TIFINAGH
      else ETHIOPIC_EXTENDED)
    else (if cp \<le> 11775 then
      CYRILLIC_EXTENDED_A
    else SUPPLEMENTAL_PUNCTUATION)))))"

definition block_tree_408 :: "32 word \<Rightarrow> UnicodeBlock" where
  "block_tree_408 cp =
    (if cp < 19968 then
      (if cp < 12688 then
        (if cp < 12352 then
          (if cp < 12272 then
            (if cp \<le> 12031 then
              CJK_RADICALS_SUPPLEMENT
            else KANGXI_RADICALS)
          else (if cp \<le> 12287 then
            IDEOGRAPHIC_DESCRIPTION_CHARACTERS
          else CJK_SYMBOLS_AND_PUNCTUATION))
        else (if cp < 12544 then
          (if cp \<le> 12447 then
            HIRAGANA
          else KATAKANA)
        else (if cp \<le> 12591 then
          BOPOMOFO
        else HANGUL_COMPATIBILITY_JAMO)))
      else (if cp < 12800 then
        (if cp < 12736 then
          (if cp \<le> 12703 then
            KANBUN
          else BOPOMOFO_EXTENDED)
        else (if cp \<le> 12783 then
          CJK_STROKES
        else KATAKANA_PHONETIC_EXTENSIONS))
      else (if cp < 13312 then
        (if cp \<le> 13055 then
          ENCLOSED_CJK_LETTERS_AND_MONTHS
        else CJK_COMPATIBILITY)
      else (if cp \<le> 19903 then
        CJK_UNIFIED_IDEOGRAPHS_EXTENSION_A
      else YIJING_HEXAGRAM_SYMBOLS))))
    else (if cp < 42784 then
      (if cp < 42240 then
        (if cp < 42128 then
          (if cp \<le> 40959 then
            CJK_UNIFIED_IDEOGRAPHS
          else YI_SYLLABLES)
        else (if cp \<le> 42191 then
          YI_RADICALS
        else LISU))
      else (if cp < 42656 then
        (if cp \<le> 42559 then
          VAI
        else CYRILLIC_EXTENDED_B)
      else (if cp \<le> 42751 then
        BAMUM
      else MODIFIER_TONE_LETTERS)))
    else (if cp < 43136 then
      (if cp < 43056 then
        (if cp \<le> 43007 then
          LATIN_EXTENDED_D
        else SYLOTI_NAGRI)
      else (if cp \<le> 43071 then
        COMMON_INDIC_NUMBER_FORMS
      else PHAGS_PA))
    else (if cp < 43264 then
      (if cp \<le> 43231 then
        SAURASHTRA
      else DEVANAGARI_EXTENDED)
    else (if cp \<le> 43311 then
      KAYAH_LI
    else (if cp \<le> 43359 then
      REJANG
    else HANGUL_JAMO_EXTENDED_A))))))"

definition block_tree_540 :: "32 word \<Rightarrow> UnicodeBlock" where
  "block_tree_540 cp =
    (if cp < 63744 then
      (if cp < 43888 then
        (if cp < 43648 then
          (if cp < 43520 then
            (if cp \<le> 43487 then
              JAVANESE
            else MYANMAR_EXTENDED_B)
          else (if cp \<le> 43615 then
            CHAM
          else MYANMAR_EXTENDED_A))
        else (if cp < 43776 then
          (if cp \<le> 43743 then
            TAI_VIET
          else MEETEI_MAYEK_EXTENSIONS)
        else (if cp \<le> 43823 then
          ETHIOPIC_EXTENDED_A
        else LATIN_EXTENDED_E)))
      else (if cp < 55296 then
        (if cp < 44032 then
          (if cp \<le> 44031 then
            CHEROKEE_SUPPLEMENT
          else MEETEI_MAYEK)
        else (if cp \<le> 55215 then
          HANGUL_SYLLABLES
        else HANGUL_JAMO_EXTENDED_B))
      else (if cp < 56320 then
        (if cp \<le> 56191 then
          HIGH_SURROGATES
        else HIGH_PRIVATE_USE_SURROGATES)
      else (if cp \<le> 57343 then
        LOW_SURROGATES
      else PRIVATE_USE_AREA))))
    else (if cp < 65136 then
      (if cp < 65040 then
        (if cp < 64336 then
          (if cp \<le> 64255 then
            CJK_COMPATIBILITY_IDEOGRAPHS
          else ALPHABETIC_PRESENTATION_FORMS)
        else (if cp \<le> 65023 then
          ARABIC_PRESENTATION_FORMS_A
        else VARIATION_SELECTORS))
      else (if cp < 65072 then
        (if cp \<le> 65055 then
          VERTICAL_FORMS
        else COMBINING_HALF_MARKS)
      else (if cp \<le> 65103 then
        CJK_COMPATIBILITY_FORMS
      else SMALL_FORM_VARIANTS)))
    else (if cp < 65664 then
      (if cp < 65520 then
        (if cp \<le> 65279 then
          ARABIC_PRESENTATION_FORMS_B
        else HALFWIDTH_AND_FULLWIDTH_FORMS)
      else (if cp \<le> 65535 then
        SPECIALS
      else LINEAR_B_SYLLABARY))
    else (if cp < 65856 then
      (if cp \<le> 65791 then
        LINEAR_B_IDEOGRAMS
      else AEGEAN_NUMBERS)
    else (if cp \<le> 65935 then
      ANCIENT_GREEK_NUMBERS
    else ANCIENT_SYMBOLS)))))"

definition block_tree_666 :: "32 word \<Rightarrow> UnicodeBlock" where
  "block_tree_666 cp =
    (if cp < 67648 then
      (if cp < 66464 then
        (if cp < 66304 then
          (if cp < 66208 then
            (if cp \<le> 66047 then
              PHAISTOS_DISC
            else LYCIAN)
          else (if cp \<le> 66271 then
            CARIAN
          else COPTIC_EPACT_NUMBERS))
        else (if cp < 66384 then
          (if cp \<le> 66351 then
            OLD_ITALIC
          else GOTHIC)
        else (if cp \<le> 66431 then
          OLD_PERMIC
        else UGARITIC)))
      else (if cp < 66816 then
        (if cp < 66640 then
          (if cp \<le> 66527 then
            OLD_PERSIAN
          else DESERET)
        else (if cp \<le> 66687 then
          SHAVIAN
        else OSMANYA))
      else (if cp < 67072 then
        (if cp \<le> 66863 then
          ELBASAN
        else CAUCASIAN_ALBANIAN)
      else (if cp \<le> 67455 then
        LINEAR_A
      else CYPRIOT_SYLLABARY))))
    else (if cp < 68096 then
      (if cp < 67840 then
        (if cp < 67712 then
          (if cp \<le> 67679 then
            IMPERIAL_ARAMAIC
          else PALMYRENE)
        else (if cp \<le> 67759 then
          NABATAEAN
        else HATRAN))
      else (if cp < 67968 then
        (if cp \<le> 67871 then
          PHOENICIAN
        else LYDIAN)
      else (if cp \<le> 67999 then
        MEROITIC_HIEROGLYPHS
      else MEROITIC_CURSIVE)))
    else (if cp < 68352 then
      (if cp < 68224 then
        (if cp \<le> 68191 then
          KHAROSHTHI
        else OLD_SOUTH_ARABIAN)
      else (if cp \<le> 68255 then
        OLD_NORTH_ARABIAN
      else MANICHAEAN))
    else (if cp < 68448 then
      (if cp \<le> 68415 then
        AVESTAN
      else INSCRIPTIONAL_PARTHIAN)
    else (if cp \<le> 68479 then
      INSCRIPTIONAL_PAHLAVI
    else PSALTER_PAHLAVI)))))"

definition block_tree_794 :: "32 word \<Rightarrow> UnicodeBlock" where
  "block_tree_794 cp =
    (if cp < 71168 then
      (if cp < 70016 then
        (if cp < 69760 then
          (if cp < 69216 then
            (if cp \<le> 68687 then
              OLD_TURKIC
            else OLD_HUNGARIAN)
          else (if cp \<le> 69247 then
            RUMI_NUMERAL_SYMBOLS
          else BRAHMI))
        else (if cp < 69888 then
          (if cp \<le> 69839 then
            KAITHI
          else SORA_SOMPENG)
        else (if cp \<le> 69967 then
          CHAKMA
        else MAHAJANI)))
      else (if cp < 70320 then
        (if cp < 70144 then
          (if cp \<le> 70111 then
            SHARADA
          else SINHALA_ARCHAIC_NUMBERS)
        else (if cp \<le> 70223 then
          KHOJKI
        else MULTANI))
      else (if cp < 70784 then
        (if cp \<le> 70399 then
          KHUDAWADI
        else GRANTHA)
      else (if cp \<le> 70879 then
        TIRHUTA
      else SIDDHAM))))
    else (if cp < 77824 then
      (if cp < 72384 then
        (if cp < 71424 then
          (if cp \<le> 71263 then
            MODI
          else TAKRI)
        else (if cp \<le> 71487 then
          AHOM
        else WARANG_CITI))
      else (if cp < 74752 then
        (if cp \<le> 72447 then
          PAU_CIN_HAU
        else CUNEIFORM)
      else (if cp \<le> 74879 then
        CUNEIFORM_NUMBERS_AND_PUNCTUATION
      else EARLY_DYNASTIC_CUNEIFORM)))
    else (if cp < 92880 then
      (if cp < 92160 then
        (if cp \<le> 78895 then
          EGYPTIAN_HIEROGLYPHS
        else ANATOLIAN_HIEROGLYPHS)
      else (if cp \<le> 92735 then
        BAMUM_SUPPLEMENT
      else MRO))
    else (if cp < 93952 then
      (if cp \<le> 92927 then
        BASSA_VAH
      else PAHAWH_HMONG)
    else (if cp \<le> 94111 then
      MIAO
    else KANA_SUPPLEMENT)))))"

definition block_tree_920 :: "32 word \<Rightarrow> UnicodeBlock" where
  "block_tree_920 cp =
    (if cp < 127744 then
      (if cp < 120832 then
        (if cp < 119296 then
          (if cp < 118784 then
            (if cp \<le> 113823 then
              DUPLOYAN
            else SHORTHAND_FORMAT_CONTROLS)
          else (if cp \<le> 119039 then
            BYZANTINE_MUSICAL_SYMBOLS
          else MUSICAL_SYMBOLS))
        else (if cp < 119648 then
          (if cp \<le> 119375 then
            ANCIENT_GREEK_MUSICAL_NOTATION
          else TAI_XUAN_JING_SYMBOLS)
        else (if cp \<le> 119679 then
          COUNTING_ROD_NUMERALS
        else MATHEMATICAL_ALPHANUMERIC_SYMBOLS)))
      else (if cp < 127024 then
        (if cp < 126464 then
          (if cp \<le> 121519 then
            SUTTON_SIGNWRITING
          else MENDE_KIKAKUI)
        else (if cp \<le> 126719 then
          ARABIC_MATHEMATICAL_ALPHABETIC_SYMBOLS
        else MAHJONG_TILES))
      else (if cp < 127232 then
        (if cp \<le> 127135 then
          DOMINO_TILES
        else PLAYING_CARDS)
      else (if cp \<le> 127487 then
        ENCLOSED_ALPHANUMERIC_SUPPLEMENT
      else ENCLOSED_IDEOGRAPHIC_SUPPLEMENT))))
    else (if cp < 131072 then
      (if cp < 128768 then
        (if cp < 128592 then
          (if cp \<le> 128511 then
            MISCELLANEOUS_SYMBOLS_AND_PICTOGRAPHS
          else EMOTICONS)
        else (if cp \<le> 128639 then
          ORNAMENTAL_DINGBATS
        else TRANSPORT_AND_MAP_SYMBOLS))
      else (if cp < 129024 then
        (if cp \<le> 128895 then
          ALCHEMICAL_SYMBOLS
        else GEOMETRIC_SHAPES_EXTENDED)
      else (if cp \<le> 129279 then
        SUPPLEMENTAL_ARROWS_C
      else SUPPLEMENTAL_SYMBOLS_AND_PICTOGRAPHS)))
    else (if cp < 194560 then
      (if cp < 177984 then
        (if cp \<le> 173791 then
          CJK_UNIFIED_IDEOGRAPHS_EXTENSION_B
        else CJK_UNIFIED_IDEOGRAPHS_EXTENSION_C)
      else (if cp \<le> 178207 then
        CJK_UNIFIED_IDEOGRAPHS_EXTENSION_D
      else CJK_UNIFIED_IDEOGRAPHS_EXTENSION_E))
    else (if cp < 917760 then
      (if cp \<le> 195103 then
        CJK_COMPATIBILITY_IDEOGRAPHS_SUPPLEMENT
      else TAGS)
    else (if cp \<le> 917999 then
      VARIATION_SELECTORS_SUPPLEMENT
    else (if cp \<le> 1048575 then
      SUPPLEMENTARY_PRIVATE_USE_AREA_A
    else SUPPLEMENTARY_PRIVATE_USE_AREA_B))))))"

definition getUnicodeBlock :: "32 word \<Rightarrow> UnicodeBlock" where
  "getUnicodeBlock cp =
    (if cp < 592 then
      (if cp < 256 then
        (if cp \<le> 127 then
          (BASIC_LATIN)
        else (LATIN_1_SUPPLEMENT))
      else (if cp \<le> 383 then
        (LATIN_EXTENDED_A)
      else (LATIN_EXTENDED_B)))
    else (if cp < 43392 then
      (if cp < 8192 then
        (if cp < 4608 then
          (block_tree_28 cp)
        else (block_tree_154 cp))
      else (if cp < 11904 then
        (block_tree_282 cp)
      else (block_tree_408 cp)))
    else (if cp < 68608 then
      (if cp < 66000 then
        (block_tree_540 cp)
      else (block_tree_666 cp))
    else (if cp < 113664 then
      (block_tree_794 cp)
    else (block_tree_920 cp)))))"

section \<open>The names of the blocks\<close>

text \<open>The cases of \<open>stringOfUnicodeBlock\<close>, in two tables.\<close>

definition block_names_1 :: "(UnicodeBlock \<times> string) list" where
  "block_names_1 =
    [(AEGEAN_NUMBERS, ''AEGEAN_NUMBERS''),
     (AHOM, ''AHOM''),
     (ALCHEMICAL_SYMBOLS, ''ALCHEMICAL_SYMBOLS''),
     (ALPHABETIC_PRESENTATION_FORMS, ''ALPHABETIC_PRESENTATION_FORMS''),
     (ANATOLIAN_HIEROGLYPHS, ''ANATOLIAN_HIEROGLYPHS''),
     (ANCIENT_GREEK_MUSICAL_NOTATION, ''ANCIENT_GREEK_MUSICAL_NOTATION''),
     (ANCIENT_GREEK_NUMBERS, ''ANCIENT_GREEK_NUMBERS''),
     (ANCIENT_SYMBOLS, ''ANCIENT_SYMBOLS''),
     (ARABIC, ''ARABIC''),
     (ARABIC_EXTENDED_A, ''ARABIC_EXTENDED_A''),
     (ARABIC_MATHEMATICAL_ALPHABETIC_SYMBOLS, ''ARABIC_MATHEMATICAL_ALPHABETIC_SYMBOLS''),
     (ARABIC_PRESENTATION_FORMS_A, ''ARABIC_PRESENTATION_FORMS_A''),
     (ARABIC_PRESENTATION_FORMS_B, ''ARABIC_PRESENTATION_FORMS_B''),
     (ARABIC_SUPPLEMENT, ''ARABIC_SUPPLEMENT''),
     (ARMENIAN, ''ARMENIAN''),
     (ARROWS, ''ARROWS''),
     (AVESTAN, ''AVESTAN''),
     (BALINESE, ''BALINESE''),
     (BAMUM, ''BAMUM''),
     (BAMUM_SUPPLEMENT, ''BAMUM_SUPPLEMENT''),
     (BASIC_LATIN, ''BASIC_LATIN''),
     (BASSA_VAH, ''BASSA_VAH''),
     (BATAK, ''BATAK''),
     (BENGALI, ''BENGALI''),
     (BLOCK_ELEMENTS, ''BLOCK_ELEMENTS''),
     (BOPOMOFO, ''BOPOMOFO''),
     (BOPOMOFO_EXTENDED, ''BOPOMOFO_EXTENDED''),
     (BOX_DRAWING, ''BOX_DRAWING''),
     (BRAHMI, ''BRAHMI''),
     (BRAILLE_PATTERNS, ''BRAILLE_PATTERNS''),
     (BUGINESE, ''BUGINESE''),
     (BUHID, ''BUHID''),
     (BYZANTINE_MUSICAL_SYMBOLS, ''BYZANTINE_MUSICAL_SYMBOLS''),
     (CJK_COMPATIBILITY, ''CJK_COMPATIBILITY''),
     (CJK_COMPATIBILITY_FORMS, ''CJK_COMPATIBILITY_FORMS''),
     (CJK_COMPATIBILITY_IDEOGRAPHS, ''CJK_COMPATIBILITY_IDEOGRAPHS''),
     (CJK_COMPATIBILITY_IDEOGRAPHS_SUPPLEMENT, ''CJK_COMPATIBILITY_IDEOGRAPHS_SUPPLEMENT''),
     (CJK_RADICALS_SUPPLEMENT, ''CJK_RADICALS_SUPPLEMENT''),
     (CJK_STROKES, ''CJK_STROKES''),
     (CJK_SYMBOLS_AND_PUNCTUATION, ''CJK_SYMBOLS_AND_PUNCTUATION''),
     (CJK_UNIFIED_IDEOGRAPHS, ''CJK_UNIFIED_IDEOGRAPHS''),
     (CJK_UNIFIED_IDEOGRAPHS_EXTENSION_A, ''CJK_UNIFIED_IDEOGRAPHS_EXTENSION_A''),
     (CJK_UNIFIED_IDEOGRAPHS_EXTENSION_B, ''CJK_UNIFIED_IDEOGRAPHS_EXTENSION_B''),
     (CJK_UNIFIED_IDEOGRAPHS_EXTENSION_C, ''CJK_UNIFIED_IDEOGRAPHS_EXTENSION_C''),
     (CJK_UNIFIED_IDEOGRAPHS_EXTENSION_D, ''CJK_UNIFIED_IDEOGRAPHS_EXTENSION_D''),
     (CJK_UNIFIED_IDEOGRAPHS_EXTENSION_E, ''CJK_UNIFIED_IDEOGRAPHS_EXTENSION_E''),
     (CARIAN, ''CARIAN''),
     (CAUCASIAN_ALBANIAN, ''CAUCASIAN_ALBANIAN''),
     (CHAKMA, ''CHAKMA''),
     (CHAM, ''CHAM''),
     (CHEROKEE, ''CHEROKEE''),
     (CHEROKEE_SUPPLEMENT, ''CHEROKEE_SUPPLEMENT''),
     (COMBINING_DIACRITICAL_MARKS, ''COMBINING_DIACRITICAL_MARKS''),
     (COMBINING_DIACRITICAL_MARKS_EXTENDED, ''COMBINING_DIACRITICAL_MARKS_EXTENDED''),
     (COMBINING_DIACRITICAL_MARKS_SUPPLEMENT, ''COMBINING_DIACRITICAL_MARKS_SUPPLEMENT''),
     (COMBINING_DIACRITICAL_MARKS_FOR_SYMBOLS, ''COMBINING_DIACRITICAL_MARKS_FOR_SYMBOLS''),
     (COMBINING_HALF_MARKS, ''COMBINING_HALF_MARKS''),
     (COMMON_INDIC_NUMBER_FORMS, ''COMMON_INDIC_NUMBER_FORMS''),
     (CONTROL_PICTURES, ''CONTROL_PICTURES''),
     (COPTIC, ''COPTIC''),
     (COPTIC_EPACT_NUMBERS, ''COPTIC_EPACT_NUMBERS''),
     (COUNTING_ROD_NUMERALS, ''COUNTING_ROD_NUMERALS''),
     (CUNEIFORM, ''CUNEIFORM''),
     (CUNEIFORM_NUMBERS_AND_PUNCTUATION, ''CUNEIFORM_NUMBERS_AND_PUNCTUATION''),
     (CURRENCY_SYMBOLS, ''CURRENCY_SYMBOLS''),
     (CYPRIOT_SYLLABARY, ''CYPRIOT_SYLLABARY''),
     (CYRILLIC, ''CYRILLIC''),
     (CYRILLIC_EXTENDED_A, ''CYRILLIC_EXTENDED_A''),
     (CYRILLIC_EXTENDED_B, ''CYRILLIC_EXTENDED_B''),
     (CYRILLIC_SUPPLEMENT, ''CYRILLIC_SUPPLEMENT''),
     (DESERET, ''DESERET''),
     (DEVANAGARI, ''DEVANAGARI''),
     (DEVANAGARI_EXTENDED, ''DEVANAGARI_EXTENDED''),
     (DINGBATS, ''DINGBATS''),
     (DOMINO_TILES, ''DOMINO_TILES''),
     (DUPLOYAN, ''DUPLOYAN''),
     (EARLY_DYNASTIC_CUNEIFORM, ''EARLY_DYNASTIC_CUNEIFORM''),
     (EGYPTIAN_HIEROGLYPHS, ''EGYPTIAN_HIEROGLYPHS''),
     (ELBASAN, ''ELBASAN''),
     (EMOTICONS, ''EMOTICONS''),
     (ENCLOSED_ALPHANUMERIC_SUPPLEMENT, ''ENCLOSED_ALPHANUMERIC_SUPPLEMENT''),
     (ENCLOSED_ALPHANUMERICS, ''ENCLOSED_ALPHANUMERICS''),
     (ENCLOSED_CJK_LETTERS_AND_MONTHS, ''ENCLOSED_CJK_LETTERS_AND_MONTHS''),
     (ENCLOSED_IDEOGRAPHIC_SUPPLEMENT, ''ENCLOSED_IDEOGRAPHIC_SUPPLEMENT''),
     (ETHIOPIC, ''ETHIOPIC''),
     (ETHIOPIC_EXTENDED, ''ETHIOPIC_EXTENDED''),
     (ETHIOPIC_EXTENDED_A, ''ETHIOPIC_EXTENDED_A''),
     (ETHIOPIC_SUPPLEMENT, ''ETHIOPIC_SUPPLEMENT''),
     (GENERAL_PUNCTUATION, ''GENERAL_PUNCTUATION''),
     (GEOMETRIC_SHAPES, ''GEOMETRIC_SHAPES''),
     (GEOMETRIC_SHAPES_EXTENDED, ''GEOMETRIC_SHAPES_EXTENDED''),
     (GEORGIAN, ''GEORGIAN''),
     (GEORGIAN_SUPPLEMENT, ''GEORGIAN_SUPPLEMENT''),
     (GLAGOLITIC, ''GLAGOLITIC''),
     (GOTHIC, ''GOTHIC''),
     (GRANTHA, ''GRANTHA''),
     (GREEK_EXTENDED, ''GREEK_EXTENDED''),
     (GREEK_AND_COPTIC, ''GREEK_AND_COPTIC''),
     (GUJARATI, ''GUJARATI''),
     (GURMUKHI, ''GURMUKHI''),
     (HALFWIDTH_AND_FULLWIDTH_FORMS, ''HALFWIDTH_AND_FULLWIDTH_FORMS''),
     (HANGUL_COMPATIBILITY_JAMO, ''HANGUL_COMPATIBILITY_JAMO''),
     (HANGUL_JAMO, ''HANGUL_JAMO''),
     (HANGUL_JAMO_EXTENDED_A, ''HANGUL_JAMO_EXTENDED_A''),
     (HANGUL_JAMO_EXTENDED_B, ''HANGUL_JAMO_EXTENDED_B''),
     (HANGUL_SYLLABLES, ''HANGUL_SYLLABLES''),
     (HANUNOO, ''HANUNOO''),
     (HATRAN, ''HATRAN''),
     (HEBREW, ''HEBREW''),
     (HIGH_PRIVATE_USE_SURROGATES, ''HIGH_PRIVATE_USE_SURROGATES''),
     (HIGH_SURROGATES, ''HIGH_SURROGATES''),
     (HIRAGANA, ''HIRAGANA''),
     (IPA_EXTENSIONS, ''IPA_EXTENSIONS''),
     (IDEOGRAPHIC_DESCRIPTION_CHARACTERS, ''IDEOGRAPHIC_DESCRIPTION_CHARACTERS''),
     (IMPERIAL_ARAMAIC, ''IMPERIAL_ARAMAIC''),
     (INSCRIPTIONAL_PAHLAVI, ''INSCRIPTIONAL_PAHLAVI''),
     (INSCRIPTIONAL_PARTHIAN, ''INSCRIPTIONAL_PARTHIAN''),
     (JAVANESE, ''JAVANESE''),
     (KAITHI, ''KAITHI''),
     (KANA_SUPPLEMENT, ''KANA_SUPPLEMENT''),
     (KANBUN, ''KANBUN''),
     (KANGXI_RADICALS, ''KANGXI_RADICALS''),
     (KANNADA, ''KANNADA''),
     (KATAKANA, ''KATAKANA''),
     (KATAKANA_PHONETIC_EXTENSIONS, ''KATAKANA_PHONETIC_EXTENSIONS''),
     (KAYAH_LI, ''KAYAH_LI''),
     (KHAROSHTHI, ''KHAROSHTHI''),
     (KHMER, ''KHMER''),
     (KHMER_SYMBOLS, ''KHMER_SYMBOLS''),
     (KHOJKI, ''KHOJKI''),
     (KHUDAWADI, ''KHUDAWADI''),
     (LAO, ''LAO''),
     (LATIN_EXTENDED_ADDITIONAL, ''LATIN_EXTENDED_ADDITIONAL''),
     (LATIN_EXTENDED_A, ''LATIN_EXTENDED_A'')]"

definition block_names_2 :: "(UnicodeBlock \<times> string) list" where
  "block_names_2 =
    [(LATIN_EXTENDED_B, ''LATIN_EXTENDED_B''),
     (LATIN_EXTENDED_C, ''LATIN_EXTENDED_C''),
     (LATIN_EXTENDED_D, ''LATIN_EXTENDED_D''),
     (LATIN_EXTENDED_E, ''LATIN_EXTENDED_E''),
     (LATIN_1_SUPPLEMENT, ''LATIN_1_SUPPLEMENT''),
     (LEPCHA, ''LEPCHA''),
     (LETTERLIKE_SYMBOLS, ''LETTERLIKE_SYMBOLS''),
     (LIMBU, ''LIMBU''),
     (LINEAR_A, ''LINEAR_A''),
     (LINEAR_B_IDEOGRAMS, ''LINEAR_B_IDEOGRAMS''),
     (LINEAR_B_SYLLABARY, ''LINEAR_B_SYLLABARY''),
     (LISU, ''LISU''),
     (LOW_SURROGATES, ''LOW_SURROGATES''),
     (LYCIAN, ''LYCIAN''),
     (LYDIAN, ''LYDIAN''),
     (MAHAJANI, ''MAHAJANI''),
     (MAHJONG_TILES, ''MAHJONG_TILES''),
     (MALAYALAM, ''MALAYALAM''),
     (MANDAIC, ''MANDAIC''),
     (MANICHAEAN, ''MANICHAEAN''),
     (MATHEMATICAL_ALPHANUMERIC_SYMBOLS, ''MATHEMATICAL_ALPHANUMERIC_SYMBOLS''),
     (MATHEMATICAL_OPERATORS, ''MATHEMATICAL_OPERATORS''),
     (MEETEI_MAYEK, ''MEETEI_MAYEK''),
     (MEETEI_MAYEK_EXTENSIONS, ''MEETEI_MAYEK_EXTENSIONS''),
     (MENDE_KIKAKUI, ''MENDE_KIKAKUI''),
     (MEROITIC_CURSIVE, ''MEROITIC_CURSIVE''),
     (MEROITIC_HIEROGLYPHS, ''MEROITIC_HIEROGLYPHS''),
     (MIAO, ''MIAO''),
     (MISCELLANEOUS_MATHEMATICAL_SYMBOLS_A, ''MISCELLANEOUS_MATHEMATICAL_SYMBOLS_A''),
     (MISCELLANEOUS_MATHEMATICAL_SYMBOLS_B, ''MISCELLANEOUS_MATHEMATICAL_SYMBOLS_B''),
     (MISCELLANEOUS_SYMBOLS, ''MISCELLANEOUS_SYMBOLS''),
     (MISCELLANEOUS_SYMBOLS_AND_ARROWS, ''MISCELLANEOUS_SYMBOLS_AND_ARROWS''),
     (MISCELLANEOUS_SYMBOLS_AND_PICTOGRAPHS, ''MISCELLANEOUS_SYMBOLS_AND_PICTOGRAPHS''),
     (MISCELLANEOUS_TECHNICAL, ''MISCELLANEOUS_TECHNICAL''),
     (MODI, ''MODI''),
     (MODIFIER_TONE_LETTERS, ''MODIFIER_TONE_LETTERS''),
     (MONGOLIAN, ''MONGOLIAN''),
     (MRO, ''MRO''),
     (MULTANI, ''MULTANI''),
     (MUSICAL_SYMBOLS, ''MUSICAL_SYMBOLS''),
     (MYANMAR, ''MYANMAR''),
     (MYANMAR_EXTENDED_A, ''MYANMAR_EXTENDED_A''),
     (MYANMAR_EXTENDED_B, ''MYANMAR_EXTENDED_B''),
     (NKO, ''NKO''),
     (NABATAEAN, ''NABATAEAN''),
     (NEW_TAI_LUE, ''NEW_TAI_LUE''),
     (NUMBER_FORMS, ''NUMBER_FORMS''),
     (OGHAM, ''OGHAM''),
     (OL_CHIKI, ''OL_CHIKI''),
     (OLD_HUNGARIAN, ''OLD_HUNGARIAN''),
     (OLD_ITALIC, ''OLD_ITALIC''),
     (OLD_NORTH_ARABIAN, ''OLD_NORTH_ARABIAN''),
     (OLD_PERMIC, ''OLD_PERMIC''),
     (OLD_PERSIAN, ''OLD_PERSIAN''),
     (OLD_SOUTH_ARABIAN, ''OLD_SOUTH_ARABIAN''),
     (OLD_TURKIC, ''OLD_TURKIC''),
     (OPTICAL_CHARACTER_RECOGNITION, ''OPTICAL_CHARACTER_RECOGNITION''),
     (ORIYA, ''ORIYA''),
     (ORNAMENTAL_DINGBATS, ''ORNAMENTAL_DINGBATS''),
     (OSMANYA, ''OSMANYA''),
     (PAHAWH_HMONG, ''PAHAWH_HMONG''),
     (PALMYRENE, ''PALMYRENE''),
     (PAU_CIN_HAU, ''PAU_CIN_HAU''),
     (PHAGS_PA, ''PHAGS_PA''),
     (PHAISTOS_DISC, ''PHAISTOS_DISC''),
     (PHOENICIAN, ''PHOENICIAN''),
     (PHONETIC_EXTENSIONS, ''PHONETIC_EXTENSIONS''),
     (PHONETIC_EXTENSIONS_SUPPLEMENT, ''PHONETIC_EXTENSIONS_SUPPLEMENT''),
     (PLAYING_CARDS, ''PLAYING_CARDS''),
     (PRIVATE_USE_AREA, ''PRIVATE_USE_AREA''),
     (PSALTER_PAHLAVI, ''PSALTER_PAHLAVI''),
     (REJANG, ''REJANG''),
     (RUMI_NUMERAL_SYMBOLS, ''RUMI_NUMERAL_SYMBOLS''),
     (RUNIC, ''RUNIC''),
     (SAMARITAN, ''SAMARITAN''),
     (SAURASHTRA, ''SAURASHTRA''),
     (SHARADA, ''SHARADA''),
     (SHAVIAN, ''SHAVIAN''),
     (SHORTHAND_FORMAT_CONTROLS, ''SHORTHAND_FORMAT_CONTROLS''),
     (SIDDHAM, ''SIDDHAM''),
     (SINHALA, ''SINHALA''),
     (SINHALA_ARCHAIC_NUMBERS, ''SINHALA_ARCHAIC_NUMBERS''),
     (SMALL_FORM_VARIANTS, ''SMALL_FORM_VARIANTS''),
     (SORA_SOMPENG, ''SORA_SOMPENG''),
     (SPACING_MODIFIER_LETTERS, ''SPACING_MODIFIER_LETTERS''),
     (SPECIALS, ''SPECIALS''),
     (SUNDANESE, ''SUNDANESE''),
     (SUNDANESE_SUPPLEMENT, ''SUNDANESE_SUPPLEMENT''),
     (SUPERSCRIPTS_AND_SUBSCRIPTS, ''SUPERSCRIPTS_AND_SUBSCRIPTS''),
     (SUPPLEMENTAL_ARROWS_A, ''SUPPLEMENTAL_ARROWS_A''),
     (SUPPLEMENTAL_ARROWS_B, ''SUPPLEMENTAL_ARROWS_B''),
     (SUPPLEMENTAL_ARROWS_C, ''SUPPLEMENTAL_ARROWS_C''),
     (SUPPLEMENTAL_MATHEMATICAL_OPERATORS, ''SUPPLEMENTAL_MATHEMATICAL_OPERATORS''),
     (SUPPLEMENTAL_PUNCTUATION, ''SUPPLEMENTAL_PUNCTUATION''),
     (SUPPLEMENTAL_SYMBOLS_AND_PICTOGRAPHS, ''SUPPLEMENTAL_SYMBOLS_AND_PICTOGRAPHS''),
     (SUPPLEMENTARY_PRIVATE_USE_AREA_A, ''SUPPLEMENTARY_PRIVATE_USE_AREA_A''),
     (SUPPLEMENTARY_PRIVATE_USE_AREA_B, ''SUPPLEMENTARY_PRIVATE_USE_AREA_B''),
     (SUTTON_SIGNWRITING, ''SUTTON_SIGNWRITING''),
     (SYLOTI_NAGRI, ''SYLOTI_NAGRI''),
     (SYRIAC, ''SYRIAC''),
     (TAGALOG, ''TAGALOG''),
     (TAGBANWA, ''TAGBANWA''),
     (TAGS, ''TAGS''),
     (TAI_LE, ''TAI_LE''),
     (TAI_THAM, ''TAI_THAM''),
     (TAI_VIET, ''TAI_VIET''),
     (TAI_XUAN_JING_SYMBOLS, ''TAI_XUAN_JING_SYMBOLS''),
     (TAKRI, ''TAKRI''),
     (TAMIL, ''TAMIL''),
     (TELUGU, ''TELUGU''),
     (THAANA, ''THAANA''),
     (THAI, ''THAI''),
     (TIBETAN, ''TIBETAN''),
     (TIFINAGH, ''TIFINAGH''),
     (TIRHUTA, ''TIRHUTA''),
     (TRANSPORT_AND_MAP_SYMBOLS, ''TRANSPORT_AND_MAP_SYMBOLS''),
     (UGARITIC, ''UGARITIC''),
     (UNIFIED_CANADIAN_ABORIGINAL_SYLLABICS, ''UNIFIED_CANADIAN_ABORIGINAL_SYLLABICS''),
     (UNIFIED_CANADIAN_ABORIGINAL_SYLLABICS_EXTENDED, ''UNIFIED_CANADIAN_ABORIGINAL_SYLLABICS_EXTENDED''),
     (VAI, ''VAI''),
     (VARIATION_SELECTORS, ''VARIATION_SELECTORS''),
     (VARIATION_SELECTORS_SUPPLEMENT, ''VARIATION_SELECTORS_SUPPLEMENT''),
     (VEDIC_EXTENSIONS, ''VEDIC_EXTENSIONS''),
     (VERTICAL_FORMS, ''VERTICAL_FORMS''),
     (WARANG_CITI, ''WARANG_CITI''),
     (YI_RADICALS, ''YI_RADICALS''),
     (YI_SYLLABLES, ''YI_SYLLABLES''),
     (YIJING_HEXAGRAM_SYMBOLS, ''YIJING_HEXAGRAM_SYMBOLS''),
     (UNKNOWN, ''UNKNOWN'')]"

definition stringOfUnicodeBlock :: "UnicodeBlock \<Rightarrow> string" where
  "stringOfUnicodeBlock block =
     (case map_of (block_names_1 @ block_names_2) block of Some name \<Rightarrow> name | None \<Rightarrow> ''UNKNOWN'')"

section \<open>The tree as a table of ranges\<close>

text \<open>
  The reference: a table of the first code point of each block, in increasing order; a code point
  belongs to the last block that starts at or before it.
\<close>

fun block_from :: "UnicodeBlock \<Rightarrow> (nat \<times> UnicodeBlock) list \<Rightarrow> nat \<Rightarrow> UnicodeBlock" where
  "block_from b [] n = b"
| "block_from b ((s, b') # t) n = (if n < s then b else block_from b' t n)"

lemma block_from_append:
  "\<forall>p \<in> set t1. fst p \<le> s \<Longrightarrow>
   block_from b (t1 @ (s, b2) # t2) n = (if n < s then block_from b t1 n else block_from b2 t2 n)"
  by (induction t1 arbitrary: b) auto

definition block_starts_9 :: "(nat \<times> UnicodeBlock) list" where
  "block_starts_9 = [(0, BASIC_LATIN),
     (128, LATIN_1_SUPPLEMENT),
     (256, LATIN_EXTENDED_A),
     (384, LATIN_EXTENDED_B)]"

definition block_starts_28 :: "(nat \<times> UnicodeBlock) list" where
  "block_starts_28 = [(592, IPA_EXTENSIONS),
     (688, SPACING_MODIFIER_LETTERS),
     (768, COMBINING_DIACRITICAL_MARKS),
     (880, GREEK_AND_COPTIC),
     (1024, CYRILLIC),
     (1280, CYRILLIC_SUPPLEMENT),
     (1328, ARMENIAN),
     (1424, HEBREW),
     (1536, ARABIC),
     (1792, SYRIAC),
     (1872, ARABIC_SUPPLEMENT),
     (1920, THAANA),
     (1984, NKO),
     (2048, SAMARITAN),
     (2112, MANDAIC),
     (2144, ARABIC_EXTENDED_A),
     (2304, DEVANAGARI),
     (2432, BENGALI),
     (2560, GURMUKHI),
     (2688, GUJARATI),
     (2816, ORIYA),
     (2944, TAMIL),
     (3072, TELUGU),
     (3200, KANNADA),
     (3328, MALAYALAM),
     (3456, SINHALA),
     (3584, THAI),
     (3712, LAO),
     (3840, TIBETAN),
     (4096, MYANMAR),
     (4256, GEORGIAN),
     (4352, HANGUL_JAMO)]"

definition block_starts_154 :: "(nat \<times> UnicodeBlock) list" where
  "block_starts_154 = [(4608, ETHIOPIC),
     (4992, ETHIOPIC_SUPPLEMENT),
     (5024, CHEROKEE),
     (5120, UNIFIED_CANADIAN_ABORIGINAL_SYLLABICS),
     (5760, OGHAM),
     (5792, RUNIC),
     (5888, TAGALOG),
     (5920, HANUNOO),
     (5952, BUHID),
     (5984, TAGBANWA),
     (6016, KHMER),
     (6144, MONGOLIAN),
     (6320, UNIFIED_CANADIAN_ABORIGINAL_SYLLABICS_EXTENDED),
     (6400, LIMBU),
     (6480, TAI_LE),
     (6528, NEW_TAI_LUE),
     (6624, KHMER_SYMBOLS),
     (6656, BUGINESE),
     (6688, TAI_THAM),
     (6832, COMBINING_DIACRITICAL_MARKS_EXTENDED),
     (6912, BALINESE),
     (7040, SUNDANESE),
     (7104, BATAK),
     (7168, LEPCHA),
     (7248, OL_CHIKI),
     (7296, SUNDANESE_SUPPLEMENT),
     (7376, VEDIC_EXTENSIONS),
     (7424, PHONETIC_EXTENSIONS),
     (7552, PHONETIC_EXTENSIONS_SUPPLEMENT),
     (7616, COMBINING_DIACRITICAL_MARKS_SUPPLEMENT),
     (7680, LATIN_EXTENDED_ADDITIONAL),
     (7936, GREEK_EXTENDED)]"

definition block_starts_282 :: "(nat \<times> UnicodeBlock) list" where
  "block_starts_282 = [(8192, GENERAL_PUNCTUATION),
     (8304, SUPERSCRIPTS_AND_SUBSCRIPTS),
     (8352, CURRENCY_SYMBOLS),
     (8400, COMBINING_DIACRITICAL_MARKS_FOR_SYMBOLS),
     (8448, LETTERLIKE_SYMBOLS),
     (8528, NUMBER_FORMS),
     (8592, ARROWS),
     (8704, MATHEMATICAL_OPERATORS),
     (8960, MISCELLANEOUS_TECHNICAL),
     (9216, CONTROL_PICTURES),
     (9280, OPTICAL_CHARACTER_RECOGNITION),
     (9312, ENCLOSED_ALPHANUMERICS),
     (9472, BOX_DRAWING),
     (9600, BLOCK_ELEMENTS),
     (9632, GEOMETRIC_SHAPES),
     (9728, MISCELLANEOUS_SYMBOLS),
     (9984, DINGBATS),
     (10176, MISCELLANEOUS_MATHEMATICAL_SYMBOLS_A),
     (10224, SUPPLEMENTAL_ARROWS_A),
     (10240, BRAILLE_PATTERNS),
     (10496, SUPPLEMENTAL_ARROWS_B),
     (10624, MISCELLANEOUS_MATHEMATICAL_SYMBOLS_B),
     (10752, SUPPLEMENTAL_MATHEMATICAL_OPERATORS),
     (11008, MISCELLANEOUS_SYMBOLS_AND_ARROWS),
     (11264, GLAGOLITIC),
     (11360, LATIN_EXTENDED_C),
     (11392, COPTIC),
     (11520, GEORGIAN_SUPPLEMENT),
     (11568, TIFINAGH),
     (11648, ETHIOPIC_EXTENDED),
     (11744, CYRILLIC_EXTENDED_A),
     (11776, SUPPLEMENTAL_PUNCTUATION)]"

definition block_starts_408 :: "(nat \<times> UnicodeBlock) list" where
  "block_starts_408 = [(11904, CJK_RADICALS_SUPPLEMENT),
     (12032, KANGXI_RADICALS),
     (12272, IDEOGRAPHIC_DESCRIPTION_CHARACTERS),
     (12288, CJK_SYMBOLS_AND_PUNCTUATION),
     (12352, HIRAGANA),
     (12448, KATAKANA),
     (12544, BOPOMOFO),
     (12592, HANGUL_COMPATIBILITY_JAMO),
     (12688, KANBUN),
     (12704, BOPOMOFO_EXTENDED),
     (12736, CJK_STROKES),
     (12784, KATAKANA_PHONETIC_EXTENSIONS),
     (12800, ENCLOSED_CJK_LETTERS_AND_MONTHS),
     (13056, CJK_COMPATIBILITY),
     (13312, CJK_UNIFIED_IDEOGRAPHS_EXTENSION_A),
     (19904, YIJING_HEXAGRAM_SYMBOLS),
     (19968, CJK_UNIFIED_IDEOGRAPHS),
     (40960, YI_SYLLABLES),
     (42128, YI_RADICALS),
     (42192, LISU),
     (42240, VAI),
     (42560, CYRILLIC_EXTENDED_B),
     (42656, BAMUM),
     (42752, MODIFIER_TONE_LETTERS),
     (42784, LATIN_EXTENDED_D),
     (43008, SYLOTI_NAGRI),
     (43056, COMMON_INDIC_NUMBER_FORMS),
     (43072, PHAGS_PA),
     (43136, SAURASHTRA),
     (43232, DEVANAGARI_EXTENDED),
     (43264, KAYAH_LI),
     (43312, REJANG),
     (43360, HANGUL_JAMO_EXTENDED_A)]"

definition block_starts_540 :: "(nat \<times> UnicodeBlock) list" where
  "block_starts_540 = [(43392, JAVANESE),
     (43488, MYANMAR_EXTENDED_B),
     (43520, CHAM),
     (43616, MYANMAR_EXTENDED_A),
     (43648, TAI_VIET),
     (43744, MEETEI_MAYEK_EXTENSIONS),
     (43776, ETHIOPIC_EXTENDED_A),
     (43824, LATIN_EXTENDED_E),
     (43888, CHEROKEE_SUPPLEMENT),
     (44032, HANGUL_SYLLABLES),
     (55216, HANGUL_JAMO_EXTENDED_B),
     (55296, HIGH_SURROGATES),
     (56192, HIGH_PRIVATE_USE_SURROGATES),
     (56320, LOW_SURROGATES),
     (57344, PRIVATE_USE_AREA),
     (63744, CJK_COMPATIBILITY_IDEOGRAPHS),
     (64256, ALPHABETIC_PRESENTATION_FORMS),
     (64336, ARABIC_PRESENTATION_FORMS_A),
     (65024, VARIATION_SELECTORS),
     (65040, VERTICAL_FORMS),
     (65056, COMBINING_HALF_MARKS),
     (65072, CJK_COMPATIBILITY_FORMS),
     (65104, SMALL_FORM_VARIANTS),
     (65136, ARABIC_PRESENTATION_FORMS_B),
     (65280, HALFWIDTH_AND_FULLWIDTH_FORMS),
     (65520, SPECIALS),
     (65536, LINEAR_B_SYLLABARY),
     (65664, LINEAR_B_IDEOGRAMS),
     (65792, AEGEAN_NUMBERS),
     (65856, ANCIENT_GREEK_NUMBERS),
     (65936, ANCIENT_SYMBOLS)]"

definition block_starts_666 :: "(nat \<times> UnicodeBlock) list" where
  "block_starts_666 = [(66000, PHAISTOS_DISC),
     (66048, LYCIAN),
     (66208, CARIAN),
     (66272, COPTIC_EPACT_NUMBERS),
     (66304, OLD_ITALIC),
     (66352, GOTHIC),
     (66384, OLD_PERMIC),
     (66432, UGARITIC),
     (66464, OLD_PERSIAN),
     (66528, DESERET),
     (66640, SHAVIAN),
     (66688, OSMANYA),
     (66816, ELBASAN),
     (66864, CAUCASIAN_ALBANIAN),
     (67072, LINEAR_A),
     (67456, CYPRIOT_SYLLABARY),
     (67648, IMPERIAL_ARAMAIC),
     (67680, PALMYRENE),
     (67712, NABATAEAN),
     (67760, HATRAN),
     (67840, PHOENICIAN),
     (67872, LYDIAN),
     (67968, MEROITIC_HIEROGLYPHS),
     (68000, MEROITIC_CURSIVE),
     (68096, KHAROSHTHI),
     (68192, OLD_SOUTH_ARABIAN),
     (68224, OLD_NORTH_ARABIAN),
     (68256, MANICHAEAN),
     (68352, AVESTAN),
     (68416, INSCRIPTIONAL_PARTHIAN),
     (68448, INSCRIPTIONAL_PAHLAVI),
     (68480, PSALTER_PAHLAVI)]"

definition block_starts_794 :: "(nat \<times> UnicodeBlock) list" where
  "block_starts_794 = [(68608, OLD_TURKIC),
     (68688, OLD_HUNGARIAN),
     (69216, RUMI_NUMERAL_SYMBOLS),
     (69248, BRAHMI),
     (69760, KAITHI),
     (69840, SORA_SOMPENG),
     (69888, CHAKMA),
     (69968, MAHAJANI),
     (70016, SHARADA),
     (70112, SINHALA_ARCHAIC_NUMBERS),
     (70144, KHOJKI),
     (70224, MULTANI),
     (70320, KHUDAWADI),
     (70400, GRANTHA),
     (70784, TIRHUTA),
     (70880, SIDDHAM),
     (71168, MODI),
     (71264, TAKRI),
     (71424, AHOM),
     (71488, WARANG_CITI),
     (72384, PAU_CIN_HAU),
     (72448, CUNEIFORM),
     (74752, CUNEIFORM_NUMBERS_AND_PUNCTUATION),
     (74880, EARLY_DYNASTIC_CUNEIFORM),
     (77824, EGYPTIAN_HIEROGLYPHS),
     (78896, ANATOLIAN_HIEROGLYPHS),
     (92160, BAMUM_SUPPLEMENT),
     (92736, MRO),
     (92880, BASSA_VAH),
     (92928, PAHAWH_HMONG),
     (93952, MIAO),
     (94112, KANA_SUPPLEMENT)]"

definition block_starts_920 :: "(nat \<times> UnicodeBlock) list" where
  "block_starts_920 = [(113664, DUPLOYAN),
     (113824, SHORTHAND_FORMAT_CONTROLS),
     (118784, BYZANTINE_MUSICAL_SYMBOLS),
     (119040, MUSICAL_SYMBOLS),
     (119296, ANCIENT_GREEK_MUSICAL_NOTATION),
     (119376, TAI_XUAN_JING_SYMBOLS),
     (119648, COUNTING_ROD_NUMERALS),
     (119680, MATHEMATICAL_ALPHANUMERIC_SYMBOLS),
     (120832, SUTTON_SIGNWRITING),
     (121520, MENDE_KIKAKUI),
     (126464, ARABIC_MATHEMATICAL_ALPHABETIC_SYMBOLS),
     (126720, MAHJONG_TILES),
     (127024, DOMINO_TILES),
     (127136, PLAYING_CARDS),
     (127232, ENCLOSED_ALPHANUMERIC_SUPPLEMENT),
     (127488, ENCLOSED_IDEOGRAPHIC_SUPPLEMENT),
     (127744, MISCELLANEOUS_SYMBOLS_AND_PICTOGRAPHS),
     (128512, EMOTICONS),
     (128592, ORNAMENTAL_DINGBATS),
     (128640, TRANSPORT_AND_MAP_SYMBOLS),
     (128768, ALCHEMICAL_SYMBOLS),
     (128896, GEOMETRIC_SHAPES_EXTENDED),
     (129024, SUPPLEMENTAL_ARROWS_C),
     (129280, SUPPLEMENTAL_SYMBOLS_AND_PICTOGRAPHS),
     (131072, CJK_UNIFIED_IDEOGRAPHS_EXTENSION_B),
     (173792, CJK_UNIFIED_IDEOGRAPHS_EXTENSION_C),
     (177984, CJK_UNIFIED_IDEOGRAPHS_EXTENSION_D),
     (178208, CJK_UNIFIED_IDEOGRAPHS_EXTENSION_E),
     (194560, CJK_COMPATIBILITY_IDEOGRAPHS_SUPPLEMENT),
     (195104, TAGS),
     (917760, VARIATION_SELECTORS_SUPPLEMENT),
     (918000, SUPPLEMENTARY_PRIVATE_USE_AREA_A),
     (1048576, SUPPLEMENTARY_PRIVATE_USE_AREA_B)]"

section \<open>The tree agrees with the table\<close>

lemma block_tree_28_table: "block_tree_28 cp = block_from IPA_EXTENSIONS (tl block_starts_28) (unat cp)"
  unfolding block_tree_28_def block_starts_28_def word_less_nat_alt word_le_nat_alt by simp

lemma block_tree_154_table: "block_tree_154 cp = block_from ETHIOPIC (tl block_starts_154) (unat cp)"
  unfolding block_tree_154_def block_starts_154_def word_less_nat_alt word_le_nat_alt by simp

lemma block_tree_282_table: "block_tree_282 cp = block_from GENERAL_PUNCTUATION (tl block_starts_282) (unat cp)"
  unfolding block_tree_282_def block_starts_282_def word_less_nat_alt word_le_nat_alt by simp

lemma block_tree_408_table: "block_tree_408 cp = block_from CJK_RADICALS_SUPPLEMENT (tl block_starts_408) (unat cp)"
  unfolding block_tree_408_def block_starts_408_def word_less_nat_alt word_le_nat_alt by simp

lemma block_tree_540_table: "block_tree_540 cp = block_from JAVANESE (tl block_starts_540) (unat cp)"
  unfolding block_tree_540_def block_starts_540_def word_less_nat_alt word_le_nat_alt by simp

lemma block_tree_666_table: "block_tree_666 cp = block_from PHAISTOS_DISC (tl block_starts_666) (unat cp)"
  unfolding block_tree_666_def block_starts_666_def word_less_nat_alt word_le_nat_alt by simp

lemma block_tree_794_table: "block_tree_794 cp = block_from OLD_TURKIC (tl block_starts_794) (unat cp)"
  unfolding block_tree_794_def block_starts_794_def word_less_nat_alt word_le_nat_alt by simp

lemma block_tree_920_table: "block_tree_920 cp = block_from DUPLOYAN (tl block_starts_920) (unat cp)"
  unfolding block_tree_920_def block_starts_920_def word_less_nat_alt word_le_nat_alt by simp

definition block_table :: "(nat \<times> UnicodeBlock) list" where
  "block_table = block_starts_9 @
     block_starts_28 @
     block_starts_154 @
     block_starts_282 @
     block_starts_408 @
     block_starts_540 @
     block_starts_666 @
     block_starts_794 @
     block_starts_920"

lemmas block_starts_defs = block_starts_9_def
  block_starts_28_def
  block_starts_154_def
  block_starts_282_def
  block_starts_408_def
  block_starts_540_def
  block_starts_666_def
  block_starts_794_def
  block_starts_920_def

lemma block_from_mem: "block_from b t n \<in> insert b (snd ` set t)"
  by (induction b t n rule: block_from.induct) auto

lemma block_tree_28_mem: "block_tree_28 cp \<in> set (map snd block_starts_28)"
  using block_from_mem [of IPA_EXTENSIONS "tl block_starts_28" "unat cp"]
  by (simp only: block_tree_28_table) (simp add: block_starts_28_def)

lemma block_tree_154_mem: "block_tree_154 cp \<in> set (map snd block_starts_154)"
  using block_from_mem [of ETHIOPIC "tl block_starts_154" "unat cp"]
  by (simp only: block_tree_154_table) (simp add: block_starts_154_def)

lemma block_tree_282_mem: "block_tree_282 cp \<in> set (map snd block_starts_282)"
  using block_from_mem [of GENERAL_PUNCTUATION "tl block_starts_282" "unat cp"]
  by (simp only: block_tree_282_table) (simp add: block_starts_282_def)

lemma block_tree_408_mem: "block_tree_408 cp \<in> set (map snd block_starts_408)"
  using block_from_mem [of CJK_RADICALS_SUPPLEMENT "tl block_starts_408" "unat cp"]
  by (simp only: block_tree_408_table) (simp add: block_starts_408_def)

lemma block_tree_540_mem: "block_tree_540 cp \<in> set (map snd block_starts_540)"
  using block_from_mem [of JAVANESE "tl block_starts_540" "unat cp"]
  by (simp only: block_tree_540_table) (simp add: block_starts_540_def)

lemma block_tree_666_mem: "block_tree_666 cp \<in> set (map snd block_starts_666)"
  using block_from_mem [of PHAISTOS_DISC "tl block_starts_666" "unat cp"]
  by (simp only: block_tree_666_table) (simp add: block_starts_666_def)

lemma block_tree_794_mem: "block_tree_794 cp \<in> set (map snd block_starts_794)"
  using block_from_mem [of OLD_TURKIC "tl block_starts_794" "unat cp"]
  by (simp only: block_tree_794_table) (simp add: block_starts_794_def)

lemma block_tree_920_mem: "block_tree_920 cp \<in> set (map snd block_starts_920)"
  using block_from_mem [of DUPLOYAN "tl block_starts_920" "unat cp"]
  by (simp only: block_tree_920_table) (simp add: block_starts_920_def)

lemmas block_tree_mems = block_tree_28_mem
  block_tree_154_mem
  block_tree_282_mem
  block_tree_408_mem
  block_tree_540_mem
  block_tree_666_mem
  block_tree_794_mem
  block_tree_920_mem

lemmas block_tree_tables = block_tree_28_table
  block_tree_154_table
  block_tree_282_table
  block_tree_408_table
  block_tree_540_table
  block_tree_666_table
  block_tree_794_table
  block_tree_920_table

lemma join_28: "block_from b (tl block_starts_9 @ block_starts_28 @ t) n =
   (if n < 592 then block_from b (tl block_starts_9) n else block_from IPA_EXTENSIONS (tl block_starts_28 @ t) n)"
proof -
  have cons: "block_starts_28 @ t = (592, IPA_EXTENSIONS) # (tl block_starts_28 @ t)" by (simp add: block_starts_28_def)
  show ?thesis unfolding cons by (rule block_from_append) (simp add: block_starts_9_def)
qed

lemma join_154: "block_from b (tl block_starts_28 @ block_starts_154 @ t) n =
   (if n < 4608 then block_from b (tl block_starts_28) n else block_from ETHIOPIC (tl block_starts_154 @ t) n)"
proof -
  have cons: "block_starts_154 @ t = (4608, ETHIOPIC) # (tl block_starts_154 @ t)" by (simp add: block_starts_154_def)
  show ?thesis unfolding cons by (rule block_from_append) (simp add: block_starts_28_def)
qed

lemma join_282: "block_from b (tl block_starts_154 @ block_starts_282 @ t) n =
   (if n < 8192 then block_from b (tl block_starts_154) n else block_from GENERAL_PUNCTUATION (tl block_starts_282 @ t) n)"
proof -
  have cons: "block_starts_282 @ t = (8192, GENERAL_PUNCTUATION) # (tl block_starts_282 @ t)" by (simp add: block_starts_282_def)
  show ?thesis unfolding cons by (rule block_from_append) (simp add: block_starts_154_def)
qed

lemma join_408: "block_from b (tl block_starts_282 @ block_starts_408 @ t) n =
   (if n < 11904 then block_from b (tl block_starts_282) n else block_from CJK_RADICALS_SUPPLEMENT (tl block_starts_408 @ t) n)"
proof -
  have cons: "block_starts_408 @ t = (11904, CJK_RADICALS_SUPPLEMENT) # (tl block_starts_408 @ t)" by (simp add: block_starts_408_def)
  show ?thesis unfolding cons by (rule block_from_append) (simp add: block_starts_282_def)
qed

lemma join_540: "block_from b (tl block_starts_408 @ block_starts_540 @ t) n =
   (if n < 43392 then block_from b (tl block_starts_408) n else block_from JAVANESE (tl block_starts_540 @ t) n)"
proof -
  have cons: "block_starts_540 @ t = (43392, JAVANESE) # (tl block_starts_540 @ t)" by (simp add: block_starts_540_def)
  show ?thesis unfolding cons by (rule block_from_append) (simp add: block_starts_408_def)
qed

lemma join_666: "block_from b (tl block_starts_540 @ block_starts_666 @ t) n =
   (if n < 66000 then block_from b (tl block_starts_540) n else block_from PHAISTOS_DISC (tl block_starts_666 @ t) n)"
proof -
  have cons: "block_starts_666 @ t = (66000, PHAISTOS_DISC) # (tl block_starts_666 @ t)" by (simp add: block_starts_666_def)
  show ?thesis unfolding cons by (rule block_from_append) (simp add: block_starts_540_def)
qed

lemma join_794: "block_from b (tl block_starts_666 @ block_starts_794 @ t) n =
   (if n < 68608 then block_from b (tl block_starts_666) n else block_from OLD_TURKIC (tl block_starts_794 @ t) n)"
proof -
  have cons: "block_starts_794 @ t = (68608, OLD_TURKIC) # (tl block_starts_794 @ t)" by (simp add: block_starts_794_def)
  show ?thesis unfolding cons by (rule block_from_append) (simp add: block_starts_666_def)
qed

lemma join_920: "block_from b (tl block_starts_794 @ block_starts_920 @ t) n =
   (if n < 113664 then block_from b (tl block_starts_794) n else block_from DUPLOYAN (tl block_starts_920 @ t) n)"
proof -
  have cons: "block_starts_920 @ t = (113664, DUPLOYAN) # (tl block_starts_920 @ t)" by (simp add: block_starts_920_def)
  show ?thesis unfolding cons by (rule block_from_append) (simp add: block_starts_794_def)
qed

lemmas joins = join_28 join_154 join_282 join_408 join_540 join_666 join_794 join_920

lemma block_table_sorted: "sorted_wrt (<) (map fst block_table)"
proof -
  have "successively (<) (map fst block_table)"
    unfolding block_table_def block_starts_defs by simp
  then show ?thesis by (simp add: successively_conv_sorted_wrt)
qed

lemma tl_block_table: "tl block_table = tl block_starts_9 @ block_starts_28 @ block_starts_154 @ block_starts_282 @ block_starts_408 @ block_starts_540 @ block_starts_666 @ block_starts_794 @ block_starts_920 @ []"
  unfolding block_table_def by (simp add: block_starts_9_def)

lemma getUnicodeBlock_table: "getUnicodeBlock cp = block_from BASIC_LATIN (tl block_table) (unat cp)"
proof -
  have latin: "block_from BASIC_LATIN (tl block_starts_9) n =
    (if n < 256 then if n \<le> 127 then BASIC_LATIN else LATIN_1_SUPPLEMENT
     else if n \<le> 383 then LATIN_EXTENDED_A else LATIN_EXTENDED_B)" for n
    by (simp add: block_starts_9_def)
  show ?thesis
    unfolding getUnicodeBlock_def block_tree_tables word_less_nat_alt word_le_nat_alt tl_block_table
    by (simp only: joins join_920 [where t = "[]", unfolded append_Nil2] append_Nil2 latin) simp
qed

lemma blocks_of_tree: "getUnicodeBlock cp \<in> set (map snd block_table)"
proof -
  have "BASIC_LATIN # map snd (tl block_table) = map snd block_table"
    unfolding block_table_def by (simp add: block_starts_9_def)
  then have "insert BASIC_LATIN (snd ` set (tl block_table)) = set (map snd block_table)"
    by (metis list.set(2) list.set_map)
  then show ?thesis
    using block_from_mem [of BASIC_LATIN "tl block_table" "unat cp"] by (simp add: getUnicodeBlock_table)
qed

section \<open>Properties of the blocks\<close>

text \<open>
  C40.  The decision tree is the table: every code point gets the last block of a strictly increasing
  table of 261 block starts, so that each block in the table is one contiguous range, no block occurs
  twice, and two of the 263 enumerators, \<open>UNKNOWN\<close> and \<open>MEETEI_MAYEK\<close>, are never returned.
\<close>

theorem getUnicodeBlock_is_table:
  "getUnicodeBlock cp = block_from BASIC_LATIN (tl block_table) (unat cp)
    \<and> sorted_wrt (<) (map fst block_table) \<and> distinct (map snd block_table) \<and> length block_table = 261
    \<and> getUnicodeBlock cp \<noteq> UNKNOWN \<and> getUnicodeBlock cp \<noteq> MEETEI_MAYEK"
proof -
  have "UNKNOWN \<notin> set (map snd block_table)" "MEETEI_MAYEK \<notin> set (map snd block_table)"
    unfolding block_table_def block_starts_defs by simp_all
  moreover have "distinct (map snd block_table)" "length block_table = 261"
    unfolding block_table_def block_starts_defs by simp_all
  ultimately show ?thesis
    using blocks_of_tree [of cp] block_table_sorted getUnicodeBlock_table [of cp] by metis
qed

lemma block_names_keys: "map fst (block_names_1 @ block_names_2) = map UnicodeBlock [0..<263]"
  unfolding block_names_1_def block_names_2_def by (simp add: upt_rec)

text \<open>
  \<open>stringOfUnicodeBlock\<close> has a case for every enumerator, in the order of the enumeration: the
  name of the block number \<open>k\<close> is the \<open>k\<close>-th name of the tables, and only the last one is
  \<open>UNKNOWN\<close>'s.
\<close>

theorem every_block_has_its_name:
  assumes "k < 263"
  shows "stringOfUnicodeBlock (UnicodeBlock k) = map snd (block_names_1 @ block_names_2) ! k"
proof -
  let ?t = "block_names_1 @ block_names_2"
  have len: "length ?t = 263" using arg_cong [OF block_names_keys, of length] by simp
  have "fst (?t ! k) = UnicodeBlock k"
    using assms len block_names_keys nth_map [of k ?t fst] by simp
  moreover have "distinct (map fst ?t)" unfolding block_names_keys by (simp add: distinct_map inj_on_def)
  ultimately have "map_of ?t (UnicodeBlock k) = Some (snd (?t ! k))"
    using assms len by (metis map_of_eq_Some_iff nth_mem prod.collapse)
  then show ?thesis using assms len nth_map [of k ?t snd]
    by (simp add: stringOfUnicodeBlock_def del: map_of_append map_append)
qed

theorem every_block_has_its_name_witness:
  "stringOfUnicodeBlock (UnicodeBlock 0) = ''AEGEAN_NUMBERS''"
  using every_block_has_its_name [of 0] by (simp add: block_names_1_def)

end
