(* ===== verification/CodePoint.thy ===== *)
theory CodePoint
  imports Unicode
begin

text \<open>
  \<open>src/src/libunicode/code_point_support.cpp\<close>: the case folding of code points and the test for
  letters, by Unicode block.  A code point is a 32-bit unsigned integer.
\<close>

section \<open>Case folding\<close>

definition normalizeBasicLatinCodePoint :: "32 word \<Rightarrow> 32 word" where
  "normalizeBasicLatinCodePoint codePoint =
     (if codePoint \<ge> 65 \<and> codePoint \<le> 90 then codePoint + 32 else codePoint)"

definition normalizeLatin1SupplementCodePoint :: "32 word \<Rightarrow> 32 word" where
  "normalizeLatin1SupplementCodePoint codePoint =
     (if (codePoint \<ge> 192 \<and> codePoint \<le> 214) \<or> (codePoint \<ge> 216 \<and> codePoint \<le> 221)
      then codePoint + 32 else codePoint)"

definition normalizeLatinExtendedACodePoint :: "32 word \<Rightarrow> 32 word" where
  "normalizeLatinExtendedACodePoint codePoint =
     (if codePoint = 383 then codePoint
      else if codePoint < 311 then
        (if codePoint mod 2 = 0 then codePoint + 1 else codePoint)
      else codePoint)"

text \<open>The overload that takes the block, and the one that looks it up.\<close>

definition normalizeCodePointInBlock :: "32 word \<Rightarrow> UnicodeBlock \<Rightarrow> 32 word" where
  "normalizeCodePointInBlock codePoint block =
     (if block = BASIC_LATIN then normalizeBasicLatinCodePoint codePoint
      else if block = LATIN_1_SUPPLEMENT then normalizeLatin1SupplementCodePoint codePoint
      else if block = LATIN_EXTENDED_A then normalizeLatinExtendedACodePoint codePoint
      else codePoint)"

definition normalizeCodePoint :: "32 word \<Rightarrow> 32 word" where
  "normalizeCodePoint codePoint =
     (let block = getUnicodeBlock codePoint in normalizeCodePointInBlock codePoint block)"

section \<open>Letters\<close>

definition isBasicLatinLetter :: "32 word \<Rightarrow> bool" where
  "isBasicLatinLetter cp =
     (if cp \<le> 64 then False
      else if cp \<le> 96 \<and> cp > 90 then False
      else if cp > 122 then False
      else True)"

definition isLatin1SupplementLetter :: "32 word \<Rightarrow> bool" where
  "isLatin1SupplementLetter cp =
     (if cp \<le> 191 then False
      else if cp = 215 \<or> cp = 247 then False
      else True)"

definition isMathematicalAlphanumericSymbolLetter :: "32 word \<Rightarrow> bool" where
  "isMathematicalAlphanumericSymbolLetter cp \<longleftrightarrow> cp < 120782"

definition isLetterPointInBlock :: "32 word \<Rightarrow> UnicodeBlock \<Rightarrow> bool" where
  "isLetterPointInBlock cp uBlock =
     (if uBlock = BASIC_LATIN then isBasicLatinLetter cp
      else if uBlock = LATIN_1_SUPPLEMENT then isLatin1SupplementLetter cp
      else if uBlock \<in> set [LATIN_EXTENDED_A, LATIN_EXTENDED_B, LATIN_EXTENDED_C, LATIN_EXTENDED_D,
        LATIN_EXTENDED_E, LATIN_EXTENDED_ADDITIONAL] then True
      else if uBlock \<in> set [GENERAL_PUNCTUATION,
        ARROWS, BLOCK_ELEMENTS, BOX_DRAWING, BRAILLE_PATTERNS, COMBINING_DIACRITICAL_MARKS,
        COMBINING_DIACRITICAL_MARKS_EXTENDED, CONTROL_PICTURES, DINGBATS, DOMINO_TILES, EMOTICONS,
        ENCLOSED_ALPHANUMERICS, GEOMETRIC_SHAPES, IPA_EXTENSIONS, MATHEMATICAL_OPERATORS,
        MISCELLANEOUS_MATHEMATICAL_SYMBOLS_A, MISCELLANEOUS_MATHEMATICAL_SYMBOLS_B,
        MISCELLANEOUS_SYMBOLS, MISCELLANEOUS_SYMBOLS_AND_ARROWS, MISCELLANEOUS_TECHNICAL,
        MUSICAL_SYMBOLS, NUMBER_FORMS, SPACING_MODIFIER_LETTERS, SUPERSCRIPTS_AND_SUBSCRIPTS,
        SUPPLEMENTAL_MATHEMATICAL_OPERATORS, SUPPLEMENTAL_PUNCTUATION] then False
      else True)"

definition isLetterPoint :: "32 word \<Rightarrow> bool" where
  "isLetterPoint cp = (let uBlock = getUnicodeBlock cp in isLetterPointInBlock cp uBlock)"

section \<open>The Latin blocks\<close>

lemma late_blocks:
  assumes "\<not> cp < 592"
  shows "getUnicodeBlock cp \<notin> {BASIC_LATIN, LATIN_1_SUPPLEMENT, LATIN_EXTENDED_A}"
proof -
  let ?trees = "{block_starts_28, block_starts_154, block_starts_282, block_starts_408, block_starts_540,
      block_starts_666, block_starts_794, block_starts_920}"
  have "\<exists>t \<in> ?trees. getUnicodeBlock cp \<in> set (map snd t)"
    using block_tree_mems [of cp] assms unfolding getUnicodeBlock_def
    by (simp del: set_map list.set_map add: if_bool_eq_conj)
  then obtain t where t: "t \<in> ?trees" "getUnicodeBlock cp \<in> set (map snd t)" by blast
  from t(1) have "BASIC_LATIN \<notin> set (map snd t) \<and> LATIN_1_SUPPLEMENT \<notin> set (map snd t)
      \<and> LATIN_EXTENDED_A \<notin> set (map snd t)"
    unfolding block_starts_defs by (elim insertE emptyE) simp_all
  with t(2) show ?thesis by (auto simp del: set_map list.set_map)
qed

lemma latin_blocks:
  "getUnicodeBlock cp = BASIC_LATIN \<longleftrightarrow> unat cp \<le> 127"
  "getUnicodeBlock cp = LATIN_1_SUPPLEMENT \<longleftrightarrow> 128 \<le> unat cp \<and> unat cp \<le> 255"
  "getUnicodeBlock cp = LATIN_EXTENDED_A \<longleftrightarrow> 256 \<le> unat cp \<and> unat cp \<le> 383"
proof -
  have "(getUnicodeBlock cp = BASIC_LATIN \<longleftrightarrow> unat cp \<le> 127)
    \<and> (getUnicodeBlock cp = LATIN_1_SUPPLEMENT \<longleftrightarrow> 128 \<le> unat cp \<and> unat cp \<le> 255)
    \<and> (getUnicodeBlock cp = LATIN_EXTENDED_A \<longleftrightarrow> 256 \<le> unat cp \<and> unat cp \<le> 383)"
  proof (cases "cp < 592")
    case True
    then show ?thesis
      by (simp add: getUnicodeBlock_def word_less_nat_alt word_le_nat_alt)
  next
    case False
    then have "592 \<le> unat cp" by (simp add: word_less_nat_alt)
    with late_blocks [OF False] show ?thesis by simp
  qed
  then show "getUnicodeBlock cp = BASIC_LATIN \<longleftrightarrow> unat cp \<le> 127"
    and "getUnicodeBlock cp = LATIN_1_SUPPLEMENT \<longleftrightarrow> 128 \<le> unat cp \<and> unat cp \<le> 255"
    and "getUnicodeBlock cp = LATIN_EXTENDED_A \<longleftrightarrow> 256 \<le> unat cp \<and> unat cp \<le> 383" by auto
qed

section \<open>What the folding does\<close>

text \<open>The folding on natural numbers, with the blocks resolved.\<close>

definition folded :: "nat \<Rightarrow> nat" where
  "folded n =
     (if (65 \<le> n \<and> n \<le> 90) \<or> (192 \<le> n \<and> n \<le> 221 \<and> n \<noteq> 215) then n + 32
      else if 256 \<le> n \<and> n < 311 \<and> even n then n + 1
      else n)"

lemma unat_add_small: "unat (cp :: 32 word) < 1000 \<Longrightarrow> k < 1000 \<Longrightarrow> unat (cp + of_nat k) = unat cp + k"
  by (simp add: unat_word_ariths unat_of_nat)

lemma unat_normalizeCodePoint: "unat (normalizeCodePoint cp) = folded (unat cp)"
proof -
  have add32: "unat (cp + 32) = unat cp + 32" if "unat cp < 1000" using unat_add_small [OF that, of 32] by simp
  have add1: "unat (cp + 1) = unat cp + 1" if "unat cp < 1000" using unat_add_small [OF that, of 1] by simp
  have even: "cp mod 2 = 0 \<longleftrightarrow> even (unat cp)"
  proof -
    have "unat (cp mod 2) = unat cp mod 2" by (simp only: unat_mod) simp
    then show ?thesis by (metis even_iff_mod_2_eq_zero unat_0 unat_eq_zero)
  qed
  show ?thesis
    unfolding normalizeCodePoint_def normalizeCodePointInBlock_def Let_def latin_blocks
      normalizeBasicLatinCodePoint_def normalizeLatin1SupplementCodePoint_def
      normalizeLatinExtendedACodePoint_def folded_def
    by (auto simp: word_le_nat_alt word_less_nat_alt even add32 add1)
qed

text \<open>The number of bytes of the UTF-8 encoding of a code point.\<close>

definition utf8_length :: "32 word \<Rightarrow> nat" where
  "utf8_length cp = (if cp < 0x80 then 1 else if cp < 0x800 then 2 else if cp < 0x10000 then 3 else 4)"

lemma folded_late: "311 \<le> unat cp \<Longrightarrow> normalizeCodePoint cp = cp"
  using unat_normalizeCodePoint [of cp] by (simp add: folded_def word_unat_eq_iff)

lemma folded_range:
  "n \<le> 127 \<Longrightarrow> folded n \<le> 127"
  "128 \<le> n \<Longrightarrow> n \<le> 255 \<Longrightarrow> 128 \<le> folded n \<and> folded n \<le> 255"
  "256 \<le> n \<Longrightarrow> n \<le> 383 \<Longrightarrow> 256 \<le> folded n \<and> folded n \<le> 383"
  by (auto simp: folded_def)

lemma normalize_keeps_block: "getUnicodeBlock (normalizeCodePoint cp) = getUnicodeBlock cp"
proof -
  consider "unat cp \<le> 127" | "128 \<le> unat cp" "unat cp \<le> 255" | "256 \<le> unat cp" "unat cp \<le> 383" | "311 \<le> unat cp"
    by linarith
  then show ?thesis
  proof cases
    case 1
    then show ?thesis using folded_range(1) [OF 1] by (metis latin_blocks(1) unat_normalizeCodePoint)
  next
    case 2
    then show ?thesis using folded_range(2) [OF 2] by (metis latin_blocks(2) unat_normalizeCodePoint)
  next
    case 3
    then show ?thesis using folded_range(3) [OF 3] by (metis latin_blocks(3) unat_normalizeCodePoint)
  qed (simp add: folded_late)
qed

lemma normalize_keeps_length: "utf8_length (normalizeCodePoint cp) = utf8_length cp"
proof -
  have "utf8_length cp = (if unat cp < 128 then 1 else if unat cp < 2048 then 2 else if unat cp < 65536 then 3 else 4)" for cp
    by (simp add: utf8_length_def word_less_nat_alt)
  then show ?thesis by (simp add: unat_normalizeCodePoint folded_def)
qed

lemma normalize_idempotent: "normalizeCodePoint (normalizeCodePoint cp) = normalizeCodePoint cp"
  by (simp add: word_unat_eq_iff unat_normalizeCodePoint) (auto simp: folded_def)

text \<open>
  The reference for the first 384 code points: the simple lower-case mapping of the Unicode Character
  Database, and the code points that \<open>normalizeCodePoint\<close> treats differently.
\<close>

definition simple_lower :: "nat \<Rightarrow> nat" where
  "simple_lower n =
     (if 65 \<le> n \<and> n \<le> 90 \<or> 192 \<le> n \<and> n \<le> 222 \<and> n \<noteq> 215 then n + 32
      else if n = 304 then 105
      else if n = 376 then 255
      else if even n \<and> (256 \<le> n \<and> n \<le> 310 \<or> 330 \<le> n \<and> n \<le> 374) then n + 1
      else if odd n \<and> (313 \<le> n \<and> n \<le> 327 \<or> 377 \<le> n \<and> n \<le> 381) then n + 1
      else n)"

definition misfolded :: "nat \<Rightarrow> bool" where
  "misfolded n \<longleftrightarrow> n \<in> {222, 304, 376} \<or> even n \<and> 330 \<le> n \<and> n \<le> 374
     \<or> odd n \<and> (313 \<le> n \<and> n \<le> 327 \<or> 377 \<le> n \<and> n \<le> 381)"

lemma folded_vs_lower: "n < 384 \<Longrightarrow> folded n = simple_lower n \<longleftrightarrow> \<not> misfolded n"
  unfolding folded_def simple_lower_def misfolded_def by (auto split: if_split; presburger)

section \<open>Properties of the folding\<close>

text \<open>
  Case folding keeps the Unicode block and the number of UTF-8 bytes of every code point, and
  folding twice is folding once; so the tokenizer can write the folded text over its input, and it
  may test for letters with the block of the unfolded code point.
\<close>

theorem normalization_is_stable:
  "getUnicodeBlock (normalizeCodePoint cp) = getUnicodeBlock cp
    \<and> utf8_length (normalizeCodePoint cp) = utf8_length cp
    \<and> normalizeCodePoint (normalizeCodePoint cp) = normalizeCodePoint cp
    \<and> isLetterPointInBlock (normalizeCodePoint cp) (getUnicodeBlock cp) = isLetterPoint (normalizeCodePoint cp)"
  by (simp add: normalize_keeps_block normalize_keeps_length normalize_idempotent isLetterPoint_def)

text \<open>
  Below U+0180 the folding is the simple lower-case mapping except for thorn (222), the
  dotted I (304) and the capitals of Latin Extended-A above 310, which stay as they are (304 becomes
  305): the comment in the source says that only the long s has no capital version there.
\<close>

theorem normalization_misses_capitals:
  assumes "cp < 384"
  shows "unat (normalizeCodePoint cp) = simple_lower (unat cp) \<longleftrightarrow> \<not> misfolded (unat cp)"
  using assms by (simp add: unat_normalizeCodePoint folded_vs_lower word_less_nat_alt)

theorem normalization_misses_capitals_witness:
  "normalizeCodePoint 321 \<noteq> 322 \<and> simple_lower 321 = 322"
proof -
  have "unat (normalizeCodePoint 321) \<noteq> simple_lower (unat (321 :: 32 word))"
    using normalization_misses_capitals [of 321] by (simp add: misfolded_def)
  moreover have "simple_lower 321 = 322" by (simp add: simple_lower_def)
  ultimately show ?thesis by auto
qed

text \<open>
  Among the ASCII code points exactly the 52 letters are letters, and in Latin-1 the code
  points from 192 on except the multiplication and division signs: digits and punctuation separate
  tokens.
\<close>

theorem letters_of_latin:
  assumes "cp < 256"
  shows "isLetterPoint cp \<longleftrightarrow>
    (65 \<le> unat cp \<and> unat cp \<le> 90 \<or> 97 \<le> unat cp \<and> unat cp \<le> 122 \<or> 192 \<le> unat cp \<and> unat cp \<noteq> 215 \<and> unat cp \<noteq> 247)"
proof -
  have "unat cp < 256" using assms by (simp add: word_less_nat_alt)
  then show ?thesis
    unfolding isLetterPoint_def Let_def isLetterPointInBlock_def latin_blocks isBasicLatinLetter_def
      isLatin1SupplementLetter_def
    by (auto simp: word_le_nat_alt word_less_nat_alt word_unat_eq_iff)
qed

theorem letters_of_latin_witness: "isLetterPoint 97 \<and> \<not> isLetterPoint 48"
  using letters_of_latin [of 97] letters_of_latin [of 48] by simp

end
