(* ===== verification/TextProcessing.thy ===== *)
theory TextProcessing
  imports CodePoint Models
begin

text \<open>
  From a text to a processed document: \<open>text_util/StringView\<close>, \<open>text_util/WordAccumulator\<close>,
  \<open>tokenizer/DestructiveTokenIterator\<close>, \<open>stemmer\<close> and
  \<open>document_processing_worker/DocumentProcessor\<close>.  The UTF-8 library, libstemmer, the FNV hash and
  SHA-1 are third-party code: the record \<open>text_env\<close> of functions.
\<close>

section \<open>Third-party functions\<close>

text \<open>
  \<open>utf8_next\<close> decodes the first code point of a byte sequence and says how many bytes it took
  (\<open>None\<close>: it throws); \<open>utf8_append\<close> encodes a code point (\<open>None\<close>: it throws);
  \<open>sb_stemmer\<close> is the stemmer of an algorithm name (\<open>None\<close>: \<open>sb_stemmer_new\<close> returns null), as the
  length of the stem of a word; \<open>fnv64_buf\<close> hashes bytes; \<open>sha1_digest\<close> is the 20-byte digest.
\<close>

record text_env =
  utf8_next :: "string \<Rightarrow> (32 word \<times> nat) option"
  utf8_append :: "32 word \<Rightarrow> string option"
  sb_stemmer :: "string \<Rightarrow> (string \<Rightarrow> nat) option"
  fnv64_buf :: "string \<Rightarrow> 64 word"
  sha1_digest :: "string \<Rightarrow> string"

text \<open>What ends a computation abnormally: an exception of the UTF-8 library, or a null stemmer.\<close>

datatype text_fault = InvalidUtf8 | NullStemmer

text \<open>\<open>Language\<close> of the Thrift protocol; a value outside the enumeration can arrive over the wire.\<close>

datatype Language = DE | EN | ES | FR | IT | RU | OTHER | UnlistedLanguage int

section \<open>StringView\<close>

text \<open>A pointer into the text, as its offset, and a length.\<close>

record StringView =
  sv_base :: nat
  sv_len :: nat

definition sv_bytes :: "string \<Rightarrow> StringView \<Rightarrow> string" where
  "sv_bytes buf v = take (sv_len v) (drop (sv_base v) buf)"

text \<open>\<open>strncmp(a, b, n) == 0\<close>: the first \<open>n\<close> bytes agree, up to a common terminator.\<close>

definition strncmp_eq :: "string \<Rightarrow> string \<Rightarrow> nat \<Rightarrow> bool" where
  "strncmp_eq a b n \<longleftrightarrow> take n (c_str a) = take n (c_str b)"

text \<open>\<open>len - 1\<close> wraps for the empty view.\<close>

definition sv_eq :: "string \<Rightarrow> StringView \<Rightarrow> StringView \<Rightarrow> bool" where
  "sv_eq buf sv1 sv2 \<longleftrightarrow>
     strncmp_eq (drop (sv_base sv1) buf) (drop (sv_base sv2) buf) (unat (of_nat (sv_len sv1) - 1 :: 64 word))"

definition sv_hash :: "text_env \<Rightarrow> string \<Rightarrow> StringView \<Rightarrow> 64 word" where
  "sv_hash env buf sv = fnv64_buf env (sv_bytes buf sv)"

section \<open>WordAccumulator\<close>

text \<open>
  \<open>wordsByStr_\<close> is a hash table whose lookup compares the cached hash first and then \<open>operator==\<close>.
  A new scored word starts from an uninitialised buffer, here all zero; nothing reads the bytes
  after its terminator except the last one, which is written.
\<close>

record WordAccumulator =
  totalWords :: nat
  wa_magnitude :: double
  wa_scoredWords :: "scored_word list"
  wordsByStr :: "(StringView \<times> nat) list"

definition new_WordAccumulator :: WordAccumulator where
  "new_WordAccumulator = \<lparr>totalWords = 0, wa_magnitude = Num 0, wa_scoredWords = [], wordsByStr = []\<rparr>"

fun find_word :: "text_env \<Rightarrow> string \<Rightarrow> (StringView \<times> nat) list \<Rightarrow> StringView \<Rightarrow> nat option" where
  "find_word env buf [] w = None"
| "find_word env buf ((v, i) # table) w =
     (if sv_hash env buf w = sv_hash env buf v \<and> sv_eq buf w v then Some i
      else find_word env buf table w)"

definition wa_add :: "text_env \<Rightarrow> (real \<Rightarrow> double) \<Rightarrow> string \<Rightarrow> WordAccumulator \<Rightarrow> StringView \<Rightarrow> WordAccumulator" where
  "wa_add env rnd buf acc w =
     (let acc = acc\<lparr>totalWords := totalWords acc + 1\<rparr> in
      case find_word env buf (wordsByStr acc) w of
        None \<Rightarrow>
          let scored = make_ScoredWord1 (replicate 24 NUL) (drop (sv_base w) buf) (sv_len w mod 256);
              acc = acc\<lparr>wa_scoredWords := wa_scoredWords acc @ [scored]\<rparr>
          in acc\<lparr>wordsByStr := wordsByStr acc @ [(w, length (wa_scoredWords acc) - 1)]\<rparr>
      | Some i \<Rightarrow>
          let existing = wa_scoredWords acc ! i
          in acc\<lparr>wa_scoredWords := (wa_scoredWords acc)[i := existing\<lparr>sw_score := d_add rnd (sw_score existing) (Num 1)\<rparr>]\<rparr>)"

text \<open>The loop of \<open>build\<close>: it normalizes the scores in place and sums their squares.\<close>

fun build_loop :: "(real \<Rightarrow> double) \<Rightarrow> double \<Rightarrow> scored_word list \<Rightarrow> double \<Rightarrow> scored_word list \<times> double" where
  "build_loop rnd dTotal [] mag = ([], mag)"
| "build_loop rnd dTotal (elem # rest) mag =
     (let normalized = d_div rnd (sw_score elem) dTotal;
          (rest', mag') = build_loop rnd dTotal rest (d_add rnd mag (d_square rnd normalized))
      in (elem\<lparr>sw_score := normalized\<rparr> # rest', mag'))"

definition wa_build :: "(real \<Rightarrow> double) \<Rightarrow> WordAccumulator \<Rightarrow> WordAccumulator" where
  "wa_build rnd acc =
     (let (ws, mag) = build_loop rnd (d_of_nat rnd (totalWords acc)) (wa_scoredWords acc) (Num 0)
      in acc\<lparr>wa_scoredWords := ws, wa_magnitude := d_sqrt rnd mag\<rparr>)"

definition wa_getMagnitude :: "WordAccumulator \<Rightarrow> double" where
  "wa_getMagnitude acc = wa_magnitude acc"

definition wa_getScores :: "WordAccumulator \<Rightarrow> scored_word list \<times> WordAccumulator" where
  "wa_getScores acc = (wa_scoredWords acc, acc\<lparr>wa_scoredWords := []\<rparr>)"

section \<open>DestructiveTokenIterator\<close>

text \<open>
  The iterator reads the text at \<open>inputIter\<close> and writes the folded text back at \<open>outputIter\<close>.
\<close>

record token_iter =
  ti_text :: string
  inputIter :: nat
  outputIter :: nat

definition new_token_iter :: "string \<Rightarrow> token_iter" where
  "new_token_iter text = \<lparr>ti_text = text, inputIter = 0, outputIter = 0\<rparr>"

definition write_at :: "nat \<Rightarrow> string \<Rightarrow> string \<Rightarrow> string" where
  "write_at pos bytes text = take pos text @ bytes @ drop (pos + length bytes) text"

text \<open>
  The loop of \<open>next\<close>, with \<open>currentSize\<close> and \<open>currentStartPointer\<close>.  \<open>None\<close>: it does not
  end; \<open>Inl\<close>: the UTF-8 library throws.
\<close>

partial_function (option) token_loop ::
  "text_env \<Rightarrow> token_iter \<Rightarrow> nat \<Rightarrow> nat \<Rightarrow> (text_fault + token_iter \<times> nat \<times> nat) option" where
  "token_loop env it currentSize currentStart =
     (if inputIter it \<noteq> length (ti_text it) then
        case utf8_next env (drop (inputIter it) (ti_text it)) of
          None \<Rightarrow> Some (Inl InvalidUtf8)
        | Some (codePoint, n) \<Rightarrow>
            let it = it\<lparr>inputIter := inputIter it + n\<rparr>;
                block = getUnicodeBlock codePoint;
                codePoint = normalizeCodePointInBlock codePoint block
            in case utf8_append env codePoint of
                 None \<Rightarrow> Some (Inl InvalidUtf8)
               | Some bytes \<Rightarrow>
                   let it = it\<lparr>ti_text := write_at (outputIter it) bytes (ti_text it),
                               outputIter := outputIter it + length bytes\<rparr>
                   in if isLetterPointInBlock codePoint block then token_loop env it (currentSize + 1) currentStart
                      else if currentSize > 2 then Some (Inr (it, currentSize, currentStart))
                      else token_loop env it 0 (inputIter it)
      else Some (Inr (it, currentSize, currentStart)))"

definition next_token :: "text_env \<Rightarrow> token_iter \<Rightarrow> (text_fault + token_iter \<times> bool \<times> nat \<times> nat) option" where
  "next_token env it =
     (if inputIter it \<noteq> length (ti_text it) then
        case token_loop env it 0 (inputIter it) of
          None \<Rightarrow> None
        | Some (Inl fault) \<Rightarrow> Some (Inl fault)
        | Some (Inr (it, currentSize, currentStart)) \<Rightarrow>
            if currentSize > 2 then
              let endChar = inputIter it;
                  endChar = (if inputIter it \<noteq> length (ti_text it) then endChar - 1 else endChar)
              in Some (Inr (it, True, currentStart, endChar))
            else Some (Inr (it, False, 0, 0))
      else Some (Inr (it, False, 0, 0)))"

section \<open>Stemmers\<close>

definition countryCodeOfThriftLanguage :: "Language \<Rightarrow> string" where
  "countryCodeOfThriftLanguage lang =
     (case lang of DE \<Rightarrow> ''de'' | EN \<Rightarrow> ''en'' | ES \<Rightarrow> ''es'' | FR \<Rightarrow> ''fr'' | IT \<Rightarrow> ''it'' | RU \<Rightarrow> ''ru''
      | OTHER \<Rightarrow> ''OTHER'' | _ \<Rightarrow> ''UNKNOWN'')"

text \<open>\<open>Utf8Stemmer(lang)\<close>: \<open>strcmp\<close> is non-zero, hence true, when the strings differ.\<close>

definition new_Utf8Stemmer :: "text_env \<Rightarrow> Language \<Rightarrow> (string \<Rightarrow> nat) option" where
  "new_Utf8Stemmer env lang =
     (let countryCode = countryCodeOfThriftLanguage lang;
          countryCode = (if countryCode \<noteq> ''UNKNOWN'' then ''en'' else countryCode)
      in sb_stemmer env countryCode)"

text \<open>\<open>getStemPos\<close> uses the stemmer without a check: \<open>None\<close> is the null dereference.\<close>

definition getStemPos :: "(string \<Rightarrow> nat) option \<Rightarrow> string \<Rightarrow> nat option" where
  "getStemPos stemmer toStem = (case stemmer of None \<Rightarrow> None | Some f \<Rightarrow> Some (f toStem))"

text \<open>\<open>ThreadSafeStemmerManager\<close>: one map from languages to stemmers per thread.\<close>

type_synonym stemmers = "Language \<Rightarrow> (string \<Rightarrow> nat) option option"

definition getStemmer :: "text_env \<Rightarrow> stemmers \<Rightarrow> Language \<Rightarrow> (string \<Rightarrow> nat) option \<times> stemmers" where
  "getStemmer env stemmers lang =
     (case stemmers lang of
        Some found \<Rightarrow> (found, stemmers)
      | None \<Rightarrow> let created = new_Utf8Stemmer env lang in (created, stemmers(lang \<mapsto> created)))"

section \<open>DocumentProcessor\<close>

record Document =
  d_id :: string
  d_text :: string
  d_language :: Language

text \<open>
  The loop over the tokens.  The stopword filter is the interface \<open>StopwordFilterIf\<close>; the view of a
  token and its stem share the token's start in the text.
\<close>

partial_function (option) process_loop ::
  "text_env \<Rightarrow> (real \<Rightarrow> double) \<Rightarrow> (string \<Rightarrow> Language \<Rightarrow> bool) \<Rightarrow> (string \<Rightarrow> nat) option \<Rightarrow> Language \<Rightarrow>
     token_iter \<Rightarrow> WordAccumulator \<Rightarrow> (text_fault + token_iter \<times> WordAccumulator) option" where
  "process_loop env rnd isStopword stemmer lang it acc =
     (case next_token env it of
        None \<Rightarrow> None
      | Some (Inl fault) \<Rightarrow> Some (Inl fault)
      | Some (Inr (it, found, startPos, endPos)) \<Rightarrow>
          if \<not> found then Some (Inr (it, acc))
          else
            let len = endPos - startPos;
                tokenStart = drop startPos (ti_text it)
            in case getStemPos stemmer (take len tokenStart) of
                 None \<Rightarrow> Some (Inl NullStemmer)
               | Some len \<Rightarrow>
                   let len = (if len > 23 then 23 else len);
                       view = \<lparr>sv_base = startPos, sv_len = len\<rparr>;
                       scored = make_ScoredWord1 (replicate 24 NUL) tokenStart len
                   in if isStopword (c_str (sw_word scored)) lang
                      then process_loop env rnd isStopword stemmer lang it acc
                      else process_loop env rnd isStopword stemmer lang it (wa_add env rnd (ti_text it) acc view))"

text \<open>
  \<open>process_\<close> consumes the text of the document: the result has the document with the text as it is
  left, and the thread's stemmers.
\<close>

definition processNew ::
  "text_env \<Rightarrow> (real \<Rightarrow> double) \<Rightarrow> (string \<Rightarrow> Language \<Rightarrow> bool) \<Rightarrow> 64 word \<Rightarrow> stemmers \<Rightarrow> Document \<Rightarrow>
     (text_fault + ProcessedDocument \<times> Document \<times> stemmers) option" where
  "processNew env rnd isStopword epochTime stemmers doc =
     (let it = new_token_iter (d_text doc);
          accumulator = new_WordAccumulator;
          (stemmer, stemmers) = getStemmer env stemmers (d_language doc)
      in case process_loop env rnd isStopword stemmer (d_language doc) it accumulator of
           None \<Rightarrow> None
         | Some (Inl fault) \<Rightarrow> Some (Inl fault)
         | Some (Inr (it, accumulator)) \<Rightarrow>
             let accumulator = wa_build rnd accumulator;
                 mag = wa_getMagnitude accumulator;
                 (scores, accumulator) = wa_getScores accumulator;
                 timestamp = epochTime
             in Some (Inr (\<lparr>pd_id = d_id doc, pd_sha1Hash = None, pd_scoredWords = scores, pd_magnitude = mag,
                            pd_created = timestamp, pd_updated = timestamp\<rparr>,
                          doc\<lparr>d_text := ti_text it\<rparr>, stemmers)))"

section \<open>DocumentProcessingWorker\<close>

definition hex_digit :: "nat \<Rightarrow> char" where
  "hex_digit n = ''0123456789abcdef'' ! n"

text \<open>\<open>output << std::hex << current\<close> for a byte: no leading zero.\<close>

definition hex_byte :: "char \<Rightarrow> string" where
  "hex_byte c = (let n = of_char c in if n < 16 then [hex_digit n] else [hex_digit (n div 16), hex_digit (n mod 16)])"

definition hex_of_digest :: "string \<Rightarrow> string" where
  "hex_of_digest digest = concat (map hex_byte digest)"

definition sha1 :: "text_env \<Rightarrow> string \<Rightarrow> string" where
  "sha1 env input = hex_of_digest (sha1_digest env input)"

text \<open>\<open>processNew\<close> of the worker hashes the text after the processor has consumed it.\<close>

definition worker_processNew ::
  "text_env \<Rightarrow> (real \<Rightarrow> double) \<Rightarrow> (string \<Rightarrow> Language \<Rightarrow> bool) \<Rightarrow> 64 word \<Rightarrow> stemmers \<Rightarrow> Document \<Rightarrow>
     (text_fault + ProcessedDocument \<times> stemmers) option" where
  "worker_processNew env rnd isStopword epochTime stemmers doc =
     (case processNew env rnd isStopword epochTime stemmers doc of
        None \<Rightarrow> None
      | Some (Inl fault) \<Rightarrow> Some (Inl fault)
      | Some (Inr (result, doc, stemmers)) \<Rightarrow>
          Some (Inr (result\<lparr>pd_sha1Hash := Some (sha1 env (d_text doc))\<rparr>, stemmers)))"

definition worker_processNewWithoutHash ::
  "text_env \<Rightarrow> (real \<Rightarrow> double) \<Rightarrow> (string \<Rightarrow> Language \<Rightarrow> bool) \<Rightarrow> 64 word \<Rightarrow> stemmers \<Rightarrow> Document \<Rightarrow>
     (text_fault + ProcessedDocument \<times> stemmers) option" where
  "worker_processNewWithoutHash env rnd isStopword epochTime stemmers doc =
     (case processNew env rnd isStopword epochTime stemmers doc of
        None \<Rightarrow> None
      | Some (Inl fault) \<Rightarrow> Some (Inl fault)
      | Some (Inr (result, doc, stemmers)) \<Rightarrow> Some (Inr (result, stemmers)))"

section \<open>The accumulator counts words\<close>

text \<open>The distinct words in the order of their first occurrence.\<close>

definition distinct_words :: "'a list \<Rightarrow> 'a list" where
  "distinct_words bs = foldl (\<lambda>u b. if b \<in> set u then u else u @ [b]) [] bs"

lemma distinct_words_snoc:
  "distinct_words (bs @ [b]) = (if b \<in> set (distinct_words bs) then distinct_words bs else distinct_words bs @ [b])"
  by (simp add: distinct_words_def)

lemma distinct_words_props: "set (distinct_words bs) = set bs \<and> distinct (distinct_words bs)"
proof (induction bs rule: rev_induct)
  case (snoc b bs)
  then show ?case by (auto simp: distinct_words_snoc)
qed (simp add: distinct_words_def)

lemma take_c_str: "take n (c_str s) = c_str (take n s)"
  unfolding c_str_def by (induction s arbitrary: n) (auto simp: take_Cons split: nat.split)

lemma sv_eq_of_bytes:
  assumes "sv_bytes buf v = sv_bytes buf w" and "0 < sv_len v" and "sv_len v < 256"
    and "length (sv_bytes buf v) = sv_len v" and "length (sv_bytes buf w) = sv_len w"
  shows "sv_eq buf v w"
proof -
  have "sv_len w = sv_len v" using assms(1,4,5) by simp
  moreover have "unat (of_nat (sv_len v) - 1 :: 64 word) = sv_len v - 1"
  proof -
    have "(1 :: 64 word) \<le> of_nat (sv_len v)"
      using assms(2,3) by (simp add: word_le_nat_alt unat_of_nat)
    then show ?thesis using assms(3) by (simp add: unat_sub unat_of_nat)
  qed
  moreover have "take (sv_len v - 1) (drop (sv_base v) buf) = take (sv_len v - 1) (drop (sv_base w) buf)"
    using arg_cong [OF assms(1), of "take (sv_len v - 1)"] \<open>sv_len w = sv_len v\<close>
    by (simp add: sv_bytes_def)
  ultimately show ?thesis by (simp add: sv_eq_def strncmp_eq_def take_c_str)
qed

text \<open>A view of a word: inside the text, not empty, shorter than 256 bytes.\<close>

definition wf_view :: "string \<Rightarrow> StringView \<Rightarrow> bool" where
  "wf_view buf v \<longleftrightarrow> 0 < sv_len v \<and> sv_len v < 256 \<and> sv_base v + sv_len v \<le> length buf"

lemma wf_view_bytes: "wf_view buf v \<Longrightarrow> length (sv_bytes buf v) = sv_len v"
  by (auto simp: wf_view_def sv_bytes_def)

lemma find_word_bytes:
  assumes "\<forall>p \<in> set table. wf_view buf (fst p)" and "wf_view buf w"
    and "inj_on (fnv64_buf env) (insert (sv_bytes buf w) (sv_bytes buf ` fst ` set table))"
  shows "find_word env buf table w = map_of (map (\<lambda>p. (sv_bytes buf (fst p), snd p)) table) (sv_bytes buf w)"
  using assms(1,3)
proof (induction table)
  case (Cons p table)
  obtain v i where p: "p = (v, i)" by (cases p)
  have inj: "inj_on (fnv64_buf env) (insert (sv_bytes buf w) (sv_bytes buf ` fst ` set table))"
    using Cons.prems(2) by (rule inj_on_subset) auto
  have "sv_hash env buf w = sv_hash env buf v \<longleftrightarrow> sv_bytes buf w = sv_bytes buf v"
    using Cons.prems(2) unfolding sv_hash_def by (subst inj_on_eq_iff [OF Cons.prems(2)]) (auto simp: p)
  moreover have "sv_bytes buf w = sv_bytes buf v \<Longrightarrow> sv_eq buf w v"
    using Cons.prems(1) assms(2) wf_view_bytes [of buf v] wf_view_bytes [of buf w]
    by (intro sv_eq_of_bytes) (simp_all add: p, simp_all add: wf_view_def)
  ultimately show ?case using Cons.IH [OF _ inj] Cons.prems(1) by (auto simp: p)
qed simp

text \<open>The scored word of a byte string, with its count.\<close>

definition counted_word :: "string \<Rightarrow> string list \<Rightarrow> string \<Rightarrow> string \<times> double" where
  "counted_word buf bs b = (take 22 (c_str b), Num (real (count_list bs b)))"

definition entry :: "scored_word \<Rightarrow> string \<times> double" where
  "entry w = (c_str (sw_word w), sw_score w)"

lemma make_ScoredWord1_view:
  "wf_view buf w \<Longrightarrow>
   c_str (sw_word (make_ScoredWord1 (replicate 24 NUL) (drop (sv_base w) buf) (sv_len w mod 256))) =
     take 22 (c_str (sv_bytes buf w))"
  by (simp add: wf_view_def make_ScoredWord1_def c_str_assignWord sv_bytes_def take_c_str min.commute)

definition acc_inv :: "string \<Rightarrow> string list \<Rightarrow> WordAccumulator \<Rightarrow> bool" where
  "acc_inv buf bs acc \<longleftrightarrow>
     totalWords acc = length bs \<and>
     map (\<lambda>p. sv_bytes buf (fst p)) (wordsByStr acc) = distinct_words bs \<and>
     map snd (wordsByStr acc) = [0..<length (distinct_words bs)] \<and>
     (\<forall>p \<in> set (wordsByStr acc). wf_view buf (fst p)) \<and>
     map entry (wa_scoredWords acc) = map (counted_word buf bs) (distinct_words bs)"

lemma map_of_index:
  assumes "map f table = u" and "map g table = [0..<length u]" and "distinct u"
  shows "x \<notin> set u \<Longrightarrow> map_of (map (\<lambda>p. (f p, g p)) table) x = None"
    and "i < length u \<Longrightarrow> map_of (map (\<lambda>p. (f p, g p)) table) (u ! i) = Some i"
proof -
  have zip: "map (\<lambda>p. (f p, g p)) table = zip u [0..<length u]"
    using zip_map_map [of f table g table] assms(1,2) by (simp add: zip_same_conv_map)
  show "x \<notin> set u \<Longrightarrow> map_of (map (\<lambda>p. (f p, g p)) table) x = None"
    unfolding zip by (simp add: map_of_zip_is_None)
  show "i < length u \<Longrightarrow> map_of (map (\<lambda>p. (f p, g p)) table) (u ! i) = Some i"
    unfolding zip using map_of_zip_nth [OF _ assms(3), of "[0..<length u]" i] by simp
qed

lemma acc_inv_add:
  assumes inv: "acc_inv buf bs acc" and w: "wf_view buf w"
    and inj: "inj_on (fnv64_buf env) (insert (sv_bytes buf w) (set bs))"
  shows "acc_inv buf (bs @ [sv_bytes buf w]) (wa_add env Num buf acc w)"
proof -
  let ?b = "sv_bytes buf w" and ?u = "distinct_words bs"
  note d = distinct_words_props [of bs]
  have keys: "sv_bytes buf ` fst ` set (wordsByStr acc) = set bs"
    using inv d by (metis acc_inv_def image_image set_map)
  have find: "find_word env buf (wordsByStr acc) w =
      map_of (map (\<lambda>p. (sv_bytes buf (fst p), snd p)) (wordsByStr acc)) ?b"
    using inv w inj keys by (intro find_word_bytes) (auto simp: acc_inv_def)
  have index: "map_of (map (\<lambda>p. (sv_bytes buf (fst p), snd p)) (wordsByStr acc)) x = None" if "x \<notin> set ?u" for x
    by (rule map_of_index(1) [where u = ?u]) (use inv d that in \<open>simp_all add: acc_inv_def\<close>)
  have index': "map_of (map (\<lambda>p. (sv_bytes buf (fst p), snd p)) (wordsByStr acc)) (?u ! i) = Some i"
    if "i < length ?u" for i
    by (rule map_of_index(2) [where u = ?u]) (use inv d that in \<open>simp_all add: acc_inv_def\<close>)
  have len: "length (wa_scoredWords acc) = length ?u"
    using inv by (metis acc_inv_def length_map)
  show ?thesis
  proof (cases "?b \<in> set ?u")
    case False
    then have "find_word env buf (wordsByStr acc) w = None" by (simp add: find index)
    moreover have "map (counted_word buf (bs @ [?b])) ?u = map (counted_word buf bs) ?u"
      using False by (auto simp: counted_word_def)
    moreover have "count_list bs ?b = 0" using False d by simp
    ultimately show ?thesis
      using inv w len False
      by (simp add: acc_inv_def wa_add_def Let_def distinct_words_snoc)
        (simp add: entry_def counted_word_def make_ScoredWord1_view, simp add: make_ScoredWord1_def)
  next
    case True
    then obtain i where i: "i < length ?u" "?u ! i = ?b" by (auto simp: in_set_conv_nth)
    then have found: "find_word env buf (wordsByStr acc) w = Some i" using index' [of i] by (simp add: find)
    have entries: "map entry (wa_scoredWords acc) = map (counted_word buf bs) ?u"
      using inv by (simp add: acc_inv_def)
    have nth: "entry (wa_scoredWords acc ! k) = counted_word buf bs (?u ! k)" if "k < length ?u" for k
      using entries that len by (metis nth_map)
    let ?e = "wa_scoredWords acc ! i"
    have "map entry ((wa_scoredWords acc)[i := ?e\<lparr>sw_score := d_add Num (sw_score ?e) (Num 1)\<rparr>]) =
        map (counted_word buf (bs @ [?b])) ?u"
    proof (rule nth_equalityI)
      fix k assume "k < length (map entry ((wa_scoredWords acc)[i := ?e\<lparr>sw_score := d_add Num (sw_score ?e) (Num 1)\<rparr>]))"
      then have k: "k < length ?u" by (simp add: len)
      then show "map entry ((wa_scoredWords acc)[i := ?e\<lparr>sw_score := d_add Num (sw_score ?e) (Num 1)\<rparr>]) ! k =
          map (counted_word buf (bs @ [?b])) ?u ! k"
        using nth [OF k] i d by (cases "k = i") (auto simp: len entry_def counted_word_def nth_eq_iff_index_eq)
    qed (simp add: len)
    then show ?thesis
      using inv found True by (simp add: acc_inv_def wa_add_def Let_def distinct_words_snoc)
  qed
qed

lemma acc_inv_fold:
  assumes "\<forall>w \<in> set ws. wf_view buf w" and "inj_on (fnv64_buf env) (sv_bytes buf ` set ws)"
  shows "acc_inv buf (map (sv_bytes buf) ws) (foldl (wa_add env Num buf) new_WordAccumulator ws)"
  using assms
proof (induction ws rule: rev_induct)
  case Nil
  then show ?case by (simp add: acc_inv_def new_WordAccumulator_def distinct_words_def)
next
  case (snoc w ws)
  then have "acc_inv buf (map (sv_bytes buf) ws) (foldl (wa_add env Num buf) new_WordAccumulator ws)"
    by (auto intro: inj_on_subset)
  from acc_inv_add [OF this, of w env] snoc.prems show ?case by simp
qed

lemma build_loop_exact:
  "0 < n \<Longrightarrow> map entry ws = map (\<lambda>b. (f b, Num (g b))) bs \<Longrightarrow>
   map entry (fst (build_loop Num (Num n) ws (Num m))) = map (\<lambda>b. (f b, Num (g b / n))) bs
   \<and> snd (build_loop Num (Num n) ws (Num m)) = Num (m + (\<Sum>b\<leftarrow>bs. (g b / n)\<^sup>2))"
proof (induction ws arbitrary: bs m)
  case (Cons w ws)
  then obtain b bs' where bs: "bs = b # bs'" by (cases bs) auto
  have w: "sw_score w = Num (g b)" "c_str (sw_word w) = f b" using Cons.prems by (auto simp: bs entry_def)
  have "d_add Num (Num m) (d_square Num (Num (g b / n))) = Num (m + (g b / n)\<^sup>2)"
    by (simp add: d_square_def power2_eq_square)
  with Cons.IH [of bs' "m + (g b / n)\<^sup>2"] Cons.prems w show ?case
    by (simp add: bs Let_def case_prod_unfold entry_def)
qed simp

section \<open>Properties of text processing\<close>

lemma accumulator_shares:
  assumes "\<forall>w \<in> set ws. wf_view buf w" and "inj_on (fnv64_buf env) (sv_bytes buf ` set ws)"
  shows "let acc = wa_build Num (foldl (wa_add env Num buf) new_WordAccumulator ws);
             bs = map (sv_bytes buf) ws;
             share = (\<lambda>b. real (count_list bs b) / real (length bs))
    in map entry (fst (wa_getScores acc)) = map (\<lambda>b. (take 22 (c_str b), Num (share b))) (distinct_words bs)
     \<and> wa_getMagnitude acc = Num (sqrt (\<Sum>b\<leftarrow>distinct_words bs. (share b)\<^sup>2))"
proof -
  let ?bs = "map (sv_bytes buf) ws" and ?acc = "foldl (wa_add env Num buf) new_WordAccumulator ws"
  let ?share = "\<lambda>b. real (count_list ?bs b) / real (length ?bs)"
  have inv: "acc_inv buf ?bs ?acc" by (rule acc_inv_fold [OF assms])
  have nonneg: "0 \<le> (\<Sum>b\<leftarrow>distinct_words ?bs. (?share b)\<^sup>2)" by (rule sum_list_nonneg) auto
  show ?thesis
  proof (cases "ws = []")
    case True
    then show ?thesis
      by (simp add: wa_build_def wa_getScores_def wa_getMagnitude_def new_WordAccumulator_def distinct_words_def Let_def)
  next
    case False
    then have "0 < real (length ?bs)" by simp
    moreover have "map entry (wa_scoredWords ?acc) = map (\<lambda>b. (take 22 (c_str b), Num (real (count_list ?bs b)))) (distinct_words ?bs)"
      using inv by (simp add: acc_inv_def counted_word_def)
    moreover have "totalWords ?acc = length ?bs" using inv by (simp add: acc_inv_def)
    ultimately show ?thesis
      using build_loop_exact [of "real (length ?bs)" "wa_scoredWords ?acc" "\<lambda>b. take 22 (c_str b)"
          "\<lambda>b. real (count_list ?bs b)" "distinct_words ?bs" 0] nonneg
      by (simp add: wa_build_def wa_getScores_def wa_getMagnitude_def d_of_nat_def Let_def case_prod_unfold not_less)
  qed
qed

text \<open>
  The accumulator counts: when the hash does not collide on the words of the text, the scored
  words are the distinct words in the order of their first occurrence, cut to 22 bytes, each with
  its share of all words as its score, and the magnitude is the Euclidean norm of the shares.  The
  comparison that leaves out the last byte of a word does no harm then.
\<close>

theorem accumulator_scores_are_shares:
  assumes "\<forall>w \<in> set ws. wf_view buf w" and "inj_on (fnv64_buf env) (sv_bytes buf ` set ws)"
  shows "let acc = wa_build Num (foldl (wa_add env Num buf) new_WordAccumulator ws);
             bs = map (sv_bytes buf) ws;
             share = (\<lambda>b. real (count_list bs b) / real (length bs))
    in map entry (fst (wa_getScores acc)) = map (\<lambda>b. (take 22 (c_str b), Num (share b))) (distinct_words bs)
     \<and> wa_getMagnitude acc = Num (sqrt (\<Sum>b\<leftarrow>distinct_words bs. (share b)\<^sup>2))"
  by (rule accumulator_shares [OF assms])

definition plain_env :: text_env where
  "plain_env = \<lparr>utf8_next = (\<lambda>s. case s of [] \<Rightarrow> None | c # _ \<Rightarrow> Some (of_nat (of_char c), 1)),
     utf8_append = (\<lambda>cp. Some [char_of (unat cp)]),
     sb_stemmer = (\<lambda>name. if name = ''en'' then Some length else None),
     fnv64_buf = (\<lambda>s. horner_sum of_char 256 s),
     sha1_digest = (\<lambda>s. take 20 s)\<rparr>"

theorem accumulator_scores_are_shares_witness:
  "map entry (fst (wa_getScores (wa_build Num (foldl (wa_add plain_env Num ''cat dog cat'') new_WordAccumulator
      [\<lparr>sv_base = 0, sv_len = 3\<rparr>, \<lparr>sv_base = 4, sv_len = 3\<rparr>, \<lparr>sv_base = 8, sv_len = 3\<rparr>])))) =
    [(''cat'', Num (2 / 3)), (''dog'', Num (1 / 3))]"
proof -
  let ?ws = "[\<lparr>sv_base = 0, sv_len = 3\<rparr>, \<lparr>sv_base = 4, sv_len = 3\<rparr>, \<lparr>sv_base = 8, sv_len = 3\<rparr>]"
  have bytes: "map (sv_bytes ''cat dog cat'') ?ws = [''cat'', ''dog'', ''cat'']"
    by (simp add: sv_bytes_def)
  have wf: "\<forall>w \<in> set ?ws. wf_view ''cat dog cat'' w" by (simp add: wf_view_def)
  have "inj_on (fnv64_buf plain_env) (sv_bytes ''cat dog cat'' ` set ?ws)"
    by (auto simp: inj_on_def sv_bytes_def plain_env_def)
  from accumulator_scores_are_shares [OF wf this] show ?thesis
    unfolding bytes by (simp add: distinct_words_def c_str_def Let_def)
qed

text \<open>
  The check for an unknown country code is inverted: every listed language gets the English
  stemmer, and a language outside the enumeration gets the stemmer \<open>UNKNOWN\<close>, which is null for
  a stemmer library that knows no such algorithm.
\<close>

theorem every_listed_language_stems_as_english:
  "new_Utf8Stemmer env lang =
     (case lang of UnlistedLanguage n \<Rightarrow> sb_stemmer env ''UNKNOWN'' | _ \<Rightarrow> sb_stemmer env ''en'')"
  by (simp add: new_Utf8Stemmer_def countryCodeOfThriftLanguage_def split: Language.split)

text \<open>
  The hexadecimal form of a digest leaves out leading zeros, so that different digests get
  the same string: moving a byte below 16 past its successor can go unnoticed.
\<close>

theorem hex_of_digest_collides:
  fixes a b c :: nat
  assumes "0 < a" and "a < 16" and "0 < b" and "b < 16" and "c < 16"
  shows "hex_of_digest [char_of a, char_of (16 * b + c)] = hex_of_digest [char_of (16 * a + b), char_of c]
    \<and> [char_of a, char_of (16 * b + c)] \<noteq> [char_of (16 * a + b), char_of c]"
proof -
  have bytes: "of_char (char_of n :: char) = n" if "n < 256" for n :: nat
    using that by simp
  have "char_of a \<noteq> (char_of (16 * a + b) :: char)"
  proof
    assume "char_of a = (char_of (16 * a + b) :: char)"
    then have "of_char (char_of a :: char) = (of_char (char_of (16 * a + b) :: char) :: nat)" by simp
    with assms show False by (simp only: bytes)
  qed
  then show ?thesis
    using assms by (simp add: hex_of_digest_def hex_byte_def Let_def)
qed

theorem hex_of_digest_collides_witness:
  "hex_of_digest [char_of (1 :: nat), char_of (35 :: nat)] = hex_of_digest [char_of (18 :: nat), char_of (3 :: nat)]"
  using hex_of_digest_collides [of 1 2 3] by simp

section \<open>Tokens of ASCII texts\<close>

text \<open>UTF-8 encodes the code points below 128 as the bytes of the same value.\<close>

locale ascii_codec =
  fixes env :: text_env
  assumes next_ascii: "of_char c < (128 :: nat) \<Longrightarrow> utf8_next env (c # rest) = Some (of_nat (of_char c), 1)"
    and append_ascii: "cp < 128 \<Longrightarrow> utf8_append env cp = Some [char_of (unat cp)]"

definition is_ascii :: "string \<Rightarrow> bool" where
  "is_ascii t \<longleftrightarrow> (\<forall>c \<in> set t. of_char c < (128 :: nat))"

definition lower_char :: "char \<Rightarrow> char" where
  "lower_char c = char_of (folded (of_char c))"

definition ascii_letter :: "char \<Rightarrow> bool" where
  "ascii_letter c \<longleftrightarrow> (let n = of_char c :: nat in (65 \<le> n \<and> n \<le> 90) \<or> (97 \<le> n \<and> n \<le> 122))"

text \<open>The iterator at position \<open>i\<close> of the text \<open>t\<close>: everything before it is folded.\<close>

definition iter_at :: "string \<Rightarrow> nat \<Rightarrow> token_iter" where
  "iter_at t i = \<lparr>ti_text = map lower_char (take i t) @ drop i t, inputIter = i, outputIter = i\<rparr>"

text \<open>The scan for the next token, over the rest of the text from position \<open>i\<close>.\<close>

fun scan :: "string \<Rightarrow> nat \<Rightarrow> nat \<Rightarrow> nat \<Rightarrow> nat \<times> nat \<times> nat" where
  "scan [] i k s = (i, k, s)"
| "scan (x # xs) i k s =
     (if ascii_letter x then scan xs (i + 1) (k + 1) s
      else if k > 2 then (i + 1, k, s)
      else scan xs (i + 1) 0 (i + 1))"

lemma ascii_letter_normalized:
  assumes "of_char c < (128 :: nat)"
  shows "normalizeCodePointInBlock (of_nat (of_char c)) (getUnicodeBlock (of_nat (of_char c))) < 128"
    and "unat (normalizeCodePointInBlock (of_nat (of_char c)) (getUnicodeBlock (of_nat (of_char c)))) = folded (of_char c)"
    and "isLetterPointInBlock (normalizeCodePointInBlock (of_nat (of_char c)) (getUnicodeBlock (of_nat (of_char c))))
           (getUnicodeBlock (of_nat (of_char c))) \<longleftrightarrow> ascii_letter c"
proof -
  let ?cp = "of_nat (of_char c) :: 32 word"
  have unat: "unat ?cp = of_char c" using assms by (simp add: unat_of_nat)
  have norm: "normalizeCodePointInBlock ?cp (getUnicodeBlock ?cp) = normalizeCodePoint ?cp"
    by (simp add: normalizeCodePoint_def)
  show folded: "unat (normalizeCodePointInBlock ?cp (getUnicodeBlock ?cp)) = folded (of_char c)"
    by (simp add: norm unat_normalizeCodePoint unat)
  have "folded (of_char c) < 128" using assms folded_range(1) [of "of_char c"] by simp
  then show less: "normalizeCodePointInBlock ?cp (getUnicodeBlock ?cp) < 128"
    using folded by (simp add: word_less_nat_alt)
  have "getUnicodeBlock ?cp = BASIC_LATIN" using assms by (simp add: latin_blocks unat)
  then show "isLetterPointInBlock (normalizeCodePointInBlock ?cp (getUnicodeBlock ?cp)) (getUnicodeBlock ?cp) \<longleftrightarrow> ascii_letter c"
    using assms folded
    by (auto simp: isLetterPointInBlock_def isBasicLatinLetter_def word_le_nat_alt word_less_nat_alt
        ascii_letter_def folded_def Let_def)
qed

lemma iter_at_simps:
  "i \<le> length t \<Longrightarrow> length (ti_text (iter_at t i)) = length t"
  "i \<le> length t \<Longrightarrow> drop i (ti_text (iter_at t i)) = drop i t"
  "inputIter (iter_at t i) = i" "outputIter (iter_at t i) = i"
  by (simp_all add: iter_at_def)

lemma iter_at_step:
  "i < length t \<Longrightarrow>
   iter_at t i\<lparr>inputIter := Suc i, ti_text := write_at i [lower_char (t ! i)] (ti_text (iter_at t i)), outputIter := Suc i\<rparr>
     = iter_at t (Suc i)"
  by (simp add: iter_at_def write_at_def take_Suc_conv_app_nth)

context ascii_codec
begin

lemma token_loop_step:
  assumes "is_ascii t" and "i < length t"
  shows "token_loop env (iter_at t i) k s =
    (if ascii_letter (t ! i) then token_loop env (iter_at t (Suc i)) (k + 1) s
     else if k > 2 then Some (Inr (iter_at t (Suc i), k, s))
     else token_loop env (iter_at t (Suc i)) 0 (Suc i))"
proof -
  let ?c = "t ! i"
  let ?cp = "of_nat (of_char ?c) :: 32 word"
  let ?norm = "normalizeCodePointInBlock ?cp (getUnicodeBlock ?cp)"
  have small: "of_char ?c < (128 :: nat)" using assms by (auto simp: is_ascii_def)
  note norm = ascii_letter_normalized [OF small]
  have append: "utf8_append env ?norm = Some [lower_char ?c]"
    using append_ascii [OF norm(1)] by (simp add: norm(2) lower_char_def)
  have decode: "utf8_next env (drop i t) = Some (?cp, 1)"
  proof -
    have "drop i t = t ! i # drop (Suc i) t" using assms by (simp add: Cons_nth_drop_Suc)
    then show ?thesis by (simp only: next_ascii [OF small])
  qed
  show ?thesis
    using assms iter_at_step [OF assms(2)]
    by (subst token_loop.simps)
      (simp add: iter_at_simps decode append norm(3) Let_def)
qed

lemma token_loop_scan:
  "is_ascii t \<Longrightarrow> i \<le> length t \<Longrightarrow>
   token_loop env (iter_at t i) k s =
     (case scan (drop i t) i k s of (i', k', s') \<Rightarrow> Some (Inr (iter_at t i', k', s')))"
proof (induction "length t - i" arbitrary: i k s)
  case 0
  then show ?case by (subst token_loop.simps) (simp add: iter_at_simps)
next
  case (Suc n)
  then have i: "i < length t" by simp
  have "drop i t = t ! i # drop (Suc i) t" using i by (simp add: Cons_nth_drop_Suc)
  then show ?case using Suc i by (simp add: token_loop_step [OF Suc.prems(1) i])
qed

end

text \<open>What the scan finds: a maximal run of at least three letters, or none.\<close>

definition letters_between :: "string \<Rightarrow> nat \<Rightarrow> nat \<Rightarrow> bool" where
  "letters_between t a b \<longleftrightarrow> (\<forall>j. a \<le> j \<and> j < b \<longrightarrow> ascii_letter (t ! j))"

definition three_letters :: "string \<Rightarrow> nat \<Rightarrow> bool" where
  "three_letters t j \<longleftrightarrow> ascii_letter (t ! j) \<and> ascii_letter (t ! (j + 1)) \<and> ascii_letter (t ! (j + 2))"

lemma letters_between_Suc: "a \<le> b \<Longrightarrow> letters_between t a (Suc b) \<longleftrightarrow> letters_between t a b \<and> ascii_letter (t ! b)"
  by (auto simp: letters_between_def less_Suc_eq)

lemma letters_between_empty [simp]: "letters_between t a a"
  by (auto simp: letters_between_def)

lemma not_three_letters: "\<not> ascii_letter (t ! i) \<Longrightarrow> j \<le> i \<Longrightarrow> i \<le> j + 2 \<Longrightarrow> \<not> three_letters t j"
proof -
  assume "\<not> ascii_letter (t ! i)" and "j \<le> i" and "i \<le> j + 2"
  moreover from this have "i = j \<or> i = j + 1 \<or> i = j + 2" by linarith
  ultimately show "\<not> three_letters t j" by (auto simp: three_letters_def)
qed

text \<open>
  The claim about a scan that started at \<open>s0\<close> with its run at \<open>s\<close>: where it ends, and that the run it
  reports is a maximal one.
\<close>

definition scan_result :: "string \<Rightarrow> nat \<Rightarrow> nat \<Rightarrow> nat \<times> nat \<times> nat \<Rightarrow> bool" where
  "scan_result t s0 s = (\<lambda>(i', k', s').
     i' \<le> length t \<and> s \<le> s' \<and> s' + k' \<le> i' \<and> letters_between t s' (s' + k')
     \<and> (s' = s0 \<or> \<not> ascii_letter (t ! (s' - 1)))
     \<and> (i' = length t \<and> i' = s' + k' \<or> i' = Suc (s' + k') \<and> \<not> ascii_letter (t ! (s' + k')) \<and> k' > 2)
     \<and> (k' \<le> 2 \<longrightarrow> (\<forall>j. s \<le> j \<and> j + 2 < length t \<longrightarrow> \<not> three_letters t j))
     \<and> (\<forall>j. s \<le> j \<and> j < s' \<longrightarrow> \<not> three_letters t j))"

lemma scan_result_later:
  assumes "scan_result t s0 (Suc i) r" and "s \<le> i" and "i \<le> s + 2" and "\<not> ascii_letter (t ! i)"
  shows "scan_result t s0 s r"
proof -
  obtain i' k' s' where r: "r = (i', k', s')" by (rule prod_cases3)
  have "\<not> three_letters t j" if "k' \<le> 2" "s \<le> j" "j + 2 < length t" for j
  proof (cases "j \<le> i")
    case True
    then show ?thesis using not_three_letters [OF assms(4)] that assms(3) by simp
  next
    case False
    then show ?thesis using assms(1) that by (simp add: r scan_result_def)
  qed
  moreover have "\<not> three_letters t j" if "s \<le> j" "j < s'" for j
  proof (cases "j \<le> i")
    case True
    then show ?thesis using not_three_letters [OF assms(4)] that assms(3) by simp
  next
    case False
    then show ?thesis using assms(1) that by (simp add: r scan_result_def)
  qed
  ultimately show ?thesis using assms(1,2) by (simp add: r scan_result_def)
qed

lemma scan_found:
  assumes "i \<le> length t" and "i = s + k" and "letters_between t s i"
    and "s = s0 \<or> \<not> ascii_letter (t ! (s - 1))"
  shows "scan_result t s0 s (scan (drop i t) i k s)"
  using assms
proof (induction "length t - i" arbitrary: i k s)
  case 0
  have i: "i = length t" using 0 by simp
  have "\<not> j + 2 < length t" if "s \<le> j" "k \<le> 2" for j using 0(3) i that by linarith
  with 0 i show ?case by (auto simp: scan_result_def)
next
  case (Suc n)
  then have i: "i < length t" by simp
  then have cons: "drop i t = t ! i # drop (Suc i) t" by (simp add: Cons_nth_drop_Suc)
  have n: "n = length t - Suc i" using Suc.hyps(2) by simp
  consider "ascii_letter (t ! i)" | "\<not> ascii_letter (t ! i)" "k > 2" | "\<not> ascii_letter (t ! i)" "k \<le> 2"
    by linarith
  then show ?case
  proof cases
    case 1
    then have "letters_between t s (Suc i)" using Suc.prems by (simp add: letters_between_Suc)
    with Suc.hyps(1) [OF n, where k = "k + 1" and s = s] Suc.prems i
    have "scan_result t s0 s (scan (drop (Suc i) t) (Suc i) (k + 1) s)" by simp
    with 1 show ?thesis by (simp add: cons)
  next
    case 2
    then have "scan (drop i t) i k s = (Suc i, k, s)" by (simp add: cons)
    with 2 Suc.prems i show ?thesis by (auto simp: scan_result_def)
  next
    case 3
    have "scan_result t s0 (Suc i) (scan (drop (Suc i) t) (Suc i) 0 (Suc i))"
      using Suc.hyps(1) [OF n, where k = 0 and s = "Suc i"] 3 i by simp
    then have "scan_result t s0 s (scan (drop (Suc i) t) (Suc i) 0 (Suc i))"
      using 3 Suc.prems(2) by (elim scan_result_later) simp_all
    with 3 show ?thesis by (simp add: cons)
  qed
qed

section \<open>Properties of the tokenizer\<close>

text \<open>
  C13.  On an ASCII text the iterator always returns, and it returns the next maximal run of at least
  three letters at or after its position, the first one: no three letters in a row begin between the
  position and the run.  The text up to the byte after the run is folded to lower case; when there is no run
  it says so.  The reported end is the end of the run, except that a token whose delimiter is the last
  byte of the text includes that delimiter.  The codec decodes ASCII bytes to themselves.
\<close>

theorem next_token_finds_letter_run:
  assumes "ascii_codec env" and "is_ascii t" and "i \<le> length t"
  shows "\<exists>it' found s e. next_token env (iter_at t i) = Some (Inr (it', found, s, e)) \<and>
    (if found then
       \<exists>k > 2. i \<le> s \<and> letters_between t s (s + k)
         \<and> (s = i \<or> \<not> ascii_letter (t ! (s - 1))) \<and> (s + k = length t \<or> \<not> ascii_letter (t ! (s + k)))
         \<and> (\<forall>j. i \<le> j \<and> j < s \<longrightarrow> \<not> three_letters t j)
         \<and> e = (if s + k + 1 = length t then s + k + 1 else s + k)
         \<and> it' = iter_at t (min (s + k + 1) (length t))
     else \<forall>j. i \<le> j \<and> j + 2 < length t \<longrightarrow> \<not> three_letters t j)"
proof -
  obtain i' k s where scan: "scan (drop i t) i 0 i = (i', k, s)" by (metis prod_cases3)
  have found: "scan_result t i i (i', k, s)"
    using scan_found [of i t i 0 i] assms(3) scan by simp
  have loop: "token_loop env (iter_at t i) 0 i = Some (Inr (iter_at t i', k, s))"
    by (simp add: ascii_codec.token_loop_scan [OF assms] scan)
  have len: "length (ti_text (iter_at t i)) = length t" "length (ti_text (iter_at t i')) = length t"
    using assms(3) found by (simp_all add: iter_at_simps scan_result_def)
  have none: "next_token env (iter_at t i) = Some (Inr (iter_at t i', False, 0, 0))"
    if "k \<le> 2" "i \<noteq> length t"
    using that by (simp add: next_token_def iter_at_simps(3) loop len)
  have some: "next_token env (iter_at t i) =
      Some (Inr (iter_at t i', True, s, if i' \<noteq> length t then i' - 1 else i'))" if "k > 2" "i \<noteq> length t"
    using that by (simp add: next_token_def iter_at_simps(3) loop len)
  have bounds: "i \<le> s" "letters_between t s (s + k)" "s = i \<or> \<not> ascii_letter (t ! (s - 1))"
    and stop: "i' = length t \<and> i' = s + k \<or> i' = Suc (s + k) \<and> \<not> ascii_letter (t ! (s + k)) \<and> i' \<le> length t"
    and first: "\<forall>j. i \<le> j \<and> j < s \<longrightarrow> \<not> three_letters t j"
    and short: "k \<le> 2 \<Longrightarrow> \<forall>j. i \<le> j \<and> j + 2 < length t \<longrightarrow> \<not> three_letters t j"
    using found by (auto simp: scan_result_def)
  consider "i = length t" | "i \<noteq> length t" "k \<le> 2" | "i \<noteq> length t" "k > 2" by linarith
  then show ?thesis
  proof cases
    case 1
    then have "next_token env (iter_at t i) = Some (Inr (iter_at t i, False, 0, 0))"
      by (simp add: next_token_def iter_at_simps)
    moreover from 1 have "\<forall>j. i \<le> j \<and> j + 2 < length t \<longrightarrow> \<not> three_letters t j" by auto
    ultimately show ?thesis by (intro exI conjI) auto
  next
    case 2
    from none [OF 2(2,1)] short [OF 2(2)] show ?thesis
      by (intro exI [of _ "iter_at t i'"] exI [of _ False] exI [of _ 0]) simp
  next
    case 3
    have end1: "i' = min (s + k + 1) (length t)"
      and end2: "(if i' \<noteq> length t then i' - 1 else i') = (if s + k + 1 = length t then s + k + 1 else s + k)"
      and after: "s + k = length t \<or> \<not> ascii_letter (t ! (s + k))"
      using stop by auto
    show ?thesis
      unfolding some [OF 3(2,1)] end2
      by (intro exI conjI refl) (use 3(2) bounds first after end1 in auto)
  qed
qed

interpretation plain_codec: ascii_codec plain_env
  by unfold_locales (simp_all add: plain_env_def word_less_nat_alt)

theorem next_token_finds_letter_run_witness:
  "\<exists>it' found s e. next_token plain_env (iter_at ''a Cat.'' 0) = Some (Inr (it', found, s, e)) \<and> found"
proof -
  have ascii: "is_ascii ''a Cat.''" by (simp add: is_ascii_def)
  have letters: "three_letters ''a Cat.'' 2" by (simp add: three_letters_def ascii_letter_def numeral_2_eq_2)
  from next_token_finds_letter_run [OF plain_codec.ascii_codec_axioms ascii, of 0]
  obtain it' found s e where tok: "next_token plain_env (iter_at ''a Cat.'' 0) = Some (Inr (it', found, s, e))"
    and none: "\<not> found \<Longrightarrow> \<forall>j. 0 \<le> j \<and> j + 2 < length ''a Cat.'' \<longrightarrow> \<not> three_letters ''a Cat.'' j"
    by (auto split: if_splits)
  have found
  proof (rule ccontr)
    assume "\<not> found"
    from none [OF this] have "\<not> three_letters ''a Cat.'' 2" by (elim allE [of _ 2]) simp
    with letters show False by simp
  qed
  with tok show ?thesis by blast
qed

end
