(* ===== verification/Scores.thy ===== *)
theory Scores
  imports CentroidUpdate ConcurrentMap TextProcessing
begin

text \<open>
  The state of the running server, and \<open>SimilarityScoreWorker\<close>
  (\<open>similarity_score_worker/SimilarityScoreWorker.cpp\<close>): the map of loaded centroids and the
  scores it answers.  The tasks run one at a time, in the order in which they are submitted.
\<close>

section \<open>The server's state and its futures\<close>

text \<open>
  The database, the score worker's map, the stemmers of the processing thread, the update worker's
  \<open>updatingSet_\<close>, the identifiers written to its queue (latest first), and the clock: the readings it
  will give, and how many were taken.
\<close>

record 'db world =
  w_db :: 'db
  w_scores :: "Centroid cmap"
  w_stemmers :: stemmers
  w_updating :: "string list"
  w_triggered :: "string list"
  w_clock :: "nat \<Rightarrow> 64 word"
  w_reads :: nat

text \<open>A future holds a value, holds an exception, or is not completed by the work at hand.\<close>

datatype 'a outcome = Ready 'a | Thrown | Pending

type_synonym ('db, 'a) future = "('db world, 'a outcome) state"

definition ready :: "'a \<Rightarrow> ('db, 'a) future" where
  "ready x = State_Monad.return (Ready x)"

text \<open>\<open>future.then(f)\<close> for a function of the value.\<close>

definition future_then :: "('db, 'a) future \<Rightarrow> ('a \<Rightarrow> ('db, 'b) future) \<Rightarrow> ('db, 'b) future" where
  "future_then m f = do {
     x \<leftarrow> m;
     case x of Ready a \<Rightarrow> f a | Thrown \<Rightarrow> State_Monad.return Thrown | Pending \<Rightarrow> State_Monad.return Pending
   }"

text \<open>A task of the persistence; the second form is for the tasks that can throw.\<close>

definition on_db :: "('db, 'a) state \<Rightarrow> ('db, 'a) future" where
  "on_db m = State (\<lambda>w. case run_state m (w_db w) of (x, db) \<Rightarrow> (Ready x, w\<lparr>w_db := db\<rparr>))"

definition on_db_throwing :: "('db, 'a option) state \<Rightarrow> ('db, 'a) future" where
  "on_db_throwing m = State (\<lambda>w. case run_state m (w_db w) of
     (x, db) \<Rightarrow> (case x of None \<Rightarrow> Thrown | Some y \<Rightarrow> Ready y, w\<lparr>w_db := db\<rparr>))"

text \<open>An operation on the map of centroids.\<close>

definition on_scores :: "(Centroid cmap \<Rightarrow> ('a \<times> Centroid cmap) option) \<Rightarrow> ('db, 'a) future" where
  "on_scores f = State (\<lambda>w. case f (w_scores w) of
     None \<Rightarrow> (Thrown, w) | Some (x, m) \<Rightarrow> (Ready x, w\<lparr>w_scores := m\<rparr>))"

definition getEpochTime :: "('db, 64 word) future" where
  "getEpochTime = State (\<lambda>w. (Ready (w_clock w (w_reads w)), w\<lparr>w_reads := w_reads w + 1\<rparr>))"

lemma run_ready [simp]: "run_state (ready x) w = (Ready x, w)"
  by (simp add: ready_def)

lemma run_then [simp]:
  "run_state (future_then m f) w = (case run_state m w of
     (Ready a, w') \<Rightarrow> run_state (f a) w' | (Thrown, w') \<Rightarrow> (Thrown, w') | (Pending, w') \<Rightarrow> (Pending, w'))"
  by (auto simp: future_then_def split: outcome.splits prod.splits)

lemma run_on_db [simp]: "run_state (on_db m) w = (Ready (result_of m (w_db w)), w\<lparr>w_db := db_after m (w_db w)\<rparr>)"
  by (simp add: on_db_def case_prod_unfold)

lemma run_on_db_throwing [simp]:
  "run_state (on_db_throwing m) w = (case result_of m (w_db w) of None \<Rightarrow> Thrown | Some y \<Rightarrow> Ready y,
     w\<lparr>w_db := db_after m (w_db w)\<rparr>)"
  by (simp add: on_db_throwing_def case_prod_unfold)

lemma run_on_scores [simp]:
  "run_state (on_scores f) w = (case f (w_scores w) of
     None \<Rightarrow> (Thrown, w) | Some (x, m) \<Rightarrow> (Ready x, w\<lparr>w_scores := m\<rparr>))"
  by (simp add: on_scores_def)

lemma run_getEpochTime [simp]:
  "run_state getEpochTime w = (Ready (w_clock w (w_reads w)), w\<lparr>w_reads := w_reads w + 1\<rparr>)"
  by (simp add: getEpochTime_def)

section \<open>SimilarityScoreWorker\<close>

definition sw_insertOrUpdate :: "string \<Rightarrow> Centroid \<Rightarrow> ('db, unit) future" where
  "sw_insertOrUpdate i centroid =
     on_scores (\<lambda>m. map_option (Pair ()) (insertOrUpdate m i centroid))"

definition sw_getOption :: "string \<Rightarrow> ('db, nat option) future" where
  "sw_getOption i = on_scores (\<lambda>m. getOption m i)"

definition sw_deref :: "nat \<Rightarrow> ('db, Centroid) future" where
  "sw_deref q = on_scores (\<lambda>m. map_option (\<lambda>c. (c, m)) (cm_deref m q))"

text \<open>The destructor of an optional read pointer.\<close>

definition sw_release :: "nat option \<Rightarrow> ('db, unit) future" where
  "sw_release q = (case q of
       None \<Rightarrow> ready ()
     | Some q \<Rightarrow> on_scores (\<lambda>m. map_option (Pair ()) (cm_release m q)))"

fun sw_load_all :: "('db, 'z) env_scheme \<Rightarrow> string list \<Rightarrow> ('db, unit) future" where
  "sw_load_all api [] = ready ()"
| "sw_load_all api (i # ids) =
     future_then (on_db_throwing (p_loadCentroidUniqueOption api i)) (\<lambda>centroid.
       case centroid of
         Some c \<Rightarrow> future_then (sw_insertOrUpdate i c) (\<lambda>_. sw_load_all api ids)
       | None \<Rightarrow> sw_load_all api ids)"

definition sw_initialize :: "('db, 'z) env_scheme \<Rightarrow> ('db, unit) future" where
  "sw_initialize api = future_then (on_db (p_listAllCentroids api)) (sw_load_all api)"

definition sw_reloadCentroid :: "('db, 'z) env_scheme \<Rightarrow> string \<Rightarrow> ('db, bool) future" where
  "sw_reloadCentroid api i =
     future_then (on_db_throwing (p_loadCentroidUniqueOption api i)) (\<lambda>centroid.
       case centroid of
         None \<Rightarrow> ready False
       | Some c \<Rightarrow> future_then (sw_insertOrUpdate i c) (\<lambda>_. ready True))"

definition sw_getDocumentSimilarity ::
  "(real \<Rightarrow> double) \<Rightarrow> string \<Rightarrow> ProcessedDocument \<Rightarrow> ('db, double Try) future" where
  "sw_getDocumentSimilarity rnd centroidId doc =
     future_then (sw_getOption centroidId) (\<lambda>centroid.
       case centroid of
         None \<Rightarrow> ready (Inl ECentroidDoesNotExist)
       | Some q \<Rightarrow>
           future_then (sw_deref q) (\<lambda>c.
             let result = centroid_score_document rnd c doc in
             future_then (sw_release centroid) (\<lambda>_. ready (Inr result))))"

definition sw_getCentroidSimilarity ::
  "(real \<Rightarrow> double) \<Rightarrow> string \<Rightarrow> string \<Rightarrow> ('db, double Try) future" where
  "sw_getCentroidSimilarity rnd centroid1Id centroid2Id =
     future_then (sw_getOption centroid1Id) (\<lambda>centroid1.
     future_then (sw_getOption centroid2Id) (\<lambda>centroid2.
       case (centroid1, centroid2) of
         (Some q1, Some q2) \<Rightarrow>
           future_then (sw_deref q1) (\<lambda>c1.
           future_then (sw_deref q2) (\<lambda>c2.
             let result = centroid_score_vector rnd c1 (c_wordVector c2) in
             future_then (sw_release centroid2) (\<lambda>_.
             future_then (sw_release centroid1) (\<lambda>_. ready (Inr result)))))
       | _ \<Rightarrow>
           future_then (sw_release centroid2) (\<lambda>_.
           future_then (sw_release centroid1) (\<lambda>_. ready (Inl ECentroidDoesNotExist)))))"

definition debugGetCentroid :: "string \<Rightarrow> ('db, nat option) future" where
  "debugGetCentroid i = sw_getOption i"

section \<open>What the score worker answers\<close>

text \<open>
  Reading leaves the map as it is, up to the reference counts: \<open>quiet w m\<close> says that \<open>m\<close> is the same
  map as the one in \<open>w\<close>.
\<close>

definition quiet :: "'db world \<Rightarrow> Centroid cmap \<Rightarrow> bool" where
  "quiet w m \<longleftrightarrow> cm_ok m \<and> cm_view m = cm_view (w_scores w)"

lemma run_insertOrUpdate:
  assumes "cm_ok (w_scores w)"
  obtains m where "run_state (sw_insertOrUpdate i c) w = (Ready (), w\<lparr>w_scores := m\<rparr>)"
    and "cm_ok m" and "cm_view m = (cm_view (w_scores w))(i \<mapsto> c)"
proof -
  from insertOrUpdate_spec [OF assms, of i c] obtain m where
    m: "insertOrUpdate (w_scores w) i c = Some m" "cm_ok m" "cm_view m = (cm_view (w_scores w))(i \<mapsto> c)"
    by blast
  from m(1) have "run_state (sw_insertOrUpdate i c) w = (Ready (), w\<lparr>w_scores := m\<rparr>)"
    by (simp add: sw_insertOrUpdate_def)
  with that m(2,3) show ?thesis by blast
qed

lemma run_getDocumentSimilarity:
  assumes ok: "cm_ok (w_scores w)"
  shows "\<exists>m. run_state (sw_getDocumentSimilarity rnd i doc) w =
      (Ready (case cm_view (w_scores w) i of
          None \<Rightarrow> Inl ECentroidDoesNotExist | Some c \<Rightarrow> Inr (centroid_score_document rnd c doc)), w\<lparr>w_scores := m\<rparr>)
    \<and> quiet w m"
proof (cases rule: getOption_spec [OF ok, where key = i])
  case 1
  with ok show ?thesis
    by (intro exI [of _ "w_scores w"]) (simp add: sw_getDocumentSimilarity_def sw_getOption_def quiet_def)
next
  case (2 q m v)
  from cm_release_spec [OF 2(3,5)] obtain m' where
    m': "cm_release m q = Some m'" "cm_ok m'" "cm_view m' = cm_view m" by blast
  with 2 show ?thesis
    by (intro exI [of _ m'])
      (simp add: sw_getDocumentSimilarity_def sw_getOption_def sw_deref_def sw_release_def quiet_def)
qed

lemma run_getCentroidSimilarity:
  assumes ok: "cm_ok (w_scores w)"
  shows "\<exists>m. run_state (sw_getCentroidSimilarity rnd i j) w =
      (Ready (case (cm_view (w_scores w) i, cm_view (w_scores w) j) of
          (Some c, Some d) \<Rightarrow> Inr (centroid_score_vector rnd c (c_wordVector d))
        | _ \<Rightarrow> Inl ECentroidDoesNotExist), w\<lparr>w_scores := m\<rparr>)
    \<and> quiet w m"
proof (cases rule: getOption_spec [OF ok, where key = i])
  case 1
  note no = 1
  show ?thesis
  proof (cases rule: getOption_spec [OF ok, where key = j])
    case 1
    with no ok show ?thesis
      by (intro exI [of _ "w_scores w"])
        (simp add: sw_getCentroidSimilarity_def sw_getOption_def sw_release_def quiet_def)
  next
    case (2 q m v)
    from cm_release_spec [OF 2(3,5)] obtain m' where
      m': "cm_release m q = Some m'" "cm_ok m'" "cm_view m' = cm_view m" by blast
    with no 2 show ?thesis
      by (intro exI [of _ m'])
        (simp add: sw_getCentroidSimilarity_def sw_getOption_def sw_release_def quiet_def)
  qed
next
  case (2 q m v)
  note first = 2
  show ?thesis
  proof (cases rule: getOption_spec [OF first(3), where key = j])
    case 1
    from cm_release_spec [OF first(3,5)] obtain m' where
      m': "cm_release m q = Some m'" "cm_ok m'" "cm_view m' = cm_view m" by blast
    with 1 first show ?thesis
      by (intro exI [of _ m'])
        (simp add: sw_getCentroidSimilarity_def sw_getOption_def sw_release_def quiet_def)
  next
    case (2 r m2 u)
    from 2(7) [OF first(5)] have q: "held m2 q" "q \<noteq> r" "cm_deref m2 q = Some v"
      using first(6) by auto
    from cm_release_spec [OF 2(3,5)] obtain m3 where
      m3: "cm_release m2 r = Some m3" "cm_ok m3" "cm_view m3 = cm_view m2" "held m3 q"
      using q(1,2) by metis
    from cm_release_spec [OF m3(2,4)] obtain m4 where
      m4: "cm_release m3 q = Some m4" "cm_ok m4" "cm_view m4 = cm_view m3" by blast
    have "run_state (sw_getCentroidSimilarity rnd i j) w =
        (Ready (Inr (centroid_score_vector rnd v (c_wordVector u))), w\<lparr>w_scores := m4\<rparr>)"
      using first(2) 2(2,6) q(3) m3(1) m4(1)
      by (simp add: sw_getCentroidSimilarity_def sw_getOption_def sw_release_def sw_deref_def Let_def)
    with first(1,4) 2(1,4) m3(3) m4(2,3) show ?thesis
      by (intro exI [of _ m4]) (simp add: quiet_def)
  qed
qed

lemma run_reloadCentroid:
  assumes ok: "cm_ok (w_scores w)"
  shows "\<exists>m. run_state (sw_reloadCentroid api i) w =
      (case sp_loadCentroidUniqueOption api (w_db w) i of
          None \<Rightarrow> Thrown | Some None \<Rightarrow> Ready False | Some (Some c) \<Rightarrow> Ready True, w\<lparr>w_scores := m\<rparr>)
    \<and> cm_ok m
    \<and> cm_view m = (case sp_loadCentroidUniqueOption api (w_db w) i of
          Some (Some c) \<Rightarrow> (cm_view (w_scores w))(i \<mapsto> c) | _ \<Rightarrow> cm_view (w_scores w))"
proof -
  have db: "w\<lparr>w_db := w_db w\<rparr> = w" by simp
  consider (Stop) "\<forall>c. sp_loadCentroidUniqueOption api (w_db w) i \<noteq> Some (Some c)"
    | (Load) c where "sp_loadCentroidUniqueOption api (w_db w) i = Some (Some c)" by blast
  then show ?thesis
  proof cases
    case Stop
    with ok show ?thesis
      by (intro exI [of _ "w_scores w"])
        (auto simp: sw_reloadCentroid_def p_loadCentroidUniqueOption_def split: option.splits)
  next
    case Load
    from run_insertOrUpdate [OF ok, of i c] obtain m where
      "run_state (sw_insertOrUpdate i c) w = (Ready (), w\<lparr>w_scores := m\<rparr>)" "cm_ok m"
      "cm_view m = (cm_view (w_scores w))(i \<mapsto> c)" by blast
    with Load show ?thesis
      by (intro exI [of _ m]) (simp add: sw_reloadCentroid_def p_loadCentroidUniqueOption_def)
  qed
qed

end
