(* ===== verification/Server.thy ===== *)
theory Server
  imports Scores
begin

text \<open>
  \<open>server/RelevanceServer.cpp\<close>: the requests of the server, over the persistence, the metadata, the
  document processing worker, the score worker and the update worker.  The update worker appears
  here as its clients see it when one thing happens at a time: an update runs the updater, reports
  to the callbacks when it succeeded, and completes the futures that wait for it.
\<close>

section \<open>The server's parts\<close>

text \<open>The third-party functions, the rounding of doubles and the stopword filter.\<close>

record 'db config =
  cf_api :: "'db env"
  cf_text :: text_env
  cf_rnd :: "real \<Rightarrow> double"
  cf_isStopword :: "string \<Rightarrow> Language \<Rightarrow> bool"

text \<open>
  \<open>DocumentProcessingWorker::processNew\<close> on its pool.  Invalid text and a null stemmer end the task
  with an exception (or the process: both are \<open>Thrown\<close>).
\<close>

definition pw_processNew :: "'db config \<Rightarrow> Document \<Rightarrow> ('db, ProcessedDocument) future" where
  "pw_processNew cf doc = State (\<lambda>w.
     case worker_processNew (cf_text cf) (cf_rnd cf) (cf_isStopword cf) (w_clock w (w_reads w)) (w_stemmers w) doc of
       None \<Rightarrow> (Pending, w)
     | Some (Inl fault) \<Rightarrow> (Thrown, w)
     | Some (Inr (processed, stemmers)) \<Rightarrow>
         (Ready processed, w\<lparr>w_stemmers := stemmers, w_reads := w_reads w + 1\<rparr>))"

text \<open>
  \<open>CentroidUpdateWorker::update\<close> and its completion: nothing when the centroid is being updated; the
  identifier stays in \<open>updatingSet_\<close> when the updater throws; the callback of the server reloads the
  centroid into the score worker after a success.
\<close>

definition cw_mark :: "string \<Rightarrow> ('db, bool) future" where
  "cw_mark i = State (\<lambda>w.
     if i \<notin> set (w_updating w) then (Ready True, w\<lparr>w_updating := i # w_updating w\<rparr>) else (Ready False, w))"

definition cw_unmark :: "string \<Rightarrow> ('db, unit) future" where
  "cw_unmark i = State (\<lambda>w. (Ready (), w\<lparr>w_updating := removeAll i (w_updating w)\<rparr>))"

definition cw_run :: "'db config \<Rightarrow> 64 word \<Rightarrow> string \<Rightarrow> ('db, bool Try) future" where
  "cw_run cf epochTime i = State (\<lambda>w.
     case updater_run (cf_api cf) (cf_rnd cf) epochTime i (w_db w) of
       None \<Rightarrow> (Pending, w)
     | Some (None, db) \<Rightarrow> (Thrown, w\<lparr>w_db := db\<rparr>)
     | Some (Some result, db) \<Rightarrow> (Ready result, w\<lparr>w_db := db\<rparr>))"

definition cw_update :: "'db config \<Rightarrow> string \<Rightarrow> ('db, bool Try) future" where
  "cw_update cf i =
     future_then (cw_mark i) (\<lambda>shouldUpdate.
       if \<not> shouldUpdate then ready (Inr False)
       else
         future_then getEpochTime (\<lambda>startTimestamp.
         future_then (cw_run cf startTimestamp i) (\<lambda>result.
         future_then (cw_unmark i) (\<lambda>_.
           if hasException result then ready result
           else do {
             _ \<leftarrow> sw_reloadCentroid (cf_api cf) i;
             ready result
           }))))"

text \<open>\<open>joinUpdate\<close>: the promise is completed by the report of a successful update only.\<close>

definition cw_joinUpdate :: "'db config \<Rightarrow> string \<Rightarrow> ('db, string Try) future" where
  "cw_joinUpdate cf i = do {
     result \<leftarrow> cw_update cf i;
     State_Monad.return (if result = Ready (Inr True) then Ready (Inr i) else Pending)
   }"

text \<open>\<open>triggerUpdate\<close> writes to the debounced queue; the queue calls \<open>update\<close> later.\<close>

definition cw_triggerUpdate :: "string \<Rightarrow> ('db, unit) future" where
  "cw_triggerUpdate i = State (\<lambda>w. (Ready (), w\<lparr>w_triggered := i # w_triggered w\<rparr>))"

text \<open>\<open>collect\<close>: all the futures run, and it fails when one of them does.\<close>

fun collect :: "('db, 'a) future list \<Rightarrow> ('db, 'a list) future" where
  "collect [] = ready []"
| "collect (m # ms) = do {
     x \<leftarrow> m;
     xs \<leftarrow> collect ms;
     State_Monad.return (case (x, xs) of
         (Ready a, Ready as) \<Rightarrow> Ready (a # as)
       | (Thrown, _) \<Rightarrow> Thrown
       | (_, Thrown) \<Rightarrow> Thrown
       | _ \<Rightarrow> Pending)
   }"

section \<open>Similarity\<close>

text \<open>
  \<open>initialize\<close> also creates the update worker's queue and registers the callback that \<open>cw_update\<close>
  runs after a success.
\<close>

definition srv_initialize :: "'db config \<Rightarrow> ('db, unit) future" where
  "srv_initialize cf = sw_initialize (cf_api cf)"

definition srv_getDocumentSimilarity :: "'db config \<Rightarrow> string \<Rightarrow> string \<Rightarrow> ('db, double Try) future" where
  "srv_getDocumentSimilarity cf centroidId docId =
     future_then (on_db_throwing (p_loadDocument (cf_api cf) docId)) (\<lambda>doc.
       case doc of
         Inl e \<Rightarrow> ready (Inl e)
       | Inr d \<Rightarrow> sw_getDocumentSimilarity (cf_rnd cf) centroidId d)"

definition srv_getCentroidSimilarity :: "'db config \<Rightarrow> string \<Rightarrow> string \<Rightarrow> ('db, double Try) future" where
  "srv_getCentroidSimilarity cf centroid1Id centroid2Id =
     sw_getCentroidSimilarity (cf_rnd cf) centroid1Id centroid2Id"

text \<open>The loop that fills the response, a \<open>std::map\<close>: the first error ends it.\<close>

fun fill_scores :: "string list \<Rightarrow> double Try list \<Rightarrow> (string \<times> double) list \<Rightarrow> (string \<times> double) list Try" where
  "fill_scores (i # ids) (Inr sc # scores) response = fill_scores ids scores (kv_insert i sc response)"
| "fill_scores (i # ids) (Inl e # scores) response = Inl e"
| "fill_scores ids scores response = Inr response"

definition srv_internalMultiGetDocumentSimilarity ::
  "'db config \<Rightarrow> string list \<Rightarrow> ProcessedDocument \<Rightarrow> ('db, (string \<times> double) list Try) future" where
  "srv_internalMultiGetDocumentSimilarity cf centroidIds doc =
     future_then (collect (map (\<lambda>i. sw_getDocumentSimilarity (cf_rnd cf) i doc) centroidIds)) (\<lambda>scores.
       ready (fill_scores centroidIds scores []))"

definition srv_multiGetTextSimilarity ::
  "'db config \<Rightarrow> string list \<Rightarrow> string \<Rightarrow> Language \<Rightarrow> ('db, (string \<times> double) list Try) future" where
  "srv_multiGetTextSimilarity cf centroidIds text lang =
     (let doc = \<lparr>d_id = ''no-id'', d_text = text, d_language = lang\<rparr> in
      future_then (pw_processNew cf doc) (\<lambda>processed.
        srv_internalMultiGetDocumentSimilarity cf centroidIds processed))"

definition srv_multiGetDocumentSimilarity ::
  "'db config \<Rightarrow> string list \<Rightarrow> string \<Rightarrow> ('db, (string \<times> double) list Try) future" where
  "srv_multiGetDocumentSimilarity cf centroidIds docId =
     future_then (on_db_throwing (p_loadDocument (cf_api cf) docId)) (\<lambda>doc.
       case doc of
         Inl e \<Rightarrow> ready (Inl e)
       | Inr d \<Rightarrow> srv_internalMultiGetDocumentSimilarity cf centroidIds d)"

definition srv_getTextSimilarity :: "'db config \<Rightarrow> string \<Rightarrow> string \<Rightarrow> Language \<Rightarrow> ('db, double Try) future" where
  "srv_getTextSimilarity cf centroidId text lang =
     (let doc = \<lparr>d_id = ''no-id'', d_text = text, d_language = lang\<rparr> in
      future_then (pw_processNew cf doc) (\<lambda>processed.
        sw_getDocumentSimilarity (cf_rnd cf) centroidId processed))"

section \<open>Documents\<close>

definition srv_internalCreateDocumentWithID ::
  "'db config \<Rightarrow> string \<Rightarrow> string \<Rightarrow> Language \<Rightarrow> ('db, string Try) future" where
  "srv_internalCreateDocumentWithID cf i text lang =
     (let doc = \<lparr>d_id = i, d_text = text, d_language = lang\<rparr> in
      future_then (pw_processNew cf doc) (\<lambda>processed.
      future_then (on_db (p_saveNewDocument (cf_api cf) processed)) (\<lambda>result.
        ready (case result of Inl e \<Rightarrow> Inl e | Inr _ \<Rightarrow> Inr i))))"

text \<open>\<open>createDocument\<close>; the argument \<open>uuid\<close> is what \<open>getUuid\<close> yields.\<close>

definition srv_createDocument ::
  "'db config \<Rightarrow> string \<Rightarrow> string \<Rightarrow> Language \<Rightarrow> ('db, string Try) future" where
  "srv_createDocument cf uuid text lang = srv_internalCreateDocumentWithID cf uuid text lang"

definition srv_createDocumentWithID ::
  "'db config \<Rightarrow> string \<Rightarrow> string \<Rightarrow> Language \<Rightarrow> ('db, string Try) future" where
  "srv_createDocumentWithID cf i text lang = srv_internalCreateDocumentWithID cf i text lang"

text \<open>The flag turns one error into the value \<open>false\<close>.\<close>

definition ignoring :: "bool \<Rightarrow> error \<Rightarrow> bool Try \<Rightarrow> bool Try" where
  "ignoring flag err result = (if result = Inl err \<and> flag then Inr False else result)"

definition srv_deleteDocument :: "'db config \<Rightarrow> string \<Rightarrow> bool \<Rightarrow> ('db, bool Try) future" where
  "srv_deleteDocument cf i ignoreMissing =
     future_then (on_db (p_deleteDocument (cf_api cf) i)) (\<lambda>result.
       ready (ignoring ignoreMissing EDocumentDoesNotExist result))"

definition srv_multiDeleteDocuments :: "'db config \<Rightarrow> string list \<Rightarrow> bool \<Rightarrow> ('db, bool Try list) future" where
  "srv_multiDeleteDocuments cf documentIds ignoreMissing =
     collect (map (\<lambda>i. srv_deleteDocument cf i ignoreMissing) documentIds)"

text \<open>\<open>getDocument\<close>; the value is the JSON document before \<open>toJson\<close> prints it.\<close>

definition srv_getDocument :: "'db config \<Rightarrow> string \<Rightarrow> ('db, dynamic Try) future" where
  "srv_getDocument cf i =
     future_then (on_db_throwing (p_loadDocument (cf_api cf) i)) (\<lambda>doc.
       ready (case doc of Inl e \<Rightarrow> Inl e | Inr d \<Rightarrow> Inr (dynamic_of_document d)))"

section \<open>Centroids\<close>

definition srv_createCentroid :: "'db config \<Rightarrow> string \<Rightarrow> bool \<Rightarrow> ('db, bool Try) future" where
  "srv_createCentroid cf i ignoreExisting =
     future_then (on_db (p_createNewCentroid (cf_api cf) i)) (\<lambda>response.
       ready (ignoring ignoreExisting ECentroidAlreadyExists response))"

definition srv_multiCreateCentroids :: "'db config \<Rightarrow> string list \<Rightarrow> bool \<Rightarrow> ('db, bool Try list) future" where
  "srv_multiCreateCentroids cf centroidIds ignoreExisting =
     collect (map (\<lambda>i. future_then (on_db (p_createNewCentroid (cf_api cf) i)) (\<lambda>response.
       ready (ignoring ignoreExisting ECentroidAlreadyExists response))) centroidIds)"

definition srv_deleteCentroid :: "'db config \<Rightarrow> string \<Rightarrow> bool \<Rightarrow> ('db, bool Try) future" where
  "srv_deleteCentroid cf i ignoreMissing =
     future_then (on_db (p_deleteCentroid (cf_api cf) i)) (\<lambda>result.
       ready (ignoring ignoreMissing ECentroidDoesNotExist result))"

definition srv_multiDeleteCentroids :: "'db config \<Rightarrow> string list \<Rightarrow> bool \<Rightarrow> ('db, bool Try list) future" where
  "srv_multiDeleteCentroids cf centroidIds ignoreMissing =
     collect (map (\<lambda>i. srv_deleteCentroid cf i ignoreMissing) centroidIds)"

section \<open>Documents of centroids\<close>

text \<open>The common end of an addition or a removal: note the change and queue an update.\<close>

definition srv_noteChange :: "'db config \<Rightarrow> string \<Rightarrow> bool Try \<Rightarrow> ('db, unit) future" where
  "srv_noteChange cf centroidId result =
     (if hasException result then ready ()
      else
        future_then getEpochTime (\<lambda>now.
        future_then (on_db (setLastDocumentChangeTimestamp (cf_api cf) centroidId now)) (\<lambda>_.
        cw_triggerUpdate centroidId)))"

definition srv_addOneDocumentToCentroid ::
  "'db config \<Rightarrow> string \<Rightarrow> string \<Rightarrow> bool \<Rightarrow> bool \<Rightarrow> ('db, bool Try) future" where
  "srv_addOneDocumentToCentroid cf centroidId docId ignoreMissingDoc ignoreAlreadyInCentroid =
     future_then (on_db (p_addDocumentToCentroid (cf_api cf) centroidId docId)) (\<lambda>result.
     future_then (srv_noteChange cf centroidId result) (\<lambda>_.
       ready (ignoring ignoreAlreadyInCentroid EDocumentAlreadyInCentroid
         (ignoring ignoreMissingDoc EDocumentDoesNotExist result))))"

definition srv_removeOneDocumentFromCentroid ::
  "'db config \<Rightarrow> string \<Rightarrow> string \<Rightarrow> bool \<Rightarrow> bool \<Rightarrow> ('db, bool Try) future" where
  "srv_removeOneDocumentFromCentroid cf centroidId docId ignoreMissingDoc ignoreNotInCentroid =
     future_then (on_db (p_removeDocumentFromCentroid (cf_api cf) centroidId docId)) (\<lambda>result.
     future_then (srv_noteChange cf centroidId result) (\<lambda>_.
       ready (ignoring ignoreNotInCentroid EDocumentNotInCentroid
         (ignoring ignoreMissingDoc EDocumentDoesNotExist result))))"

text \<open>The loop over the results: the first exception is the answer, otherwise the list of flags.\<close>

fun successes :: "bool Try list \<Rightarrow> bool list Try" where
  "successes [] = Inr []"
| "successes (Inl e # results) = Inl e"
| "successes (Inr b # results) = (case successes results of Inl e \<Rightarrow> Inl e | Inr bs \<Rightarrow> Inr (b # bs))"

record AddDocumentsToCentroidRequest =
  ar_centroidId :: string
  ar_documentIds :: "string list"
  ar_ignoreMissingDocument :: bool
  ar_ignoreMissingCentroid :: bool
  ar_ignoreAlreadyInCentroid :: bool

record AddDocumentsToCentroidResponse =
  as_centroidId :: string
  as_documentIds :: "string list"
  as_added :: "bool list"

record RemoveDocumentsFromCentroidRequest =
  rr_centroidId :: string
  rr_documentIds :: "string list"
  rr_ignoreMissingDocument :: bool
  rr_ignoreMissingCentroid :: bool
  rr_ignoreNotInCentroid :: bool

record RemoveDocumentsFromCentroidResponse =
  rs_centroidId :: string
  rs_documentIds :: "string list"
  rs_removed :: "bool list"

definition srv_addDocumentsToCentroid ::
  "'db config \<Rightarrow> AddDocumentsToCentroidRequest \<Rightarrow> ('db, AddDocumentsToCentroidResponse Try) future" where
  "srv_addDocumentsToCentroid cf request =
     future_then (collect (map (\<lambda>docId. srv_addOneDocumentToCentroid cf (ar_centroidId request) docId
         (ar_ignoreMissingDocument request) (ar_ignoreAlreadyInCentroid request)) (ar_documentIds request)))
       (\<lambda>results. ready (map_sum id (\<lambda>added. \<lparr>as_centroidId = ar_centroidId request,
          as_documentIds = ar_documentIds request, as_added = added\<rparr>) (successes results)))"

definition srv_removeDocumentsFromCentroid ::
  "'db config \<Rightarrow> RemoveDocumentsFromCentroidRequest \<Rightarrow> ('db, RemoveDocumentsFromCentroidResponse Try) future" where
  "srv_removeDocumentsFromCentroid cf request =
     future_then (collect (map (\<lambda>docId. srv_removeOneDocumentFromCentroid cf (rr_centroidId request) docId
         (rr_ignoreMissingDocument request) (rr_ignoreNotInCentroid request)) (rr_documentIds request)))
       (\<lambda>results. ready (map_sum id (\<lambda>removed. \<lparr>rs_centroidId = rr_centroidId request,
          rs_documentIds = rr_documentIds request, rs_removed = removed\<rparr>) (successes results)))"

section \<open>Joining a centroid\<close>

definition srv_joinCentroid :: "'db config \<Rightarrow> string \<Rightarrow> bool \<Rightarrow> ('db, bool Try) future" where
  "srv_joinCentroid cf centroidId ignoreMissing =
     future_then (on_db_throwing (isCentroidUpToDate (cf_api cf) centroidId)) (\<lambda>isUpToDate.
       if ignoreMissing \<and> isUpToDate = Inl ECentroidDoesNotExist then ready (Inr False)
       else case isUpToDate of
         Inl e \<Rightarrow> ready (Inl e)
       | Inr True \<Rightarrow> ready (Inr False)
       | Inr False \<Rightarrow>
           future_then (cw_joinUpdate cf centroidId) (\<lambda>result.
             case result of
               Inl e \<Rightarrow> ready (Inl e)
             | Inr _ \<Rightarrow> future_then (sw_reloadCentroid (cf_api cf) centroidId) (\<lambda>_. ready (Inr True))))"

definition srv_multiJoinCentroids :: "'db config \<Rightarrow> string list \<Rightarrow> bool \<Rightarrow> ('db, bool Try list) future" where
  "srv_multiJoinCentroids cf centroidIds ignoreMissing =
     collect (map (\<lambda>i. srv_joinCentroid cf i ignoreMissing) centroidIds)"

section \<open>Listings, metadata and debugging requests\<close>

definition srv_listAllDocumentsForCentroid :: "'db config \<Rightarrow> string \<Rightarrow> ('db, string list Try) future" where
  "srv_listAllDocumentsForCentroid cf i = on_db (p_listAllDocumentsForCentroid (cf_api cf) i)"

definition srv_listCentroidDocumentRange :: "'db config \<Rightarrow> string \<Rightarrow> nat \<Rightarrow> nat \<Rightarrow> ('db, string list Try) future" where
  "srv_listCentroidDocumentRange cf i offset count =
     on_db (p_listCentroidDocumentRangeFromOffset (cf_api cf) i offset count)"

definition srv_listCentroidDocumentRangeFromID ::
  "'db config \<Rightarrow> string \<Rightarrow> string \<Rightarrow> nat \<Rightarrow> ('db, string list Try) future" where
  "srv_listCentroidDocumentRangeFromID cf i docId count =
     on_db (p_listCentroidDocumentRangeFromDocumentId (cf_api cf) i docId count)"

definition srv_listAllCentroids :: "'db config \<Rightarrow> ('db, string list) future" where
  "srv_listAllCentroids cf = on_db (p_listAllCentroids (cf_api cf))"

definition srv_listCentroidRange :: "'db config \<Rightarrow> nat \<Rightarrow> nat \<Rightarrow> ('db, string list) future" where
  "srv_listCentroidRange cf offset count = on_db (p_listCentroidRangeFromOffset (cf_api cf) offset count)"

definition srv_listCentroidRangeFromID :: "'db config \<Rightarrow> string \<Rightarrow> nat \<Rightarrow> ('db, string list) future" where
  "srv_listCentroidRangeFromID cf i count = on_db (p_listCentroidRangeFromId (cf_api cf) i count)"

definition srv_listAllDocuments :: "'db config \<Rightarrow> ('db, string list) future" where
  "srv_listAllDocuments cf = on_db (p_listAllDocuments (cf_api cf))"

definition srv_listUnusedDocuments :: "'db config \<Rightarrow> nat \<Rightarrow> ('db, string list) future" where
  "srv_listUnusedDocuments cf count = on_db (p_listUnusedDocuments (cf_api cf) count)"

definition srv_listDocumentRange :: "'db config \<Rightarrow> nat \<Rightarrow> nat \<Rightarrow> ('db, string list) future" where
  "srv_listDocumentRange cf offset count = on_db (p_listDocumentRangeFromOffset (cf_api cf) offset count)"

definition srv_listDocumentRangeFromID :: "'db config \<Rightarrow> string \<Rightarrow> nat \<Rightarrow> ('db, string list) future" where
  "srv_listDocumentRangeFromID cf i count = on_db (p_listDocumentRangeFromId (cf_api cf) i count)"

text \<open>\<open>getServerMetadata\<close>; the arguments are the strings that the build fills in.\<close>

definition srv_getServerMetadata :: "string \<Rightarrow> string \<Rightarrow> string \<Rightarrow> ('db, (string \<times> string) list) future" where
  "srv_getServerMetadata revision version timestamp =
     (let metadata = kv_insert ''relevanced_git_revision'' revision [];
          metadata = kv_insert ''relevanced_version'' version metadata;
          metadata = kv_insert ''relevanced_utc_build_timestamp'' timestamp metadata
      in ready metadata)"

definition srv_debugEraseAllData :: "'db config \<Rightarrow> ('db, unit) future" where
  "srv_debugEraseAllData cf = on_db_throwing (p_debugEraseAllData (cf_api cf))"

definition srv_debugGetFullCentroid :: "'db config \<Rightarrow> string \<Rightarrow> ('db, Centroid Try) future" where
  "srv_debugGetFullCentroid cf i = on_db_throwing (p_loadCentroid (cf_api cf) i)"

definition srv_debugGetFullProcessedDocument :: "'db config \<Rightarrow> string \<Rightarrow> ('db, ProcessedDocument Try) future" where
  "srv_debugGetFullProcessedDocument cf i = on_db_throwing (p_loadDocument (cf_api cf) i)"

section \<open>What an update does\<close>

definition accumulated_centroid :: "(real \<Rightarrow> double) \<Rightarrow> string \<Rightarrow> DocumentAccumulator \<Rightarrow> Centroid" where
  "accumulated_centroid rnd c acc = \<lparr>c_id = c, c_wordVector =
     \<lparr>wv_scores = acc_scores acc, wv_magnitude = fst (getMagnitude rnd acc),
      wv_documentWeight = d_of_nat rnd (documentCount acc)\<rparr>\<rparr>"

lemma centroid_dto_roundtrip: "centroid_of_dto (dto_of_centroid c) = c"
  by (simp add: centroid_of_dto_def dto_of_centroid_def vector_of_dto_def dto_of_vector_def)

lemma getMagnitude_keeps:
  "acc_scores (snd (getMagnitude rnd acc)) = acc_scores acc"
  "documentCount (snd (getMagnitude rnd acc)) = documentCount acc"
  by (simp_all add: getMagnitude_def Let_def)

lemma finish_run_centroid:
  "new_Centroid c\<lparr>c_wordVector := \<lparr>wv_scores = fst (getScores (snd (getMagnitude rnd acc))),
      wv_magnitude = fst (getMagnitude rnd acc),
      wv_documentWeight = d_of_nat rnd (getCount (snd (getMagnitude rnd acc)))\<rparr>\<rparr>
   = accumulated_centroid rnd c acc"
  by (simp add: accumulated_centroid_def new_Centroid_def getScores_def getCount_def getMagnitude_keeps)

context env_contract
begin

lemma load_after_finish_run:
  assumes "sp_doesCentroidExist api db c" and "plain c"
    and "thrift_de_centroid api (thrift_ser_centroid api (dto_of_centroid (accumulated_centroid rnd c acc)))
       = Some (dto_of_centroid (accumulated_centroid rnd c acc))"
  shows "sp_loadCentroidUniqueOption api (db_after (finish_run api rnd c t acc) db) c
    = Some (Some (accumulated_centroid rnd c acc))"
  using assms
  by (simp add: finish_run_def p_doesCentroidExist_def p_saveCentroid_def sp_loadCentroidUniqueOption_def
      setLastCalculatedTimestamp_def run_setMetadata case_prod_unfold Let_def rock_get_eq store_saveCentroid
      sp_setCentroidMetadata_def store_put key_eqs finish_run_centroid
      binaryDeserialize_centroid_def binarySerialize_centroid_def centroid_dto_roundtrip)

end

lemma run_cw_update_success:
  assumes ok: "cm_ok (w_scores w)" and idle: "i \<notin> set (w_updating w)"
    and run: "updater_run (cf_api cf) (cf_rnd cf) (w_clock w (w_reads w)) i (w_db w) = Some (Some (Inr True), db')"
    and load: "sp_loadCentroidUniqueOption (cf_api cf) db' i = Some (Some cen)"
  shows "\<exists>m. run_state (cw_update cf i) w =
      (Ready (Inr True), w\<lparr>w_db := db', w_scores := m, w_reads := w_reads w + 1\<rparr>)
    \<and> cm_ok m \<and> cm_view m = (cm_view (w_scores w))(i \<mapsto> cen)"
proof -
  let ?w1 = "w\<lparr>w_reads := w_reads w + 1, w_db := db'\<rparr>"
  from run_reloadCentroid [of ?w1 "cf_api cf" i] ok load obtain m where
    m: "run_state (sw_reloadCentroid (cf_api cf) i) ?w1 = (Ready True, ?w1\<lparr>w_scores := m\<rparr>)" "cm_ok m"
      "cm_view m = (cm_view (w_scores w))(i \<mapsto> cen)" by auto
  have "?w1\<lparr>w_scores := m\<rparr> = w\<lparr>w_db := db', w_scores := m, w_reads := w_reads w + 1\<rparr>" by simp
  with m idle run show ?thesis
    by (intro exI [of _ m]) (simp add: cw_update_def cw_mark_def cw_unmark_def cw_run_def)
qed

lemma run_joinCentroid_recomputes:
  assumes ok: "cm_ok (w_scores w)" and idle: "i \<notin> set (w_updating w)"
    and stale: "result_of (isCentroidUpToDate (cf_api cf) i) (w_db w) = Some (Inr False)"
    and db: "db_after (isCentroidUpToDate (cf_api cf) i) (w_db w) = w_db w"
    and run: "updater_run (cf_api cf) (cf_rnd cf) (w_clock w (w_reads w)) i (w_db w) = Some (Some (Inr True), db')"
    and load: "sp_loadCentroidUniqueOption (cf_api cf) db' i = Some (Some cen)"
  shows "\<exists>m. run_state (srv_joinCentroid cf i ignoreMissing) w =
      (Ready (Inr True), w\<lparr>w_db := db', w_scores := m, w_reads := w_reads w + 1\<rparr>)
    \<and> cm_ok m \<and> cm_view m = (cm_view (w_scores w))(i \<mapsto> cen)"
proof -
  from run_cw_update_success [OF ok idle run load] obtain m1 where
    m1: "run_state (cw_update cf i) w =
        (Ready (Inr True), w\<lparr>w_db := db', w_scores := m1, w_reads := w_reads w + 1\<rparr>)"
      "cm_ok m1" "cm_view m1 = (cm_view (w_scores w))(i \<mapsto> cen)" by blast
  let ?w1 = "w\<lparr>w_db := db', w_scores := m1, w_reads := w_reads w + 1\<rparr>"
  from run_reloadCentroid [of ?w1 "cf_api cf" i] m1(2) load obtain m where
    m: "run_state (sw_reloadCentroid (cf_api cf) i) ?w1 = (Ready True, ?w1\<lparr>w_scores := m\<rparr>)" "cm_ok m"
      "cm_view m = (cm_view m1)(i \<mapsto> cen)" by auto
  have same: "w\<lparr>w_db := w_db w\<rparr> = w" by simp
  from m m1 stale db show ?thesis
    by (intro exI [of _ m]) (simp add: srv_joinCentroid_def cw_joinUpdate_def same)
qed

lemma upToDate_keeps_db: "db_after (isCentroidUpToDate api c) db = db"
  by (simp add: isCentroidUpToDate_def getLastCalculatedTimestamp_def getLastDocumentChangeTimestamp_def
      getMetadata_def p_getCentroidMetadata_def p_doesCentroidExist_def case_prod_unfold Let_def
      split: option.split)

section \<open>Properties of the server\<close>

text \<open>
  C11.  Joining an outdated centroid makes its scores current: for an existing centroid without a colon in
  its identifier that is not being updated and whose documents all load, the request answers that it
  recomputed, and from then on every document is scored against the accumulation of the centroid's documents
  (with the updater's repetitions), while every other centroid keeps its scores.  The Thrift codec returns
  the centroid it was given.
\<close>

theorem join_makes_scores_current:
  assumes "env_contract (cf_api cf) entries" and "plain c" and "cm_ok (w_scores w)"
    and "c \<notin> set (w_updating w)" and "sp_doesCentroidExist (cf_api cf) (w_db w) c"
    and "result_of (isCentroidUpToDate (cf_api cf) c) (w_db w) = Some (Inr False)"
    and "ids = listAllDocumentsForCentroidRaw (cf_api cf) (w_db w) c"
    and "\<forall>i \<in> set ids. loads_to (cf_api cf) (w_db w) i (f i)"
    and "cen = accumulated_centroid (cf_rnd cf) c
           (foldl (addDocument (cf_rnd cf)) new_accumulator (map f (updater_loads ids)))"
    and "thrift_de_centroid (cf_api cf) (thrift_ser_centroid (cf_api cf) (dto_of_centroid cen)) = Some (dto_of_centroid cen)"
  shows "let (answer, w') = run_state (srv_joinCentroid cf c ignoreMissing) w in
    answer = Ready (Inr True)
    \<and> result_of (sw_getDocumentSimilarity (cf_rnd cf) c doc) w'
        = Ready (Inr (centroid_score_document (cf_rnd cf) cen doc))
    \<and> (c' \<noteq> c \<longrightarrow> result_of (sw_getDocumentSimilarity (cf_rnd cf) c' doc) w'
        = result_of (sw_getDocumentSimilarity (cf_rnd cf) c' doc) w)"
proof -
  let ?api = "cf_api cf" and ?acc = "foldl (addDocument (cf_rnd cf)) new_accumulator (map f (updater_loads ids))"
  let ?t = "w_clock w (w_reads w)"
  let ?db = "db_after (finish_run ?api (cf_rnd cf) c ?t ?acc) (w_db w)"
  note run = env_contract.updater_run_loads [OF assms(1,2,5,7,8), of "cf_rnd cf" ?t]
  have load: "sp_loadCentroidUniqueOption ?api ?db c = Some (Some cen)"
    using env_contract.load_after_finish_run [OF assms(1,5,2)] assms(9,10) by simp
  from run_joinCentroid_recomputes [OF assms(3,4,6) upToDate_keeps_db run load] obtain m where
    m: "run_state (srv_joinCentroid cf c ignoreMissing) w =
        (Ready (Inr True), w\<lparr>w_db := ?db, w_scores := m, w_reads := w_reads w + 1\<rparr>)"
      "cm_ok m" "cm_view m = (cm_view (w_scores w))(c \<mapsto> cen)" by blast
  let ?w = "w\<lparr>w_db := ?db, w_scores := m, w_reads := w_reads w + 1\<rparr>"
  have score: "result_of (sw_getDocumentSimilarity (cf_rnd cf) i doc) w2 =
      Ready (case cm_view (w_scores w2) i of None \<Rightarrow> Inl ECentroidDoesNotExist
        | Some d \<Rightarrow> Inr (centroid_score_document (cf_rnd cf) d doc))" if "cm_ok (w_scores w2)" for i w2
    using run_getDocumentSimilarity [OF that, of "cf_rnd cf" i doc] by auto
  show ?thesis unfolding m(1) using score [of ?w] score [OF assms(3), of c'] m(2,3) by simp
qed

text \<open>The instance at which the witnesses run.\<close>

definition demo_config :: "memory config" where
  "demo_config = \<lparr>cf_api = log_env, cf_text = plain_env, cf_rnd = Num, cf_isStopword = (\<lambda>w lang. False)\<rparr>"

definition demo_world :: "memory \<Rightarrow> memory world" where
  "demo_world db = \<lparr>w_db = db, w_scores = cm_empty, w_stemmers = (\<lambda>lang. None), w_updating = [],
     w_triggered = [], w_clock = (\<lambda>n. of_nat n), w_reads = 0\<rparr>"

definition created :: memory where
  "created = fst (sp_createNewCentroid log_env [] ''c'')"

lemma created_centroid: "sp_doesCentroidExist log_env created ''c''"
  by (simp add: created_def log_catalog.exists_simps sp_createNewCentroid_def sp_saveCentroid_def
      log_catalog.rock_exists_eq log_catalog.store_put Let_def)

lemma created_members: "listAllDocumentsForCentroidRaw log_env created ''c'' = []"
proof -
  have "d \<notin> set (listAllDocumentsForCentroidRaw log_env created ''c'')" for d
    by (simp add: created_def log_catalog.members_listed log_catalog.catalog_of_mem sp_createNewCentroid_def
        sp_saveCentroid_def log_catalog.rock_exists_eq log_catalog.store_put Let_def key_eqs)
  then show ?thesis by (metis list.set_intros(1) neq_Nil_conv)
qed

lemma log_env_numbers: "string_to_u64 log_env s = of_unary s" "u64_to_string log_env n = unary n"
  by (simp_all add: log_env_def log_api_def)

text \<open>A centroid whose documents were changed, and which was never calculated.\<close>

definition changed :: memory where
  "changed = fst (sp_setCentroidMetadata log_env created ''c'' ''lastDocumentChange'' (unary 5))"

lemma changed_facts:
  "sp_doesCentroidExist log_env changed ''c''"
  "listAllDocumentsForCentroidRaw log_env changed ''c'' = []"
  "result_of (isCentroidUpToDate log_env ''c'') changed = Some (Inr False)"
proof -
  show "sp_doesCentroidExist log_env changed ''c''"
    using created_centroid by (simp add: changed_def log_catalog.setMetadata_keeps_existence)
  have "d \<in> set (listAllDocumentsForCentroidRaw log_env changed ''c'')
      \<longleftrightarrow> d \<in> set (listAllDocumentsForCentroidRaw log_env created ''c'')" for d
    by (simp add: changed_def log_catalog.members_listed log_catalog.simulate_setCentroidMetadata)
  then have "d \<notin> set (listAllDocumentsForCentroidRaw log_env changed ''c'')" for d
    by (simp add: created_members)
  then show "listAllDocumentsForCentroidRaw log_env changed ''c'' = []"
    by (metis list.set_intros(1) neq_Nil_conv)
  have "sp_getCentroidMetadata log_env changed ''c'' ''lastDocumentChange'' = Some (unary 5)"
    by (simp add: changed_def log_catalog.meta.get_set)
  moreover have "sp_getCentroidMetadata log_env changed ''c'' ''lastCalculated'' = None"
    by (simp add: changed_def log_catalog.meta.get_set_other)
      (simp add: created_def sp_getCentroidMetadata_def log_catalog.rock_get_eq sp_createNewCentroid_def
        sp_saveCentroid_def log_catalog.rock_exists_eq log_catalog.store_put Let_def key_forms)
  ultimately show "result_of (isCentroidUpToDate log_env ''c'') changed = Some (Inr False)"
    by (simp add: isCentroidUpToDate_def getLastCalculatedTimestamp_def getLastDocumentChangeTimestamp_def
        log_catalog.run_getMetadata log_env_numbers of_unary_unary)
qed

lemma empty_centroid_wire:
  "thrift_de_centroid log_env (thrift_ser_centroid log_env
     (dto_of_centroid (accumulated_centroid Num ''c'' new_accumulator)))
   = Some (dto_of_centroid (accumulated_centroid Num ''c'' new_accumulator))"
  by (simp add: log_env_def log_api_def accumulated_centroid_def getMagnitude_def new_accumulator_def
      d_of_nat_def dto_of_centroid_def dto_of_vector_def Let_def)

theorem join_makes_scores_current_witness:
  "result_of (srv_joinCentroid demo_config ''c'' False) (demo_world changed) = Ready (Inr True)"
  using join_makes_scores_current [of demo_config log_entries "''c''" "demo_world changed" "[]" _
      "accumulated_centroid Num ''c'' new_accumulator"] changed_facts log_catalog.env_contract_axioms
      empty_centroid_wire
  by (simp add: demo_config_def demo_world_def cm_ok_empty case_prod_unfold Let_def)

text \<open>
  The score worker is not told of deletions: after a centroid is deleted it is gone from the
  store, but every document keeps its score against it.
\<close>

theorem deleted_centroid_still_scores:
  assumes "env_contract (cf_api cf) entries" and "cm_ok (w_scores w)"
    and "sp_doesCentroidExist (cf_api cf) (w_db w) c"
  shows "let (answer, w') = run_state (srv_deleteCentroid cf c ignoreMissing) w in
    answer = Ready (Inr True)
    \<and> result_of (srv_debugGetFullCentroid cf c) w' = Ready (Inl ECentroidDoesNotExist)
    \<and> result_of (sw_getDocumentSimilarity (cf_rnd cf) c doc) w'
        = result_of (sw_getDocumentSimilarity (cf_rnd cf) c doc) w"
proof -
  note env = assms(1)
  have gone: "map_of (entries (fst (sp_deleteCentroid (cf_api cf) (w_db w) c))) (getCentroidKey c) = None"
    using assms(3) by (simp add: env_contract.store_deleteCentroid [OF env] env_contract.exists_simps [OF env])
  have answer: "snd (sp_deleteCentroid (cf_api cf) (w_db w) c) = Inr True"
    using assms(3) by (simp add: env_contract.result_deleteCentroid [OF env] env_contract.exists_simps [OF env])
  have load: "sp_loadCentroid (cf_api cf) (fst (sp_deleteCentroid (cf_api cf) (w_db w) c)) c = Some (Inl ECentroidDoesNotExist)"
    using gone by (simp add: sp_loadCentroid_def rocksdb_contract.rock_get_eq [OF env_contract.axioms(1) [OF env]])
  let ?w = "w\<lparr>w_db := fst (sp_deleteCentroid (cf_api cf) (w_db w) c)\<rparr>"
  have "result_of (sw_getDocumentSimilarity (cf_rnd cf) c doc) ?w
      = result_of (sw_getDocumentSimilarity (cf_rnd cf) c doc) w"
    using run_getDocumentSimilarity [of ?w "cf_rnd cf" c doc] run_getDocumentSimilarity [OF assms(2), of "cf_rnd cf" c doc]
      assms(2) by auto
  with load answer show ?thesis
    by (simp add: srv_deleteCentroid_def srv_debugGetFullCentroid_def p_deleteCentroid_def p_loadCentroid_def ignoring_def)
qed

theorem deleted_centroid_still_scores_witness:
  "result_of (srv_deleteCentroid demo_config ''c'' False) (demo_world created) = Ready (Inr True)"
  using deleted_centroid_still_scores [of demo_config log_entries "demo_world created" "''c''"]
    log_catalog.env_contract_axioms created_centroid
  by (simp add: demo_config_def demo_world_def cm_ok_empty case_prod_unfold Let_def)

text \<open>
  A new centroid has no score: after it is created, joining it recomputes nothing (without any
  change it counts as up to date), and every similarity request answers that it does not exist.
\<close>

theorem new_centroid_has_no_score:
  assumes "env_contract (cf_api cf) entries" and "plain c" and "cm_ok (w_scores w)"
    and "cm_view (w_scores w) c = None" and "\<not> sp_doesCentroidExist (cf_api cf) (w_db w) c"
    and "\<forall>n. sp_getCentroidMetadata (cf_api cf) (w_db w) c n = None"
  shows "let (answer, w1) = run_state (srv_createCentroid cf c ignoreExisting) w;
             (joined, w2) = run_state (srv_joinCentroid cf c ignoreMissing) w1 in
    answer = Ready (Inr True) \<and> sp_doesCentroidExist (cf_api cf) (w_db w2) c \<and> joined = Ready (Inr False)
    \<and> result_of (sw_getDocumentSimilarity (cf_rnd cf) c doc) w2 = Ready (Inl ECentroidDoesNotExist)"
proof -
  note env = assms(1)
  let ?db = "fst (sp_createNewCentroid (cf_api cf) (w_db w) c)"
  let ?w = "w\<lparr>w_db := ?db\<rparr>"
  have new: "snd (sp_createNewCentroid (cf_api cf) (w_db w) c) = Inr True"
    using assms(5) by (simp add: sp_createNewCentroid_def sp_doesCentroidExist_def)
  have stamps: "sp_getCentroidMetadata (cf_api cf) ?db c n = None" for n
    using assms(2,5,6)
    by (auto simp: sp_createNewCentroid_def sp_saveCentroid_def sp_getCentroidMetadata_def Let_def
        sp_doesCentroidExist_def rocksdb_contract.rock_get_eq [OF env_contract.axioms(1) [OF env]]
        env_contract.store_put [OF env] key_eqs)
  have exists: "sp_doesCentroidExist (cf_api cf) ?db c"
    using assms(5) by (simp add: sp_createNewCentroid_def sp_doesCentroidExist_def [symmetric] sp_saveCentroid_def
        Let_def env_contract.exists_simps [OF env] env_contract.store_put [OF env])
  have upToDate: "run_state (isCentroidUpToDate (cf_api cf) c) ?db = (Some (Inr True), ?db)"
    using env_contract.upToDate_without_stamps [OF env stamps stamps] exists upToDate_keeps_db [of "cf_api cf" c ?db]
    by (simp add: prod_eq_iff)
  have "result_of (sw_getDocumentSimilarity (cf_rnd cf) c doc) ?w = Ready (Inl ECentroidDoesNotExist)"
    using run_getDocumentSimilarity [of ?w "cf_rnd cf" c doc] assms(3,4) by auto
  with new exists upToDate show ?thesis
    by (simp add: srv_createCentroid_def srv_joinCentroid_def p_createNewCentroid_def ignoring_def)
qed

theorem new_centroid_has_no_score_witness:
  "result_of (srv_createCentroid demo_config ''c'' False) (demo_world []) = Ready (Inr True)"
proof -
  have "\<not> sp_doesCentroidExist log_env [] ''c''" "sp_getCentroidMetadata log_env [] ''c'' n = None" for n
    by (simp_all add: log_catalog.exists_simps sp_getCentroidMetadata_def log_catalog.rock_get_eq)
  then show ?thesis
    using new_centroid_has_no_score [of demo_config log_entries "''c''" "demo_world []"]
      log_catalog.env_contract_axioms
    by (simp add: demo_config_def demo_world_def cm_ok_empty cm_view_empty case_prod_unfold Let_def)
qed

text \<open>
  C31.  An exception in the updater disables its centroid: the join that ran it is never answered, the
  centroid stays marked as being updated, and in every state with that mark an update does nothing and
  a join is not answered either.
\<close>

theorem thrown_update_blocks_centroid:
  assumes "updater_run (cf_api cf) (cf_rnd cf) (w_clock w (w_reads w)) i (w_db w) = Some (None, db')"
    and "i \<notin> set (w_updating w)"
  shows "let (answer, w') = run_state (cw_joinUpdate cf i) w in
    answer = Pending \<and> i \<in> set (w_updating w')
    \<and> (i \<in> set (w_updating later) \<longrightarrow> run_state (cw_update cf i) later = (Ready (Inr False), later)
         \<and> run_state (cw_joinUpdate cf i) later = (Pending, later))"
  using assms by (simp add: cw_joinUpdate_def cw_update_def cw_mark_def cw_run_def)

text \<open>A centroid with one document, whose stored bytes cannot be decoded.\<close>

definition broken :: memory where
  "broken = fst (sp_addDocumentToCentroid log_env (fst (rock_put log_env created (getDocumentKey ''d'') [])) ''c'' ''d'')"

lemma singleton_list:
  assumes "set xs = {a}" and "distinct xs"
  shows "xs = [a]"
proof (cases xs)
  case (Cons y ys)
  with assms have "y = a" and "set ys \<subseteq> {a}" and "a \<notin> set ys" by auto
  then have "set ys = {}" using subset_singletonD by fastforce
  with Cons \<open>y = a\<close> show ?thesis by simp
qed (use assms in simp)

lemma created_documents: "map_of (log_entries created) (getDocumentKey d) = None"
  by (simp add: created_def log_catalog.store_put sp_createNewCentroid_def sp_saveCentroid_def Let_def
      log_catalog.rock_exists_eq key_forms)

lemma broken_facts:
  "sp_doesCentroidExist log_env broken ''c''"
  "listAllDocumentsForCentroidRaw log_env broken ''c'' = [''d'']"
  "sp_loadDocument log_env broken ''d'' = None"
proof -
  let ?db = "fst (rock_put log_env created (getDocumentKey ''d'') [])"
  have cat: "catalog_of (map_of (log_entries ?db)) = catalog_of (map_of (log_entries created))\<lparr>cat_docs := {''d''}\<rparr>"
    using created_documents by (auto simp: log_catalog.store_put catalog_of_def key_forms)
  have add: "cat_request (catalog_of (map_of (log_entries ?db))) (AddDocumentToCentroid ''c'' ''d'')
    = (catalog_of (map_of (log_entries broken)), snd (sp_addDocumentToCentroid log_env ?db ''c'' ''d''))"
    using log_catalog.simulate_request [of "AddDocumentToCentroid ''c'' ''d''" ?db] by (simp add: broken_def)
  have c: "''c'' \<in> cat_cents (catalog_of (map_of (log_entries created)))"
    using created_centroid by (simp add: log_catalog.exists_listed)
  have none: "(''c'', x) \<notin> cat_members (catalog_of (map_of (log_entries created)))" for x
    using created_members log_catalog.members_listed [of "''c''" x created] by simp
  let ?L = "catalog_of (map_of (log_entries created))"
  from add c none have result: "catalog_of (map_of (log_entries broken)) = ?L\<lparr>cat_docs := {''d''},
      cat_members := insert (''c'', ''d'') (cat_members ?L), cat_refs := insert (''d'', ''c'') (cat_refs ?L)\<rparr>"
    unfolding cat by simp
  have after: "''c'' \<in> cat_cents (catalog_of (map_of (log_entries broken)))"
      "(''c'', x) \<in> cat_members (catalog_of (map_of (log_entries broken))) \<longleftrightarrow> x = ''d''" for x
    using c none by (simp_all add: result)
  show "sp_doesCentroidExist log_env broken ''c''" using after(1) by (simp add: log_catalog.exists_listed)
  have "set (listAllDocumentsForCentroidRaw log_env broken ''c'') = {''d''}"
  proof (rule set_eqI)
    fix x
    have "x \<in> set (listAllDocumentsForCentroidRaw log_env broken ''c'')
        \<longleftrightarrow> (''c'', x) \<in> cat_members (catalog_of (map_of (log_entries broken)))"
      by (rule log_catalog.members_listed) simp
    then show "x \<in> set (listAllDocumentsForCentroidRaw log_env broken ''c'') \<longleftrightarrow> x \<in> {''d''}"
      unfolding after(2) by simp
  qed
  moreover have "distinct (listAllDocumentsForCentroidRaw log_env broken ''c'')"
    using log_catalog.sorted_members [of "''c''" broken] by (simp add: strict_sorted_iff)
  ultimately show "listAllDocumentsForCentroidRaw log_env broken ''c'' = [''d'']"
    by (rule singleton_list)
  have apart: "getDocumentKey ''d'' \<noteq> getCentroidDocumentKey ''c'' ''d''"
      "getDocumentKey ''d'' \<noteq> getDocumentCentroidKey ''d'' ''c''" by (simp_all add: key_forms)
  have "map_of (log_entries (fst (sp_addDocumentToCentroid log_env db ''c'' ''d''))) (getDocumentKey ''d'')
      = map_of (log_entries db) (getDocumentKey ''d'')" for db
    using apart by (simp add: sp_addDocumentToCentroid_def Let_def log_catalog.store_put)
  then have "map_of (log_entries broken) (getDocumentKey ''d'') = Some []"
    by (simp add: broken_def log_catalog.store_put)
  then show "sp_loadDocument log_env broken ''d'' = None"
    by (simp add: sp_loadDocument_def log_catalog.rock_get_eq binaryDeserialize_document_def)
      (simp add: log_env_def log_api_def simple_de_doc_def)
qed

lemma broken_update_throws: "updater_run log_env Num t ''c'' broken = Some (None, broken)"
proof -
  have ids: "ids_under (log_entries broken) ''c__documents'' = [''d'']"
    using broken_facts(2) by (simp add: log_catalog.centroid_documents_under)
  have first: "sp_listCentroidDocumentRangeFromOffsetOption log_env broken ''c'' 0 500 = Some [''d'']"
    by (simp add: sp_listCentroidDocumentRangeFromOffsetOption_def log_catalog.centroid_documents_under ids)
  have load: "run_state (load_batch log_env (batch_ids [''d''] 0)) broken = (None, broken)"
    using broken_facts(3) by (simp add: batch_ids_def load_option_def p_loadDocument_def)
  have page: "run_state (process_page log_env Num ''c'' [''d''] 0 acc) broken = (None, broken)" for acc
    by (subst process_page.simps) (simp add: load)
  have "page_loop log_env Num ''c'' [''d''] acc broken = Some (Threw, broken)" for acc
    by (subst page_loop.simps)
      (simp add: p_listCentroidDocumentRangeFromDocumentIdOption_def page Let_def)
  with first broken_facts(1) show ?thesis
    by (simp add: updater_run_def p_doesCentroidExist_def p_listCentroidDocumentRangeFromOffsetOption_def)
qed

theorem thrown_update_blocks_centroid_witness:
  "result_of (cw_joinUpdate demo_config ''c'') (demo_world broken) = Pending"
  using thrown_update_blocks_centroid [of demo_config "demo_world broken" "''c''" broken] broken_update_throws
  by (simp add: demo_config_def demo_world_def case_prod_unfold Let_def)

text \<open>
  The flag \<open>ignoreMissingCentroid\<close> of the membership requests is not read: with or without it,
  a request for a centroid that does not exist answers \<open>ECentroidDoesNotExist\<close> and changes nothing.
\<close>

theorem missing_centroid_flag_is_ignored:
  assumes "\<not> sp_doesCentroidExist (cf_api cf) (w_db w) (ar_centroidId request)" and "ar_documentIds request \<noteq> []"
  shows "run_state (srv_addDocumentsToCentroid cf request) w = (Ready (Inl ECentroidDoesNotExist), w)"
proof -
  let ?one = "\<lambda>d. srv_addOneDocumentToCentroid cf (ar_centroidId request) d
    (ar_ignoreMissingDocument request) (ar_ignoreAlreadyInCentroid request)"
  have same: "w\<lparr>w_db := w_db w\<rparr> = w" by simp
  have one: "run_state (?one d) w = (Ready (Inl ECentroidDoesNotExist), w)" for d
    using assms(1) by (simp add: srv_addOneDocumentToCentroid_def p_addDocumentToCentroid_def
        sp_addDocumentToCentroid_def srv_noteChange_def ignoring_def same)
  have all: "run_state (collect (map ?one ds)) w = (Ready (map (\<lambda>d. Inl ECentroidDoesNotExist) ds), w)" for ds
    by (induction ds) (simp_all add: one)
  from assms(2) obtain d ds where "ar_documentIds request = d # ds" by (cases "ar_documentIds request") auto
  then show ?thesis using all [of "d # ds"] by (simp add: srv_addDocumentsToCentroid_def)
qed

theorem missing_centroid_flag_is_ignored_witness:
  "result_of (srv_addDocumentsToCentroid demo_config \<lparr>ar_centroidId = ''c'', ar_documentIds = [''d''],
     ar_ignoreMissingDocument = True, ar_ignoreMissingCentroid = True, ar_ignoreAlreadyInCentroid = True\<rparr>)
     (demo_world []) = Ready (Inl ECentroidDoesNotExist)"
  using missing_centroid_flag_is_ignored [of demo_config "demo_world []"]
  by (simp add: demo_config_def demo_world_def log_catalog.exists_simps)

section \<open>The server refines the catalog\<close>

context env_contract
begin

abbreviation catalog_at :: "'db \<Rightarrow> catalog" where
  "catalog_at db \<equiv> catalog_of (map_of (entries db))"

lemma catalog_after_stamp:
  "plain c \<Longrightarrow> catalog_at (db_after (setLastDocumentChangeTimestamp api c t) db) = catalog_at db"
  by (simp add: setLastDocumentChangeTimestamp_def run_setMetadata simulate_setCentroidMetadata)

end

text \<open>
  What the requests to add share: the store's answer decides the catalog, a success queues an update.
\<close>

lemma run_addOne:
  fixes cf :: "'db config"
  assumes env: "env_contract (cf_api cf) entries" and plain: "plain c" "plain d"
  shows "let L = catalog_of (map_of (entries (w_db w)));
             result = snd (cat_request L (AddDocumentToCentroid c d)) in
    \<exists>w'. run_state (srv_addOneDocumentToCentroid cf c d ignoreMissing ignoreAlready) w =
        (Ready (ignoring ignoreAlready EDocumentAlreadyInCentroid (ignoring ignoreMissing EDocumentDoesNotExist result)), w')
      \<and> catalog_of (map_of (entries (w_db w'))) = fst (cat_request L (AddDocumentToCentroid c d))
      \<and> w_triggered w' = (if hasException result then [] else [c]) @ w_triggered w
      \<and> w_scores w' = w_scores w"
proof -
  let ?r = "AddDocumentToCentroid c d"
  have sim: "cat_request (catalog_of (map_of (entries (w_db w)))) ?r =
      (catalog_of (map_of (entries (fst (sp_addDocumentToCentroid (cf_api cf) (w_db w) c d)))),
       snd (sp_addDocumentToCentroid (cf_api cf) (w_db w) c d))"
    using env_contract.simulate_request [OF env, of ?r "w_db w"] plain by simp
  show ?thesis
    unfolding Let_def sim fst_conv snd_conv
    using env_contract.catalog_after_stamp [OF env plain(1)]
    by (simp add: srv_addOneDocumentToCentroid_def p_addDocumentToCentroid_def srv_noteChange_def
        cw_triggerUpdate_def)
qed

lemma run_addAll:
  fixes cf :: "'db config"
  assumes env: "env_contract (cf_api cf) entries" and "plain c" and "list_all plain ids"
  shows "let L = catalog_of (map_of (entries (w_db w)));
             (L', results) = cat_requests L (map (AddDocumentToCentroid c) ids) in
    \<exists>w'. run_state (collect (map (\<lambda>d. srv_addOneDocumentToCentroid cf c d ignoreMissing ignoreAlready) ids)) w =
        (Ready (map (\<lambda>r. ignoring ignoreAlready EDocumentAlreadyInCentroid
            (ignoring ignoreMissing EDocumentDoesNotExist r)) results), w')
      \<and> catalog_of (map_of (entries (w_db w'))) = L'
      \<and> w_triggered w' = replicate (length (filter (\<lambda>r. \<not> hasException r) results)) c @ w_triggered w
      \<and> w_scores w' = w_scores w"
  using assms(3)
proof (induction ids arbitrary: w)
  case (Cons d ids)
  let ?L = "catalog_of (map_of (entries (w_db w)))"
  have "plain d" "list_all plain ids" using Cons.prems by simp_all
  obtain L1 res where one: "cat_request ?L (AddDocumentToCentroid c d) = (L1, res)" by fastforce
  with run_addOne [OF env assms(2) \<open>plain d\<close>, of w ignoreMissing ignoreAlready] obtain w1 where
    w1: "run_state (srv_addOneDocumentToCentroid cf c d ignoreMissing ignoreAlready) w =
        (Ready (ignoring ignoreAlready EDocumentAlreadyInCentroid (ignoring ignoreMissing EDocumentDoesNotExist res)), w1)"
      "catalog_of (map_of (entries (w_db w1))) = L1"
      "w_triggered w1 = (if hasException res then [] else [c]) @ w_triggered w" "w_scores w1 = w_scores w"
    by (auto simp: Let_def)
  obtain L2 ress where rest: "cat_requests L1 (map (AddDocumentToCentroid c) ids) = (L2, ress)" by fastforce
  with Cons.IH [OF \<open>list_all plain ids\<close>, of w1] w1(2) obtain w2 where
    w2: "run_state (collect (map (\<lambda>d. srv_addOneDocumentToCentroid cf c d ignoreMissing ignoreAlready) ids)) w1 =
        (Ready (map (\<lambda>r. ignoring ignoreAlready EDocumentAlreadyInCentroid
            (ignoring ignoreMissing EDocumentDoesNotExist r)) ress), w2)"
      "catalog_of (map_of (entries (w_db w2))) = L2"
      "w_triggered w2 = replicate (length (filter (\<lambda>r. \<not> hasException r) ress)) c @ w_triggered w1"
      "w_scores w2 = w_scores w1"
    by (auto simp: Let_def)
  have "replicate n c @ (if hasException res then [] else [c]) @ w_triggered w
      = replicate (if hasException res then n else Suc n) c @ w_triggered w" for n
    by (simp add: replicate_app_Cons_same)
  with one rest w1 w2 show ?case by (simp add: Let_def)
qed simp

text \<open>
  A request to add several documents refines the catalog operations run one after the other: an
  error does not stop it.  Its answer is the first error that the flags do not hide, although the other
  documents were added; otherwise it says for each document whether it was added.  Every addition
  queues one update of the centroid.
\<close>

theorem add_request_runs_to_the_end:
  assumes "env_contract (cf_api cf) entries" and "plain (ar_centroidId request)"
    and "list_all plain (ar_documentIds request)"
  shows "let c = ar_centroidId request;
             (L', results) = cat_requests (catalog_of (map_of (entries (w_db w))))
                (map (AddDocumentToCentroid c) (ar_documentIds request));
             visible = map (\<lambda>r. ignoring (ar_ignoreAlreadyInCentroid request) EDocumentAlreadyInCentroid
                (ignoring (ar_ignoreMissingDocument request) EDocumentDoesNotExist r)) results;
             (answer, w') = run_state (srv_addDocumentsToCentroid cf request) w
    in catalog_of (map_of (entries (w_db w'))) = L'
      \<and> answer = Ready (map_sum id (\<lambda>added. \<lparr>as_centroidId = c, as_documentIds = ar_documentIds request,
            as_added = added\<rparr>) (successes visible))
      \<and> w_triggered w' = replicate (length (filter (\<lambda>r. \<not> hasException r) results)) c @ w_triggered w"
proof -
  obtain L' results where cat: "cat_requests (catalog_of (map_of (entries (w_db w))))
      (map (AddDocumentToCentroid (ar_centroidId request)) (ar_documentIds request)) = (L', results)" by fastforce
  with run_addAll [OF assms, of w "ar_ignoreMissingDocument request" "ar_ignoreAlreadyInCentroid request"]
  show ?thesis by (auto simp: Let_def srv_addDocumentsToCentroid_def)
qed

theorem add_request_runs_to_the_end_witness:
  "let (answer, w') = run_state (srv_addDocumentsToCentroid demo_config \<lparr>ar_centroidId = ''c'',
       ar_documentIds = [''x'', ''d''], ar_ignoreMissingDocument = False, ar_ignoreMissingCentroid = False,
       ar_ignoreAlreadyInCentroid = False\<rparr>)
     (demo_world (fst (run_requests log_env [] [CreateNewCentroid ''c'', SaveNewDocument (sample_document ''d'')]))) in
   answer = Ready (Inl EDocumentDoesNotExist) \<and> w_triggered w' = [''c'']"
proof -
  let ?db = "fst (run_requests log_env [] [CreateNewCentroid ''c'', SaveNewDocument (sample_document ''d'')])"
  have "catalog_of (map_of (log_entries ?db)) = \<lparr>cat_docs = {''d''}, cat_cents = {''c''}, cat_members = {}, cat_refs = {}\<rparr>"
    by (subst log_catalog.catalog_after_requests) (simp_all add: empty_catalog_def sample_document_def)
  then show ?thesis
    using add_request_runs_to_the_end [of demo_config log_entries "\<lparr>ar_centroidId = ''c'',
       ar_documentIds = [''x'', ''d''], ar_ignoreMissingDocument = False, ar_ignoreMissingCentroid = False,
       ar_ignoreAlreadyInCentroid = False\<rparr>" "demo_world ?db"] log_catalog.env_contract_axioms
    by (simp add: demo_config_def demo_world_def Let_def case_prod_unfold ignoring_def del: run_requests.simps)
qed

section \<open>Several scores at once\<close>

lemma collect_scores:
  assumes "cm_ok (w_scores w)"
  shows "\<exists>m. run_state (collect (map (\<lambda>i. sw_getDocumentSimilarity rnd i doc) ids)) w =
      (Ready (map (\<lambda>i. case cm_view (w_scores w) i of None \<Rightarrow> Inl ECentroidDoesNotExist
         | Some c \<Rightarrow> Inr (centroid_score_document rnd c doc)) ids), w\<lparr>w_scores := m\<rparr>)
    \<and> quiet w m"
  using assms
proof (induction ids arbitrary: w)
  case Nil
  then show ?case by (intro exI [of _ "w_scores w"]) (simp add: quiet_def)
next
  case (Cons i ids)
  from run_getDocumentSimilarity [OF Cons.prems, of rnd i doc] obtain m1 where
    m1: "run_state (sw_getDocumentSimilarity rnd i doc) w =
      (Ready (case cm_view (w_scores w) i of None \<Rightarrow> Inl ECentroidDoesNotExist
         | Some c \<Rightarrow> Inr (centroid_score_document rnd c doc)), w\<lparr>w_scores := m1\<rparr>)" "quiet w m1" by blast
  from m1(2) have "cm_ok (w_scores (w\<lparr>w_scores := m1\<rparr>))" by (simp add: quiet_def)
  from Cons.IH [OF this] m1(2) obtain m2 where
    m2: "run_state (collect (map (\<lambda>i. sw_getDocumentSimilarity rnd i doc) ids)) (w\<lparr>w_scores := m1\<rparr>) =
      (Ready (map (\<lambda>i. case cm_view (w_scores w) i of None \<Rightarrow> Inl ECentroidDoesNotExist
         | Some c \<Rightarrow> Inr (centroid_score_document rnd c doc)) ids), w\<lparr>w_scores := m2\<rparr>)" "quiet w m2"
    by (auto simp: quiet_def)
  show ?case by (intro exI [of _ m2]) (simp add: m1(1) m2)
qed

lemma fill_scores_all:
  "kv_sorted acc \<Longrightarrow> \<exists>m. fill_scores ids (map (\<lambda>i. Inr (f i)) ids) acc = Inr m \<and> kv_sorted m
     \<and> (\<forall>i. map_of m i = (case map_of acc i of Some v \<Rightarrow> Some v | None \<Rightarrow> if i \<in> set ids then Some (f i) else None))"
proof (induction ids arbitrary: acc)
  case (Cons i ids)
  from Cons.IH [OF kv_sorted_insert [OF Cons.prems, of i "f i"]] obtain m where
    m: "fill_scores ids (map (\<lambda>i. Inr (f i)) ids) (kv_insert i (f i) acc) = Inr m" "kv_sorted m"
      "\<And>j. map_of m j = (case map_of (kv_insert i (f i) acc) j of Some v \<Rightarrow> Some v
         | None \<Rightarrow> if j \<in> set ids then Some (f j) else None)" by blast
  have "map_of m j = (case map_of acc j of Some v \<Rightarrow> Some v
      | None \<Rightarrow> if j \<in> set (i # ids) then Some (f j) else None)" for j
    using m(3) [of j] Cons.prems by (auto simp: map_of_kv_insert split: option.splits if_splits)
  with m(1,2) show ?case by auto
qed (simp split: option.split)

lemma fill_scores_missing:
  "i \<in> set ids \<Longrightarrow> load i = None \<Longrightarrow>
   fill_scores ids (map (\<lambda>i. case load i of None \<Rightarrow> Inl e | Some c \<Rightarrow> Inr (g c)) ids) acc = Inl e"
  by (induction ids arbitrary: acc) (auto split: option.split)

text \<open>
  Scoring a document against several centroids: the answer is the map from each of them to its
  score (in key order, once each), or \<open>ECentroidDoesNotExist\<close> as soon as one of them is not loaded; a
  document that does not exist is reported first.
\<close>

theorem multi_similarity_scores_each:
  fixes cf :: "'db config"
  assumes "cm_ok (w_scores w)"
  shows "case sp_loadDocument (cf_api cf) (w_db w) docId of
      None \<Rightarrow> result_of (srv_multiGetDocumentSimilarity cf ids docId) w = Thrown
    | Some (Inl e) \<Rightarrow> result_of (srv_multiGetDocumentSimilarity cf ids docId) w = Ready (Inl e)
    | Some (Inr doc) \<Rightarrow>
        if \<exists>i \<in> set ids. cm_view (w_scores w) i = None
        then result_of (srv_multiGetDocumentSimilarity cf ids docId) w = Ready (Inl ECentroidDoesNotExist)
        else \<exists>scores. result_of (srv_multiGetDocumentSimilarity cf ids docId) w = Ready (Inr scores) \<and> kv_sorted scores
          \<and> (\<forall>i. map_of scores i = (if i \<in> set ids
               then map_option (\<lambda>c. centroid_score_document (cf_rnd cf) c doc) (cm_view (w_scores w) i) else None))"
proof -
  let ?doc = "sp_loadDocument (cf_api cf) (w_db w) docId" and ?view = "cm_view (w_scores w)"
  have same: "w\<lparr>w_db := w_db w\<rparr> = w" by simp
  show ?thesis
  proof (cases ?doc)
    case (Some res)
    show ?thesis
    proof (cases res)
      case (Inr doc)
      let ?score = "\<lambda>c. centroid_score_document (cf_rnd cf) c doc"
      have answer: "result_of (srv_multiGetDocumentSimilarity cf ids docId) w =
          Ready (fill_scores ids (map (\<lambda>i. case ?view i of None \<Rightarrow> Inl ECentroidDoesNotExist
            | Some c \<Rightarrow> Inr (?score c)) ids) [])"
        using collect_scores [OF assms, of "cf_rnd cf" doc ids] Some Inr
        by (auto simp: srv_multiGetDocumentSimilarity_def p_loadDocument_def
            srv_internalMultiGetDocumentSimilarity_def same)
      show ?thesis
      proof (cases "\<exists>i \<in> set ids. ?view i = None")
        case True
        with answer Some Inr show ?thesis by (auto simp: fill_scores_missing)
      next
        case False
        then have "map (\<lambda>i. case ?view i of None \<Rightarrow> Inl ECentroidDoesNotExist | Some c \<Rightarrow> Inr (?score c)) ids
            = map (\<lambda>i. Inr (?score (the (?view i)))) ids" by auto
        with fill_scores_all [of "[]" ids "\<lambda>i. ?score (the (?view i))"] obtain scores where
          s: "result_of (srv_multiGetDocumentSimilarity cf ids docId) w = Ready (Inr scores)" "kv_sorted scores"
            "\<And>i. map_of scores i = (if i \<in> set ids then Some (?score (the (?view i))) else None)"
          using answer by auto
        have "map_of scores i = (if i \<in> set ids then map_option ?score (?view i) else None)" for i
          using s(3) [of i] False by (cases "?view i") auto
        with s(1,2) False Some Inr show ?thesis by auto
      qed
    qed (simp add: Some srv_multiGetDocumentSimilarity_def p_loadDocument_def)
  qed (simp add: srv_multiGetDocumentSimilarity_def p_loadDocument_def)
qed

theorem multi_similarity_scores_each_witness:
  "result_of (srv_multiGetDocumentSimilarity demo_config [''c''] ''d'') (demo_world created) = Ready (Inl EDocumentDoesNotExist)"
proof -
  have "sp_loadDocument log_env created ''d'' = Some (Inl EDocumentDoesNotExist)"
    using created_documents [of "''d''"] by (simp add: sp_loadDocument_def log_catalog.rock_get_eq)
  then show ?thesis
    using multi_similarity_scores_each [where cf = demo_config and w = "demo_world created" and docId = "''d''" and ids = "[''c'']"]
    by (simp add: demo_config_def demo_world_def cm_ok_empty)
qed

section \<open>Starting the server\<close>

lemma run_load_all:
  assumes "cm_ok (w_scores w)" and "\<forall>i \<in> set ids. sp_loadCentroidUniqueOption api (w_db w) i \<noteq> None"
  shows "\<exists>m. run_state (sw_load_all api ids) w = (Ready (), w\<lparr>w_scores := m\<rparr>) \<and> cm_ok m
    \<and> cm_view m = (\<lambda>i. if i \<in> set ids \<and> (\<exists>c. sp_loadCentroidUniqueOption api (w_db w) i = Some (Some c))
        then the (sp_loadCentroidUniqueOption api (w_db w) i) else cm_view (w_scores w) i)"
  using assms
proof (induction ids arbitrary: w)
  case Nil
  then show ?case by (intro exI [of _ "w_scores w"]) simp
next
  case (Cons i ids)
  let ?load = "sp_loadCentroidUniqueOption api (w_db w)"
  have same: "w\<lparr>w_db := w_db w\<rparr> = w" by simp
  from Cons.prems obtain r where r: "?load i = Some r" by auto
  obtain m1 where m1: "run_state (case r of Some c \<Rightarrow> sw_insertOrUpdate i c | None \<Rightarrow> ready ()) w
      = (Ready (), w\<lparr>w_scores := m1\<rparr>)" "cm_ok m1"
      "cm_view m1 = (case r of Some c \<Rightarrow> (cm_view (w_scores w))(i \<mapsto> c) | None \<Rightarrow> cm_view (w_scores w))"
  proof (cases r)
    case None
    with that [of "w_scores w"] Cons.prems(1) show ?thesis by simp
  next
    case (Some c)
    from run_insertOrUpdate [OF Cons.prems(1), of i c] that show ?thesis by (auto simp: Some)
  qed
  let ?w = "w\<lparr>w_scores := m1\<rparr>"
  have "cm_ok (w_scores ?w)" "\<forall>i \<in> set ids. sp_loadCentroidUniqueOption api (w_db ?w) i \<noteq> None"
    using m1(2) Cons.prems(2) by simp_all
  from Cons.IH [OF this] obtain m2 where
    m2: "run_state (sw_load_all api ids) ?w = (Ready (), w\<lparr>w_scores := m2\<rparr>)" "cm_ok m2"
      "cm_view m2 = (\<lambda>i. if i \<in> set ids \<and> (\<exists>c. ?load i = Some (Some c)) then the (?load i) else cm_view m1 i)"
    by (auto cong: if_cong)
  have "run_state (sw_load_all api (i # ids)) w = (Ready (), w\<lparr>w_scores := m2\<rparr>)"
    using r m1(1) m2(1) by (cases r) (simp_all add: p_loadCentroidUniqueOption_def same)
  moreover have "cm_view m2 = (\<lambda>j. if j \<in> set (i # ids) \<and> (\<exists>c. ?load j = Some (Some c))
      then the (?load j) else cm_view (w_scores w) j)"
    using r by (cases r) (auto simp: m2(3) m1(3) fun_eq_iff)
  ultimately show ?case using m2(2) by blast
qed

lemma run_initialize:
  assumes "env_contract (cf_api cf) entries" and "w_scores w = cm_empty"
    and "\<forall>i. sp_loadCentroidUniqueOption (cf_api cf) (w_db w) i \<noteq> None"
  shows "\<exists>m. run_state (srv_initialize cf) w = (Ready (), w\<lparr>w_scores := m\<rparr>) \<and> cm_ok m
    \<and> (\<forall>i. Some (cm_view m i) = sp_loadCentroidUniqueOption (cf_api cf) (w_db w) i)"
proof -
  let ?load = "sp_loadCentroidUniqueOption (cf_api cf) (w_db w)"
  let ?ids = "sp_listAllCentroids (cf_api cf) (w_db w)"
  have same: "w\<lparr>w_db := w_db w\<rparr> = w" by simp
  have listed: "i \<in> set ?ids" if "?load i = Some (Some c)" for i c
  proof -
    have "sp_doesCentroidExist (cf_api cf) (w_db w) i"
      using that by (auto simp: sp_loadCentroidUniqueOption_def env_contract.exists_simps [OF assms(1)]
          rocksdb_contract.rock_get_eq [OF env_contract.axioms(1) [OF assms(1)]] split: option.splits)
    then show ?thesis by (simp add: env_contract.documents_listed(4) [OF assms(1)])
  qed
  have ok: "cm_ok (w_scores w)" and empty: "cm_view (w_scores w) i = None" for i
    by (simp_all add: assms(2) cm_ok_empty cm_view_empty)
  have "\<forall>i \<in> set ?ids. ?load i \<noteq> None" using assms(3) by simp
  from run_load_all [OF ok this] obtain m where
    m: "run_state (sw_load_all (cf_api cf) ?ids) w = (Ready (), w\<lparr>w_scores := m\<rparr>)" "cm_ok m"
      "cm_view m = (\<lambda>i. if i \<in> set ?ids \<and> (\<exists>c. ?load i = Some (Some c)) then the (?load i) else cm_view (w_scores w) i)"
    by blast
  have "Some (cm_view m i) = ?load i" for i
  proof -
    from assms(3) obtain r where "?load i = Some r" by blast
    then show ?thesis using listed [of i] by (cases r) (simp_all add: m(3) empty)
  qed
  with m(1,2) show ?thesis
    by (intro exI [of _ m]) (simp add: srv_initialize_def sw_initialize_def p_listAllCentroids_def same)
qed

text \<open>
  After a start, the score worker holds exactly the centroids of the store, each as it is stored
  (provided that they decode).
\<close>

theorem initialize_loads_the_store:
  assumes "env_contract (cf_api cf) entries" and "w_scores w = cm_empty"
    and "\<forall>i. sp_loadCentroidUniqueOption (cf_api cf) (w_db w) i \<noteq> None"
  shows "\<exists>w'. run_state (srv_initialize cf) w = (Ready (), w') \<and> w_db w' = w_db w \<and> cm_ok (w_scores w')
    \<and> (\<forall>i. Some (cm_view (w_scores w') i) = sp_loadCentroidUniqueOption (cf_api cf) (w_db w) i)"
  using run_initialize [OF assms] by auto

theorem initialize_loads_the_store_witness:
  "\<exists>w'. run_state (srv_initialize demo_config) (demo_world created) = (Ready (), w') \<and> w_db w' = created"
proof -
  have "sp_loadCentroidUniqueOption log_env created i \<noteq> None" for i
    by (simp add: sp_loadCentroidUniqueOption_def binaryDeserialize_centroid_def split: option.split)
      (simp add: log_env_def log_api_def)
  then show ?thesis
    using initialize_loads_the_store [of demo_config log_entries "demo_world created"] log_catalog.env_contract_axioms
    by (auto simp: demo_config_def demo_world_def)
qed

section \<open>A change makes its centroid outdated\<close>

text \<open>
  After a document is added, an update of the centroid is queued, and the centroid counts as
  outdated unless it has been calculated at or after the second of the change.
\<close>

theorem addition_outdates_centroid:
  assumes "env_contract (cf_api cf) entries" and "plain c" and "plain d"
    and "snd (sp_addDocumentToCentroid (cf_api cf) (w_db w) c d) = Inr True"
  shows "let (answer, w') = run_state (srv_addOneDocumentToCentroid cf c d ignoreMissing ignoreAlready) w in
    answer = Ready (Inr True) \<and> w_triggered w' = c # w_triggered w
    \<and> result_of (isCentroidUpToDate (cf_api cf) c) (w_db w') =
        (case sp_getCentroidMetadata (cf_api cf) (w_db w) c ''lastCalculated'' of
           None \<Rightarrow> Some (Inr False)
         | Some s \<Rightarrow> map_option (\<lambda>t. Inr (w_clock w (w_reads w) \<le> t)) (string_to_u64 (cf_api cf) s))"
proof -
  note env = assms(1)
  let ?api = "cf_api cf" and ?db = "fst (sp_addDocumentToCentroid (cf_api cf) (w_db w) c d)"
  let ?now = "w_clock w (w_reads w)"
  let ?db2 = "db_after (setLastDocumentChangeTimestamp ?api c ?now) ?db"
  have calc: "sp_getCentroidMetadata ?api ?db c ''lastCalculated'' = sp_getCentroidMetadata ?api (w_db w) c ''lastCalculated''"
    using assms(2,3)
    by (simp add: sp_getCentroidMetadata_def sp_addDocumentToCentroid_def Let_def
        rocksdb_contract.rock_get_eq [OF env_contract.axioms(1) [OF env]] env_contract.store_put [OF env] key_eqs)
  have db2: "?db2 = fst (sp_setCentroidMetadata ?api ?db c ''lastDocumentChange'' (u64_to_string ?api ?now))"
    by (simp add: setLastDocumentChangeTimestamp_def env_contract.run_setMetadata [OF env])
  have stamps: "sp_getCentroidMetadata ?api ?db2 c ''lastDocumentChange'' = Some (u64_to_string ?api ?now)"
      "sp_getCentroidMetadata ?api ?db2 c ''lastCalculated'' = sp_getCentroidMetadata ?api (w_db w) c ''lastCalculated''"
    unfolding db2 calc [symmetric] using assms(2)
    by (simp_all add: sp_getCentroidMetadata_def sp_setCentroidMetadata_def
        rocksdb_contract.rock_get_eq [OF env_contract.axioms(1) [OF env]] env_contract.store_put [OF env]
        metadata_keys_apart)
  have "result_of (isCentroidUpToDate ?api c) ?db2 =
      (case sp_getCentroidMetadata ?api (w_db w) c ''lastCalculated'' of
         None \<Rightarrow> Some (Inr False) | Some s \<Rightarrow> map_option (\<lambda>t. Inr (?now \<le> t)) (string_to_u64 ?api s))"
    by (auto simp: isCentroidUpToDate_def getLastDocumentChangeTimestamp_def getLastCalculatedTimestamp_def
        env_contract.run_getMetadata [OF env] stamps env_contract.u64_roundtrip [OF env] split: option.split)
  with assms(4) show ?thesis
    by (simp add: srv_addOneDocumentToCentroid_def p_addDocumentToCentroid_def srv_noteChange_def
        cw_triggerUpdate_def ignoring_def)
qed

theorem addition_outdates_centroid_witness:
  "result_of (srv_addOneDocumentToCentroid demo_config ''c'' ''d'' False False)
     (demo_world (fst (run_requests log_env [] [CreateNewCentroid ''c'', SaveNewDocument (sample_document ''d'')])))
   = Ready (Inr True)"
proof -
  let ?db = "fst (run_requests log_env [] [CreateNewCentroid ''c'', SaveNewDocument (sample_document ''d'')])"
  have "catalog_of (map_of (log_entries ?db)) = \<lparr>cat_docs = {''d''}, cat_cents = {''c''}, cat_members = {}, cat_refs = {}\<rparr>"
    by (subst log_catalog.catalog_after_requests) (simp_all add: empty_catalog_def sample_document_def)
  then have "snd (sp_addDocumentToCentroid log_env ?db ''c'' ''d'') = Inr True"
    using log_catalog.simulate_request [of "AddDocumentToCentroid ''c'' ''d''" ?db] by simp
  then show ?thesis
    using addition_outdates_centroid [of demo_config log_entries "''c''" "''d''" "demo_world ?db"]
      log_catalog.env_contract_axioms
    by (simp add: demo_config_def demo_world_def Let_def case_prod_unfold del: run_requests.simps)
qed

end
