(* ===== verification/ThriftServer.thy ===== *)
theory ThriftServer
  imports Server
begin

text \<open>
  \<open>server/ThriftRelevanceServer.cpp\<close>: the front end that turns the results of the server into the
  responses of the protocol.  A \<open>Try\<close> with an exception becomes the exception that the client
  receives: here the left side of the completed future.  Counts and offsets arrive as signed 64-bit
  integers and are converted to \<open>size_t\<close>.
\<close>

section \<open>Responses\<close>

text \<open>\<open>result.throwIfFailed()\<close> and then a response made from the value.\<close>

definition respond :: "('a \<Rightarrow> 'b) \<Rightarrow> ('db, 'a Try) future \<Rightarrow> ('db, 'b Try) future" where
  "respond f m = future_then m (\<lambda>result. ready (map_sum id f result))"

text \<open>The conversion to \<open>size_t\<close>.\<close>

abbreviation size_of :: "64 word \<Rightarrow> nat" where
  "size_of n \<equiv> unat n"

section \<open>Similarity\<close>

definition th_getDocumentSimilarity :: "'db config \<Rightarrow> string \<Rightarrow> string \<Rightarrow> ('db, double Try) future" where
  "th_getDocumentSimilarity cf centroidId docId = respond id (srv_getDocumentSimilarity cf centroidId docId)"

definition th_getTextSimilarity :: "'db config \<Rightarrow> string \<Rightarrow> string \<Rightarrow> Language \<Rightarrow> ('db, double Try) future" where
  "th_getTextSimilarity cf centroidId text lang = respond id (srv_getTextSimilarity cf centroidId text lang)"

definition th_getCentroidSimilarity :: "'db config \<Rightarrow> string \<Rightarrow> string \<Rightarrow> ('db, double Try) future" where
  "th_getCentroidSimilarity cf centroid1Id centroid2Id = respond id (srv_getCentroidSimilarity cf centroid1Id centroid2Id)"

definition th_multiGetTextSimilarity ::
  "'db config \<Rightarrow> string list \<Rightarrow> string \<Rightarrow> Language \<Rightarrow> ('db, (string \<times> double) list Try) future" where
  "th_multiGetTextSimilarity cf centroidIds text lang = respond id (srv_multiGetTextSimilarity cf centroidIds text lang)"

definition th_multiGetDocumentSimilarity ::
  "'db config \<Rightarrow> string list \<Rightarrow> string \<Rightarrow> ('db, (string \<times> double) list Try) future" where
  "th_multiGetDocumentSimilarity cf centroidIds docId = respond id (srv_multiGetDocumentSimilarity cf centroidIds docId)"

section \<open>Documents\<close>

definition th_createDocument :: "'db config \<Rightarrow> string \<Rightarrow> string \<Rightarrow> Language \<Rightarrow> ('db, string Try) future" where
  "th_createDocument cf uuid text lang = respond id (srv_createDocument cf uuid text lang)"

definition th_createDocumentWithID :: "'db config \<Rightarrow> string \<Rightarrow> string \<Rightarrow> Language \<Rightarrow> ('db, string Try) future" where
  "th_createDocumentWithID cf i text lang = respond (\<lambda>_. i) (srv_createDocumentWithID cf i text lang)"

definition th_deleteDocument :: "'db config \<Rightarrow> string \<Rightarrow> bool \<Rightarrow> ('db, string Try) future" where
  "th_deleteDocument cf i ignoreMissing = respond (\<lambda>_. i) (srv_deleteDocument cf i ignoreMissing)"

text \<open>
  The loop of the two multiple deletions.  An exception is rethrown, by \<open>throwIfFailed\<close>, or by
  \<open>value()\<close> where the flag asks to ignore it; otherwise the identifiers that were deleted are
  collected.
\<close>

fun deleted_ids :: "string list \<Rightarrow> bool Try list \<Rightarrow> string list Try" where
  "deleted_ids (i # ids) (Inl e # result) = Inl e"
| "deleted_ids (i # ids) (Inr b # result) =
     map_sum id (\<lambda>deleted. if b then i # deleted else deleted) (deleted_ids ids result)"
| "deleted_ids ids result = Inr []"

text \<open>The response takes the identifiers of the request, not the collected ones.\<close>

definition th_multiDeleteDocuments :: "'db config \<Rightarrow> string list \<Rightarrow> bool \<Rightarrow> ('db, string list Try) future" where
  "th_multiDeleteDocuments cf ids ignoreMissing =
     future_then (srv_multiDeleteDocuments cf ids ignoreMissing) (\<lambda>result.
       ready (map_sum id (\<lambda>deleted. ids) (deleted_ids ids result)))"

section \<open>Centroids\<close>

definition th_createCentroid :: "'db config \<Rightarrow> string \<Rightarrow> bool \<Rightarrow> ('db, string Try) future" where
  "th_createCentroid cf i ignoreExisting =
     respond (\<lambda>created. if created then i else '''') (srv_createCentroid cf i ignoreExisting)"

fun created_ids :: "string list \<Rightarrow> bool Try list \<Rightarrow> string list Try" where
  "created_ids (i # ids) (Inl e # result) = Inl e"
| "created_ids (i # ids) (Inr b # result) =
     map_sum id (\<lambda>created. if b then i # created else created) (created_ids ids result)"
| "created_ids ids result = Inr []"

definition th_multiCreateCentroids :: "'db config \<Rightarrow> string list \<Rightarrow> bool \<Rightarrow> ('db, string list Try) future" where
  "th_multiCreateCentroids cf ids ignoreExisting =
     future_then (srv_multiCreateCentroids cf ids ignoreExisting) (\<lambda>result. ready (created_ids ids result))"

definition th_deleteCentroid :: "'db config \<Rightarrow> string \<Rightarrow> bool \<Rightarrow> ('db, string Try) future" where
  "th_deleteCentroid cf i ignoreMissing =
     future_then (srv_deleteCentroid cf i ignoreMissing) (\<lambda>result.
       ready (case result of
           Inl e \<Rightarrow> if \<not> ignoreMissing \<or> e \<noteq> ECentroidDoesNotExist then Inl e else Inr i
         | Inr _ \<Rightarrow> Inr i))"

definition th_multiDeleteCentroids :: "'db config \<Rightarrow> string list \<Rightarrow> bool \<Rightarrow> ('db, string list Try) future" where
  "th_multiDeleteCentroids cf ids ignoreMissing =
     future_then (srv_multiDeleteCentroids cf ids ignoreMissing) (\<lambda>result.
       ready (map_sum id (\<lambda>deleted. ids) (deleted_ids ids result)))"

definition th_addDocumentsToCentroid ::
  "'db config \<Rightarrow> AddDocumentsToCentroidRequest \<Rightarrow> ('db, AddDocumentsToCentroidResponse Try) future" where
  "th_addDocumentsToCentroid cf request = respond id (srv_addDocumentsToCentroid cf request)"

definition th_removeDocumentsFromCentroid ::
  "'db config \<Rightarrow> RemoveDocumentsFromCentroidRequest \<Rightarrow> ('db, RemoveDocumentsFromCentroidResponse Try) future" where
  "th_removeDocumentsFromCentroid cf request = respond id (srv_removeDocumentsFromCentroid cf request)"

text \<open>The response of a join: the identifier and whether it was recalculated; \<open>value()\<close> rethrows.\<close>

definition th_joinCentroid :: "'db config \<Rightarrow> string \<Rightarrow> bool \<Rightarrow> ('db, (string \<times> bool) Try) future" where
  "th_joinCentroid cf i ignoreMissing = respond (Pair i) (srv_joinCentroid cf i ignoreMissing)"

definition th_multiJoinCentroids :: "'db config \<Rightarrow> string list \<Rightarrow> bool \<Rightarrow> ('db, (string list \<times> bool list) Try) future" where
  "th_multiJoinCentroids cf ids ignoreMissing =
     future_then (srv_multiJoinCentroids cf ids ignoreMissing) (\<lambda>result.
       ready (map_sum id (Pair ids) (successes result)))"

section \<open>Listings\<close>

definition th_listAllDocumentsForCentroid :: "'db config \<Rightarrow> string \<Rightarrow> ('db, string list Try) future" where
  "th_listAllDocumentsForCentroid cf i = respond id (srv_listAllDocumentsForCentroid cf i)"

definition th_listCentroidDocumentRange :: "'db config \<Rightarrow> string \<Rightarrow> 64 word \<Rightarrow> 64 word \<Rightarrow> ('db, string list Try) future" where
  "th_listCentroidDocumentRange cf i iOffset iCount =
     respond id (srv_listCentroidDocumentRange cf i (size_of iOffset) (size_of iCount))"

definition th_listCentroidDocumentRangeFromID ::
  "'db config \<Rightarrow> string \<Rightarrow> string \<Rightarrow> 64 word \<Rightarrow> ('db, string list Try) future" where
  "th_listCentroidDocumentRangeFromID cf i docId iCount =
     respond id (srv_listCentroidDocumentRangeFromID cf i docId (size_of iCount))"

definition th_listAllCentroids :: "'db config \<Rightarrow> ('db, string list) future" where
  "th_listAllCentroids cf = srv_listAllCentroids cf"

definition th_listCentroidRange :: "'db config \<Rightarrow> 64 word \<Rightarrow> 64 word \<Rightarrow> ('db, string list) future" where
  "th_listCentroidRange cf iOffset iCount = srv_listCentroidRange cf (size_of iOffset) (size_of iCount)"

definition th_listCentroidRangeFromID :: "'db config \<Rightarrow> string \<Rightarrow> 64 word \<Rightarrow> ('db, string list) future" where
  "th_listCentroidRangeFromID cf i iCount = srv_listCentroidRangeFromID cf i (size_of iCount)"

definition th_listAllDocuments :: "'db config \<Rightarrow> ('db, string list) future" where
  "th_listAllDocuments cf = srv_listAllDocuments cf"

definition th_listUnusedDocuments :: "'db config \<Rightarrow> 64 word \<Rightarrow> ('db, string list) future" where
  "th_listUnusedDocuments cf count = srv_listUnusedDocuments cf (size_of count)"

definition th_listDocumentRange :: "'db config \<Rightarrow> 64 word \<Rightarrow> 64 word \<Rightarrow> ('db, string list) future" where
  "th_listDocumentRange cf iOffset iCount = srv_listDocumentRange cf (size_of iOffset) (size_of iCount)"

definition th_listDocumentRangeFromID :: "'db config \<Rightarrow> string \<Rightarrow> 64 word \<Rightarrow> ('db, string list) future" where
  "th_listDocumentRangeFromID cf i iCount = srv_listDocumentRangeFromID cf i (size_of iCount)"

section \<open>Metadata and debugging\<close>

definition th_getServerMetadata :: "string \<Rightarrow> string \<Rightarrow> string \<Rightarrow> ('db, (string \<times> string) list) future" where
  "th_getServerMetadata revision version timestamp = srv_getServerMetadata revision version timestamp"

definition th_debugEraseAllData :: "'db config \<Rightarrow> ('db, unit) future" where
  "th_debugEraseAllData cf = srv_debugEraseAllData cf"

definition th_debugGetFullCentroid :: "'db config \<Rightarrow> string \<Rightarrow> ('db, CentroidDTO Try) future" where
  "th_debugGetFullCentroid cf i = respond dto_of_centroid (srv_debugGetFullCentroid cf i)"

record ProcessedDocumentDTO =
  pdo_metadata :: ProcessedDocumentMetadataDTO
  pdo_wordVector :: WordVectorDTO

text \<open>
  A word that occurs twice keeps its last score; the document weight is left at its default, as is
  the hash of a document without one.
\<close>

definition full_document :: "ProcessedDocument \<Rightarrow> ProcessedDocumentDTO" where
  "full_document document = \<lparr>
     pdo_metadata = \<lparr>md_id = pd_id document,
       md_sha1Hash = (case pd_sha1Hash document of None \<Rightarrow> '''' | Some h \<Rightarrow> h),
       md_created = pd_created document, md_updated = pd_updated document\<rparr>,
     pdo_wordVector = \<lparr>wvd_magnitude = pd_magnitude document, wvd_documentWeight = Num 0,
       wvd_scores = fold (\<lambda>elem scores. kv_put (c_str (sw_word elem)) (sw_score elem) scores)
         (pd_scoredWords document) []\<rparr>\<rparr>"

definition th_debugGetFullProcessedDocument :: "'db config \<Rightarrow> string \<Rightarrow> ('db, ProcessedDocumentDTO Try) future" where
  "th_debugGetFullProcessedDocument cf i = respond full_document (srv_debugGetFullProcessedDocument cf i)"

section \<open>Properties of the front end\<close>

lemma collect_deletions:
  "\<exists>flags w'. run_state (collect (map (\<lambda>i. srv_deleteDocument cf i True) ids)) w = (Ready (map Inr flags), w')
     \<and> length flags = length ids"
proof (induction ids arbitrary: w)
  case Nil
  then show ?case by (intro exI [of _ "[]"]) simp
next
  case (Cons i ids)
  have "\<exists>b w1. run_state (srv_deleteDocument cf i True) w = (Ready (Inr b), w1)"
    by (auto simp: srv_deleteDocument_def p_deleteDocument_def sp_deleteDocument_def ignoring_def
        case_prod_unfold Let_def)
  then obtain b w1 where one: "run_state (srv_deleteDocument cf i True) w = (Ready (Inr b), w1)" by blast
  from Cons.IH [of w1] obtain flags w2 where
    "run_state (collect (map (\<lambda>i. srv_deleteDocument cf i True) ids)) w1 = (Ready (map Inr flags), w2)"
    "length flags = length ids" by blast
  with one show ?case by (intro exI [of _ "b # flags"] exI [of _ w2]) simp
qed

lemma deleted_ids_succeeds: "length flags = length ids \<Longrightarrow> \<exists>deleted. deleted_ids ids (map Inr flags) = Inr deleted"
  by (induction ids flags rule: list_induct2') auto

text \<open>
  Deleting several documents with \<open>ignoreMissing\<close> always succeeds, and the response names every
  identifier of the request, also those of documents that did not exist: the list of deleted
  identifiers that the code collects is not used.
\<close>

theorem multi_delete_names_every_id:
  "result_of (th_multiDeleteDocuments cf ids True) w = Ready (Inr ids)"
proof -
  from collect_deletions [of cf ids w] obtain flags w' where
    run: "run_state (collect (map (\<lambda>i. srv_deleteDocument cf i True) ids)) w = (Ready (map Inr flags), w')"
    and "length flags = length ids" by blast
  with deleted_ids_succeeds [of flags ids] obtain deleted where "deleted_ids ids (map Inr flags) = Inr deleted"
    by blast
  with run show ?thesis by (simp add: th_multiDeleteDocuments_def srv_multiDeleteDocuments_def)
qed

text \<open>
  Counts are converted without a check: the count \<open>-1\<close> becomes the largest \<open>size_t\<close>, so that a
  page with it holds everything from its offset on.
\<close>

theorem negative_count_lists_the_rest:
  assumes "env_contract (cf_api cf) entries"
    and "length (sp_listAllDocuments (cf_api cf) (w_db w)) < 2 ^ 64"
  shows "result_of (th_listDocumentRange cf iOffset (- 1)) w
      = Ready (drop (unat iOffset) (sp_listAllDocuments (cf_api cf) (w_db w)))"
proof -
  have "unat (- 1 :: 64 word) = 2 ^ 64 - 1" by (simp add: unsigned_minus_1_eq_mask mask_eq_exp_minus_1)
  with assms(2) have "length (drop (unat iOffset) (sp_listAllDocuments (cf_api cf) (w_db w))) \<le> unat (- 1 :: 64 word)"
    by simp
  then show ?thesis
    using env_contract.documents_under(1,2) [OF assms(1)]
    by (simp add: th_listDocumentRange_def srv_listDocumentRange_def p_listDocumentRangeFromOffset_def)
qed

theorem negative_count_lists_the_rest_witness:
  "result_of (th_listDocumentRange demo_config 0 (- 1)) (demo_world []) = Ready []"
proof -
  have "sp_listAllDocuments log_env [] = []"
    by (simp add: log_catalog.documents_under ids_under_def)
  then show ?thesis
    using negative_count_lists_the_rest [of demo_config log_entries "demo_world []" 0]
      log_catalog.env_contract_axioms
    by (simp add: demo_config_def demo_world_def)
qed

end
