(* ===== verification/Stopwords.thy ===== *)
theory Stopwords
  imports TextProcessing
begin

text \<open>
  \<open>stopwords/StopwordFilter.cpp\<close> and the tables of the six languages.  The tables are
  \<open>unordered_set\<close>s of UTF-8 strings, here lists of byte strings; a long table is split.
\<close>

section \<open>Tables\<close>

definition englishStopwords :: "string list" where
  "englishStopwords = [
    ''a'', ''about'', ''above'', ''after'', ''again'', ''against'', ''all'', ''am'', ''an'', ''and'', ''any'',
    ''are'', ''as'', ''at'', ''be'', ''because'', ''been'', ''before'', ''being'', ''below'', ''between'',
    ''both'', ''but'', ''by'', ''can'', ''did'', ''do'', ''does'', ''doing'', ''don'', ''down'', ''during'',
    ''each'', ''few'', ''for'', ''from'', ''further'', ''had'', ''has'', ''have'', ''having'', ''he'', ''her'',
    ''here'', ''hers'', ''herself'', ''him'', ''himself'', ''his'', ''how'', ''i'', ''if'', ''in'', ''into'',
    ''is'', ''it'', ''its'', ''itself'', ''just'', ''me'', ''more'', ''most'', ''my'', ''myself'', ''no'',
    ''nor'', ''not'', ''now'', ''of'', ''off'', ''on'', ''once'', ''only'', ''or'', ''other'', ''our'',
    ''ours'', ''ourselves'', ''out'', ''over'', ''own'', ''s'', ''same'', ''she'', ''should'', ''so'',
    ''some'', ''such'', ''t'', ''than'', ''that'', ''the'', ''their'', ''theirs'', ''them'', ''themselves'',
    ''then'', ''there'', ''these'', ''they'', ''this'', ''those'', ''through'', ''to'', ''too'', ''under'',
    ''until'', ''up'', ''very'', ''was'', ''we'', ''were'', ''what'', ''when'', ''where'', ''which'',
    ''while'', ''who'', ''whom'', ''why'', ''will'', ''with'', ''you'', ''your'', ''yours'', ''yourself'',
    ''yourselves'']"

definition isEnglishStopword :: "string \<Rightarrow> bool" where
  "isEnglishStopword word \<longleftrightarrow> word \<in> set englishStopwords"

definition frenchStopwords1 :: "string list" where
  "frenchStopwords1 = [
    ''au'', ''aux'', ''avec'', ''ce'', ''ces'', ''dans'', ''de'', ''des'', ''du'', ''elle'', ''en'', ''et'',
    ''eux'', ''il'', ''je'', ''la'', ''le'', ''leur'', ''lui'', ''ma'', ''mais'', ''me'',
    ''m'' @ [CHR 0xC3, CHR 0xAA] @ ''me'', ''mes'', ''moi'', ''mon'', ''ne'', ''nos'', ''notre'', ''nous'',
    ''on'', ''ou'', ''par'', ''pas'', ''pour'', ''qu'', ''que'', ''qui'', ''sa'', ''se'', ''ses'', ''son'',
    ''sur'', ''ta'', ''te'', ''tes'', ''toi'', ''ton'', ''tu'', ''un'', ''une'', ''vos'', ''votre'', ''vous'',
    ''c'', ''d'', ''j'', ''l'', [CHR 0xC3, CHR 0xA0], ''m'', ''n'', ''s'', ''t'', ''y'',
    [CHR 0xC3, CHR 0xA9] @ ''t'' @ [CHR 0xC3, CHR 0xA9],
    [CHR 0xC3, CHR 0xA9] @ ''t'' @ [CHR 0xC3, CHR 0xA9] @ ''e'',
    [CHR 0xC3, CHR 0xA9] @ ''t'' @ [CHR 0xC3, CHR 0xA9] @ ''es'',
    [CHR 0xC3, CHR 0xA9] @ ''t'' @ [CHR 0xC3, CHR 0xA9] @ ''s'', [CHR 0xC3, CHR 0xA9] @ ''tant'',
    [CHR 0xC3, CHR 0xA9] @ ''tante'', [CHR 0xC3, CHR 0xA9] @ ''tants'', [CHR 0xC3, CHR 0xA9] @ ''tantes'',
    ''suis'', ''es'', ''est'', ''sommes'', [CHR 0xC3, CHR 0xAA] @ ''tes'', ''sont'']"

definition frenchStopwords2 :: "string list" where
  "frenchStopwords2 = [
    ''serai'', ''seras'', ''sera'', ''serons'', ''serez'', ''seront'', ''serais'', ''serait'', ''serions'',
    ''seriez'', ''seraient'', [CHR 0xC3, CHR 0xA9] @ ''tais'', [CHR 0xC3, CHR 0xA9] @ ''tait'',
    [CHR 0xC3, CHR 0xA9] @ ''tions'', [CHR 0xC3, CHR 0xA9] @ ''tiez'', [CHR 0xC3, CHR 0xA9] @ ''taient'',
    ''fus'', ''fut'', ''f'' @ [CHR 0xC3, CHR 0xBB] @ ''mes'', ''f'' @ [CHR 0xC3, CHR 0xBB] @ ''tes'',
    ''furent'', ''sois'', ''soit'', ''soyons'', ''soyez'', ''soient'', ''fusse'', ''fusses'',
    ''f'' @ [CHR 0xC3, CHR 0xBB] @ ''t'', ''fussions'', ''fussiez'', ''fussent'', ''ayant'', ''ayante'',
    ''ayantes'', ''ayants'', ''eu'', ''eue'', ''eues'', ''eus'', ''ai'', ''as'', ''avons'', ''avez'', ''ont'',
    ''aurai'', ''auras'', ''aura'', ''aurons'', ''aurez'', ''auront'', ''aurais'', ''aurait'', ''aurions'',
    ''auriez'', ''auraient'', ''avais'', ''avait'', ''avions'', ''aviez'', ''avaient'', ''eut'',
    ''e'' @ [CHR 0xC3, CHR 0xBB] @ ''mes'', ''e'' @ [CHR 0xC3, CHR 0xBB] @ ''tes'', ''eurent'', ''aie'',
    ''aies'', ''ait'', ''ayons'', ''ayez'', ''aient'', ''eusse'', ''eusses'',
    ''e'' @ [CHR 0xC3, CHR 0xBB] @ ''t'', ''eussions'', ''eussiez'', ''eussent'']"

definition isFrenchStopword :: "string \<Rightarrow> bool" where
  "isFrenchStopword word \<longleftrightarrow> word \<in> set (frenchStopwords1 @ frenchStopwords2)"

definition germanStopwords1 :: "string list" where
  "germanStopwords1 = [
    ''aber'', ''alle'', ''allem'', ''allen'', ''aller'', ''alles'', ''als'', ''also'', ''am'', ''an'',
    ''ander'', ''andere'', ''anderem'', ''anderen'', ''anderer'', ''anderes'', ''anderm'', ''andern'',
    ''anderr'', ''anders'', ''auch'', ''auf'', ''aus'', ''bei'', ''bin'', ''bis'', ''bist'', ''da'', ''damit'',
    ''dann'', ''der'', ''den'', ''des'', ''dem'', ''die'', ''das'', ''da'' @ [CHR 0xC3, CHR 0x9F],
    ''derselbe'', ''derselben'', ''denselben'', ''desselben'', ''demselben'', ''dieselbe'', ''dieselben'',
    ''dasselbe'', ''dazu'', ''dein'', ''deine'', ''deinem'', ''deinen'', ''deiner'', ''deines'', ''denn'',
    ''derer'', ''dessen'', ''dich'', ''dir'', ''du'', ''dies'', ''diese'', ''diesem'', ''diesen'', ''dieser'',
    ''dieses'', ''doch'', ''dort'', ''durch'', ''ein'', ''eine'', ''einem'', ''einen'', ''einer'', ''eines'',
    ''einig'', ''einige'', ''einigem'', ''einigen'', ''einiger'', ''einiges'', ''einmal'', ''er'', ''ihn'',
    ''ihm'', ''es'', ''etwas'', ''euer'', ''eure'', ''eurem'', ''euren'', ''eurer'', ''eures'',
    ''f'' @ [CHR 0xC3, CHR 0xBC] @ ''r'', ''gegen'', ''gewesen'', ''hab'', ''habe'', ''haben'', ''hat'',
    ''hatte'', ''hatten'', ''hier'', ''hin'', ''hinter'', ''ich'', ''mich'', ''mir'', ''ihr'', ''ihre'',
    ''ihrem'', ''ihren'', ''ihrer'', ''ihres'', ''euch'', ''im'', ''in'', ''indem'']"

definition germanStopwords2 :: "string list" where
  "germanStopwords2 = [
    ''ins'', ''ist'', ''jede'', ''jedem'', ''jeden'', ''jeder'', ''jedes'', ''jene'', ''jenem'', ''jenen'',
    ''jener'', ''jenes'', ''jetzt'', ''kann'', ''kein'', ''keine'', ''keinem'', ''keinen'', ''keiner'',
    ''keines'', ''k'' @ [CHR 0xC3, CHR 0xB6] @ ''nnen'', ''k'' @ [CHR 0xC3, CHR 0xB6] @ ''nnte'', ''machen'',
    ''man'', ''manche'', ''manchem'', ''manchen'', ''mancher'', ''manches'', ''mein'', ''meine'', ''meinem'',
    ''meinen'', ''meiner'', ''meines'', ''mit'', ''muss'', ''musste'', ''nach'', ''nicht'', ''nichts'',
    ''noch'', ''nun'', ''nur'', ''ob'', ''oder'', ''ohne'', ''sehr'', ''sein'', ''seine'', ''seinem'',
    ''seinen'', ''seiner'', ''seines'', ''selbst'', ''sich'', ''sie'', ''ihnen'', ''sind'', ''so'', ''solche'',
    ''solchem'', ''solchen'', ''solcher'', ''solches'', ''soll'', ''sollte'', ''sondern'', ''sonst'',
    [CHR 0xC3, CHR 0xBC] @ ''ber'', ''um'', ''und'', ''uns'', ''unse'', ''unsem'', ''unsen'', ''unser'',
    ''unses'', ''unter'', ''viel'', ''vom'', ''von'', ''vor'', ''w'' @ [CHR 0xC3, CHR 0xA4] @ ''hrend'',
    ''war'', ''waren'', ''warst'', ''was'', ''weg'', ''weil'', ''weiter'', ''welche'', ''welchem'',
    ''welchen'', ''welcher'', ''welches'', ''wenn'', ''werde'', ''werden'', ''wie'', ''wieder'', ''will'',
    ''wir'', ''wird'', ''wirst'', ''wo'', ''wollen'', ''wollte'', ''w'' @ [CHR 0xC3, CHR 0xBC] @ ''rde'',
    ''w'' @ [CHR 0xC3, CHR 0xBC] @ ''rden'', ''zu'', ''zum'', ''zur'', ''zwar'', ''zwischen'']"

definition isGermanStopword :: "string \<Rightarrow> bool" where
  "isGermanStopword word \<longleftrightarrow> word \<in> set (germanStopwords1 @ germanStopwords2)"

definition italianStopwords1 :: "string list" where
  "italianStopwords1 = [
    ''ad'', ''al'', ''allo'', ''ai'', ''agli'', ''all'', ''agl'', ''alla'', ''alle'', ''con'', ''col'',
    ''coi'', ''da'', ''dal'', ''dallo'', ''dai'', ''dagli'', ''dall'', ''dagl'', ''dalla'', ''dalle'', ''di'',
    ''del'', ''dello'', ''dei'', ''degli'', ''dell'', ''degl'', ''della'', ''delle'', ''in'', ''nel'',
    ''nello'', ''nei'', ''negli'', ''nell'', ''negl'', ''nella'', ''nelle'', ''su'', ''sul'', ''sullo'',
    ''sui'', ''sugli'', ''sull'', ''sugl'', ''sulla'', ''sulle'', ''per'', ''tra'', ''contro'', ''io'', ''tu'',
    ''lui'', ''lei'', ''noi'', ''voi'', ''loro'', ''mio'', ''mia'', ''miei'', ''mie'', ''tuo'', ''tua'',
    ''tuoi'', ''tue'', ''suo'', ''sua'', ''suoi'', ''sue'', ''nostro'', ''nostra'', ''nostri'', ''nostre'',
    ''vostro'', ''vostra'', ''vostri'', ''vostre'', ''mi'', ''ti'', ''ci'', ''vi'', ''lo'', ''la'', ''li'',
    ''le'', ''gli'', ''ne'', ''il'', ''un'', ''uno'', ''una'', ''ma'', ''ed'', ''se'',
    ''perch'' @ [CHR 0xC3, CHR 0xA9], ''anche'', ''come'', ''dov'', ''dove'', ''che'', ''chi'', ''cui'',
    ''non'', ''pi'' @ [CHR 0xC3, CHR 0xB9], ''quale'', ''quanto'', ''quanti'', ''quanta'', ''quante'',
    ''quello'', ''quelli'', ''quella'', ''quelle'', ''questo'', ''questi'', ''questa'', ''queste'', ''si'',
    ''tutto'', ''tutti'', ''a'', ''c'', ''e'', ''i'', ''l'', ''o'', ''ho'', ''hai'', ''ha'', ''abbiamo'',
    ''avete'', ''hanno'', ''abbia'', ''abbiate'', ''abbiano'', ''avr'' @ [CHR 0xC3, CHR 0xB2], ''avrai'',
    ''avr'' @ [CHR 0xC3, CHR 0xA0], ''avremo'']"

definition italianStopwords2 :: "string list" where
  "italianStopwords2 = [
    ''avrete'', ''avranno'', ''avrei'', ''avresti'', ''avrebbe'', ''avremmo'', ''avreste'', ''avrebbero'',
    ''avevo'', ''avevi'', ''aveva'', ''avevamo'', ''avevate'', ''avevano'', ''ebbi'', ''avesti'', ''ebbe'',
    ''avemmo'', ''aveste'', ''ebbero'', ''avessi'', ''avesse'', ''avessimo'', ''avessero'', ''avendo'',
    ''avuto'', ''avuta'', ''avuti'', ''avute'', ''sono'', ''sei'', [CHR 0xC3, CHR 0xA8], ''siamo'', ''siete'',
    ''sia'', ''siate'', ''siano'', ''sar'' @ [CHR 0xC3, CHR 0xB2], ''sarai'', ''sar'' @ [CHR 0xC3, CHR 0xA0],
    ''saremo'', ''sarete'', ''saranno'', ''sarei'', ''saresti'', ''sarebbe'', ''saremmo'', ''sareste'',
    ''sarebbero'', ''ero'', ''eri'', ''era'', ''eravamo'', ''eravate'', ''erano'', ''fui'', ''fosti'', ''fu'',
    ''fummo'', ''foste'', ''furono'', ''fossi'', ''fosse'', ''fossimo'', ''fossero'', ''essendo'', ''faccio'',
    ''fai'', ''facciamo'', ''fanno'', ''faccia'', ''facciate'', ''facciano'', ''far'' @ [CHR 0xC3, CHR 0xB2],
    ''farai'', ''far'' @ [CHR 0xC3, CHR 0xA0], ''faremo'', ''farete'', ''faranno'', ''farei'', ''faresti'',
    ''farebbe'', ''faremmo'', ''fareste'', ''farebbero'', ''facevo'', ''facevi'', ''faceva'', ''facevamo'',
    ''facevate'', ''facevano'', ''feci'', ''facesti'', ''fece'', ''facemmo'', ''faceste'', ''fecero'',
    ''facessi'', ''facesse'', ''facessimo'', ''facessero'', ''facendo'', ''sto'', ''stai'', ''sta'',
    ''stiamo'', ''stanno'', ''stia'', ''stiate'', ''stiano'', ''star'' @ [CHR 0xC3, CHR 0xB2], ''starai'',
    ''star'' @ [CHR 0xC3, CHR 0xA0], ''staremo'', ''starete'', ''staranno'', ''starei'', ''staresti'',
    ''starebbe'', ''staremmo'', ''stareste'', ''starebbero'', ''stavo'', ''stavi'', ''stava'', ''stavamo'',
    ''stavate'', ''stavano'', ''stetti'', ''stesti'', ''stette'', ''stemmo'', ''steste'', ''stettero'',
    ''stessi'', ''stesse'', ''stessimo'', ''stessero'', ''stando'']"

definition isItalianStopword :: "string \<Rightarrow> bool" where
  "isItalianStopword word \<longleftrightarrow> word \<in> set (italianStopwords1 @ italianStopwords2)"

definition russianStopwords1 :: "string list" where
  "russianStopwords1 = [
    [CHR 0xD0, CHR 0xB8], [CHR 0xD0, CHR 0xB2], [CHR 0xD0, CHR 0xB2, CHR 0xD0, CHR 0xBE],
    [CHR 0xD0, CHR 0xBD, CHR 0xD0, CHR 0xB5], [CHR 0xD1, CHR 0x87, CHR 0xD1, CHR 0x82, CHR 0xD0, CHR 0xBE],
    [CHR 0xD0, CHR 0xBE, CHR 0xD0, CHR 0xBD], [CHR 0xD0, CHR 0xBD, CHR 0xD0, CHR 0xB0], [CHR 0xD1, CHR 0x8F],
    [CHR 0xD1, CHR 0x81], [CHR 0xD1, CHR 0x81, CHR 0xD0, CHR 0xBE],
    [CHR 0xD0, CHR 0xBA, CHR 0xD0, CHR 0xB0, CHR 0xD0, CHR 0xBA], [CHR 0xD0, CHR 0xB0],
    [CHR 0xD1, CHR 0x82, CHR 0xD0, CHR 0xBE], [CHR 0xD0, CHR 0xB2, CHR 0xD1, CHR 0x81, CHR 0xD0, CHR 0xB5],
    [CHR 0xD0, CHR 0xBE, CHR 0xD0, CHR 0xBD, CHR 0xD0, CHR 0xB0],
    [CHR 0xD1, CHR 0x82, CHR 0xD0, CHR 0xB0, CHR 0xD0, CHR 0xBA],
    [CHR 0xD0, CHR 0xB5, CHR 0xD0, CHR 0xB3, CHR 0xD0, CHR 0xBE], [CHR 0xD0, CHR 0xBD, CHR 0xD0, CHR 0xBE],
    [CHR 0xD0, CHR 0xB4, CHR 0xD0, CHR 0xB0], [CHR 0xD1, CHR 0x82, CHR 0xD1, CHR 0x8B], [CHR 0xD0, CHR 0xBA],
    [CHR 0xD1, CHR 0x83], [CHR 0xD0, CHR 0xB6, CHR 0xD0, CHR 0xB5], [CHR 0xD0, CHR 0xB2, CHR 0xD1, CHR 0x8B],
    [CHR 0xD0, CHR 0xB7, CHR 0xD0, CHR 0xB0], [CHR 0xD0, CHR 0xB1, CHR 0xD1, CHR 0x8B],
    [CHR 0xD0, CHR 0xBF, CHR 0xD0, CHR 0xBE],
    [CHR 0xD1, CHR 0x82, CHR 0xD0, CHR 0xBE, CHR 0xD0, CHR 0xBB, CHR 0xD1, CHR 0x8C, CHR 0xD0, CHR 0xBA, CHR 0xD0, CHR 0xBE],
    [CHR 0xD0, CHR 0xB5, CHR 0xD0, CHR 0xB5], [CHR 0xD0, CHR 0xBC, CHR 0xD0, CHR 0xBD, CHR 0xD0, CHR 0xB5],
    [CHR 0xD0, CHR 0xB1, CHR 0xD1, CHR 0x8B, CHR 0xD0, CHR 0xBB, CHR 0xD0, CHR 0xBE],
    [CHR 0xD0, CHR 0xB2, CHR 0xD0, CHR 0xBE, CHR 0xD1, CHR 0x82], [CHR 0xD0, CHR 0xBE, CHR 0xD1, CHR 0x82],
    [CHR 0xD0, CHR 0xBC, CHR 0xD0, CHR 0xB5, CHR 0xD0, CHR 0xBD, CHR 0xD1, CHR 0x8F],
    [CHR 0xD0, CHR 0xB5, CHR 0xD1, CHR 0x89, CHR 0xD0, CHR 0xB5],
    [CHR 0xD0, CHR 0xBD, CHR 0xD0, CHR 0xB5, CHR 0xD1, CHR 0x82], [CHR 0xD0, CHR 0xBE],
    [CHR 0xD0, CHR 0xB8, CHR 0xD0, CHR 0xB7], [CHR 0xD0, CHR 0xB5, CHR 0xD0, CHR 0xBC, CHR 0xD1, CHR 0x83],
    [CHR 0xD1, CHR 0x82, CHR 0xD0, CHR 0xB5, CHR 0xD0, CHR 0xBF, CHR 0xD0, CHR 0xB5, CHR 0xD1, CHR 0x80, CHR 0xD1, CHR 0x8C],
    [CHR 0xD0, CHR 0xBA, CHR 0xD0, CHR 0xBE, CHR 0xD0, CHR 0xB3, CHR 0xD0, CHR 0xB4, CHR 0xD0, CHR 0xB0],
    [CHR 0xD0, CHR 0xB4, CHR 0xD0, CHR 0xB0, CHR 0xD0, CHR 0xB6, CHR 0xD0, CHR 0xB5],
    [CHR 0xD0, CHR 0xBD, CHR 0xD1, CHR 0x83],
    [CHR 0xD0, CHR 0xB2, CHR 0xD0, CHR 0xB4, CHR 0xD1, CHR 0x80, CHR 0xD1, CHR 0x83, CHR 0xD0, CHR 0xB3],
    [CHR 0xD0, CHR 0xBB, CHR 0xD0, CHR 0xB8],
    [CHR 0xD0, CHR 0xB5, CHR 0xD1, CHR 0x81, CHR 0xD0, CHR 0xBB, CHR 0xD0, CHR 0xB8],
    [CHR 0xD1, CHR 0x83, CHR 0xD0, CHR 0xB6, CHR 0xD0, CHR 0xB5],
    [CHR 0xD0, CHR 0xB8, CHR 0xD0, CHR 0xBB, CHR 0xD0, CHR 0xB8], [CHR 0xD0, CHR 0xBD, CHR 0xD0, CHR 0xB8],
    [CHR 0xD0, CHR 0xB1, CHR 0xD1, CHR 0x8B, CHR 0xD1, CHR 0x82, CHR 0xD1, CHR 0x8C],
    [CHR 0xD0, CHR 0xB1, CHR 0xD1, CHR 0x8B, CHR 0xD0, CHR 0xBB],
    [CHR 0xD0, CHR 0xBD, CHR 0xD0, CHR 0xB5, CHR 0xD0, CHR 0xB3, CHR 0xD0, CHR 0xBE],
    [CHR 0xD0, CHR 0xB4, CHR 0xD0, CHR 0xBE], [CHR 0xD0, CHR 0xB2, CHR 0xD0, CHR 0xB0, CHR 0xD1, CHR 0x81],
    [CHR 0xD0, CHR 0xBD, CHR 0xD0, CHR 0xB8, CHR 0xD0, CHR 0xB1, CHR 0xD1, CHR 0x83, CHR 0xD0, CHR 0xB4, CHR 0xD1, CHR 0x8C],
    [CHR 0xD0, CHR 0xBE, CHR 0xD0, CHR 0xBF, CHR 0xD1, CHR 0x8F, CHR 0xD1, CHR 0x82, CHR 0xD1, CHR 0x8C],
    [CHR 0xD1, CHR 0x83, CHR 0xD0, CHR 0xB6], [CHR 0xD0, CHR 0xB2, CHR 0xD0, CHR 0xB0, CHR 0xD0, CHR 0xBC],
    [CHR 0xD0, CHR 0xB2, CHR 0xD0, CHR 0xB5, CHR 0xD0, CHR 0xB4, CHR 0xD1, CHR 0x8C],
    [CHR 0xD1, CHR 0x82, CHR 0xD0, CHR 0xB0, CHR 0xD0, CHR 0xBC],
    [CHR 0xD0, CHR 0xBF, CHR 0xD0, CHR 0xBE, CHR 0xD1, CHR 0x82, CHR 0xD0, CHR 0xBE, CHR 0xD0, CHR 0xBC],
    [CHR 0xD1, CHR 0x81, CHR 0xD0, CHR 0xB5, CHR 0xD0, CHR 0xB1, CHR 0xD1, CHR 0x8F],
    [CHR 0xD0, CHR 0xBD, CHR 0xD0, CHR 0xB8, CHR 0xD1, CHR 0x87, CHR 0xD0, CHR 0xB5, CHR 0xD0, CHR 0xB3, CHR 0xD0, CHR 0xBE],
    [CHR 0xD0, CHR 0xB5, CHR 0xD0, CHR 0xB9],
    [CHR 0xD0, CHR 0xBC, CHR 0xD0, CHR 0xBE, CHR 0xD0, CHR 0xB6, CHR 0xD0, CHR 0xB5, CHR 0xD1, CHR 0x82],
    [CHR 0xD0, CHR 0xBE, CHR 0xD0, CHR 0xBD, CHR 0xD0, CHR 0xB8],
    [CHR 0xD1, CHR 0x82, CHR 0xD1, CHR 0x83, CHR 0xD1, CHR 0x82],
    [CHR 0xD0, CHR 0xB3, CHR 0xD0, CHR 0xB4, CHR 0xD0, CHR 0xB5],
    [CHR 0xD0, CHR 0xB5, CHR 0xD1, CHR 0x81, CHR 0xD1, CHR 0x82, CHR 0xD1, CHR 0x8C],
    [CHR 0xD0, CHR 0xBD, CHR 0xD0, CHR 0xB0, CHR 0xD0, CHR 0xB4, CHR 0xD0, CHR 0xBE],
    [CHR 0xD0, CHR 0xBD, CHR 0xD0, CHR 0xB5, CHR 0xD0, CHR 0xB9],
    [CHR 0xD0, CHR 0xB4, CHR 0xD0, CHR 0xBB, CHR 0xD1, CHR 0x8F], [CHR 0xD0, CHR 0xBC, CHR 0xD1, CHR 0x8B],
    [CHR 0xD1, CHR 0x82, CHR 0xD0, CHR 0xB5, CHR 0xD0, CHR 0xB1, CHR 0xD1, CHR 0x8F],
    [CHR 0xD0, CHR 0xB8, CHR 0xD1, CHR 0x85], [CHR 0xD1, CHR 0x87, CHR 0xD0, CHR 0xB5, CHR 0xD0, CHR 0xBC]]"

definition russianStopwords2 :: "string list" where
  "russianStopwords2 = [
    [CHR 0xD0, CHR 0xB1, CHR 0xD1, CHR 0x8B, CHR 0xD0, CHR 0xBB, CHR 0xD0, CHR 0xB0],
    [CHR 0xD1, CHR 0x81, CHR 0xD0, CHR 0xB0, CHR 0xD0, CHR 0xBC],
    [CHR 0xD1, CHR 0x87, CHR 0xD1, CHR 0x82, CHR 0xD0, CHR 0xBE, CHR 0xD0, CHR 0xB1],
    [CHR 0xD0, CHR 0xB1, CHR 0xD0, CHR 0xB5, CHR 0xD0, CHR 0xB7],
    [CHR 0xD0, CHR 0xB1, CHR 0xD1, CHR 0x83, CHR 0xD0, CHR 0xB4, CHR 0xD1, CHR 0x82, CHR 0xD0, CHR 0xBE],
    [CHR 0xD1, CHR 0x87, CHR 0xD0, CHR 0xB5, CHR 0xD0, CHR 0xB3, CHR 0xD0, CHR 0xBE],
    [CHR 0xD1, CHR 0x80, CHR 0xD0, CHR 0xB0, CHR 0xD0, CHR 0xB7],
    [CHR 0xD1, CHR 0x82, CHR 0xD0, CHR 0xBE, CHR 0xD0, CHR 0xB6, CHR 0xD0, CHR 0xB5],
    [CHR 0xD1, CHR 0x81, CHR 0xD0, CHR 0xB5, CHR 0xD0, CHR 0xB1, CHR 0xD0, CHR 0xB5],
    [CHR 0xD0, CHR 0xBF, CHR 0xD0, CHR 0xBE, CHR 0xD0, CHR 0xB4],
    [CHR 0xD0, CHR 0xB1, CHR 0xD1, CHR 0x83, CHR 0xD0, CHR 0xB4, CHR 0xD0, CHR 0xB5, CHR 0xD1, CHR 0x82],
    [CHR 0xD0, CHR 0xB6],
    [CHR 0xD1, CHR 0x82, CHR 0xD0, CHR 0xBE, CHR 0xD0, CHR 0xB3, CHR 0xD0, CHR 0xB4, CHR 0xD0, CHR 0xB0],
    [CHR 0xD0, CHR 0xBA, CHR 0xD1, CHR 0x82, CHR 0xD0, CHR 0xBE],
    [CHR 0xD1, CHR 0x8D, CHR 0xD1, CHR 0x82, CHR 0xD0, CHR 0xBE, CHR 0xD1, CHR 0x82],
    [CHR 0xD1, CHR 0x82, CHR 0xD0, CHR 0xBE, CHR 0xD0, CHR 0xB3, CHR 0xD0, CHR 0xBE],
    [CHR 0xD0, CHR 0xBF, CHR 0xD0, CHR 0xBE, CHR 0xD1, CHR 0x82, CHR 0xD0, CHR 0xBE, CHR 0xD0, CHR 0xBC, CHR 0xD1, CHR 0x83],
    [CHR 0xD1, CHR 0x8D, CHR 0xD1, CHR 0x82, CHR 0xD0, CHR 0xBE, CHR 0xD0, CHR 0xB3, CHR 0xD0, CHR 0xBE],
    [CHR 0xD0, CHR 0xBA, CHR 0xD0, CHR 0xB0, CHR 0xD0, CHR 0xBA, CHR 0xD0, CHR 0xBE, CHR 0xD0, CHR 0xB9],
    [CHR 0xD1, CHR 0x81, CHR 0xD0, CHR 0xBE, CHR 0xD0, CHR 0xB2, CHR 0xD1, CHR 0x81, CHR 0xD0, CHR 0xB5, CHR 0xD0, CHR 0xBC],
    [CHR 0xD0, CHR 0xBD, CHR 0xD0, CHR 0xB8, CHR 0xD0, CHR 0xBC],
    [CHR 0xD0, CHR 0xB7, CHR 0xD0, CHR 0xB4, CHR 0xD0, CHR 0xB5, CHR 0xD1, CHR 0x81, CHR 0xD1, CHR 0x8C],
    [CHR 0xD1, CHR 0x8D, CHR 0xD1, CHR 0x82, CHR 0xD0, CHR 0xBE, CHR 0xD0, CHR 0xBC],
    [CHR 0xD0, CHR 0xBE, CHR 0xD0, CHR 0xB4, CHR 0xD0, CHR 0xB8, CHR 0xD0, CHR 0xBD],
    [CHR 0xD0, CHR 0xBF, CHR 0xD0, CHR 0xBE, CHR 0xD1, CHR 0x87, CHR 0xD1, CHR 0x82, CHR 0xD0, CHR 0xB8],
    [CHR 0xD0, CHR 0xBC, CHR 0xD0, CHR 0xBE, CHR 0xD0, CHR 0xB9],
    [CHR 0xD1, CHR 0x82, CHR 0xD0, CHR 0xB5, CHR 0xD0, CHR 0xBC],
    [CHR 0xD1, CHR 0x87, CHR 0xD1, CHR 0x82, CHR 0xD0, CHR 0xBE, CHR 0xD0, CHR 0xB1, CHR 0xD1, CHR 0x8B],
    [CHR 0xD0, CHR 0xBD, CHR 0xD0, CHR 0xB5, CHR 0xD0, CHR 0xB5],
    [CHR 0xD1, CHR 0x81, CHR 0xD0, CHR 0xB5, CHR 0xD0, CHR 0xB9, CHR 0xD1, CHR 0x87, CHR 0xD0, CHR 0xB0, CHR 0xD1, CHR 0x81],
    [CHR 0xD0, CHR 0xB1, CHR 0xD1, CHR 0x8B, CHR 0xD0, CHR 0xBB, CHR 0xD0, CHR 0xB8],
    [CHR 0xD0, CHR 0xBA, CHR 0xD1, CHR 0x83, CHR 0xD0, CHR 0xB4, CHR 0xD0, CHR 0xB0],
    [CHR 0xD0, CHR 0xB7, CHR 0xD0, CHR 0xB0, CHR 0xD1, CHR 0x87, CHR 0xD0, CHR 0xB5, CHR 0xD0, CHR 0xBC],
    [CHR 0xD0, CHR 0xB2, CHR 0xD1, CHR 0x81, CHR 0xD0, CHR 0xB5, CHR 0xD1, CHR 0x85],
    [CHR 0xD0, CHR 0xBD, CHR 0xD0, CHR 0xB8, CHR 0xD0, CHR 0xBA, CHR 0xD0, CHR 0xBE, CHR 0xD0, CHR 0xB3, CHR 0xD0, CHR 0xB4, CHR 0xD0, CHR 0xB0],
    [CHR 0xD0, CHR 0xBC, CHR 0xD0, CHR 0xBE, CHR 0xD0, CHR 0xB6, CHR 0xD0, CHR 0xBD, CHR 0xD0, CHR 0xBE],
    [CHR 0xD0, CHR 0xBF, CHR 0xD1, CHR 0x80, CHR 0xD0, CHR 0xB8],
    [CHR 0xD0, CHR 0xBD, CHR 0xD0, CHR 0xB0, CHR 0xD0, CHR 0xBA, CHR 0xD0, CHR 0xBE, CHR 0xD0, CHR 0xBD, CHR 0xD0, CHR 0xB5, CHR 0xD1, CHR 0x86],
    [CHR 0xD0, CHR 0xB4, CHR 0xD0, CHR 0xB2, CHR 0xD0, CHR 0xB0], [CHR 0xD0, CHR 0xBE, CHR 0xD0, CHR 0xB1],
    [CHR 0xD0, CHR 0xB4, CHR 0xD1, CHR 0x80, CHR 0xD1, CHR 0x83, CHR 0xD0, CHR 0xB3, CHR 0xD0, CHR 0xBE, CHR 0xD0, CHR 0xB9],
    [CHR 0xD1, CHR 0x85, CHR 0xD0, CHR 0xBE, CHR 0xD1, CHR 0x82, CHR 0xD1, CHR 0x8C],
    [CHR 0xD0, CHR 0xBF, CHR 0xD0, CHR 0xBE, CHR 0xD1, CHR 0x81, CHR 0xD0, CHR 0xBB, CHR 0xD0, CHR 0xB5],
    [CHR 0xD0, CHR 0xBD, CHR 0xD0, CHR 0xB0, CHR 0xD0, CHR 0xB4],
    [CHR 0xD0, CHR 0xB1, CHR 0xD0, CHR 0xBE, CHR 0xD0, CHR 0xBB, CHR 0xD1, CHR 0x8C, CHR 0xD1, CHR 0x88, CHR 0xD0, CHR 0xB5],
    [CHR 0xD1, CHR 0x82, CHR 0xD0, CHR 0xBE, CHR 0xD1, CHR 0x82],
    [CHR 0xD1, CHR 0x87, CHR 0xD0, CHR 0xB5, CHR 0xD1, CHR 0x80, CHR 0xD0, CHR 0xB5, CHR 0xD0, CHR 0xB7],
    [CHR 0xD1, CHR 0x8D, CHR 0xD1, CHR 0x82, CHR 0xD0, CHR 0xB8],
    [CHR 0xD0, CHR 0xBD, CHR 0xD0, CHR 0xB0, CHR 0xD1, CHR 0x81],
    [CHR 0xD0, CHR 0xBF, CHR 0xD1, CHR 0x80, CHR 0xD0, CHR 0xBE],
    [CHR 0xD0, CHR 0xB2, CHR 0xD1, CHR 0x81, CHR 0xD0, CHR 0xB5, CHR 0xD0, CHR 0xB3, CHR 0xD0, CHR 0xBE],
    [CHR 0xD0, CHR 0xBD, CHR 0xD0, CHR 0xB8, CHR 0xD1, CHR 0x85],
    [CHR 0xD0, CHR 0xBA, CHR 0xD0, CHR 0xB0, CHR 0xD0, CHR 0xBA, CHR 0xD0, CHR 0xB0, CHR 0xD1, CHR 0x8F],
    [CHR 0xD0, CHR 0xBC, CHR 0xD0, CHR 0xBD, CHR 0xD0, CHR 0xBE, CHR 0xD0, CHR 0xB3, CHR 0xD0, CHR 0xBE],
    [CHR 0xD1, CHR 0x80, CHR 0xD0, CHR 0xB0, CHR 0xD0, CHR 0xB7, CHR 0xD0, CHR 0xB2, CHR 0xD0, CHR 0xB5],
    [CHR 0xD1, CHR 0x82, CHR 0xD1, CHR 0x80, CHR 0xD0, CHR 0xB8],
    [CHR 0xD1, CHR 0x8D, CHR 0xD1, CHR 0x82, CHR 0xD1, CHR 0x83],
    [CHR 0xD0, CHR 0xBC, CHR 0xD0, CHR 0xBE, CHR 0xD1, CHR 0x8F],
    [CHR 0xD0, CHR 0xB2, CHR 0xD0, CHR 0xBF, CHR 0xD1, CHR 0x80, CHR 0xD0, CHR 0xBE, CHR 0xD1, CHR 0x87, CHR 0xD0, CHR 0xB5, CHR 0xD0, CHR 0xBC],
    [CHR 0xD1, CHR 0x85, CHR 0xD0, CHR 0xBE, CHR 0xD1, CHR 0x80, CHR 0xD0, CHR 0xBE, CHR 0xD1, CHR 0x88, CHR 0xD0, CHR 0xBE],
    [CHR 0xD1, CHR 0x81, CHR 0xD0, CHR 0xB2, CHR 0xD0, CHR 0xBE, CHR 0xD1, CHR 0x8E],
    [CHR 0xD1, CHR 0x8D, CHR 0xD1, CHR 0x82, CHR 0xD0, CHR 0xBE, CHR 0xD0, CHR 0xB9],
    [CHR 0xD0, CHR 0xBF, CHR 0xD0, CHR 0xB5, CHR 0xD1, CHR 0x80, CHR 0xD0, CHR 0xB5, CHR 0xD0, CHR 0xB4],
    [CHR 0xD0, CHR 0xB8, CHR 0xD0, CHR 0xBD, CHR 0xD0, CHR 0xBE, CHR 0xD0, CHR 0xB3, CHR 0xD0, CHR 0xB4, CHR 0xD0, CHR 0xB0],
    [CHR 0xD0, CHR 0xBB, CHR 0xD1, CHR 0x83, CHR 0xD1, CHR 0x87, CHR 0xD1, CHR 0x88, CHR 0xD0, CHR 0xB5],
    [CHR 0xD1, CHR 0x87, CHR 0xD1, CHR 0x83, CHR 0xD1, CHR 0x82, CHR 0xD1, CHR 0x8C],
    [CHR 0xD1, CHR 0x82, CHR 0xD0, CHR 0xBE, CHR 0xD0, CHR 0xBC],
    [CHR 0xD0, CHR 0xBD, CHR 0xD0, CHR 0xB5, CHR 0xD0, CHR 0xBB, CHR 0xD1, CHR 0x8C, CHR 0xD0, CHR 0xB7, CHR 0xD1, CHR 0x8F],
    [CHR 0xD1, CHR 0x82, CHR 0xD0, CHR 0xB0, CHR 0xD0, CHR 0xBA, CHR 0xD0, CHR 0xBE, CHR 0xD0, CHR 0xB9],
    [CHR 0xD0, CHR 0xB8, CHR 0xD0, CHR 0xBC],
    [CHR 0xD0, CHR 0xB1, CHR 0xD0, CHR 0xBE, CHR 0xD0, CHR 0xBB, CHR 0xD0, CHR 0xB5, CHR 0xD0, CHR 0xB5],
    [CHR 0xD0, CHR 0xB2, CHR 0xD1, CHR 0x81, CHR 0xD0, CHR 0xB5, CHR 0xD0, CHR 0xB3, CHR 0xD0, CHR 0xB4, CHR 0xD0, CHR 0xB0],
    [CHR 0xD0, CHR 0xBA, CHR 0xD0, CHR 0xBE, CHR 0xD0, CHR 0xBD, CHR 0xD0, CHR 0xB5, CHR 0xD1, CHR 0x87, CHR 0xD0, CHR 0xBD, CHR 0xD0, CHR 0xBE],
    [CHR 0xD0, CHR 0xB2, CHR 0xD1, CHR 0x81, CHR 0xD1, CHR 0x8E],
    [CHR 0xD0, CHR 0xBC, CHR 0xD0, CHR 0xB5, CHR 0xD0, CHR 0xB6, CHR 0xD0, CHR 0xB4, CHR 0xD1, CHR 0x83]]"

definition isRussianStopword :: "string \<Rightarrow> bool" where
  "isRussianStopword word \<longleftrightarrow> word \<in> set (russianStopwords1 @ russianStopwords2)"

definition spanishStopwords1 :: "string list" where
  "spanishStopwords1 = [
    ''de'', ''la'', ''que'', ''el'', ''en'', ''y'', ''a'', ''los'', ''del'', ''se'', ''las'', ''por'', ''un'',
    ''para'', ''con'', ''no'', ''una'', ''su'', ''al'', ''lo'', ''como'', ''m'' @ [CHR 0xC3, CHR 0xA1] @ ''s'',
    ''pero'', ''sus'', ''le'', ''ya'', ''o'', ''este'', ''s'' @ [CHR 0xC3, CHR 0xAD], ''porque'', ''esta'',
    ''entre'', ''cuando'', ''muy'', ''sin'', ''sobre'', ''tambi'' @ [CHR 0xC3, CHR 0xA9] @ ''n'', ''me'',
    ''hasta'', ''hay'', ''donde'', ''quien'', ''desde'', ''todo'', ''nos'', ''durante'', ''todos'', ''uno'',
    ''les'', ''ni'', ''contra'', ''otros'', ''ese'', ''eso'', ''ante'', ''ellos'', ''e'', ''esto'',
    ''m'' @ [CHR 0xC3, CHR 0xAD], ''antes'', ''algunos'', ''qu'' @ [CHR 0xC3, CHR 0xA9], ''unos'', ''yo'',
    ''otro'', ''otras'', ''otra'', [CHR 0xC3, CHR 0xA9] @ ''l'', ''tanto'', ''esa'', ''estos'', ''mucho'',
    ''quienes'', ''nada'', ''muchos'', ''cual'', ''poco'', ''ella'', ''estar'', ''estas'', ''algunas'',
    ''algo'', ''nosotros'', ''mi'', ''mis'', ''t'' @ [CHR 0xC3, CHR 0xBA], ''te'', ''ti'', ''tu'', ''tus'',
    ''ellas'', ''nosotras'', ''vosostros'', ''vosostras'', ''os'', ''m'' @ [CHR 0xC3, CHR 0xAD] @ ''o'',
    ''m'' @ [CHR 0xC3, CHR 0xAD] @ ''a'', ''m'' @ [CHR 0xC3, CHR 0xAD] @ ''os'',
    ''m'' @ [CHR 0xC3, CHR 0xAD] @ ''as'', ''tuyo'', ''tuya'', ''tuyos'', ''tuyas'', ''suyo'', ''suya'']"

definition spanishStopwords2 :: "string list" where
  "spanishStopwords2 = [
    ''suyos'', ''suyas'', ''nuestro'', ''nuestra'', ''nuestros'', ''nuestras'', ''vuestro'', ''vuestra'',
    ''vuestros'', ''vuestras'', ''esos'', ''esas'', ''estoy'', ''est'' @ [CHR 0xC3, CHR 0xA1] @ ''s'',
    ''est'' @ [CHR 0xC3, CHR 0xA1], ''estamos'', ''est'' @ [CHR 0xC3, CHR 0xA1] @ ''is'',
    ''est'' @ [CHR 0xC3, CHR 0xA1] @ ''n'', ''est'' @ [CHR 0xC3, CHR 0xA9],
    ''est'' @ [CHR 0xC3, CHR 0xA9] @ ''s'', ''estemos'', ''est'' @ [CHR 0xC3, CHR 0xA9] @ ''is'',
    ''est'' @ [CHR 0xC3, CHR 0xA9] @ ''n'', ''estar'' @ [CHR 0xC3, CHR 0xA9],
    ''estar'' @ [CHR 0xC3, CHR 0xA1] @ ''s'', ''estar'' @ [CHR 0xC3, CHR 0xA1], ''estaremos'',
    ''estar'' @ [CHR 0xC3, CHR 0xA9] @ ''is'', ''estar'' @ [CHR 0xC3, CHR 0xA1] @ ''n'',
    ''estar'' @ [CHR 0xC3, CHR 0xAD] @ ''a'', ''estar'' @ [CHR 0xC3, CHR 0xAD] @ ''as'',
    ''estar'' @ [CHR 0xC3, CHR 0xAD] @ ''amos'', ''estar'' @ [CHR 0xC3, CHR 0xAD] @ ''ais'',
    ''estar'' @ [CHR 0xC3, CHR 0xAD] @ ''an'', ''estaba'', ''estabas'',
    ''est'' @ [CHR 0xC3, CHR 0xA1] @ ''bamos'', ''estabais'', ''estaban'', ''estuve'', ''estuviste'',
    ''estuvo'', ''estuvimos'', ''estuvisteis'', ''estuvieron'', ''estuviera'', ''estuvieras'',
    ''estuvi'' @ [CHR 0xC3, CHR 0xA9] @ ''ramos'', ''estuvierais'', ''estuvieran'', ''estuviese'',
    ''estuvieses'', ''estuvi'' @ [CHR 0xC3, CHR 0xA9] @ ''semos'', ''estuvieseis'', ''estuviesen'',
    ''estando'', ''estado'', ''estada'', ''estados'', ''estadas'', ''estad'', ''he'', ''has'', ''ha'',
    ''hemos'', ''hab'' @ [CHR 0xC3, CHR 0xA9] @ ''is'', ''han'', ''haya'', ''hayas'', ''hayamos'',
    ''hay'' @ [CHR 0xC3, CHR 0xA1] @ ''is'', ''hayan'', ''habr'' @ [CHR 0xC3, CHR 0xA9],
    ''habr'' @ [CHR 0xC3, CHR 0xA1] @ ''s'', ''habr'' @ [CHR 0xC3, CHR 0xA1], ''habremos'',
    ''habr'' @ [CHR 0xC3, CHR 0xA9] @ ''is'', ''habr'' @ [CHR 0xC3, CHR 0xA1] @ ''n'',
    ''habr'' @ [CHR 0xC3, CHR 0xAD] @ ''a'', ''habr'' @ [CHR 0xC3, CHR 0xAD] @ ''as'',
    ''habr'' @ [CHR 0xC3, CHR 0xAD] @ ''amos'', ''habr'' @ [CHR 0xC3, CHR 0xAD] @ ''ais'',
    ''habr'' @ [CHR 0xC3, CHR 0xAD] @ ''an'', ''hab'' @ [CHR 0xC3, CHR 0xAD] @ ''a'',
    ''hab'' @ [CHR 0xC3, CHR 0xAD] @ ''as'', ''hab'' @ [CHR 0xC3, CHR 0xAD] @ ''amos'',
    ''hab'' @ [CHR 0xC3, CHR 0xAD] @ ''ais'', ''hab'' @ [CHR 0xC3, CHR 0xAD] @ ''an'', ''hube'', ''hubiste'',
    ''hubo'', ''hubimos'', ''hubisteis'', ''hubieron'', ''hubiera'', ''hubieras'',
    ''hubi'' @ [CHR 0xC3, CHR 0xA9] @ ''ramos'', ''hubierais'', ''hubieran'', ''hubiese'', ''hubieses'',
    ''hubi'' @ [CHR 0xC3, CHR 0xA9] @ ''semos'', ''hubieseis'', ''hubiesen'', ''habiendo'']"

definition spanishStopwords3 :: "string list" where
  "spanishStopwords3 = [
    ''habido'', ''habida'', ''habidos'', ''habidas'', ''soy'', ''eres'', ''es'', ''somos'', ''sois'', ''son'',
    ''sea'', ''seas'', ''seamos'', ''se'' @ [CHR 0xC3, CHR 0xA1] @ ''is'', ''sean'',
    ''ser'' @ [CHR 0xC3, CHR 0xA9], ''ser'' @ [CHR 0xC3, CHR 0xA1] @ ''s'', ''ser'' @ [CHR 0xC3, CHR 0xA1],
    ''seremos'', ''ser'' @ [CHR 0xC3, CHR 0xA9] @ ''is'', ''ser'' @ [CHR 0xC3, CHR 0xA1] @ ''n'',
    ''ser'' @ [CHR 0xC3, CHR 0xAD] @ ''a'', ''ser'' @ [CHR 0xC3, CHR 0xAD] @ ''as'',
    ''ser'' @ [CHR 0xC3, CHR 0xAD] @ ''amos'', ''ser'' @ [CHR 0xC3, CHR 0xAD] @ ''ais'',
    ''ser'' @ [CHR 0xC3, CHR 0xAD] @ ''an'', ''era'', ''eras'', [CHR 0xC3, CHR 0xA9] @ ''ramos'', ''erais'',
    ''eran'', ''fui'', ''fuiste'', ''fue'', ''fuimos'', ''fuisteis'', ''fueron'', ''fuera'', ''fueras'',
    ''fu'' @ [CHR 0xC3, CHR 0xA9] @ ''ramos'', ''fuerais'', ''fueran'', ''fuese'', ''fueses'',
    ''fu'' @ [CHR 0xC3, CHR 0xA9] @ ''semos'', ''fueseis'', ''fuesen'', ''sintiendo'', ''sentido'',
    ''sentida'', ''sentidos'', ''sentidas'', ''siente'', ''sentid'', ''tengo'', ''tienes'', ''tiene'',
    ''tenemos'', ''ten'' @ [CHR 0xC3, CHR 0xA9] @ ''is'', ''tienen'', ''tenga'', ''tengas'', ''tengamos'',
    ''teng'' @ [CHR 0xC3, CHR 0xA1] @ ''is'', ''tengan'', ''tendr'' @ [CHR 0xC3, CHR 0xA9],
    ''tendr'' @ [CHR 0xC3, CHR 0xA1] @ ''s'', ''tendr'' @ [CHR 0xC3, CHR 0xA1], ''tendremos'',
    ''tendr'' @ [CHR 0xC3, CHR 0xA9] @ ''is'', ''tendr'' @ [CHR 0xC3, CHR 0xA1] @ ''n'',
    ''tendr'' @ [CHR 0xC3, CHR 0xAD] @ ''a'', ''tendr'' @ [CHR 0xC3, CHR 0xAD] @ ''as'',
    ''tendr'' @ [CHR 0xC3, CHR 0xAD] @ ''amos'', ''tendr'' @ [CHR 0xC3, CHR 0xAD] @ ''ais'',
    ''tendr'' @ [CHR 0xC3, CHR 0xAD] @ ''an'', ''ten'' @ [CHR 0xC3, CHR 0xAD] @ ''a'',
    ''ten'' @ [CHR 0xC3, CHR 0xAD] @ ''as'', ''ten'' @ [CHR 0xC3, CHR 0xAD] @ ''amos'',
    ''ten'' @ [CHR 0xC3, CHR 0xAD] @ ''ais'', ''ten'' @ [CHR 0xC3, CHR 0xAD] @ ''an'', ''tuve'', ''tuviste'',
    ''tuvo'', ''tuvimos'', ''tuvisteis'', ''tuvieron'', ''tuviera'', ''tuvieras'',
    ''tuvi'' @ [CHR 0xC3, CHR 0xA9] @ ''ramos'', ''tuvierais'', ''tuvieran'', ''tuviese'', ''tuvieses'',
    ''tuvi'' @ [CHR 0xC3, CHR 0xA9] @ ''semos'', ''tuvieseis'', ''tuviesen'', ''teniendo'', ''tenido'',
    ''tenida'', ''tenidos'', ''tenidas'', ''tened'']"

definition isSpanishStopword :: "string \<Rightarrow> bool" where
  "isSpanishStopword word \<longleftrightarrow> word \<in> set (spanishStopwords1 @ spanishStopwords2 @ spanishStopwords3)"

section \<open>The filter\<close>

definition isStopword :: "string \<Rightarrow> Language \<Rightarrow> bool" where
  "isStopword word lang =
     (if length word \<le> 2 then True
      else case lang of
        DE \<Rightarrow> isGermanStopword word
      | EN \<Rightarrow> isEnglishStopword word
      | ES \<Rightarrow> isSpanishStopword word
      | FR \<Rightarrow> isFrenchStopword word
      | IT \<Rightarrow> isItalianStopword word
      | RU \<Rightarrow> isRussianStopword word
      | _ \<Rightarrow> isEnglishStopword word)"

section \<open>No stopword is scored\<close>

definition scored_outside :: "(string \<Rightarrow> bool) \<Rightarrow> scored_word list \<Rightarrow> bool" where
  "scored_outside stop ws \<longleftrightarrow> (\<forall>w \<in> set ws. \<not> stop (c_str (sw_word w)))"

lemma scored_outside_add:
  assumes "scored_outside stop (wa_scoredWords acc)"
    and "\<not> stop (c_str (sw_word (make_ScoredWord1 (replicate 24 NUL) (drop (sv_base w) buf) (sv_len w mod 256))))"
  shows "scored_outside stop (wa_scoredWords (wa_add env rnd buf acc w))"
proof (cases "find_word env buf (wordsByStr acc) w")
  case None
  with assms show ?thesis by (auto simp: scored_outside_def wa_add_def Let_def)
next
  case (Some i)
  let ?ws = "wa_scoredWords acc" and ?new = "\<lambda>e. e\<lparr>sw_score := d_add rnd (sw_score e) (Num 1)\<rparr>"
  have "\<not> stop (c_str (sw_word x))" if "x \<in> set (?ws[i := ?new (?ws ! i)])" for x
  proof (cases "i < length ?ws")
    case True
    with that set_update_subset_insert [of ?ws i "?new (?ws ! i)"] have "x = ?new (?ws ! i) \<or> x \<in> set ?ws" by blast
    with assms(1) True show ?thesis by (auto simp: scored_outside_def)
  qed (use that assms(1) in \<open>simp add: scored_outside_def list_update_beyond\<close>)
  then show ?thesis by (simp add: Some scored_outside_def wa_add_def Let_def)
qed

lemma process_loop_outside:
  assumes "process_loop env rnd stopword stemmer lang it acc = Some r"
  shows "scored_outside (\<lambda>w. stopword w lang) (wa_scoredWords acc) \<longrightarrow>
    (\<forall>it' acc'. r = Inr (it', acc') \<longrightarrow> scored_outside (\<lambda>w. stopword w lang) (wa_scoredWords acc'))"
  using _ assms
proof (rule process_loop.raw_induct [where P = "\<lambda>env rnd stopword stemmer lang it acc r.
    scored_outside (\<lambda>w. stopword w lang) (wa_scoredWords acc) \<longrightarrow>
    (\<forall>it' acc'. r = Inr (it', acc') \<longrightarrow> scored_outside (\<lambda>w. stopword w lang) (wa_scoredWords acc'))"], goal_cases)
  case (1 loop env rnd stopword stemmer lang it acc r)
  note IH = 1(1) and step = 1(2)
  show ?case
  proof (intro impI)
    assume acc: "scored_outside (\<lambda>w. stopword w lang) (wa_scoredWords acc)"
    have added: "scored_outside (\<lambda>w. stopword w lang)
        (wa_scoredWords (wa_add env rnd buf acc \<lparr>sv_base = start, sv_len = len\<rparr>))"
      if "\<not> stopword (c_str (sw_word (make_ScoredWord1 (replicate 24 NUL) (drop start buf) len))) lang" "len \<le> 23"
      for buf start len
      using that by (intro scored_outside_add [OF acc]) simp
    show "\<forall>it' acc'. r = Inr (it', acc') \<longrightarrow> scored_outside (\<lambda>w. stopword w lang) (wa_scoredWords acc')"
      using step acc
      by (auto simp: Let_def split: option.splits sum.splits prod.splits if_splits dest!: IH dest: added)
  qed
qed

lemma scored_outside_build: "scored_outside stop (fst (build_loop rnd tot ws mag)) \<longleftrightarrow> scored_outside stop ws"
  by (induction ws arbitrary: mag) (auto simp: scored_outside_def Let_def case_prod_unfold)

text \<open>
  C28.  No stopword is scored: every word of a processed document has at least three bytes and is not in
  the table of the document's language (which is compared with the stems, not with the words).
\<close>

theorem no_stopword_is_scored:
  assumes "worker_processNew env rnd isStopword epochTime stemmers doc = Some (Inr (result, stemmers'))"
  shows "\<forall>w \<in> set (pd_scoredWords result).
    3 \<le> length (c_str (sw_word w)) \<and> \<not> isStopword (c_str (sw_word w)) (d_language doc)"
proof -
  let ?stop = "\<lambda>w. isStopword w (d_language doc)"
  have short: "3 \<le> length w" if "\<not> ?stop w" for w
    using that by (auto simp: isStopword_def split: if_splits)
  obtain stemmer rest where stemmer: "getStemmer env stemmers (d_language doc) = (stemmer, rest)" by fastforce
  from assms obtain it acc where
    loop: "process_loop env rnd isStopword stemmer (d_language doc) (new_token_iter (d_text doc)) new_WordAccumulator
        = Some (Inr (it, acc))"
    and result: "pd_scoredWords result = fst (wa_getScores (wa_build rnd acc))"
    by (auto simp: worker_processNew_def processNew_def stemmer Let_def case_prod_unfold split: option.splits sum.splits)
  have "scored_outside ?stop (wa_scoredWords acc)"
    using process_loop_outside [OF loop] by (simp add: scored_outside_def new_WordAccumulator_def)
  then have "scored_outside ?stop (pd_scoredWords result)"
    by (simp add: result wa_getScores_def wa_build_def case_prod_unfold Let_def scored_outside_build)
  with short show ?thesis by (simp add: scored_outside_def)
qed

section \<open>Processing ends\<close>

context ascii_codec
begin

lemma next_token_scan:
  assumes "is_ascii t" and "i \<le> length t" and "scan (drop i t) i 0 i = (i', k, s)"
  shows "next_token env (iter_at t i) = Some (Inr (if k > 2
    then (iter_at t i', True, s, if i' \<noteq> length t then i' - 1 else i') else (iter_at t i', False, 0, 0)))"
    and "i \<le> i'" and "i' \<le> length t" and "k > 2 \<Longrightarrow> i < i'"
proof -
  have "scan_result t i i (i', k, s)" using scan_found [of i t i 0 i] assms(2,3) by simp
  then show bounds: "i \<le> i'" "i' \<le> length t" "k > 2 \<Longrightarrow> i < i'" by (auto simp: scan_result_def)
  show "next_token env (iter_at t i) = Some (Inr (if k > 2
    then (iter_at t i', True, s, if i' \<noteq> length t then i' - 1 else i') else (iter_at t i', False, 0, 0)))"
  proof (cases "i = length t")
    case True
    with assms(3) show ?thesis by (auto simp: next_token_def iter_at_simps)
  next
    case False
    with token_loop_scan [OF assms(1,2), of 0 i] assms(2,3) bounds show ?thesis
      by (simp add: next_token_def iter_at_simps)
  qed
qed

lemma process_loop_total:
  "is_ascii t \<Longrightarrow> i \<le> length t \<Longrightarrow>
   \<exists>it acc'. process_loop env rnd stopword (Some stemmer) lang (iter_at t i) acc = Some (Inr (it, acc'))"
proof (induction "length t - i" arbitrary: i acc rule: less_induct)
  case less
  obtain i' k s where scan: "scan (drop i t) i 0 i = (i', k, s)" by (metis prod_cases3)
  note token = next_token_scan [OF less.prems scan]
  show ?case
  proof (cases "k > 2")
    case False
    with token(1) show ?thesis by (subst process_loop.simps) simp
  next
    case True
    with token(3,4) have "\<And>acc. \<exists>it acc'. process_loop env rnd stopword (Some stemmer) lang (iter_at t i') acc = Some (Inr (it, acc'))"
      by (intro less.hyps) (use less.prems in auto)
    with token(1) True show ?thesis
      by (subst process_loop.simps) (simp add: getStemPos_def Let_def)
  qed
qed

end

lemma ascii_processing:
  assumes "ascii_codec env" and "is_ascii (d_text doc)"
    and "fst (getStemmer env stemmers (d_language doc)) = Some stemmer"
  shows "\<exists>result stemmers'. worker_processNew env rnd stopword epochTime stemmers doc = Some (Inr (result, stemmers'))"
proof -
  obtain rest where stemmer: "getStemmer env stemmers (d_language doc) = (Some stemmer, rest)"
    using assms(3) by (cases "getStemmer env stemmers (d_language doc)") simp
  have "new_token_iter (d_text doc) = iter_at (d_text doc) 0" by (simp add: new_token_iter_def iter_at_def)
  with ascii_codec.process_loop_total [OF assms(1,2), of 0 rnd stopword stemmer "d_language doc" new_WordAccumulator]
  show ?thesis by (auto simp: worker_processNew_def processNew_def stemmer Let_def case_prod_unfold)
qed

text \<open>
  Processing ends: an ASCII text with a stemmer for its language always gives a processed document,
  which carries the document's identifier, the current time and the hash of the text that the
  processor leaves.
\<close>

theorem ascii_text_is_processed:
  assumes "ascii_codec env" and "is_ascii (d_text doc)"
    and "fst (getStemmer env stemmers (d_language doc)) = Some stemmer"
  shows "\<exists>result stemmers'. worker_processNew env rnd stopword epochTime stemmers doc = Some (Inr (result, stemmers'))
    \<and> pd_id result = d_id doc \<and> pd_created result = epochTime \<and> pd_updated result = epochTime
    \<and> pd_sha1Hash result \<noteq> None"
  using ascii_processing [OF assms, of rnd stopword epochTime]
  by (auto simp: worker_processNew_def processNew_def Let_def case_prod_unfold split: option.splits sum.splits)

definition two_words :: Document where
  "two_words = \<lparr>d_id = ''d'', d_text = ''The cats'', d_language = EN\<rparr>"

lemma two_words_ascii: "is_ascii (d_text two_words)"
  by (simp add: two_words_def is_ascii_def)

lemma two_words_stemmer: "fst (getStemmer plain_env (\<lambda>lang. None) (d_language two_words)) = Some length"
  by (simp add: getStemmer_def new_Utf8Stemmer_def countryCodeOfThriftLanguage_def plain_env_def two_words_def Let_def)

theorem ascii_text_is_processed_witness:
  "\<exists>result stemmers'. worker_processNew plain_env Num isStopword 7 (\<lambda>lang. None) two_words = Some (Inr (result, stemmers'))
    \<and> pd_id result = ''d''"
  using ascii_text_is_processed [OF plain_codec.ascii_codec_axioms two_words_ascii two_words_stemmer, of Num isStopword 7]
  by (auto simp: two_words_def)

theorem no_stopword_is_scored_witness:
  "\<exists>result stemmers'. worker_processNew plain_env Num isStopword 7 (\<lambda>lang. None) two_words = Some (Inr (result, stemmers'))
    \<and> (\<forall>w \<in> set (pd_scoredWords result). 3 \<le> length (c_str (sw_word w)))"
  using ascii_processing [OF plain_codec.ascii_codec_axioms two_words_ascii two_words_stemmer, of Num isStopword 7]
    no_stopword_is_scored by blast

end
