(* ===== verification/TypedStore.thy ===== *)
theory TypedStore
  imports CentroidUpdate
begin

text \<open>
  A typing of the database: what is stored under a key has the form that the code expects when it
  reads the key.  The operations of \<open>SyncPersistence\<close> and \<open>CentroidMetadataDb\<close> keep the typing, the
  loads of a typed store do not throw, and the updater always succeeds on it.
\<close>

section \<open>The typing\<close>

text \<open>
  Documents and centroids decode; the timestamps of a centroid are numbers, and only centroids that
  exist have them; the members of a centroid have plain identifiers.
\<close>

definition store_typed :: "('db, 'z) env_scheme \<Rightarrow> (string \<Rightarrow> string option) \<Rightarrow> bool" where
  "store_typed api m \<longleftrightarrow>
     (\<forall>d v. m (getDocumentKey d) = Some v \<longrightarrow> thrift_de_doc api v \<noteq> None)
   \<and> (\<forall>c v. m (getCentroidKey c) = Some v \<longrightarrow> thrift_de_centroid api v \<noteq> None)
   \<and> (\<forall>c n v. plain c \<longrightarrow> m (getCentroidMetadataKey c n) = Some v \<longrightarrow>
        m (getCentroidKey c) \<noteq> None \<and> string_to_u64 api v \<noteq> None)
   \<and> (\<forall>c d v. plain c \<longrightarrow> m (getCentroidDocumentKey c d) = Some v \<longrightarrow> plain d)"

text \<open>
  A centroid counts as calculated when it has the timestamp of a calculation.  \<open>keeps_calculated X m m'\<close>:
  the calculated centroids of \<open>m'\<close>, those of \<open>X\<close> apart, are calculated in \<open>m\<close> and stored alike.
\<close>

definition calculated :: "(string \<Rightarrow> string option) \<Rightarrow> string \<Rightarrow> bool" where
  "calculated m c \<longleftrightarrow> plain c \<and> m (getCentroidMetadataKey c ''lastCalculated'') \<noteq> None"

definition keeps_calculated :: "string set \<Rightarrow> (string \<Rightarrow> string option) \<Rightarrow> (string \<Rightarrow> string option) \<Rightarrow> bool" where
  "keeps_calculated X m m' \<longleftrightarrow>
     (\<forall>c. c \<notin> X \<longrightarrow> calculated m' c \<longrightarrow> calculated m c \<and> m' (getCentroidKey c) = m (getCentroidKey c))"

lemma keeps_calculated_refl [simp]: "keeps_calculated X m m"
  by (simp add: keeps_calculated_def)

lemma keeps_calculated_trans: "keeps_calculated X m m' \<Longrightarrow> keeps_calculated X m' m'' \<Longrightarrow> keeps_calculated X m m''"
  by (simp add: keeps_calculated_def)

lemmas calculated_defs = keeps_calculated_def calculated_def

text \<open>What Thrift serializes, Thrift decodes.\<close>

locale typed_contract = env_contract api entries
  for api :: "('db, 'z) env_scheme" and entries :: "'db \<Rightarrow> (string \<times> string) list" +
  assumes doc_decodes: "thrift_de_doc api (thrift_ser_doc api d) \<noteq> None"
    and centroid_decodes: "thrift_de_centroid api (thrift_ser_centroid api c) \<noteq> None"
begin

abbreviation typed :: "'db \<Rightarrow> bool" where
  "typed db \<equiv> store_typed api (map_of (entries db))"

lemma typed_empty: "entries db = [] \<Longrightarrow> typed db"
  by (simp add: store_typed_def)

lemma typed_saveDocument: "plain (pd_id doc) \<Longrightarrow> typed db \<Longrightarrow> typed (fst (sp_saveDocument api db doc))"
  using doc_decodes
  by (auto simp: store_typed_def store_saveDocument key_eqs binarySerialize_document_def split: if_splits)

lemma typed_saveNewDocument: "plain (pd_id doc) \<Longrightarrow> typed db \<Longrightarrow> typed (fst (sp_saveNewDocument api db doc))"
  by (simp add: sp_saveNewDocument_def typed_saveDocument)

lemma typed_deleteDocument: "plain d \<Longrightarrow> typed db \<Longrightarrow> typed (fst (sp_deleteDocument api db d))"
  by (auto simp: store_typed_def store_deleteDocument key_eqs split: if_splits)

lemma typed_saveCentroid: "plain c \<Longrightarrow> typed db \<Longrightarrow> typed (fst (sp_saveCentroid api db c centroid))"
  using centroid_decodes
  by (auto simp: store_typed_def store_saveCentroid key_eqs binarySerialize_centroid_def split: if_splits)

lemma typed_createNewCentroid: "plain c \<Longrightarrow> typed db \<Longrightarrow> typed (fst (sp_createNewCentroid api db c))"
  by (simp add: sp_createNewCentroid_def typed_saveCentroid)

lemma typed_deleteCentroid: "plain c \<Longrightarrow> typed db \<Longrightarrow> typed (fst (sp_deleteCentroid api db c))"
  by (auto simp: store_typed_def store_deleteCentroid key_eqs split: if_splits)

lemma typed_addDocument:
  "plain c \<Longrightarrow> plain d \<Longrightarrow> typed db \<Longrightarrow> typed (fst (sp_addDocumentToCentroid api db c d))"
  by (auto simp: sp_addDocumentToCentroid_def Let_def store_typed_def store_put key_eqs split: if_splits)

lemma typed_removeDocument:
  "plain c \<Longrightarrow> plain d \<Longrightarrow> typed db \<Longrightarrow> typed (fst (sp_removeDocumentFromCentroid api db c d))"
  by (auto simp: sp_removeDocumentFromCentroid_def Let_def case_prod_unfold store_typed_def store_del key_eqs split: if_splits)

lemma typed_setMetadata:
  "plain c \<Longrightarrow> sp_doesCentroidExist api db c \<Longrightarrow> typed db \<Longrightarrow> typed (db_after (setMetadata api c n t) db)"
  by (auto simp: run_setMetadata sp_setCentroidMetadata_def store_typed_def store_put key_eqs metadata_keys_apart
      u64_roundtrip exists_simps split: if_splits)

lemma existence_kept:
  "plain c \<Longrightarrow> plain d \<Longrightarrow>
     sp_doesCentroidExist api (fst (sp_addDocumentToCentroid api db c d)) c' \<longleftrightarrow> sp_doesCentroidExist api db c'"
  "plain c \<Longrightarrow> plain d \<Longrightarrow>
     sp_doesCentroidExist api (fst (sp_removeDocumentFromCentroid api db c d)) c' \<longleftrightarrow> sp_doesCentroidExist api db c'"
  by (auto simp: exists_simps sp_addDocumentToCentroid_def sp_removeDocumentFromCentroid_def Let_def
      case_prod_unfold store_put store_del key_eqs)

text \<open>Only the updater calculates; the other operations leave the calculated centroids alone or delete them.\<close>

lemma calculated_documents:
  "plain (pd_id doc) \<Longrightarrow> keeps_calculated X (map_of (entries db)) (map_of (entries (fst (sp_saveNewDocument api db doc))))"
  "plain d \<Longrightarrow> keeps_calculated X (map_of (entries db)) (map_of (entries (fst (sp_deleteDocument api db d))))"
  by (auto simp: calculated_defs sp_saveNewDocument_def store_saveDocument store_deleteDocument key_eqs split: if_splits)

lemma calculated_centroids:
  "plain c \<Longrightarrow> typed db \<Longrightarrow>
     keeps_calculated X (map_of (entries db)) (map_of (entries (fst (sp_createNewCentroid api db c))))"
  "plain c \<Longrightarrow> keeps_calculated X (map_of (entries db)) (map_of (entries (fst (sp_deleteCentroid api db c))))"
  by (auto simp: calculated_defs sp_createNewCentroid_def store_saveCentroid store_deleteCentroid rock_exists_eq
      store_typed_def key_eqs split: if_splits)

lemma calculated_members:
  "plain c \<Longrightarrow> plain d \<Longrightarrow>
     keeps_calculated X (map_of (entries db)) (map_of (entries (fst (sp_addDocumentToCentroid api db c d))))"
  "plain c \<Longrightarrow> plain d \<Longrightarrow>
     keeps_calculated X (map_of (entries db)) (map_of (entries (fst (sp_removeDocumentFromCentroid api db c d))))"
  by (auto simp: calculated_defs sp_addDocumentToCentroid_def sp_removeDocumentFromCentroid_def Let_def
      case_prod_unfold store_put store_del key_eqs split: if_splits)

lemma calculated_setMetadata:
  "plain c \<Longrightarrow> n \<noteq> ''lastCalculated'' \<or> c \<in> X \<Longrightarrow>
     keeps_calculated X (map_of (entries db)) (map_of (entries (db_after (setMetadata api c n t) db)))"
  by (auto simp: calculated_defs run_setMetadata sp_setCentroidMetadata_def store_put key_eqs metadata_keys_apart
      split: if_splits)

section \<open>Reading a typed store\<close>

lemma typed_loadDocument: "typed db \<Longrightarrow> sp_loadDocument api db d \<noteq> None"
  by (auto simp: sp_loadDocument_def rock_get_eq store_typed_def binaryDeserialize_document_def split: option.split)

lemma typed_loadCentroid: "typed db \<Longrightarrow> sp_loadCentroid api db c \<noteq> None"
  by (auto simp: sp_loadCentroid_def rock_get_eq store_typed_def binaryDeserialize_centroid_def split: option.split)

lemma typed_loadCentroidUniqueOption: "typed db \<Longrightarrow> sp_loadCentroidUniqueOption api db c \<noteq> None"
  by (auto simp: sp_loadCentroidUniqueOption_def rock_get_eq store_typed_def binaryDeserialize_centroid_def
      split: option.split)

lemma typed_upToDate:
  assumes "typed db" and "plain c"
  shows "if sp_doesCentroidExist api db c then \<exists>b. run_state (isCentroidUpToDate api c) db = (Some (Inr b), db)
    else run_state (isCentroidUpToDate api c) db = (Some (Inl ECentroidDoesNotExist), db)"
proof -
  have stamp: "sp_getCentroidMetadata api db c n = None
      \<or> (\<exists>s t. sp_getCentroidMetadata api db c n = Some s \<and> string_to_u64 api s = Some t \<and> sp_doesCentroidExist api db c)" for n
    using assms
    by (cases "map_of (entries db) (getCentroidMetadataKey c n)")
      (fastforce simp: sp_getCentroidMetadata_def rock_get_eq store_typed_def exists_simps)+
  show ?thesis
    using stamp [of "''lastCalculated''"] stamp [of "''lastDocumentChange''"]
    by (auto simp: isCentroidUpToDate_def getLastCalculatedTimestamp_def getLastDocumentChangeTimestamp_def
        run_getMetadata p_doesCentroidExist_def Let_def)
qed

end

section \<open>The updater on a typed store\<close>

context typed_contract
begin

text \<open>A typed store in which the centroid exists, and which agrees with the first store on the others.\<close>

abbreviation ready_for :: "'db \<Rightarrow> string \<Rightarrow> 'db \<Rightarrow> bool" where
  "ready_for db0 c db \<equiv> typed db \<and> sp_doesCentroidExist api db c
     \<and> keeps_calculated {c} (map_of (entries db0)) (map_of (entries db))"

lemma load_batch_typed: "typed db \<Longrightarrow> \<exists>docs. run_state (load_batch api ids) db = (Some docs, db) \<and> length docs = length ids"
proof (induction ids)
  case (Cons i ids)
  with typed_loadDocument [OF Cons.prems, of i] show ?case
    by (auto simp: load_option_def p_loadDocument_def)
qed simp

lemma add_loaded_ready:
  assumes "plain c" and "list_all plain idSet" and "ready_for db0 c db" and "i + length docs \<le> length idSet"
  shows "ready_for db0 c (db_after (add_loaded api rnd c idSet i docs acc) db)"
  using assms(3,4)
proof (induction docs arbitrary: i acc db)
  case (Cons doc docs)
  show ?case
  proof (cases doc)
    case None
    have "plain (idSet ! i)" using Cons.prems(2) assms(2) by (simp add: list_all_length)
    with Cons.prems Cons.IH [of "fst (sp_removeDocumentFromCentroid api db c (idSet ! i))" "i + 1"] assms(1)
    show ?thesis
      using keeps_calculated_trans [OF _ calculated_members(2)]
      by (simp add: None p_removeDocumentFromCentroid_def Let_def typed_removeDocument existence_kept)
  next
    case (Some d)
    with Cons show ?thesis by simp
  qed
qed simp

lemma process_page_ready:
  assumes "plain c" and "list_all plain idSet" and "ready_for db0 c db"
  shows "\<exists>acc' db'. run_state (process_page api rnd c idSet docNum acc) db = (Some acc', db') \<and> ready_for db0 c db'"
  using assms(3)
proof (induction "length idSet - docNum" arbitrary: docNum acc db rule: less_induct)
  case less
  show ?case
  proof (cases "docNum < length idSet")
    case True
    from load_batch_typed [of db "batch_ids idSet docNum"] less.prems obtain docs where
      docs: "run_state (load_batch api (batch_ids idSet docNum)) db = (Some docs, db)"
        "length docs = length (batch_ids idSet docNum)" by blast
    obtain acc1 db1 where added: "run_state (add_loaded api rnd c idSet 0 docs acc) db = (acc1, db1)" by fastforce
    have "ready_for db0 c db1"
      using add_loaded_ready [OF assms(1,2) less.prems, of 0 docs rnd acc] docs(2) True added
      by (simp add: batch_ids_eq)
    moreover have "length idSet - (docNum + documentBatchSize) < length idSet - docNum" using True by simp
    ultimately have "\<exists>acc' db'. run_state (process_page api rnd c idSet (docNum + documentBatchSize) acc1) db1
        = (Some acc', db') \<and> ready_for db0 c db'" using less.hyps by blast
    with True docs(1) added show ?thesis by (subst process_page.simps) (simp add: Let_def)
  next
    case False
    with less.prems show ?thesis by (subst process_page.simps) simp
  qed
qed

lemma listed_plain: "plain c \<Longrightarrow> typed db \<Longrightarrow> list_all plain (listAllDocumentsForCentroidRaw api db c)"
  by (auto simp: list_all_iff members_listed catalog_of_mem store_typed_def)

lemma next_page_plain:
  assumes "plain c" and "ready_for db0 c db"
  shows "\<exists>ids. sp_listCentroidDocumentRangeFromDocumentIdOption api db c d n = Some ids \<and> list_all plain ids"
  using assms listed_plain [of c db]
  by (auto simp: sp_listCentroidDocumentRangeFromDocumentIdOption_def centroid_documents_under Let_def list_all_iff
      dest: in_set_takeD)

lemma page_loop_ready:
  assumes "page_loop api rnd c idSet acc db = Some r" and "plain c" and "list_all plain idSet" and "ready_for db0 c db"
  shows "\<exists>acc' db'. r = (Finished acc', db') \<and> ready_for db0 c db'"
proof -
  have "api = api \<longrightarrow> plain c \<longrightarrow> list_all plain idSet \<longrightarrow> ready_for db0 c db \<longrightarrow>
     (\<exists>acc' db'. r = (Finished acc', db') \<and> ready_for db0 c db')"
    using _ assms(1)
  proof (rule page_loop.raw_induct
      [where P = "\<lambda>api' rnd c idSet acc db r. api' = api \<longrightarrow> plain c \<longrightarrow> list_all plain idSet \<longrightarrow> ready_for db0 c db \<longrightarrow>
         (\<exists>acc' db'. r = (Finished acc', db') \<and> ready_for db0 c db')"], goal_cases)
    case (1 loop api' rnd c idSet acc db r)
    show ?case
    proof (intro impI)
      assume asms: "api' = api" "plain c" "list_all plain idSet" "ready_for db0 c db"
      from process_page_ready [OF asms(2,3,4), of rnd 0 acc] obtain acc1 db1 where
        page: "run_state (process_page api rnd c idSet 0 acc) db = (Some acc1, db1)" "ready_for db0 c db1" by blast
      from next_page_plain [OF asms(2,4), of "last idSet" 500] obtain ids where
        ids: "sp_listCentroidDocumentRangeFromDocumentIdOption api db c (last idSet) 500 = Some ids" "list_all plain ids" by blast
      have "(if 500 \<le> length ids then loop api rnd c ids acc1 db1 else Some (Finished acc1, db1)) = Some r"
        using 1(2) page(1) ids(1) asms(1)
        by (simp add: p_listCentroidDocumentRangeFromDocumentIdOption_def Let_def cong: if_cong)
      with 1(1) [of api rnd c ids acc1 db1 r] asms(2) ids(2) page(2)
      show "\<exists>acc' db'. r = (Finished acc', db') \<and> ready_for db0 c db'" by (auto split: if_splits)
    qed
  qed
  with assms(2-4) show ?thesis by blast
qed

lemma finish_run_ready:
  assumes "plain c" and "ready_for db0 c db"
  shows "\<exists>db'. run_state (finish_run api rnd c t acc) db = (Inr True, db') \<and> ready_for db0 c db'"
proof -
  let ?cen = "new_Centroid c\<lparr>c_wordVector := \<lparr>wv_scores = fst (getScores (snd (getMagnitude rnd acc))),
      wv_magnitude = fst (getMagnitude rnd acc), wv_documentWeight = d_of_nat rnd (getCount (snd (getMagnitude rnd acc)))\<rparr>\<rparr>"
  let ?db = "fst (sp_saveCentroid api db c ?cen)"
  let ?db' = "db_after (setMetadata api c ''lastCalculated'' t) ?db"
  have saved: "typed ?db" "sp_doesCentroidExist api ?db c"
    using assms typed_saveCentroid by (auto simp: exists_simps store_saveCentroid)
  have "keeps_calculated {c} (map_of (entries db)) (map_of (entries ?db))"
    using assms(1) by (auto simp: calculated_defs store_saveCentroid key_eqs)
  moreover have "keeps_calculated {c} (map_of (entries ?db)) (map_of (entries ?db'))"
    using assms(1) by (intro calculated_setMetadata) simp_all
  ultimately have "keeps_calculated {c} (map_of (entries db0)) (map_of (entries ?db'))"
    using assms(2) keeps_calculated_trans by blast
  moreover have "typed ?db'" using assms(1) saved by (intro typed_setMetadata) simp_all
  moreover have "sp_doesCentroidExist api ?db' c"
    using assms(1) saved(2) by (simp add: run_setMetadata setMetadata_keeps_existence)
  ultimately show ?thesis
    using assms by (simp add: finish_run_def p_doesCentroidExist_def p_saveCentroid_def setLastCalculatedTimestamp_def
        run_setMetadata case_prod_unfold Let_def)
qed

lemma updater_succeeds:
  assumes "plain c" and "typed db"
  shows "if sp_doesCentroidExist api db c
    then \<exists>db'. updater_run api rnd t c db = Some (Some (Inr True), db') \<and> ready_for db c db'
    else updater_run api rnd t c db = Some (Some (Inl ECentroidDoesNotExist), db)"
proof (cases "sp_doesCentroidExist api db c")
  case True
  obtain r where r: "updater_run api rnd t c db = Some r" using updater_run_returns [OF assms(1)] by blast
  define ids where "ids = take 500 (listAllDocumentsForCentroidRaw api db c)"
  have ids: "list_all plain ids"
    using listed_plain [OF assms] by (auto simp: ids_def list_all_iff dest: in_set_takeD)
  have first: "sp_listCentroidDocumentRangeFromOffsetOption api db c 0 500 = Some ids"
    using True by (simp add: sp_listCentroidDocumentRangeFromOffsetOption_def Let_def centroid_documents_under ids_def)
  obtain acc' db' where loop: "(if length ids > 0 then page_loop api rnd c ids new_accumulator db
      else Some (Finished new_accumulator, db)) = Some (Finished acc', db')" "ready_for db c db'"
  proof (cases "ids = []")
    case False
    from page_loop_returns [OF assms(1), of rnd ids new_accumulator db] obtain p where
      p: "page_loop api rnd c ids new_accumulator db = Some p" by blast
    from page_loop_ready [OF p assms(1) ids, of db] True assms(2) False p that show ?thesis by auto
  qed (use True assms(2) that in auto)
  from finish_run_ready [OF assms(1) loop(2), of rnd t acc'] loop(1) True first show ?thesis
    by (auto simp: updater_run_def p_doesCentroidExist_def p_listCentroidDocumentRangeFromOffsetOption_def Let_def
        split del: if_split)
qed (simp add: updater_run_def p_doesCentroidExist_def)

end

interpretation log_typed: typed_contract log_env log_entries
proof unfold_locales
  have "c_strings cur s \<noteq> []" if "NUL \<in> set s" for cur s
    using that by (induction cur s rule: c_strings.induct) auto
  then show "thrift_de_doc log_env (thrift_ser_doc log_env d) \<noteq> None" for d
    by (auto simp: simple_de_doc_def simple_ser_doc_def split: list.split)
  show "thrift_de_centroid log_env (thrift_ser_centroid log_env c) \<noteq> None" for c
    by (simp add: log_env_def log_api_def)
qed

section \<open>Property of the updater\<close>



end
