(* ===== verification/Utilities.thy ===== *)
theory Utilities
  imports CentroidUpdate TextProcessing
begin

text \<open>
  \<open>util/util.h\<close>, \<open>util/util.cpp\<close>, \<open>util/Clock.h\<close>, \<open>util/Sha1Hasher.h\<close> and
  \<open>release_metadata/release_metadata.cpp\<close>: the counter, the conversions between containers, the ASCII
  test, the clock, the pointer that carries its own deleter, and the strings of the build.  A
  \<open>std::map\<close> is its sorted association list, a \<open>std::set\<close> its strictly sorted list.
\<close>

section \<open>Counter\<close>

record 'k Counter =
  counts :: "('k \<times> 64 word) list"

definition new_Counter :: "'k Counter" where
  "new_Counter = \<lparr>counts = []\<rparr>"

definition incrBy :: "'k::linorder \<Rightarrow> 64 word \<Rightarrow> 'k Counter \<Rightarrow> 'k Counter" where
  "incrBy key amount c =
     (case map_of (counts c) key of
        Some n \<Rightarrow> c\<lparr>counts := kv_put key (n + amount) (counts c)\<rparr>
      | None \<Rightarrow> c\<lparr>counts := kv_put key 1 (counts c)\<rparr>)"

definition incr :: "'k::linorder \<Rightarrow> 'k Counter \<Rightarrow> 'k Counter" where
  "incr key c = incrBy key 1 c"

text \<open>With \<open>incr\<close> alone the counter counts, modulo \<open>2 ^ 64\<close>; an amount for a new key is lost.\<close>

lemma incr_counts_occurrences:
  assumes "counts c = []"
  shows "kv_sorted (counts (fold incr ks c))
    \<and> map_of (counts (fold incr ks c)) k = (if k \<in> set ks then Some (of_nat (count_list ks k)) else None)"
proof (induction ks arbitrary: k rule: rev_induct)
  case (snoc x ks)
  note IH = conjunct2 [OF snoc [of x]] conjunct2 [OF snoc [of k]] and sorted = conjunct1 [OF snoc]
  show ?case
    using IH sorted
    by (cases "x \<in> set ks") (auto simp: incr_def incrBy_def kv_sorted_put map_of_kv_put add.commute)
qed (simp add: assms)

lemma incrBy_loses_first_amount: "counts (incrBy k 5 new_Counter) = [(k, 1)]"
  by (simp add: incrBy_def new_Counter_def)

section \<open>Containers\<close>

definition getSortedKeys :: "('k::linorder \<times> 'v) list \<Rightarrow> 'k list" where
  "getSortedKeys aMap = sort (foldl (\<lambda>result elem. result @ [fst elem]) [] aMap)"

definition getKeySet :: "('k::linorder \<times> 'v) list \<Rightarrow> 'k list" where
  "getKeySet aMap = foldl (\<lambda>result elem. insort_insert (fst elem) result) [] aMap"

definition vecOfSet :: "'k list \<Rightarrow> 'k list" where
  "vecOfSet t = foldl (\<lambda>output elem. output @ [elem]) [] t"

definition setOfVec :: "'k::linorder list \<Rightarrow> 'k list" where
  "setOfVec t = foldl (\<lambda>output elem. insort_insert elem output) [] t"

lemma foldl_snoc: "foldl (\<lambda>result elem. result @ [f elem]) acc xs = acc @ map f xs"
  by (induction xs arbitrary: acc) simp_all

lemma foldl_insort:
  "sorted acc \<Longrightarrow> distinct acc \<Longrightarrow>
   foldl (\<lambda>result elem. insort_insert (f elem) result) acc xs = sorted_list_of_set (set acc \<union> f ` set xs)"
proof (induction xs arbitrary: acc)
  case (Cons x xs)
  have "set (insort_insert (f x) acc) = insert (f x) (set acc)" by (simp add: set_insort_insert)
  with Cons show ?case by (simp add: sorted_insort_insert distinct_insort_insert)
qed (simp add: sorted_list_of_set.idem_if_sorted_distinct)

text \<open>Sorting the keys of a map changes nothing; the conversions of sets to vectors and back agree.\<close>

lemma containers_convert:
  "kv_sorted m \<Longrightarrow> getSortedKeys m = map fst m"
  "getKeySet m = sorted_list_of_set (fst ` set m)"
  "vecOfSet s = s"
  "setOfVec v = sorted_list_of_set (set v)"
  "sorted s \<Longrightarrow> distinct s \<Longrightarrow> setOfVec (vecOfSet s) = s"
  by (simp_all add: getSortedKeys_def getKeySet_def vecOfSet_def setOfVec_def foldl_snoc [where f = "\<lambda>x. x", simplified]
      foldl_snoc foldl_insort [where f = "\<lambda>x. x", simplified] foldl_insort strict_sorted_imp_sorted
      sorted_sort_id sorted_list_of_set.idem_if_sorted_distinct)

section \<open>Text, hashes and results\<close>

text \<open>The loop over the bytes of the text.\<close>

fun isOnlyAscii :: "string \<Rightarrow> bool" where
  "isOnlyAscii [] = True"
| "isOnlyAscii (c # text') = (if (of_char c :: nat) > 127 then False else isOnlyAscii text')"

lemma isOnlyAscii_iff: "isOnlyAscii t \<longleftrightarrow> is_ascii t"
  by (induction t rule: isOnlyAscii.induct) (auto simp: is_ascii_def)

definition hasher_hash :: "text_env \<Rightarrow> string \<Rightarrow> string" where
  "hasher_hash env txt = sha1 env txt"

text \<open>\<open>optionOfTry\<close> of a future; the task can throw, which stays an exception.\<close>

definition optionOfTry_future :: "('s, 'a Try option) state \<Rightarrow> ('s, 'a option option) state" where
  "optionOfTry_future tryFuture = do {
     result \<leftarrow> tryFuture;
     State_Monad.return (map_option optionOfTry result)
   }"

lemma load_option_is_optionOfTry: "load_option api docId = optionOfTry_future (p_loadDocument api docId)"
  by (simp add: load_option_def optionOfTry_future_def)

section \<open>The clock\<close>

text \<open>
  \<open>duration_cast\<close> to seconds truncates towards zero; \<open>period\<close> is the number of ticks of the system
  clock per second, \<open>now\<close> its ticks since the epoch.
\<close>

definition getChronoEpochTime :: "int \<Rightarrow> int \<Rightarrow> int" where
  "getChronoEpochTime period now = (if now \<ge> 0 then now div period else - ((- now) div period))"

definition clock_getEpochTime :: "int \<Rightarrow> int \<Rightarrow> 64 word" where
  "clock_getEpochTime period now = word_of_int (getChronoEpochTime period now)"

lemma epoch_time_mono: "0 < period \<Longrightarrow> a \<le> b \<Longrightarrow> getChronoEpochTime period a \<le> getChronoEpochTime period b"
proof -
  assume "0 < period" and "a \<le> b"
  moreover have "0 \<le> (- a) div period" if "a < 0" using that \<open>0 < period\<close> by (simp add: pos_imp_zdiv_nonneg_iff)
  moreover have "0 \<le> b div period" if "0 \<le> b" using that \<open>0 < period\<close> by (simp add: pos_imp_zdiv_nonneg_iff)
  ultimately show ?thesis by (auto simp: getChronoEpochTime_def intro: zdiv_mono1)
qed

lemma epoch_time_of_second:
  "0 < period \<Longrightarrow> 0 \<le> s \<Longrightarrow> 0 \<le> r \<Longrightarrow> r < period \<Longrightarrow> getChronoEpochTime period (s * period + r) = s"
  by (simp add: getChronoEpochTime_def)

section \<open>UniquePointer\<close>

text \<open>
  The object a pointer owns, and what its deleter does: \<open>defaultDelete\<close> deletes, \<open>NoDelete\<close> does not.
  The operations that delete append to the list of deleted objects.
\<close>

datatype deleter = DefaultDelete | NoDelete

record unique_pointer =
  up_ptr :: "nat option"
  up_deleter :: deleter

definition up_new :: "nat option \<Rightarrow> unique_pointer" where
  "up_new t = \<lparr>up_ptr = t, up_deleter = DefaultDelete\<rparr>"

definition up_new_with :: "nat option \<Rightarrow> deleter \<Rightarrow> unique_pointer" where
  "up_new_with t deleteFunc = \<lparr>up_ptr = t, up_deleter = deleteFunc\<rparr>"

definition up_get :: "unique_pointer \<Rightarrow> nat option" where
  "up_get p = up_ptr p"

definition up_release :: "unique_pointer \<Rightarrow> nat option \<times> unique_pointer" where
  "up_release p = (up_ptr p, p\<lparr>up_ptr := None\<rparr>)"

text \<open>The move constructor: the new pointer and what is left of the other.\<close>

definition up_move :: "unique_pointer \<Rightarrow> unique_pointer \<times> unique_pointer" where
  "up_move other = (\<lparr>up_ptr = up_ptr other, up_deleter = up_deleter other\<rparr>, other\<lparr>up_ptr := None\<rparr>)"

definition up_destroy :: "unique_pointer \<Rightarrow> nat list \<Rightarrow> nat list" where
  "up_destroy p deleted =
     (case (up_ptr p, up_deleter p) of (Some t, DefaultDelete) \<Rightarrow> deleted @ [t] | _ \<Rightarrow> deleted)"

text \<open>The move assignment: the old object goes by the old deleter.\<close>

definition up_assign :: "unique_pointer \<Rightarrow> unique_pointer \<Rightarrow> nat list \<Rightarrow> (unique_pointer \<times> unique_pointer) \<times> nat list" where
  "up_assign p other deleted = (up_move other, up_destroy p deleted)"

lemma move_keeps_ownership:
  "up_move p = (p', old) \<Longrightarrow> up_destroy p' (up_destroy old deleted) = up_destroy p deleted"
  by (cases "up_ptr p"; cases "up_deleter p") (auto simp: up_move_def up_destroy_def)

lemma assign_deletes_once:
  "up_assign p q deleted = ((p', q'), deleted') \<Longrightarrow>
   up_destroy q' (up_destroy p' deleted') = up_destroy q (up_destroy p deleted)"
  by (auto simp: up_assign_def up_move_def up_destroy_def split: option.splits deleter.splits)

section \<open>Release metadata\<close>

text \<open>
  The strings of the build: the spelling of the macro that the build defines, or of the default.  The
  default of the timestamp is written as tokens, which the preprocessor separates by blanks.
\<close>

definition getGitVersion :: "string option \<Rightarrow> string" where
  "getGitVersion build = (case build of Some version \<Rightarrow> version | None \<Rightarrow> ''UNKNOWN_VERSION'')"

definition getGitRevisionSha :: "string option \<Rightarrow> string" where
  "getGitRevisionSha build = (case build of Some revision \<Rightarrow> revision | None \<Rightarrow> ''UNKNOWN_REVISION'')"

definition getUtcBuildTimestamp :: "string option \<Rightarrow> string" where
  "getUtcBuildTimestamp build =
     (case build of Some timestamp \<Rightarrow> timestamp | None \<Rightarrow> ''0001 - 01 - 01T00 : 00 : 00'')"

end
