(* ===== verification/Requests.thy ===== *)
theory Requests
  imports ThriftServer Stopwords TypedStore Utilities
begin

text \<open>
  The requests of the service \<open>Relevanced\<close> (\<open>RelevancedProtocol.thrift\<close>,
  \<open>server/ThriftRelevanceServer.h\<close>) as one type, and the server that answers them one after the other.
  The store is typed: what lies under a key can be decoded as what the key says.  In a typed store no
  request throws and none waits for ever, and every request keeps the store typed.
\<close>

named_theorems answers_rules \<open>the requests and tasks that always answer\<close>

section \<open>The requests\<close>

text \<open>
  One constructor per method; \<open>CreateDocument\<close> carries the identifier that \<open>getUuid\<close> yields, and the
  optional flags are booleans (absent is false).  \<open>QueuedUpdate\<close> is not a request: it is the call that
  the debounced queue makes for an identifier written to it.
\<close>

datatype server_request =
    Ping
  | GetServerMetadata
  | GetDocumentSimilarity string string
  | MultiGetDocumentSimilarity "string list" string
  | GetTextSimilarity string string Language
  | MultiGetTextSimilarity "string list" string Language
  | GetCentroidSimilarity string string
  | CreateDocument string string Language
  | CreateDocumentWithID string string Language
  | DeleteDocumentRequest string bool
  | MultiDeleteDocumentsRequest "string list" bool
  | ListAllDocuments
  | ListUnusedDocuments "64 word"
  | ListDocumentRange "64 word" "64 word"
  | ListDocumentRangeFromID string "64 word"
  | CreateCentroidRequest string bool
  | MultiCreateCentroidsRequest "string list" bool
  | DeleteCentroidRequest string bool
  | MultiDeleteCentroidsRequest "string list" bool
  | AddDocumentsToCentroid AddDocumentsToCentroidRequest
  | RemoveDocumentsFromCentroid RemoveDocumentsFromCentroidRequest
  | JoinCentroidRequest string bool
  | MultiJoinCentroidsRequest "string list" bool
  | ListAllCentroids
  | ListCentroidRange "64 word" "64 word"
  | ListCentroidRangeFromID string "64 word"
  | ListAllDocumentsForCentroid string
  | ListCentroidDocumentRange string "64 word" "64 word"
  | ListCentroidDocumentRangeFromID string string "64 word"
  | DebugEraseAllData
  | DebugGetFullCentroid string
  | DebugGetFullProcessedDocument string
  | QueuedUpdate string

datatype response =
    NoValue
  | MetadataResponse "(string \<times> string) list"
  | SimilarityResponse double
  | MultiSimilarityResponse "(string \<times> double) list"
  | IdResponse string
  | IdsResponse "string list"
  | AddResponse AddDocumentsToCentroidResponse
  | RemoveResponse RemoveDocumentsFromCentroidResponse
  | JoinResponse "string \<times> bool"
  | MultiJoinResponse "string list \<times> bool list"
  | CentroidResponse CentroidDTO
  | DocumentResponse ProcessedDocumentDTO
  | UpdateResult bool

text \<open>A value that cannot be an exception.\<close>

definition reply :: "('a \<Rightarrow> 'b) \<Rightarrow> ('db, 'a) future \<Rightarrow> ('db, 'b Try) future" where
  "reply f m = future_then m (\<lambda>x. ready (Inr (f x)))"

text \<open>The strings of the metadata are those of a build without version information.\<close>

fun serve :: "'db config \<Rightarrow> server_request \<Rightarrow> ('db, response Try) future" where
  "serve cf Ping = ready (Inr NoValue)"
| "serve cf GetServerMetadata =
     reply MetadataResponse (th_getServerMetadata (getGitRevisionSha None) (getGitVersion None) (getUtcBuildTimestamp None))"
| "serve cf (GetDocumentSimilarity centroidId docId) =
     respond SimilarityResponse (th_getDocumentSimilarity cf centroidId docId)"
| "serve cf (MultiGetDocumentSimilarity centroidIds documentId) =
     respond MultiSimilarityResponse (th_multiGetDocumentSimilarity cf centroidIds documentId)"
| "serve cf (GetTextSimilarity centroidId txt lang) =
     respond SimilarityResponse (th_getTextSimilarity cf centroidId txt lang)"
| "serve cf (MultiGetTextSimilarity centroidIds txt lang) =
     respond MultiSimilarityResponse (th_multiGetTextSimilarity cf centroidIds txt lang)"
| "serve cf (GetCentroidSimilarity centroid1Id centroid2Id) =
     respond SimilarityResponse (th_getCentroidSimilarity cf centroid1Id centroid2Id)"
| "serve cf (CreateDocument uuid txt language) = respond IdResponse (th_createDocument cf uuid txt language)"
| "serve cf (CreateDocumentWithID i txt language) =
     respond IdResponse (th_createDocumentWithID cf i txt language)"
| "serve cf (DeleteDocumentRequest i ignoreMissing) = respond IdResponse (th_deleteDocument cf i ignoreMissing)"
| "serve cf (MultiDeleteDocumentsRequest ids ignoreMissing) =
     respond IdsResponse (th_multiDeleteDocuments cf ids ignoreMissing)"
| "serve cf ListAllDocuments = reply IdsResponse (th_listAllDocuments cf)"
| "serve cf (ListUnusedDocuments limit) = reply IdsResponse (th_listUnusedDocuments cf limit)"
| "serve cf (ListDocumentRange offset count) = reply IdsResponse (th_listDocumentRange cf offset count)"
| "serve cf (ListDocumentRangeFromID documentId count) =
     reply IdsResponse (th_listDocumentRangeFromID cf documentId count)"
| "serve cf (CreateCentroidRequest i ignoreExisting) = respond IdResponse (th_createCentroid cf i ignoreExisting)"
| "serve cf (MultiCreateCentroidsRequest ids ignoreExisting) =
     respond IdsResponse (th_multiCreateCentroids cf ids ignoreExisting)"
| "serve cf (DeleteCentroidRequest i ignoreMissing) = respond IdResponse (th_deleteCentroid cf i ignoreMissing)"
| "serve cf (MultiDeleteCentroidsRequest ids ignoreMissing) =
     respond IdsResponse (th_multiDeleteCentroids cf ids ignoreMissing)"
| "serve cf (AddDocumentsToCentroid request) = respond AddResponse (th_addDocumentsToCentroid cf request)"
| "serve cf (RemoveDocumentsFromCentroid request) =
     respond RemoveResponse (th_removeDocumentsFromCentroid cf request)"
| "serve cf (JoinCentroidRequest i ignoreMissing) = respond JoinResponse (th_joinCentroid cf i ignoreMissing)"
| "serve cf (MultiJoinCentroidsRequest ids ignoreMissing) =
     respond MultiJoinResponse (th_multiJoinCentroids cf ids ignoreMissing)"
| "serve cf ListAllCentroids = reply IdsResponse (th_listAllCentroids cf)"
| "serve cf (ListCentroidRange offset count) = reply IdsResponse (th_listCentroidRange cf offset count)"
| "serve cf (ListCentroidRangeFromID centroidId count) =
     reply IdsResponse (th_listCentroidRangeFromID cf centroidId count)"
| "serve cf (ListAllDocumentsForCentroid centroidId) =
     respond IdsResponse (th_listAllDocumentsForCentroid cf centroidId)"
| "serve cf (ListCentroidDocumentRange centroidId offset count) =
     respond IdsResponse (th_listCentroidDocumentRange cf centroidId offset count)"
| "serve cf (ListCentroidDocumentRangeFromID centroidId documentId count) =
     respond IdsResponse (th_listCentroidDocumentRangeFromID cf centroidId documentId count)"
| "serve cf DebugEraseAllData = reply (\<lambda>_. NoValue) (th_debugEraseAllData cf)"
| "serve cf (DebugGetFullCentroid centroidId) = respond CentroidResponse (th_debugGetFullCentroid cf centroidId)"
| "serve cf (DebugGetFullProcessedDocument documentId) =
     respond DocumentResponse (th_debugGetFullProcessedDocument cf documentId)"
| "serve cf (QueuedUpdate centroidId) = respond UpdateResult (cw_update cf centroidId)"

text \<open>A session: the requests one after the other, with the outcome of each.\<close>

fun session :: "'db config \<Rightarrow> server_request list \<Rightarrow> 'db world \<Rightarrow> response Try outcome list \<times> 'db world" where
  "session cf [] w = ([], w)"
| "session cf (r # rs) w =
     (let (x, w) = run_state (serve cf r) w; (xs, w) = session cf rs w in (x # xs, w))"

section \<open>What a request may carry\<close>

text \<open>
  Identifiers that name or create something have no colon, texts are ASCII, and the language is one of
  the enumeration.  Requests that only read take any identifier.
\<close>

definition listed_language :: "Language \<Rightarrow> bool" where
  "listed_language lang \<longleftrightarrow> (\<forall>n. lang \<noteq> UnlistedLanguage n)"

fun acceptable :: "server_request \<Rightarrow> bool" where
  "acceptable (GetTextSimilarity centroidId txt lang) \<longleftrightarrow> is_ascii txt \<and> listed_language lang"
| "acceptable (MultiGetTextSimilarity centroidIds txt lang) \<longleftrightarrow> is_ascii txt \<and> listed_language lang"
| "acceptable (CreateDocument uuid txt lang) \<longleftrightarrow> plain uuid \<and> is_ascii txt \<and> listed_language lang"
| "acceptable (CreateDocumentWithID i txt lang) \<longleftrightarrow> plain i \<and> is_ascii txt \<and> listed_language lang"
| "acceptable (DeleteDocumentRequest i ignoreMissing) \<longleftrightarrow> plain i"
| "acceptable (MultiDeleteDocumentsRequest ids ignoreMissing) \<longleftrightarrow> list_all plain ids"
| "acceptable (CreateCentroidRequest i ignoreExisting) \<longleftrightarrow> plain i"
| "acceptable (MultiCreateCentroidsRequest ids ignoreExisting) \<longleftrightarrow> list_all plain ids"
| "acceptable (DeleteCentroidRequest i ignoreMissing) \<longleftrightarrow> plain i"
| "acceptable (MultiDeleteCentroidsRequest ids ignoreMissing) \<longleftrightarrow> list_all plain ids"
| "acceptable (AddDocumentsToCentroid request) \<longleftrightarrow>
     plain (ar_centroidId request) \<and> list_all plain (ar_documentIds request)"
| "acceptable (RemoveDocumentsFromCentroid request) \<longleftrightarrow>
     plain (rr_centroidId request) \<and> list_all plain (rr_documentIds request)"
| "acceptable (JoinCentroidRequest i ignoreMissing) \<longleftrightarrow> plain i"
| "acceptable (MultiJoinCentroidsRequest ids ignoreMissing) \<longleftrightarrow> list_all plain ids"
| "acceptable (QueuedUpdate i) \<longleftrightarrow> plain i"
| "acceptable _ \<longleftrightarrow> True"

text \<open>
  The score worker is in step with the store: every calculated centroid is loaded as it is stored.
\<close>

definition in_step :: "('db, 'z) env_scheme \<Rightarrow> (string \<Rightarrow> string option) \<Rightarrow> (string \<Rightarrow> Centroid option) \<Rightarrow> bool" where
  "in_step api m view \<longleftrightarrow> (\<forall>c. calculated m c \<longrightarrow>
     view c = Option.bind (m (getCentroidKey c)) (binaryDeserialize_centroid api))"

text \<open>
  The state between requests: a typed store, a sound map of loaded centroids in step with it, no update
  under way and no null stemmer in the cache.
\<close>

definition world_ok :: "'db config \<Rightarrow> ('db \<Rightarrow> (string \<times> string) list) \<Rightarrow> 'db world \<Rightarrow> bool" where
  "world_ok cf entries w \<longleftrightarrow> store_typed (cf_api cf) (map_of (entries (w_db w))) \<and> cm_ok (w_scores w)
     \<and> in_step (cf_api cf) (map_of (entries (w_db w))) (cm_view (w_scores w)) \<and> w_updating w = [] \<and> (\<forall>lang. w_stemmers w lang \<noteq> Some None)"

section \<open>Answered requests\<close>

text \<open>A task is answered when it completes with a value from every good state, and leaves a good one.\<close>

definition answered :: "('db world \<Rightarrow> bool) \<Rightarrow> ('db, 'a) future \<Rightarrow> bool" where
  "answered I m \<longleftrightarrow> (\<forall>w. I w \<longrightarrow> (\<exists>x w'. run_state m w = (Ready x, w') \<and> I w'))"

lemma answered_ready [answers_rules]: "answered I (ready x)"
  by (simp add: answered_def)

lemma answered_then [answers_rules]:
  assumes "answered I m" and "\<And>x. answered I (f x)"
  shows "answered I (future_then m f)"
  unfolding answered_def
proof (intro allI impI)
  fix w assume "I w"
  with assms(1) obtain x w1 where m: "run_state m w = (Ready x, w1)" "I w1" unfolding answered_def by blast
  with assms(2) [of x] obtain y w2 where "run_state (f x) w1 = (Ready y, w2)" "I w2" unfolding answered_def by blast
  with m show "\<exists>x w'. run_state (future_then m f) w = (Ready x, w') \<and> I w'" by simp
qed

lemma answered_respond [answers_rules]: "answered I m \<Longrightarrow> answered I (respond f m)"
  by (simp add: respond_def answered_then answered_ready)

lemma answered_reply [answers_rules]: "answered I m \<Longrightarrow> answered I (reply f m)"
  by (simp add: reply_def answered_then answered_ready)

lemma answered_collect:
  assumes "\<And>x. x \<in> set xs \<Longrightarrow> answered I (f x)"
  shows "answered I (collect (map f xs))"
  using assms
proof (induction xs)
  case (Cons x xs)
  show ?case unfolding answered_def
  proof (intro allI impI)
    fix w assume "I w"
    with Cons.prems [of x] obtain y w1 where y: "run_state (f x) w = (Ready y, w1)" "I w1"
      unfolding answered_def by auto
    with Cons obtain ys w2 where "run_state (collect (map f xs)) w1 = (Ready ys, w2)" "I w2"
      unfolding answered_def by (metis list.set_intros(2))
    with y show "\<exists>v w'. run_state (collect (map f (x # xs))) w = (Ready v, w') \<and> I w'" by simp
  qed
qed (simp add: answered_ready)

text \<open>What the server needs from outside: the store, Thrift, UTF-8 and an English stemmer.\<close>

locale request_contract = typed_contract "cf_api cf" entries + ascii_codec "cf_text cf"
  for cf :: "'db config" and entries :: "'db \<Rightarrow> (string \<times> string) list" +
  assumes english_stemmer: "sb_stemmer (cf_text cf) ''en'' \<noteq> None"
begin

abbreviation ok :: "'db world \<Rightarrow> bool" where
  "ok \<equiv> world_ok cf entries"

lemma in_step_kept: "in_step api m view \<Longrightarrow> keeps_calculated {} m m' \<Longrightarrow> in_step api m' view"
  by (simp add: in_step_def keeps_calculated_def)

text \<open>What a task on the database has to keep.\<close>

abbreviation safe :: "'db \<Rightarrow> 'db \<Rightarrow> bool" where
  "safe db db' \<equiv> typed db' \<and> keeps_calculated {} (map_of (entries db)) (map_of (entries db'))"

lemma ok_safe: "ok w \<Longrightarrow> safe (w_db w) db' \<Longrightarrow> ok (w\<lparr>w_db := db'\<rparr>)"
  by (auto simp: world_ok_def intro: in_step_kept)

lemma answered_on_db: "(\<And>db. typed db \<Longrightarrow> safe db (db_after m db)) \<Longrightarrow> answered ok (on_db m)"
  by (auto simp: answered_def world_ok_def intro: in_step_kept)

lemma answered_reading [answers_rules]: "(\<And>db. db_after m db = db) \<Longrightarrow> answered ok (on_db m)"
  by (rule answered_on_db) simp

lemma answered_on_db_throwing:
  "(\<And>db. typed db \<Longrightarrow> result_of m db \<noteq> None \<and> safe db (db_after m db)) \<Longrightarrow> answered ok (on_db_throwing m)"
  by (fastforce simp: answered_def world_ok_def intro: in_step_kept split: option.split)

lemma answered_db [answers_rules]:
  "plain d \<Longrightarrow> answered ok (on_db (p_deleteDocument (cf_api cf) d))"
  "plain c \<Longrightarrow> answered ok (on_db (p_createNewCentroid (cf_api cf) c))"
  "plain c \<Longrightarrow> answered ok (on_db (p_deleteCentroid (cf_api cf) c))"
  "plain (pd_id doc) \<Longrightarrow> answered ok (on_db (p_saveNewDocument (cf_api cf) doc))"
  by (rule answered_on_db; simp add: p_deleteDocument_def p_createNewCentroid_def p_deleteCentroid_def
      p_saveNewDocument_def typed_deleteDocument typed_createNewCentroid typed_deleteCentroid typed_saveNewDocument
      calculated_documents calculated_centroids)+

lemma answered_loads [answers_rules]:
  "answered ok (on_db_throwing (p_loadDocument (cf_api cf) d))"
  "answered ok (on_db_throwing (p_loadCentroid (cf_api cf) c))"
  "answered ok (on_db_throwing (p_loadCentroidUniqueOption (cf_api cf) c))"
  "answered ok (on_db_throwing (p_debugEraseAllData (cf_api cf)))"
proof -
  show "answered ok (on_db_throwing (p_loadDocument (cf_api cf) d))"
    "answered ok (on_db_throwing (p_loadCentroid (cf_api cf) c))"
    "answered ok (on_db_throwing (p_loadCentroidUniqueOption (cf_api cf) c))"
    by (rule answered_on_db_throwing; simp add: p_loadDocument_def p_loadCentroid_def p_loadCentroidUniqueOption_def
        typed_loadDocument typed_loadCentroid typed_loadCentroidUniqueOption)+
  show "answered ok (on_db_throwing (p_debugEraseAllData (cf_api cf)))"
  proof (rule answered_on_db_throwing)
    fix db
    from rock_eraseEverything_eq [of db] obtain db' where
      "rock_eraseEverything (cf_api cf) db = Some (db', True)" "entries db' = []" by blast
    then show "result_of (p_debugEraseAllData (cf_api cf)) db \<noteq> None
        \<and> safe db (db_after (p_debugEraseAllData (cf_api cf)) db)"
      using typed_empty [of db'] by (simp add: p_debugEraseAllData_def sp_debugEraseAllData_def calculated_defs)
  qed
qed

lemma answered_scores [answers_rules]:
  "answered ok (sw_getDocumentSimilarity rnd c doc)"
  "answered ok (sw_getCentroidSimilarity rnd c c')"
proof -
  have quiet: "ok (w\<lparr>w_scores := m\<rparr>)" if "ok w" "quiet w m" for w m
    using that by (simp add: world_ok_def quiet_def)
  have sound: "cm_ok (w_scores w)" if "ok w" for w using that by (simp add: world_ok_def)
  show "answered ok (sw_getDocumentSimilarity rnd c doc)"
    unfolding answered_def using run_getDocumentSimilarity [OF sound] quiet by blast
  show "answered ok (sw_getCentroidSimilarity rnd c c')"
    unfolding answered_def using run_getCentroidSimilarity [OF sound] quiet by blast
qed

lemma run_process:
  assumes "ok w" and "is_ascii txt" and "listed_language lang"
  shows "\<exists>processed w'. run_state (pw_processNew cf \<lparr>d_id = i, d_text = txt, d_language = lang\<rparr>) w = (Ready processed, w')
    \<and> pd_id processed = i \<and> w_db w' = w_db w \<and> ok w'"
proof -
  let ?doc = "\<lparr>d_id = i, d_text = txt, d_language = lang\<rparr>"
  obtain f where english: "sb_stemmer (cf_text cf) ''en'' = Some f" using english_stemmer by auto
  have new: "new_Utf8Stemmer (cf_text cf) lang = Some f"
    using every_listed_language_stems_as_english [of "cf_text cf" lang] assms(3) english
    by (auto simp: listed_language_def split: Language.splits)
  have cache: "w_stemmers w l \<noteq> Some None" for l using assms(1) by (simp add: world_ok_def)
  obtain stemmer where stemmer: "fst (getStemmer (cf_text cf) (w_stemmers w) lang) = Some stemmer"
    using new cache [of lang] by (cases "w_stemmers w lang") (auto simp: getStemmer_def Let_def)
  have cached: "snd (getStemmer (cf_text cf) (w_stemmers w) lang) l \<noteq> Some None" for l
    using new cache [of l] by (auto simp: getStemmer_def Let_def split: option.split)
  obtain processed stemmers where run: "worker_processNew (cf_text cf) (cf_rnd cf) (cf_isStopword cf)
      (w_clock w (w_reads w)) (w_stemmers w) ?doc = Some (Inr (processed, stemmers))"
    using ascii_processing [OF ascii_codec_axioms, of ?doc "w_stemmers w" stemmer] assms(2) stemmer by fastforce
  then have "pd_id processed = i" "stemmers = snd (getStemmer (cf_text cf) (w_stemmers w) lang)"
    by (auto simp: worker_processNew_def processNew_def Let_def case_prod_unfold split: option.splits sum.splits)
  with run cached assms(1) show ?thesis by (simp add: pw_processNew_def world_ok_def)
qed

lemma answered_process [answers_rules]:
  "is_ascii txt \<Longrightarrow> listed_language lang \<Longrightarrow>
   answered ok (pw_processNew cf \<lparr>d_id = i, d_text = txt, d_language = lang\<rparr>)"
  unfolding answered_def using run_process by blast

lemma answered_create [answers_rules]:
  assumes "plain i" and "is_ascii txt" and "listed_language lang"
  shows "answered ok (srv_internalCreateDocumentWithID cf i txt lang)"
  unfolding answered_def
proof (intro allI impI)
  fix w assume "ok w"
  from run_process [OF this assms(2,3), of i] obtain processed w1 where
    w1: "run_state (pw_processNew cf \<lparr>d_id = i, d_text = txt, d_language = lang\<rparr>) w = (Ready processed, w1)"
      "pd_id processed = i" "ok w1" by blast
  moreover from answered_db(4) [of processed] w1(2,3) assms(1) obtain x w2 where
    "run_state (on_db (p_saveNewDocument (cf_api cf) processed)) w1 = (Ready x, w2)" "ok w2"
    unfolding answered_def by blast
  ultimately show "\<exists>x w'. run_state (srv_internalCreateDocumentWithID cf i txt lang) w = (Ready x, w') \<and> ok w'"
    by (simp add: srv_internalCreateDocumentWithID_def del: run_on_db)
qed

text \<open>An update, alone or by a join: it reloads the centroid and completes.\<close>

lemma in_step_reloaded:
  assumes "in_step api m view" and "keeps_calculated {c} m m'" and "m' (getCentroidKey c) = Some v"
    and "binaryDeserialize_centroid api v = Some cen"
  shows "in_step api m' (view(c \<mapsto> cen))"
  using assms by (simp add: in_step_def keeps_calculated_def)

lemma run_cw_update_typed:
  assumes "ok w" and "plain c"
  shows "\<exists>w'. run_state (cw_update cf c) w =
      (Ready (if sp_doesCentroidExist (cf_api cf) (w_db w) c then Inr True else Inl ECentroidDoesNotExist), w') \<and> ok w'"
proof -
  let ?t = "w_clock w (w_reads w)" and ?exists = "sp_doesCentroidExist (cf_api cf) (w_db w) c"
  have w: "typed (w_db w)" "cm_ok (w_scores w)" "w_updating w = []" using assms(1) by (simp_all add: world_ok_def)
  note run = updater_succeeds [OF assms(2) w(1), of "cf_rnd cf" ?t]
  show ?thesis
  proof (cases ?exists)
    case True
    with run obtain db' where
      db': "updater_run (cf_api cf) (cf_rnd cf) ?t c (w_db w) = Some (Some (Inr True), db')" "ready_for (w_db w) c db'" by auto
    obtain v cen where cen: "map_of (entries db') (getCentroidKey c) = Some v"
        "binaryDeserialize_centroid (cf_api cf) v = Some cen"
      using db'(2) typed_loadCentroidUniqueOption [of db' c]
      by (auto simp: sp_loadCentroidUniqueOption_def exists_simps rock_get_eq)
    then have "sp_loadCentroidUniqueOption (cf_api cf) db' c = Some (Some cen)"
      by (simp add: sp_loadCentroidUniqueOption_def rock_get_eq)
    from run_cw_update_success [OF w(2) _ db'(1) this] w(3) obtain m where
      m: "run_state (cw_update cf c) w = (Ready (Inr True), w\<lparr>w_db := db', w_scores := m, w_reads := w_reads w + 1\<rparr>)"
      "cm_ok m" "cm_view m = (cm_view (w_scores w))(c \<mapsto> cen)" by auto
    have "in_step (cf_api cf) (map_of (entries db')) (cm_view m)"
      unfolding m(3) using assms(1) db'(2) cen by (intro in_step_reloaded) (auto simp: world_ok_def)
    with m(1,2) True db'(2) assms(1) show ?thesis by (simp add: world_ok_def)
  next
    case False
    with run w(3) have "run_state (cw_update cf c) w = (Ready (Inl ECentroidDoesNotExist), w\<lparr>w_reads := w_reads w + 1\<rparr>)"
      by (simp add: cw_update_def cw_mark_def cw_unmark_def cw_run_def)
    with False assms(1) show ?thesis by (simp add: world_ok_def)
  qed
qed

lemma answered_update [answers_rules]: "plain c \<Longrightarrow> answered ok (cw_update cf c)"
  unfolding answered_def using run_cw_update_typed by blast

lemma in_step_loaded:
  assumes "in_step api m view"
  shows "in_step api m (case map_option (binaryDeserialize_centroid api) (m (getCentroidKey c)) of
      Some (Some cen) \<Rightarrow> view(c \<mapsto> cen) | _ \<Rightarrow> view)"
  using assms by (auto simp: in_step_def split: option.split)

lemma answered_reload [answers_rules]: "answered ok (sw_reloadCentroid (cf_api cf) c)"
  unfolding answered_def
proof (intro allI impI)
  fix w assume w: "ok w"
  let ?m = "map_of (entries (w_db w))"
  have "cm_ok (w_scores w)" "typed (w_db w)" using w by (simp_all add: world_ok_def)
  with run_reloadCentroid [OF this(1), of "cf_api cf" c] typed_loadCentroidUniqueOption [of "w_db w" c] obtain x m where
    m: "run_state (sw_reloadCentroid (cf_api cf) c) w = (Ready x, w\<lparr>w_scores := m\<rparr>)" "cm_ok m"
      "cm_view m = (case map_option (binaryDeserialize_centroid (cf_api cf)) (?m (getCentroidKey c)) of
        Some (Some cen) \<Rightarrow> (cm_view (w_scores w))(c \<mapsto> cen) | _ \<Rightarrow> cm_view (w_scores w))"
    by (auto simp: sp_loadCentroidUniqueOption_def rock_get_eq split: option.splits)
  moreover have "in_step (cf_api cf) ?m (cm_view m)"
    unfolding m(3) by (rule in_step_loaded) (use w in \<open>simp add: world_ok_def\<close>)
  ultimately show "\<exists>x w'. run_state (sw_reloadCentroid (cf_api cf) c) w = (Ready x, w') \<and> ok w'"
    using w by (simp add: world_ok_def)
qed

lemma answered_join [answers_rules]:
  assumes "plain c"
  shows "answered ok (srv_joinCentroid cf c ignoreMissing)"
  unfolding answered_def
proof (intro allI impI)
  fix w assume w: "ok w"
  have same: "w\<lparr>w_db := w_db w\<rparr> = w" by simp
  note upToDate = typed_upToDate [OF _ assms, of "w_db w"]
  show "\<exists>x w'. run_state (srv_joinCentroid cf c ignoreMissing) w = (Ready x, w') \<and> ok w'"
  proof (cases "sp_doesCentroidExist (cf_api cf) (w_db w) c")
    case True
    with upToDate w obtain b where b: "run_state (isCentroidUpToDate (cf_api cf) c) (w_db w) = (Some (Inr b), w_db w)"
      by (auto simp: world_ok_def)
    from run_cw_update_typed [OF w assms] True obtain w1 where
      w1: "run_state (cw_update cf c) w = (Ready (Inr True), w1)" "ok w1" by auto
    from answered_reload [of c] w1(2) obtain x w2 where
      "run_state (sw_reloadCentroid (cf_api cf) c) w1 = (Ready x, w2)" "ok w2" unfolding answered_def by blast
    with b w1 w same show ?thesis by (cases b) (simp_all add: srv_joinCentroid_def cw_joinUpdate_def)
  next
    case False
    with upToDate w same show ?thesis by (simp add: srv_joinCentroid_def world_ok_def)
  qed
qed

text \<open>A change of a centroid's documents stamps the centroid, which exists when the change succeeded.\<close>

lemma noteChange_ok:
  assumes "ok w" and "plain c" and "\<not> hasException result \<longrightarrow> sp_doesCentroidExist (cf_api cf) (w_db w) c"
  shows "\<exists>w'. run_state (srv_noteChange cf c result) w = (Ready (), w') \<and> ok w'"
proof (cases "hasException result")
  case False
  let ?now = "w_clock w (w_reads w)"
  let ?db = "db_after (setMetadata (cf_api cf) c ''lastDocumentChange'' ?now) (w_db w)"
  have "safe (w_db w) ?db"
    using assms False by (simp add: typed_setMetadata calculated_setMetadata world_ok_def)
  then have "ok (w\<lparr>w_db := ?db\<rparr>)" by (rule ok_safe [OF assms(1)])
  with False show ?thesis
    by (simp add: srv_noteChange_def setLastDocumentChangeTimestamp_def cw_triggerUpdate_def world_ok_def)
qed (use assms(1) in \<open>simp add: srv_noteChange_def\<close>)

lemma answered_change:
  assumes "plain c" and "run_state task (w_db w) = (result, db')" and "ok w" and "safe (w_db w) db'"
    and "\<not> hasException result \<longrightarrow> sp_doesCentroidExist (cf_api cf) db' c"
  shows "\<exists>x w'. run_state (future_then (on_db task) (\<lambda>result. future_then (srv_noteChange cf c result) (\<lambda>_. ready (f result)))) w
    = (Ready x, w') \<and> ok w'"
  using noteChange_ok [OF ok_safe [OF assms(3,4)] assms(1), of result] assms(2,5) by auto

lemma answered_addOne [answers_rules]:
  assumes "plain c" and "plain d"
  shows "answered ok (srv_addOneDocumentToCentroid cf c d ignoreMissing ignoreAlready)"
  unfolding answered_def srv_addOneDocumentToCentroid_def
proof (intro allI impI)
  fix w assume w: "ok w"
  let ?r = "sp_addDocumentToCentroid (cf_api cf) (w_db w) c d"
  have "safe (w_db w) (fst ?r)"
    using w assms by (simp add: world_ok_def typed_addDocument calculated_members)
  moreover have "\<not> hasException (snd ?r) \<longrightarrow> sp_doesCentroidExist (cf_api cf) (fst ?r) c"
    using assms by (simp add: existence_kept) (simp add: sp_addDocumentToCentroid_def)
  ultimately show "\<exists>x w'. run_state (future_then (on_db (p_addDocumentToCentroid (cf_api cf) c d)) (\<lambda>result.
      future_then (srv_noteChange cf c result) (\<lambda>_. ready (ignoring ignoreAlready EDocumentAlreadyInCentroid
        (ignoring ignoreMissing EDocumentDoesNotExist result))))) w = (Ready x, w') \<and> ok w'"
    using w assms(1) by (intro answered_change) (simp_all add: p_addDocumentToCentroid_def)
qed

lemma answered_removeOne [answers_rules]:
  assumes "plain c" and "plain d"
  shows "answered ok (srv_removeOneDocumentFromCentroid cf c d ignoreMissing ignoreNotIn)"
  unfolding answered_def srv_removeOneDocumentFromCentroid_def
proof (intro allI impI)
  fix w assume w: "ok w"
  let ?r = "sp_removeDocumentFromCentroid (cf_api cf) (w_db w) c d"
  have "safe (w_db w) (fst ?r)"
    using w assms by (simp add: world_ok_def typed_removeDocument calculated_members)
  moreover have "\<not> hasException (snd ?r) \<longrightarrow> sp_doesCentroidExist (cf_api cf) (fst ?r) c"
    using assms by (simp add: existence_kept) (simp add: sp_removeDocumentFromCentroid_def)
  ultimately show "\<exists>x w'. run_state (future_then (on_db (p_removeDocumentFromCentroid (cf_api cf) c d)) (\<lambda>result.
      future_then (srv_noteChange cf c result) (\<lambda>_. ready (ignoring ignoreNotIn EDocumentNotInCentroid
        (ignoring ignoreMissing EDocumentDoesNotExist result))))) w = (Ready x, w') \<and> ok w'"
    using w assms(1) by (intro answered_change) (simp_all add: p_removeDocumentFromCentroid_def)
qed

text \<open>Every request is a composition of answered tasks.\<close>

lemmas thrift_defs = th_getDocumentSimilarity_def th_getTextSimilarity_def th_getCentroidSimilarity_def
  th_multiGetTextSimilarity_def th_multiGetDocumentSimilarity_def th_createDocument_def th_createDocumentWithID_def
  th_deleteDocument_def th_multiDeleteDocuments_def th_createCentroid_def th_multiCreateCentroids_def
  th_deleteCentroid_def th_multiDeleteCentroids_def th_addDocumentsToCentroid_def th_removeDocumentsFromCentroid_def
  th_joinCentroid_def th_multiJoinCentroids_def th_listAllDocumentsForCentroid_def th_listCentroidDocumentRange_def
  th_listCentroidDocumentRangeFromID_def th_listAllCentroids_def th_listCentroidRange_def th_listCentroidRangeFromID_def
  th_listAllDocuments_def th_listUnusedDocuments_def th_listDocumentRange_def th_listDocumentRangeFromID_def
  th_getServerMetadata_def th_debugEraseAllData_def th_debugGetFullCentroid_def th_debugGetFullProcessedDocument_def

lemmas server_defs = srv_getDocumentSimilarity_def srv_getTextSimilarity_def srv_getCentroidSimilarity_def
  srv_multiGetTextSimilarity_def srv_multiGetDocumentSimilarity_def srv_internalMultiGetDocumentSimilarity_def
  srv_createDocument_def srv_createDocumentWithID_def srv_deleteDocument_def srv_multiDeleteDocuments_def
  srv_createCentroid_def srv_multiCreateCentroids_def srv_deleteCentroid_def srv_multiDeleteCentroids_def
  srv_addDocumentsToCentroid_def srv_removeDocumentsFromCentroid_def srv_multiJoinCentroids_def
  srv_getServerMetadata_def srv_debugEraseAllData_def srv_debugGetFullCentroid_def srv_debugGetFullProcessedDocument_def

lemmas listing_defs = srv_listAllDocumentsForCentroid_def srv_listCentroidDocumentRange_def
  srv_listCentroidDocumentRangeFromID_def srv_listAllCentroids_def srv_listCentroidRange_def
  srv_listCentroidRangeFromID_def srv_listAllDocuments_def srv_listUnusedDocuments_def srv_listDocumentRange_def
  srv_listDocumentRangeFromID_def p_listAllDocumentsForCentroid_def p_listCentroidDocumentRangeFromOffset_def
  p_listCentroidDocumentRangeFromDocumentId_def p_listAllCentroids_def p_listCentroidRangeFromOffset_def
  p_listCentroidRangeFromId_def p_listAllDocuments_def p_listUnusedDocuments_def p_listDocumentRangeFromOffset_def
  p_listDocumentRangeFromId_def

lemma answered_sum [answers_rules]:
  "(\<And>e. answered I (f e)) \<Longrightarrow> (\<And>x. answered I (g x)) \<Longrightarrow>
   answered I (case r of Inl e \<Rightarrow> f e | Inr x \<Rightarrow> g x)"
  by (simp split: sum.split)

lemma answered_request: "acceptable r \<Longrightarrow> answered ok (serve cf r)"
  by (cases r)
    (auto simp: thrift_defs server_defs listing_defs Let_def list_all_iff intro!: answers_rules answered_collect)

end

text \<open>The instance at which the witnesses run.\<close>

interpretation demo_requests: request_contract demo_config log_entries
proof -
  have "typed_contract (cf_api demo_config) log_entries" "ascii_codec (cf_text demo_config)"
    using log_typed.typed_contract_axioms plain_codec.ascii_codec_axioms by (simp_all add: demo_config_def)
  moreover have "sb_stemmer (cf_text demo_config) ''en'' \<noteq> None" by (simp add: demo_config_def plain_env_def)
  ultimately show "request_contract demo_config log_entries"
    by (simp add: request_contract_def request_contract_axioms_def)
qed

section \<open>Sessions\<close>

text \<open>The server before \<open>initialize\<close>: nothing is loaded, cached or under way.\<close>

definition fresh_world :: "'db \<Rightarrow> (nat \<Rightarrow> 64 word) \<Rightarrow> 'db world" where
  "fresh_world db clock = \<lparr>w_db = db, w_scores = cm_empty, w_stemmers = (\<lambda>lang. None), w_updating = [],
     w_triggered = [], w_clock = clock, w_reads = 0\<rparr>"

lemma session_answered:
  assumes "request_contract cf entries"
  shows "world_ok cf entries w \<Longrightarrow> list_all acceptable rs \<Longrightarrow>
    \<exists>answers w'. session cf rs w = (map Ready answers, w') \<and> world_ok cf entries w'"
proof (induction rs arbitrary: w)
  case (Cons r rs)
  from request_contract.answered_request [OF assms, of r] Cons.prems obtain x w1 where
    x: "run_state (serve cf r) w = (Ready x, w1)" "world_ok cf entries w1"
    by (auto simp: answered_def)
  moreover from Cons.IH [OF x(2)] Cons.prems(2) obtain answers w2 where
    "session cf rs w1 = (map Ready answers, w2)" "world_ok cf entries w2" by auto
  ultimately show ?case by (intro exI [of _ "x # answers"] exI [of _ w2]) simp
qed simp

lemma start_ok:
  assumes "request_contract cf entries" and "store_typed (cf_api cf) (map_of (entries db))"
  shows "\<exists>w0. run_state (srv_initialize cf) (fresh_world db clock) = (Ready (), w0) \<and> w_db w0 = db
    \<and> world_ok cf entries w0"
proof -
  let ?w = "fresh_world db clock"
  have typed: "typed_contract (cf_api cf) entries" using assms(1) by (rule request_contract.axioms)
  have env: "env_contract (cf_api cf) entries" using typed by (rule typed_contract.axioms)
  have "w_scores ?w = cm_empty" "\<forall>i. sp_loadCentroidUniqueOption (cf_api cf) (w_db ?w) i \<noteq> None"
    using typed_contract.typed_loadCentroidUniqueOption [OF typed assms(2)] by (simp_all add: fresh_world_def)
  from run_initialize [OF env this] obtain m where
    m: "run_state (srv_initialize cf) ?w = (Ready (), ?w\<lparr>w_scores := m\<rparr>)" "cm_ok m"
      "\<And>i. Some (cm_view m i) = sp_loadCentroidUniqueOption (cf_api cf) db i"
    by (auto simp: fresh_world_def)
  have "cm_view m c = Option.bind (map_of (entries db) (getCentroidKey c)) (binaryDeserialize_centroid (cf_api cf))" for c
  proof (cases "map_of (entries db) (getCentroidKey c)")
    case (Some v)
    with m(3) [of c] show ?thesis
      by (cases "binaryDeserialize_centroid (cf_api cf) v")
        (simp_all add: sp_loadCentroidUniqueOption_def rocksdb_contract.rock_get_eq [OF env_contract.axioms(1) [OF env]])
  qed (use m(3) [of c] in \<open>simp add: sp_loadCentroidUniqueOption_def
      rocksdb_contract.rock_get_eq [OF env_contract.axioms(1) [OF env]]\<close>)
  with m(1,2) assms(2) show ?thesis
    by (intro exI [of _ "?w\<lparr>w_scores := m\<rparr>"]) (simp add: world_ok_def in_step_def fresh_world_def)
qed

text \<open>
  C1.  Well-typed stores do not go wrong: a server started on a typed store, with pools that have threads,
  answers every request of every session of acceptable requests (no colon in the identifiers, ASCII texts,
  listed languages), with a value or one of the declared errors.  None of these requests throws anything
  else, none waits for ever, and the state after the session is again typed, with the loaded centroids in
  step with the stored ones and no centroid marked as being updated.  RocksDB, Thrift and UTF-8 keep their
  contracts, and there is an English stemmer.
\<close>

theorem every_request_is_answered:
  assumes "request_contract cf entries" and "store_typed (cf_api cf) (map_of (entries db))"
    and "list_all acceptable rs"
  shows "\<exists>w0 answers w. run_state (srv_initialize cf) (fresh_world db clock) = (Ready (), w0)
    \<and> session cf rs w0 = (map Ready answers, w) \<and> length answers = length rs \<and> world_ok cf entries w"
proof -
  from start_ok [OF assms(1,2)] obtain w0 where
    w0: "run_state (srv_initialize cf) (fresh_world db clock) = (Ready (), w0)" "world_ok cf entries w0" by blast
  from session_answered [OF assms(1) w0(2) assms(3)] obtain answers w where
    w: "session cf rs w0 = (map Ready answers, w)" "world_ok cf entries w" by blast
  have "length (fst (session cf rs w)) = length rs" for w
    by (induction rs arbitrary: w) (simp_all add: case_prod_unfold Let_def)
  from this [of w0] w w0(1) show ?thesis by auto
qed

definition demo_session :: "server_request list" where
  "demo_session = [CreateCentroidRequest ''c'' False, CreateDocumentWithID ''d'' ''The cats'' EN,
     AddDocumentsToCentroid \<lparr>ar_centroidId = ''c'', ar_documentIds = [''d'', ''x''], ar_ignoreMissingDocument = False,
       ar_ignoreMissingCentroid = False, ar_ignoreAlreadyInCentroid = False\<rparr>,
     JoinCentroidRequest ''c'' False, GetDocumentSimilarity ''c'' ''d'', DeleteDocumentRequest ''d'' False,
     QueuedUpdate ''c'', DebugEraseAllData, GetTextSimilarity ''c'' ''a cat'' FR]"

lemma demo_session_acceptable: "list_all acceptable demo_session"
  by (simp add: demo_session_def is_ascii_def listed_language_def)

theorem every_request_is_answered_witness:
  "\<exists>w0 answers w. run_state (srv_initialize demo_config) (fresh_world [] of_nat) = (Ready (), w0)
     \<and> session demo_config demo_session w0 = (map Ready answers, w) \<and> length answers = 9"
proof -
  have "store_typed (cf_api demo_config) (map_of (log_entries []))" using demo_requests.typed_empty [of "[]"] by simp
  from every_request_is_answered [OF demo_requests.request_contract_axioms this demo_session_acceptable, of of_nat]
  have "\<exists>w0 answers w. run_state (srv_initialize demo_config) (fresh_world [] of_nat) = (Ready (), w0)
     \<and> session demo_config demo_session w0 = (map Ready answers, w) \<and> length answers = length demo_session" by blast
  moreover have "length demo_session = 9" by (simp add: demo_session_def)
  ultimately show ?thesis by simp
qed

text \<open>
  C5.  Reloading keeps the score worker in step with the store: after any session of acceptable requests (no
  colon in the identifiers, ASCII texts, listed languages) that starts in a good state (a typed store, the
  calculated centroids loaded as stored, no update under way), a request for the similarity of a document
  that loads with a calculated centroid is answered with the score of the stored document against the stored
  centroid.
\<close>

theorem calculated_centroids_score_as_stored:
  assumes "request_contract cf entries" and "world_ok cf entries w0" and "list_all acceptable rs"
    and "session cf rs w0 = (answers, w)" and "calculated (map_of (entries (w_db w))) c"
    and "sp_loadDocument (cf_api cf) (w_db w) d = Some (Inr doc)"
  shows "\<exists>cen. sp_loadCentroid (cf_api cf) (w_db w) c = Some (Inr cen)
    \<and> result_of (serve cf (GetDocumentSimilarity c d)) w
        = Ready (Inr (SimilarityResponse (centroid_score_document (cf_rnd cf) cen doc)))"
proof -
  have typed: "typed_contract (cf_api cf) entries" using assms(1) by (rule request_contract.axioms)
  have env: "env_contract (cf_api cf) entries" using typed by (rule typed_contract.axioms)
  have ok: "world_ok cf entries w" using session_answered [OF assms(1-3)] assms(4) by auto
  then have "map_of (entries (w_db w)) (getCentroidKey c) \<noteq> None"
    using assms(5) by (auto simp: world_ok_def store_typed_def calculated_def)
  with typed_contract.typed_loadCentroid [OF typed, of "w_db w" c] ok obtain v cen where
    cen: "map_of (entries (w_db w)) (getCentroidKey c) = Some v" "binaryDeserialize_centroid (cf_api cf) v = Some cen"
    by (auto simp: world_ok_def sp_loadCentroid_def rocksdb_contract.rock_get_eq [OF env_contract.axioms(1) [OF env]])
  with ok assms(5) have view: "cm_view (w_scores w) c = Some cen" by (simp add: world_ok_def in_step_def)
  have "cm_ok (w_scores (w\<lparr>w_db := w_db w\<rparr>))" using ok by (simp add: world_ok_def)
  from run_getDocumentSimilarity [OF this, of "cf_rnd cf" c doc] view assms(6) cen show ?thesis
    by (auto simp: sp_loadCentroid_def rocksdb_contract.rock_get_eq [OF env_contract.axioms(1) [OF env]]
        th_getDocumentSimilarity_def srv_getDocumentSimilarity_def respond_def p_loadDocument_def)
qed

text \<open>A store with a calculated centroid and a document.\<close>

definition scored_store :: memory where
  "scored_store = fst (sp_saveNewDocument log_env
     (db_after (setMetadata log_env ''c'' ''lastCalculated'' 5) created) (sample_document ''d''))"

lemma created_typed: "store_typed log_env (map_of (log_entries created))"
  unfolding created_def using log_typed.typed_empty [of "[]"] by (intro log_typed.typed_createNewCentroid) simp_all

lemma scored_store_facts:
  "store_typed log_env (map_of (log_entries scored_store))"
  "calculated (map_of (log_entries scored_store)) ''c''"
  "\<exists>doc. sp_loadDocument log_env scored_store ''d'' = Some (Inr doc)"
proof -
  let ?db = "db_after (setMetadata log_env ''c'' ''lastCalculated'' 5) created"
  have "store_typed log_env (map_of (log_entries ?db))"
    using created_centroid created_typed by (intro log_typed.typed_setMetadata) simp_all
  then show typed: "store_typed log_env (map_of (log_entries scored_store))"
    unfolding scored_store_def by (intro log_typed.typed_saveNewDocument) (simp_all add: sample_document_def)
  have d: "pd_id (sample_document ''d'') = ''d''" by (simp add: sample_document_def)
  have old: "map_of (log_entries ?db) (getDocumentKey ''d'') = None"
    by (simp add: log_catalog.run_setMetadata sp_setCentroidMetadata_def log_catalog.store_put created_documents key_eqs)
  have store: "map_of (log_entries scored_store) = (map_of (log_entries ?db))
     (getDocumentKey ''d'' \<mapsto> binarySerialize_document log_env (sample_document ''d''),
      getDocumentMetadataKey ''d'' ''created_time'' \<mapsto> i64_to_string log_env (pd_created (sample_document ''d'')))"
    using old by (simp add: scored_store_def sp_saveNewDocument_def log_catalog.exists_simps log_catalog.store_saveDocument d)
  have "map_of (log_entries ?db) (getCentroidMetadataKey ''c'' ''lastCalculated'') \<noteq> None"
    by (simp add: log_catalog.run_setMetadata sp_setCentroidMetadata_def log_catalog.store_put)
  then show "calculated (map_of (log_entries scored_store)) ''c''" by (simp add: calculated_def store)
  have "map_of (log_entries scored_store) (getDocumentKey ''d'') \<noteq> None" by (simp add: store)
  with log_typed.typed_loadDocument [OF typed, of "''d''"]
  show "\<exists>doc. sp_loadDocument log_env scored_store ''d'' = Some (Inr doc)"
    by (auto simp: sp_loadDocument_def log_catalog.rock_get_eq)
qed

theorem calculated_centroids_score_as_stored_witness:
  "\<exists>w x. w_db w = scored_store
     \<and> result_of (serve demo_config (GetDocumentSimilarity ''c'' ''d'')) w = Ready (Inr (SimilarityResponse x))"
proof -
  have typed: "store_typed (cf_api demo_config) (map_of (log_entries scored_store))"
    using scored_store_facts(1) by (simp add: demo_config_def)
  from start_ok [OF demo_requests.request_contract_axioms typed, of of_nat] obtain w where
    w: "run_state (srv_initialize demo_config) (fresh_world scored_store of_nat) = (Ready (), w)"
      "w_db w = scored_store" "world_ok demo_config log_entries w" by blast
  obtain doc where "sp_loadDocument log_env scored_store ''d'' = Some (Inr doc)" using scored_store_facts(3) by blast
  with calculated_centroids_score_as_stored [OF demo_requests.request_contract_axioms w(3), of "[]" "[]" w "''c''" "''d''" doc]
    scored_store_facts(2) w(2) show ?thesis
    by (intro exI [of _ w]) (auto simp: demo_config_def)
qed

end
