(* ===== verification/ServerBuilder.thy ===== *)
theory ServerBuilder
  imports Options Requests
begin

text \<open>
  \<open>server/ServerBuilder.h\<close>, \<open>server/simpleServerBuilders.cpp\<close>, \<open>server/ThriftServerWrapper.cpp\<close> and
  \<open>relevanced_server.cpp\<close>: the parts of the server are built from the options, in an order that the
  assertions of the builder check, and the Thrift server gets the port.  The fields of the builder are
  null until their part is built; a part is the state that it keeps and the number of its threads.
\<close>

section \<open>The builder\<close>

record 'db server_builder =
  sb_persistence :: "('db \<times> 64 word) option"
  sb_centroidMetadataDb :: bool
  sb_processor :: "64 word option"
  sb_similarityWorker :: "64 word option"
  sb_centroidUpdater :: "64 word option"
  sb_options :: RelevanceServerOptions
  sb_clock :: "(nat \<Rightarrow> 64 word) option"

definition new_ServerBuilder :: "RelevanceServerOptions \<Rightarrow> 'db server_builder" where
  "new_ServerBuilder options = \<lparr>sb_persistence = None, sb_centroidMetadataDb = False, sb_processor = None,
     sb_similarityWorker = None, sb_centroidUpdater = None, sb_options = options, sb_clock = None\<rparr>"

text \<open>
  An assertion fails, the database cannot be opened (\<open>CHECK\<close>), or the initialization throws; a
  task of it that does not end is a fault of its own.
\<close>

datatype build_fault = AssertionFailed | CannotOpen | InitializeThrew | InitializeHangs

text \<open>
  The thread counts are \<open>int\<close> and the pools take a \<open>size_t\<close>.  A pool of no thread never runs a task: the future of
  the task is never fulfilled.
\<close>

definition thread_count :: "int \<Rightarrow> 64 word" where
  "thread_count n = word_of_int n"

definition buildClock :: "(nat \<Rightarrow> 64 word) \<Rightarrow> 'db server_builder \<Rightarrow> build_fault + 'db server_builder" where
  "buildClock clock b = Inr (b\<lparr>sb_clock := Some clock\<rparr>)"

text \<open>\<open>openDb\<close> is what opening the database of a directory yields.\<close>

definition buildPersistence ::
  "(string \<Rightarrow> 'db option) \<Rightarrow> 'db server_builder \<Rightarrow> build_fault + 'db server_builder" where
  "buildPersistence openDb b =
     (if sb_clock b = None then Inl AssertionFailed
      else
        let rockDir = opt_dataDir (sb_options b) @ ''/rock'' in
        case openDb rockDir of
          None \<Rightarrow> Inl CannotOpen
        | Some db \<Rightarrow> Inr (b\<lparr>sb_persistence := Some (db, thread_count (opt_rocksdbThreads (sb_options b))),
            sb_centroidMetadataDb := True\<rparr>))"

definition buildDocumentProcessor :: "'db server_builder \<Rightarrow> build_fault + 'db server_builder" where
  "buildDocumentProcessor b =
     (if sb_clock b = None then Inl AssertionFailed
      else Inr (b\<lparr>sb_processor := Some (thread_count (opt_documentProcessingThreads (sb_options b)))\<rparr>))"

definition buildCentroidUpdateWorker :: "'db server_builder \<Rightarrow> build_fault + 'db server_builder" where
  "buildCentroidUpdateWorker b =
     (if sb_persistence b = None then Inl AssertionFailed
      else if sb_clock b = None then Inl AssertionFailed
      else Inr (b\<lparr>sb_centroidUpdater := Some (thread_count (opt_centroidUpdateThreads (sb_options b)))\<rparr>))"

definition buildSimilarityWorker :: "'db server_builder \<Rightarrow> build_fault + 'db server_builder" where
  "buildSimilarityWorker b =
     (if sb_persistence b = None then Inl AssertionFailed
      else Inr (b\<lparr>sb_similarityWorker := Some (thread_count (opt_similarityScoreThreads (sb_options b)))\<rparr>))"

text \<open>
  The server that is built: its state, and the threads of the pools of \<open>Persistence\<close>, of the document processor,
  of the score worker and of the update worker.
\<close>

record 'db service =
  sv_world :: "'db world"
  sv_pools :: "64 word list"

text \<open>
  \<open>buildServer\<close> constructs the server and initializes it.  The score worker then waits for the list of the
  centroids (\<open>listAllCentroids().get()\<close>), a task of the pool of \<open>Persistence\<close>.
\<close>

definition buildServer :: "'db config \<Rightarrow> 'db server_builder \<Rightarrow> build_fault + 'db service" where
  "buildServer cf b =
     (case (sb_clock b, sb_persistence b) of
        (Some clock, Some (db, threads)) \<Rightarrow>
          (case (sb_processor b, sb_similarityWorker b, sb_centroidUpdater b) of
             (Some processorThreads, Some similarityThreads, Some updateThreads) \<Rightarrow>
               if threads = 0 then Inl InitializeHangs
               else (case run_state (srv_initialize cf) (fresh_world db clock) of
                   (Ready _, server) \<Rightarrow> Inr \<lparr>sv_world = server, sv_pools = [threads, processorThreads, similarityThreads, updateThreads]\<rparr>
                 | (Thrown, _) \<Rightarrow> Inl InitializeThrew
                 | (Pending, _) \<Rightarrow> Inl InitializeHangs)
           | _ \<Rightarrow> Inl AssertionFailed)
      | _ \<Rightarrow> Inl AssertionFailed)"

text \<open>
  A session with the server.  It is followed when every pool has a thread; otherwise (\<open>None\<close>) the requests
  that use the idle pool are never answered.
\<close>

definition service_session ::
  "'db config \<Rightarrow> server_request list \<Rightarrow> 'db service \<Rightarrow> (response Try outcome list \<times> 'db world) option" where
  "service_session cf rs sv = (if 0 \<in> set (sv_pools sv) then None else Some (session cf rs (sv_world sv)))"

text \<open>The interface of the Thrift server; \<open>setPort\<close> takes a \<open>uint16_t\<close>, times are milliseconds.\<close>

record 'db thrift_server =
  ts_interface :: "'db service"
  ts_allowInsecureLoopback :: bool
  ts_saslPolicy :: string
  ts_taskExpireTime :: int
  ts_port :: "16 word"

definition buildThriftServer :: "'db config \<Rightarrow> 'db server_builder \<Rightarrow> build_fault + 'db thrift_server" where
  "buildThriftServer cf b =
     (case buildServer cf b of
        Inl fault \<Rightarrow> Inl fault
      | Inr service \<Rightarrow>
          let allowInsecureLoopback = True; saslPolicy = '''' in
          Inr \<lparr>ts_interface = service, ts_allowInsecureLoopback = allowInsecureLoopback, ts_saslPolicy = saslPolicy,
            ts_taskExpireTime = opt_taskExpireTime (sb_options b), ts_port = word_of_int (opt_thriftPort (sb_options b))\<rparr>)"

text \<open>One call of the builder after the other; a fault ends the process.\<close>

definition and_then :: "build_fault + 'a \<Rightarrow> ('a \<Rightarrow> build_fault + 'b) \<Rightarrow> build_fault + 'b" where
  "and_then r f = (case r of Inl fault \<Rightarrow> Inl fault | Inr b \<Rightarrow> f b)"

definition buildNormalThriftServer ::
  "'db config \<Rightarrow> (string \<Rightarrow> 'db option) \<Rightarrow> (nat \<Rightarrow> 64 word) \<Rightarrow> RelevanceServerOptions \<Rightarrow>
     build_fault + 'db thrift_server" where
  "buildNormalThriftServer cf openDb clock options =
     (let builder = Inr (new_ServerBuilder options);
          builder = and_then builder (buildClock clock);
          builder = and_then builder (buildPersistence openDb);
          builder = and_then builder buildDocumentProcessor;
          builder = and_then builder buildCentroidUpdateWorker;
          builder = and_then builder buildSimilarityWorker
      in and_then builder (buildThriftServer cf))"

section \<open>The program\<close>

text \<open>What \<open>main\<close> serves, after gflags has parsed the command line.\<close>

definition main_server ::
  "'j host \<Rightarrow> flags \<Rightarrow> 'db config \<Rightarrow> (string \<Rightarrow> 'db option) \<Rightarrow> (nat \<Rightarrow> 64 word) \<Rightarrow>
     startup_fault + build_fault + 'db thrift_server" where
  "main_server host flags cf openDb clock =
     map_sum id (buildNormalThriftServer cf openDb clock) (buildOptions host flags)"

section \<open>What is built\<close>

lemmas builder_defs = buildClock_def buildPersistence_def buildDocumentProcessor_def buildCentroidUpdateWorker_def
  buildSimilarityWorker_def new_ServerBuilder_def and_then_def

text \<open>The threads of the four pools that the options ask for.\<close>

definition option_pools :: "RelevanceServerOptions \<Rightarrow> 64 word list" where
  "option_pools options = map thread_count [opt_rocksdbThreads options, opt_documentProcessingThreads options,
     opt_similarityScoreThreads options, opt_centroidUpdateThreads options]"

text \<open>The order of the program satisfies the assertions: only opening and initializing can fail.\<close>

lemma run_buildNormal:
  "buildNormalThriftServer cf openDb clock options =
     (case openDb (opt_dataDir options @ ''/rock'') of
        None \<Rightarrow> Inl CannotOpen
      | Some db \<Rightarrow>
          if thread_count (opt_rocksdbThreads options) = 0 then Inl InitializeHangs
          else (case run_state (srv_initialize cf) (fresh_world db clock) of
             (Ready _, server) \<Rightarrow> Inr \<lparr>ts_interface = \<lparr>sv_world = server, sv_pools = option_pools options\<rparr>,
                ts_allowInsecureLoopback = True, ts_saslPolicy = '''',
                ts_taskExpireTime = opt_taskExpireTime options, ts_port = word_of_int (opt_thriftPort options)\<rparr>
           | (Thrown, _) \<Rightarrow> Inl InitializeThrew
           | (Pending, _) \<Rightarrow> Inl InitializeHangs))"
  by (simp add: buildNormalThriftServer_def builder_defs buildThriftServer_def buildServer_def option_pools_def Let_def
      split: option.split outcome.split prod.split)

text \<open>
  A part that is left out is noticed by the next part that needs it: without persistence neither worker
  can be built, and without one of the parts there is no server.
\<close>

lemma builder_checks_parts:
  "sb_clock b = None \<Longrightarrow> buildPersistence openDb b = Inl AssertionFailed"
  "sb_persistence b = None \<Longrightarrow> buildSimilarityWorker b = Inl AssertionFailed"
  "sb_persistence b = None \<Longrightarrow> buildCentroidUpdateWorker b = Inl AssertionFailed"
  "buildServer cf b = Inr server \<Longrightarrow> sb_clock b \<noteq> None \<and> sb_persistence b \<noteq> None \<and> sb_processor b \<noteq> None
     \<and> sb_similarityWorker b \<noteq> None \<and> sb_centroidUpdater b \<noteq> None"
  by (auto simp: buildPersistence_def buildSimilarityWorker_def buildCentroidUpdateWorker_def buildServer_def
      split: option.splits if_splits)

text \<open>
  The counts and the port are converted unchecked: a negative count asks for \<open>2 ^ 64\<close> threads less
  that many, a count of zero for a pool that never runs a task, and a port is taken modulo \<open>65536\<close>.
\<close>

lemma unchecked_numbers:
  "thread_count (- 1) = 2 ^ 64 - 1" "thread_count 0 = 0" "(word_of_int 73633 :: 16 word) = word_of_int 8097"
  by (simp_all add: thread_count_def)

definition positive_pools :: "RelevanceServerOptions \<Rightarrow> bool" where
  "positive_pools options \<longleftrightarrow> (\<forall>n \<in> {opt_rocksdbThreads options, opt_documentProcessingThreads options,
     opt_similarityScoreThreads options, opt_centroidUpdateThreads options}. 0 < n \<and> n < 2 ^ 31)"

lemma positive_pools: "positive_pools options \<Longrightarrow> 0 \<notin> set (option_pools options)"
proof -
  have "thread_count n \<noteq> 0" if "0 < n" "n < 2 ^ 31" for n
  proof
    assume "thread_count n = 0"
    then have "(2 :: int) ^ 64 dvd n" by (simp add: thread_count_def word_of_int_eq_0_iff)
    with zdvd_imp_le [OF _ that(1)] that(2) show False by fastforce
  qed
  then show "positive_pools options \<Longrightarrow> 0 \<notin> set (option_pools options)"
    by (auto simp: positive_pools_def option_pools_def)
qed

text \<open>
  C2.  The program from its options to its answers, on a database under the data directory that opens with a typed
  store.  With positive thread counts, the server is built without a failed assertion, gets the port of the
  options, and then answers every session of acceptable requests: identifiers without colons, ASCII texts,
  listed languages.  With a count of zero for the pool of RocksDB, the program hangs in its initialization.
\<close>

theorem built_server_answers:
  assumes "request_contract cf entries" and "buildOptions host flags = Inr options"
    and "openDb (opt_dataDir options @ ''/rock'') = Some db"
    and "store_typed (cf_api cf) (map_of (entries db))" and "list_all acceptable rs"
  shows "(positive_pools options \<longrightarrow> (\<exists>server answers w. main_server host flags cf openDb clock = Inr (Inr server)
      \<and> ts_port server = word_of_int (opt_thriftPort options)
      \<and> w_db (sv_world (ts_interface server)) = db
      \<and> service_session cf rs (ts_interface server) = Some (map Ready answers, w) \<and> world_ok cf entries w))
    \<and> (opt_rocksdbThreads options = 0 \<longrightarrow> main_server host flags cf openDb clock = Inr (Inl InitializeHangs))"
proof (intro conjI impI)
  assume pools: "positive_pools options"
  from start_ok [OF assms(1,4), of clock] obtain w0 where
    w0: "run_state (srv_initialize cf) (fresh_world db clock) = (Ready (), w0)" "w_db w0 = db" "world_ok cf entries w0"
    by blast
  from session_answered [OF assms(1) w0(3) assms(5)] obtain answers w where
    run: "session cf rs w0 = (map Ready answers, w)" "world_ok cf entries w" by blast
  let ?server = "\<lparr>ts_interface = \<lparr>sv_world = w0, sv_pools = option_pools options\<rparr>, ts_allowInsecureLoopback = True,
    ts_saslPolicy = '''', ts_taskExpireTime = opt_taskExpireTime options, ts_port = word_of_int (opt_thriftPort options)\<rparr>"
  have "thread_count (opt_rocksdbThreads options) \<noteq> 0"
    using positive_pools [OF pools] by (auto simp: option_pools_def)
  then have "main_server host flags cf openDb clock = Inr (Inr ?server)"
    using assms(2,3) w0(1) by (simp add: main_server_def run_buildNormal)
  then show "\<exists>server answers w. main_server host flags cf openDb clock = Inr (Inr server)
      \<and> ts_port server = word_of_int (opt_thriftPort options)
      \<and> w_db (sv_world (ts_interface server)) = db
      \<and> service_session cf rs (ts_interface server) = Some (map Ready answers, w) \<and> world_ok cf entries w"
    using run w0(2) positive_pools [OF pools]
    by (intro exI [of _ ?server] exI [of _ answers] exI [of _ w]) (simp add: service_session_def)
next
  assume "opt_rocksdbThreads options = 0"
  then show "main_server host flags cf openDb clock = Inr (Inl InitializeHangs)"
    using assms(2,3) by (simp add: main_server_def run_buildNormal thread_count_def)
qed

theorem built_server_answers_witness:
  "\<exists>server answers w. main_server (small_host (\<lambda>v. None)) (default_flags\<lparr>FLAGS_config_file := ''9''\<rparr>) demo_config
       (\<lambda>dir. Some []) of_nat = Inr (Inr server)
     \<and> service_session demo_config demo_session (ts_interface server) = Some (map Ready answers, w)"
proof -
  let ?host = "small_host (\<lambda>v. None)" and ?flags = "default_flags\<lparr>FLAGS_config_file := ''9''\<rparr>"
  have "getEnvSettings ?host = []" by (simp add: getEnvSettings_def envVarMap_def small_host_def)
  then obtain opts where opts: "buildOptions ?host ?flags = Inr opts" and pools: "positive_pools opts"
    by (simp add: buildOptions_def config_settings_def env_settings_def apply_setting_def small_host_def default_flags_def Let_def
        flag_settings_def option_setters new_RelevanceServerOptions_def positive_pools_def)
  have "store_typed (cf_api demo_config) (map_of (log_entries []))" using demo_requests.typed_empty [of "[]"] by simp
  from built_server_answers [OF demo_requests.request_contract_axioms opts _ this demo_session_acceptable, of "\<lambda>dir. Some []"]
    pools show ?thesis by blast
qed

end
