(* ===== verification/Debouncer.thy ===== *)
theory Debouncer
  imports Prelude "HOL-Library.Word" "HOL-Library.Multiset"
begin

text \<open>
  \<open>util/Debouncer.h\<close>: a queue that passes a value on after a delay, and refuses it again until an
  interval has passed.  The delayed futures are timers of folly's time keeper; here a multiset of due
  times (in milliseconds) and tasks.  A method of the class is one step.  What a timer starts runs in
  the time keeper's thread, one after the other, in the order of the due times.
\<close>

section \<open>State and operations\<close>

datatype 'a timer_task =
  Deliver 'a \<comment> \<open>calls \<open>onValueCb_\<close>\<close>
| Remove 'a
| Requeue 'a

text \<open>\<open>now\<close> is the time, and \<open>calls\<close> the calls of \<open>onValueCb_\<close> with the time of each.\<close>

record 'a debouncer =
  inFlight :: "'a set"
  initialDelay :: nat
  interval :: nat
  requeueDelay :: nat
  d_stopping :: bool
  numInFlight :: "64 word"
  now :: nat
  timers :: "(nat \<times> 'a timer_task) multiset"
  calls :: "(nat \<times> 'a) list"

definition new_Debouncer :: "nat \<Rightarrow> nat \<Rightarrow> 'a debouncer" where
  "new_Debouncer initial period =
     \<lparr>inFlight = {}, initialDelay = initial, interval = period, requeueDelay = period + 10,
      d_stopping = False, numInFlight = 0, now = 0, timers = {#}, calls = []\<rparr>"

definition d_stop :: "'a debouncer \<Rightarrow> 'a debouncer" where
  "d_stop s = s\<lparr>d_stopping := True\<rparr>"

text \<open>\<open>makeFuture(t).delayed(d).then(task)\<close>\<close>

definition delayed :: "nat \<Rightarrow> 'a timer_task \<Rightarrow> 'a debouncer \<Rightarrow> 'a debouncer" where
  "delayed d task s = s\<lparr>timers := add_mset (now s + d, task) (timers s)\<rparr>"

definition removeDebounced :: "'a \<Rightarrow> 'a debouncer \<Rightarrow> 'a debouncer" where
  "removeDebounced t s =
     (if t \<in> inFlight s then s\<lparr>inFlight := inFlight s - {t}, numInFlight := numInFlight s - 1\<rparr> else s)"

definition writeIfNotInFlight :: "'a \<Rightarrow> 'a debouncer \<Rightarrow> bool \<times> 'a debouncer" where
  "writeIfNotInFlight t s =
     (if d_stopping s then (False, s)
      else if t \<notin> inFlight s then
        let s = s\<lparr>inFlight := insert t (inFlight s), numInFlight := numInFlight s + 1\<rparr>;
            s = delayed (initialDelay s) (Deliver t) s;
            s = delayed (interval s) (Remove t) s
        in (True, s)
      else (False, s))"

definition d_write :: "'a \<Rightarrow> 'a debouncer \<Rightarrow> 'a debouncer" where
  "d_write t s =
     (let (wrote, s) = writeIfNotInFlight t s
      in if \<not> wrote then delayed (requeueDelay s) (Requeue t) s else s)"

text \<open>The continuations of the delayed futures.\<close>

fun run_timer :: "'a timer_task \<Rightarrow> 'a debouncer \<Rightarrow> 'a debouncer" where
  "run_timer (Deliver t) s = (if \<not> d_stopping s then s\<lparr>calls := calls s @ [(now s, t)]\<rparr> else s)"
| "run_timer (Remove t) s = removeDebounced t s"
| "run_timer (Requeue t) s = (if d_stopping s then removeDebounced t s else snd (writeIfNotInFlight t s))"

text \<open>\<open>join\<close> tests this every ten milliseconds, and returns when it holds.\<close>

definition d_join_ends :: "'a debouncer \<Rightarrow> bool" where
  "d_join_ends s \<longleftrightarrow> numInFlight s = 0"

definition debug_setTimeouts :: "nat \<Rightarrow> nat \<Rightarrow> nat \<Rightarrow> 'a debouncer \<Rightarrow> 'a debouncer" where
  "debug_setTimeouts initial period requeue s =
     s\<lparr>initialDelay := initial, interval := period, requeueDelay := requeue\<rparr>"

definition debug_setShortTimeouts :: "'a debouncer \<Rightarrow> 'a debouncer" where
  "debug_setShortTimeouts = debug_setTimeouts 10 10 1"

definition debug_setVeryShortTimeouts :: "'a debouncer \<Rightarrow> 'a debouncer" where
  "debug_setVeryShortTimeouts = debug_setTimeouts 0 0 0"

section \<open>Steps\<close>

datatype 'a deb_event = Write 'a | StopQueue | Wait nat | Fire nat "'a timer_task"

text \<open>A timer fires when it is due, at that time or later, and no timer with an earlier due time is left.\<close>

inductive deb_step :: "'a debouncer \<Rightarrow> 'a deb_event \<Rightarrow> 'a debouncer \<Rightarrow> bool" where
  value_written: "deb_step s (Write t) (d_write t s)"
| stopped: "deb_step s StopQueue (d_stop s)"
| waited: "deb_step s (Wait n) (s\<lparr>now := now s + n\<rparr>)"
| fired: "(due, task) \<in># timers s \<Longrightarrow> due \<le> now s \<Longrightarrow> \<forall>x \<in># timers s. due \<le> fst x
    \<Longrightarrow> deb_step s (Fire due task) (run_timer task (s\<lparr>timers := timers s - {#(due, task)#}\<rparr>))"

inductive_simps deb_step_simps [simp]:
  "deb_step s (Write t) s'" "deb_step s StopQueue s'" "deb_step s (Wait n) s'" "deb_step s (Fire due task) s'"

fun deb_run :: "'a debouncer \<Rightarrow> 'a deb_event list \<Rightarrow> 'a debouncer \<Rightarrow> bool" where
  "deb_run s [] s' \<longleftrightarrow> s' = s"
| "deb_run s (e # es) s' \<longleftrightarrow> (\<exists>s1. deb_step s e s1 \<and> deb_run s1 es s')"

lemma deb_run_append: "deb_run s (es @ fs) s' \<longleftrightarrow> (\<exists>s1. deb_run s es s1 \<and> deb_run s1 fs s')"
  by (induction es arbitrary: s) auto

text \<open>What every step keeps holds after a run.\<close>

lemma deb_run_keeps:
  assumes "deb_run s es s'" and "P s" and "\<And>s e s'. P s \<Longrightarrow> deb_step s e s' \<Longrightarrow> P s'"
  shows "P s'"
  using assms(1,2) by (induction es arbitrary: s) (auto intro: assms(3))

section \<open>Invariant\<close>

text \<open>
  The counter counts the values in flight; each of them will be removed by a timer, within the interval;
  before the stop by exactly one, and no other value will be removed.
\<close>

definition tasks :: "'a debouncer \<Rightarrow> 'a timer_task multiset" where
  "tasks s = image_mset snd (timers s)"

definition deb_inv :: "'a debouncer \<Rightarrow> bool" where
  "deb_inv s \<longleftrightarrow> finite (inFlight s) \<and> numInFlight s = of_nat (card (inFlight s))
     \<and> interval s < requeueDelay s
     \<and> (\<forall>t \<in> inFlight s. Remove t \<in># tasks s)
     \<and> (\<not> d_stopping s \<longrightarrow> (\<forall>t. count (tasks s) (Remove t) = of_bool (t \<in> inFlight s)))
     \<and> (\<forall>due t. (due, Remove t) \<in># timers s \<longrightarrow> due \<le> now s + interval s)"

lemmas deb_defs = d_write_def writeIfNotInFlight_def removeDebounced_def delayed_def d_stop_def tasks_def

lemma deb_inv_new: "deb_inv (new_Debouncer initial period)"
  by (simp add: deb_inv_def new_Debouncer_def tasks_def)

lemma deb_inv_write: "deb_inv s \<Longrightarrow> deb_inv (d_write t s)"
  by (auto simp: deb_inv_def deb_defs Let_def)

lemma deb_inv_writeIfNotInFlight: "deb_inv s \<Longrightarrow> deb_inv (snd (writeIfNotInFlight t s))"
  by (auto simp: deb_inv_def deb_defs Let_def)

lemma tasks_fired:
  "(due, task) \<in># timers s \<Longrightarrow> tasks (s\<lparr>timers := timers s - {#(due, task)#}\<rparr>) = tasks s - {#task#}"
  by (simp add: tasks_def image_mset_Diff)

lemma of_nat_card_remove:
  "finite A \<Longrightarrow> t \<in> A \<Longrightarrow> (of_nat (card (A - {t})) :: 64 word) = of_nat (card A) - 1"
  by (metis card.remove add_diff_cancel_left' of_nat_Suc)

text \<open>A task that is taken from the timers: all but the removal leave the removals alone.\<close>

lemma deb_inv_taken:
  assumes "deb_inv s" and "(due, task) \<in># timers s" and "\<forall>t. task \<noteq> Remove t"
  shows "deb_inv (s\<lparr>timers := timers s - {#(due, task)#}\<rparr>)"
proof -
  have "Remove t \<in># tasks s - {#task#} \<longleftrightarrow> Remove t \<in># tasks s" for t
    using assms(3) by (simp add: in_diff_count flip: count_greater_zero_iff)
  moreover have "due' \<le> now s + interval s" if "(due', Remove t) \<in># timers s - {#(due, task)#}" for due' t
    using assms(1) in_diffD [OF that] by (auto simp: deb_inv_def)
  ultimately show ?thesis
    using assms tasks_fired [OF assms(2)] by (auto simp: deb_inv_def)
qed

lemma deb_inv_removed:
  assumes "deb_inv s" and "(due, Remove t) \<in># timers s"
  shows "deb_inv (removeDebounced t (s\<lparr>timers := timers s - {#(due, Remove t)#}\<rparr>))"
proof -
  let ?s = "s\<lparr>timers := timers s - {#(due, Remove t)#}\<rparr>"
  have tasks: "tasks (removeDebounced t ?s) = tasks s - {#Remove t#}"
    using tasks_fired [OF assms(2)] by (simp add: removeDebounced_def tasks_def)
  have fin: "finite (inFlight s)" using assms(1) by (simp add: deb_inv_def)
  have "due' \<le> now s + interval s" if "(due', Remove t') \<in># timers s - {#(due, Remove t)#}" for due' t'
    using assms(1) in_diffD [OF that] by (auto simp: deb_inv_def)
  then show ?thesis
    unfolding deb_inv_def tasks using assms of_nat_card_remove [OF fin]
    by (auto simp: deb_inv_def removeDebounced_def in_diff_count)
qed

lemma deb_inv_dropped:
  "deb_inv s \<Longrightarrow> d_stopping s \<Longrightarrow> deb_inv (removeDebounced t s)"
  using of_nat_card_remove [of "inFlight s" t] by (auto simp: deb_inv_def removeDebounced_def tasks_def)

lemma deb_inv_step:
  assumes inv: "deb_inv s" and step: "deb_step s e s'"
  shows "deb_inv s'"
proof (cases e)
  case (Fire due task)
  with step have mem: "(due, task) \<in># timers s"
    and s': "s' = run_timer task (s\<lparr>timers := timers s - {#(due, task)#}\<rparr>)" by simp_all
  show ?thesis
  proof (cases task)
    case (Deliver t)
    with deb_inv_taken [OF inv mem] show ?thesis by (auto simp: s' deb_inv_def tasks_def)
  next
    case (Remove t)
    with deb_inv_removed [OF inv, of due t] mem show ?thesis by (simp add: s')
  next
    case (Requeue t)
    with deb_inv_taken [OF inv mem] have "deb_inv (s\<lparr>timers := timers s - {#(due, task)#}\<rparr>)" by simp
    then show ?thesis
      by (simp add: s' Requeue deb_inv_writeIfNotInFlight deb_inv_dropped)
  qed
next
  case (Write t)
  with inv step show ?thesis by (simp add: deb_inv_write)
next
  case StopQueue
  with inv step show ?thesis by (simp add: deb_inv_def tasks_def d_stop_def)
next
  case (Wait n)
  with inv step show ?thesis by (auto simp: deb_inv_def tasks_def trans_le_add1 add.commute)
qed

lemma deb_inv_run: "deb_run s es s' \<Longrightarrow> deb_inv s \<Longrightarrow> deb_inv s'"
  by (rule deb_run_keeps [of s es s' deb_inv]) (auto intro: deb_inv_step)

section \<open>Accepted writes are spaced\<close>

lemma run_timer_keeps [simp]: "interval (run_timer task s) = interval s" "now (run_timer task s) = now s"
  by (cases task; simp add: deb_defs Let_def)+

lemma interval_kept: "deb_step s e s' \<Longrightarrow> interval s' = interval s"
  by (cases e) (auto simp: deb_defs Let_def)

definition refused :: "'a \<Rightarrow> nat \<Rightarrow> 'a debouncer \<Rightarrow> bool" where
  "refused t limit s \<longleftrightarrow> d_stopping s \<or> limit \<le> now s
     \<or> t \<in> inFlight s \<and> (\<forall>due. (due, Remove t) \<in># timers s \<longrightarrow> limit \<le> due)"

lemma in_diff_other: "x \<noteq> y \<Longrightarrow> x \<in># A - {#y#} \<longleftrightarrow> x \<in># A"
  by (simp add: in_diff_count flip: count_greater_zero_iff)

lemma refused_step: "refused t limit s \<Longrightarrow> deb_step s e s' \<Longrightarrow> refused t limit s'"
proof (cases e)
  case (Fire due task)
  assume *: "refused t limit s" and "deb_step s e s'"
  then have "due \<le> now s" "(due, task) \<in># timers s"
    and s': "s' = run_timer task (s\<lparr>timers := timers s - {#(due, task)#}\<rparr>)" by (simp_all add: Fire)
  with * show ?thesis
    by (cases task) (auto simp: refused_def deb_defs Let_def dest: in_diffD)
qed (auto simp: refused_def deb_defs Let_def)

lemma new_Debouncer_simps [simp]:
  "interval (new_Debouncer initial period) = period" "timers (new_Debouncer initial period) = {#}"
  "d_stopping (new_Debouncer initial period) = False" "inFlight (new_Debouncer initial period) = {}"
  "now (new_Debouncer initial period) = 0" "numInFlight (new_Debouncer initial period) = 0"
  "initialDelay (new_Debouncer initial period) = initial" "calls (new_Debouncer initial period) = []"
  by (simp_all add: new_Debouncer_def)

lemma interval_after: "deb_run s es s' \<Longrightarrow> interval s' = interval s"
  by (rule deb_run_keeps [of s es s' "\<lambda>s'. interval s' = interval s"]) (auto dest: interval_kept)

text \<open>Only a write or a requeued write accepts a value; it refuses the value for an interval from then on.\<close>

lemma accepted_refuses:
  assumes "deb_inv s" and "deb_step s e s1" and "t \<notin> inFlight s" and "t \<in> inFlight s1"
  shows "\<not> d_stopping s \<and> refused t (now s + interval s) s1"
proof -
  have none: "(due, Remove t) \<notin># timers s" if "\<not> d_stopping s" for due
  proof -
    from assms(1,3) that have "Remove t \<notin># tasks s" by (simp add: deb_inv_def flip: count_eq_zero_iff)
    then show ?thesis by (force simp: tasks_def)
  qed
  show ?thesis
  proof (cases e)
    case (Write t')
    with assms(2-4) none show ?thesis
      by (auto simp: refused_def d_write_def writeIfNotInFlight_def delayed_def Let_def split: if_splits)
  next
    case (Fire due task)
    with assms(2) have s1: "s1 = run_timer task (s\<lparr>timers := timers s - {#(due, task)#}\<rparr>)" by simp
    from assms(3,4) none show ?thesis unfolding s1
      by (cases task) (auto simp: refused_def deb_defs Let_def split: if_splits dest: in_diffD)
  qed (use assms(2-4) in \<open>auto simp: d_stop_def\<close>)
qed

text \<open>
  C32.  Accepted writes of one value are at least an interval apart, however the timers are delayed: a write is
  accepted when a step, be it a call of \<open>write\<close> or the timer of a refused write, puts the value among those in
  flight; after that no step does so again until the interval has passed.
\<close>

theorem accepted_writes_are_spaced:
  assumes "deb_run (new_Debouncer initial period) es s" and "deb_step s e s1" and "t \<notin> inFlight s" and "t \<in> inFlight s1"
    and "deb_run s1 es' s'" and "deb_step s' e' s2" and "t \<notin> inFlight s'" and "t \<in> inFlight s2"
  shows "now s + period \<le> now s'"
proof -
  have inv: "deb_inv s" by (rule deb_inv_run [OF assms(1) deb_inv_new])
  have "deb_inv s'" by (rule deb_inv_run [OF assms(5) deb_inv_step [OF inv assms(2)]])
  from accepted_refuses [OF this assms(6-8)] have "\<not> d_stopping s'" by blast
  have "refused t (now s + period) s1"
    using accepted_refuses [OF inv assms(2-4)] interval_after [OF assms(1)] by simp
  with assms(5) have "refused t (now s + period) s'"
    by (rule deb_run_keeps) (rule refused_step)
  with assms(7) \<open>\<not> d_stopping s'\<close> show ?thesis by (auto simp: refused_def)
qed

lemma two_writes:
  "let s = new_Debouncer 5 30 in
   deb_run (d_write ''c'' s)
     [Wait 5, Fire 5 (Deliver ''c''), Wait 30, Fire 30 (Remove ''c'')]
     (s\<lparr>now := 35, calls := [(5, ''c'')]\<rparr>)"
  by (simp add: deb_defs new_Debouncer_def Let_def)

text \<open>A write that is refused at time 20 is accepted by its timer at time 60, and the next one at time 90.\<close>

lemma requeued_write:
  "let s = (new_Debouncer 5 30)\<lparr>now := 60, timers := {#(60, Requeue ''c'')#}, calls := [(5, ''c'')]\<rparr> in
   deb_run (new_Debouncer 5 30) [Write ''c'', Wait 5, Fire 5 (Deliver ''c''), Wait 15, Write ''c'', Wait 10,
     Fire 30 (Remove ''c''), Wait 30] s
   \<and> (\<exists>s1. deb_step s (Fire 60 (Requeue ''c'')) s1 \<and> ''c'' \<in> inFlight s1
        \<and> deb_run s1 [Wait 5, Fire 65 (Deliver ''c''), Wait 25, Fire 90 (Remove ''c'')]
            (s\<lparr>now := 90, timers := {#}, calls := [(5, ''c''), (65, ''c'')]\<rparr>))"
  by (simp add: deb_defs new_Debouncer_def Let_def)

theorem accepted_writes_are_spaced_witness: "(60 :: nat) + 30 \<le> 90"
proof -
  let ?s = "(new_Debouncer 5 30)\<lparr>now := 60, timers := {#(60, Requeue ''c'')#}, calls := [(5, ''c'')]\<rparr>"
  let ?t = "?s\<lparr>now := 90, timers := {#}, calls := [(5, ''c''), (65, ''c'')]\<rparr>"
  from requeued_write obtain s1 where first: "deb_step ?s (Fire 60 (Requeue ''c'')) s1" "''c'' \<in> inFlight s1"
      "deb_run s1 [Wait 5, Fire 65 (Deliver ''c''), Wait 25, Fire 90 (Remove ''c'')] ?t"
    unfolding Let_def by blast
  have "''c'' \<in> inFlight (d_write ''c'' ?t)" by (simp add: deb_defs Let_def)
  from accepted_writes_are_spaced [OF conjunct1 [OF requeued_write [unfolded Let_def]] first(1) _ first(2,3) deb_step.value_written _ this]
  show ?thesis by simp
qed

section \<open>No write is lost\<close>

text \<open>
  A write at time \<open>a\<close> has been passed on since, or will be, or will be written again after the
  value has left the set.
\<close>

definition pending :: "'a \<Rightarrow> nat \<Rightarrow> 'a debouncer \<Rightarrow> bool" where
  "pending t a s \<longleftrightarrow> (\<exists>\<tau> \<ge> a. (\<tau>, t) \<in> set (calls s)) \<or> Deliver t \<in># tasks s
     \<or> (\<exists>due. (due, Requeue t) \<in># timers s \<and> (\<forall>due'. (due', Remove t) \<in># timers s \<longrightarrow> due' < due))"

definition kept :: "'a \<Rightarrow> nat \<Rightarrow> 'a debouncer \<Rightarrow> bool" where
  "kept t a s \<longleftrightarrow> deb_inv s \<and> (d_stopping s \<or> a \<le> now s \<and> pending t a s)"

lemma inFlight_iff_removed:
  "deb_inv s \<Longrightarrow> \<not> d_stopping s \<Longrightarrow> t \<in> inFlight s \<longleftrightarrow> (\<exists>due. (due, Remove t) \<in># timers s)"
proof -
  assume "deb_inv s" "\<not> d_stopping s"
  then have "t \<in> inFlight s \<longleftrightarrow> Remove t \<in># tasks s"
    by (simp add: deb_inv_def flip: count_greater_zero_iff)
  then show ?thesis by (force simp: tasks_def)
qed

text \<open>A write of any value keeps it pending: accepted, it sets the timer of the call as well.\<close>

lemma pending_write:
  "pending t a s \<Longrightarrow> pending t a (snd (writeIfNotInFlight t' s))"
  by (auto simp: pending_def deb_defs Let_def)

lemma pending_d_write: "pending t a s \<Longrightarrow> pending t a (d_write t' s)"
  by (auto simp: pending_def deb_defs Let_def)

lemma written_is_pending:
  assumes "deb_inv s" and "\<not> d_stopping s"
  shows "pending t (now s) (d_write t s)"
proof (cases "t \<in> inFlight s")
  case True
  with assms have "due' < now s + requeueDelay s" if "(due', Remove t) \<in># timers s" for due'
    using that by (fastforce simp: deb_inv_def)
  with True show ?thesis by (auto simp: pending_def deb_defs Let_def)
qed (simp add: pending_def deb_defs Let_def assms)

text \<open>It stays pending when a timer is taken that is neither its call nor the write that comes back.\<close>

lemma pending_taken:
  assumes "pending t a s" and "(due, task) \<in># timers s" and "task \<noteq> Deliver t"
    and "\<And>due2. \<forall>due'. (due', Remove t) \<in># timers s \<longrightarrow> due' < due2 \<Longrightarrow> (due, task) \<noteq> (due2, Requeue t)"
  shows "pending t a (s\<lparr>timers := timers s - {#(due, task)#}\<rparr>)" (is "pending t a ?s")
proof -
  from assms(1) consider (called) "\<exists>\<tau> \<ge> a. (\<tau>, t) \<in> set (calls s)" | (deliver) "Deliver t \<in># tasks s"
    | (requeue) due2 where "(due2, Requeue t) \<in># timers s" "\<forall>due'. (due', Remove t) \<in># timers s \<longrightarrow> due' < due2"
    by (auto simp: pending_def)
  then show ?thesis
  proof cases
    case called
    then show ?thesis by (simp add: pending_def)
  next
    case deliver
    with assms(3) have "Deliver t \<in># tasks ?s"
      unfolding tasks_fired [OF assms(2)] by (simp add: in_diff_other)
    then show ?thesis by (simp add: pending_def)
  next
    case requeue
    with assms(4) have "(due2, Requeue t) \<in># timers s - {#(due, task)#}"
      by (metis in_diff_other)
    then have "(due2, Requeue t) \<in># timers ?s" by simp
    moreover have "\<forall>due'. (due', Remove t) \<in># timers ?s \<longrightarrow> due' < due2"
      using requeue(2) by (auto dest: in_diffD)
    ultimately show ?thesis unfolding pending_def by blast
  qed
qed

lemma pending_requeued:
  assumes "deb_inv s" and "\<not> d_stopping s" and "(due, Requeue t) \<in># timers s"
    and "\<forall>x \<in># timers s. due \<le> fst x" and "pending t' a s"
  shows "pending t' a (snd (writeIfNotInFlight t (s\<lparr>timers := timers s - {#(due, Requeue t)#}\<rparr>)))"
proof (cases "t' = t \<and> t \<notin> inFlight s")
  case True
  then show ?thesis by (simp add: pending_def deb_defs Let_def assms(2))
next
  case False
  have "pending t' a (s\<lparr>timers := timers s - {#(due, Requeue t)#}\<rparr>)"
  proof (rule pending_taken [OF assms(5,3)])
    fix due2 assume "\<forall>due'. (due', Remove t') \<in># timers s \<longrightarrow> due' < due2"
    then show "(due, Requeue t) \<noteq> (due2, Requeue t')"
      using False assms(4) inFlight_iff_removed [OF assms(1,2), of t] by fastforce
  qed simp
  then show ?thesis by (rule pending_write)
qed

lemma pending_removeDebounced [simp]: "pending t a (removeDebounced t' s) \<longleftrightarrow> pending t a s"
  by (simp add: pending_def removeDebounced_def tasks_def)

lemma kept_step: "kept t a s \<Longrightarrow> deb_step s e s' \<Longrightarrow> kept t a s'"
proof -
  assume kept: "kept t a s" and step: "deb_step s e s'"
  then have inv: "deb_inv s" and inv': "deb_inv s'" by (auto simp: kept_def intro: deb_inv_step)
  have "d_stopping s' \<or> a \<le> now s' \<and> pending t a s'"
  proof (cases "d_stopping s")
    case True
    with step show ?thesis
      by (cases e; cases "case e of Fire due task \<Rightarrow> task | _ \<Rightarrow> Deliver t") (auto simp: deb_defs Let_def)
  next
    case False
    with kept have now: "a \<le> now s" and pend: "pending t a s" by (auto simp: kept_def)
    show ?thesis
    proof (cases e)
      case (Fire due task)
      with step have fire: "(due, task) \<in># timers s" "\<forall>x \<in># timers s. due \<le> fst x"
        and s': "s' = run_timer task (s\<lparr>timers := timers s - {#(due, task)#}\<rparr>)" by simp_all
      show ?thesis
      proof (cases task)
        case (Requeue t')
        with pending_requeued [OF inv False _ _ pend] fire now False show ?thesis
          by (simp add: s' writeIfNotInFlight_def delayed_def Let_def)
      next
        case (Remove t')
        with pending_taken [OF pend fire(1)] now show ?thesis by (simp add: s' removeDebounced_def pending_def tasks_def)
      next
        case (Deliver t')
        show ?thesis
        proof (cases "t' = t")
          case True
          with now False show ?thesis by (auto simp: s' Deliver pending_def)
        next
          case other: False
          with pending_taken [OF pend fire(1)] Deliver
          have "pending t a (s\<lparr>timers := timers s - {#(due, task)#}\<rparr>)" by simp
          with now False show ?thesis by (auto simp: s' Deliver pending_def tasks_def)
        qed
      qed
    qed (use step now pend in \<open>auto simp: pending_d_write d_stop_def pending_def tasks_def
        d_write_def writeIfNotInFlight_def delayed_def Let_def\<close>)
  qed
  with inv' show ?thesis by (simp add: kept_def)
qed

text \<open>
  C24.  No write is lost: once all timers have fired, and unless the queue was stopped, a value that was
  written has been passed on at or after the time of the write, however often it was refused in between.
\<close>

theorem no_write_is_lost:
  assumes "deb_run (new_Debouncer initial period) es s" and "deb_run (d_write t s) es' s'"
    and "\<not> d_stopping s'" and "timers s' = {#}"
  shows "\<exists>\<tau> \<ge> now s. (\<tau>, t) \<in> set (calls s')"
proof -
  have inv: "deb_inv s" by (rule deb_inv_run [OF assms(1) deb_inv_new])
  then have "kept t (now s) (d_write t s)"
    using written_is_pending [OF inv] deb_inv_write [OF inv]
    by (cases "d_stopping s") (simp_all add: kept_def d_write_def writeIfNotInFlight_def delayed_def Let_def)
  with assms(2) have "kept t (now s) s'" by (rule deb_run_keeps) (rule kept_step)
  with assms(3,4) show ?thesis by (simp add: kept_def pending_def tasks_def)
qed

theorem no_write_is_lost_witness: "\<exists>\<tau> \<ge> 0. (\<tau>, ''c'') \<in> set [(5 :: nat, ''c'')]"
  using no_write_is_lost [of 5 30 "[]" "new_Debouncer 5 30" "''c''"] two_writes
  by (fastforce simp: Let_def simp del: deb_run.simps(2))

section \<open>The queue drains\<close>

text \<open>A write that comes back counts for itself and the two timers it may set.\<close>

fun timer_weight :: "'a timer_task \<Rightarrow> nat" where
  "timer_weight (Requeue t) = 3"
| "timer_weight _ = 1"

definition weight :: "'a debouncer \<Rightarrow> nat" where
  "weight s = (\<Sum>x \<in># timers s. timer_weight (snd x))"

fun is_fire :: "'a deb_event \<Rightarrow> bool" where
  "is_fire (Fire due task) = True"
| "is_fire _ = False"

fun is_wait :: "'a deb_event \<Rightarrow> bool" where
  "is_wait (Wait n) = True"
| "is_wait _ = False"

lemma fire_weight:
  assumes "deb_step s (Fire due task) s'"
  shows "weight s' < weight s"
proof -
  from assms have mem: "(due, task) \<in># timers s"
    and s': "s' = run_timer task (s\<lparr>timers := timers s - {#(due, task)#}\<rparr>)" by simp_all
  from mem obtain rest where rest: "timers s = add_mset (due, task) rest" by (metis insert_DiffM)
  show ?thesis unfolding s' by (cases task) (simp_all add: rest weight_def deb_defs Let_def)
qed

lemma weight_bound: "weight s \<le> 3 * size (timers s)"
proof -
  have "timer_weight task \<le> 3" for task :: "'a timer_task" by (cases task) simp_all
  then have "(\<Sum>x \<in># M. timer_weight (snd x)) \<le> 3 * size M" for M :: "(nat \<times> 'a timer_task) multiset"
    by (induction M) (simp_all add: add_mono)
  then show ?thesis by (simp add: weight_def)
qed

lemma fires_bounded:
  "deb_run s es s' \<Longrightarrow> \<forall>e \<in> set es. is_fire e \<or> is_wait e \<Longrightarrow> length (filter is_fire es) + weight s' \<le> weight s"
proof (induction es arbitrary: s)
  case (Cons e es)
  then obtain s1 where step: "deb_step s e s1" and run: "deb_run s1 es s'" by auto
  from Cons.IH [OF run] Cons.prems(2) have IH: "length (filter is_fire es) + weight s' \<le> weight s1" by simp
  show ?case
  proof (cases e)
    case (Fire due task)
    with IH fire_weight [of s due task s1] step show ?thesis by simp
  next
    case (Wait n)
    with IH step show ?thesis by (simp add: weight_def)
  qed (use Cons.prems(2) in auto)
qed simp

lemma a_timer_can_fire:
  assumes "timers s \<noteq> {#}"
  shows "\<exists>n due task s'. deb_run s [Wait n, Fire due task] s'"
proof -
  from assms obtain x where x: "x \<in># timers s" "\<forall>y \<in># timers s. fst x \<le> fst y"
    using ex_min_if_finite [of "fst ` set_mset (timers s)"] by (auto simp: not_less)
  then show ?thesis
    by (intro exI [of _ "fst x"] exI [of _ "fst x"] exI [of _ "snd x"]) simp
qed

lemma no_calls_when_stopped:
  "deb_run s es s' \<Longrightarrow> d_stopping s \<Longrightarrow> calls s' = calls s \<and> d_stopping s'"
proof (rule deb_run_keeps [of s es s' "\<lambda>s'. calls s' = calls s \<and> d_stopping s'"])
  fix s1 e s2 assume "calls s1 = calls s \<and> d_stopping s1" and "deb_step s1 e s2"
  then show "calls s2 = calls s \<and> d_stopping s2"
    by (cases e; cases "case e of Fire due task \<Rightarrow> task | _ \<Rightarrow> Deliver undefined") (auto simp: deb_defs Let_def)
qed auto

text \<open>
  C33.  The queue drains, and \<open>join\<close> returns: without further writes at most three times as many timers
  fire as are set; while one is set some timer can fire after a wait; when none is left nothing is in
  flight and \<open>join\<close> ends.  After a stop no value is passed on.
\<close>

theorem queue_drains:
  assumes "deb_run (new_Debouncer initial period) es s" and "deb_run s es' s'"
    and "\<forall>e \<in> set es'. is_fire e \<or> is_wait e"
  shows "length (filter is_fire es') \<le> 3 * size (timers s)
    \<and> (timers s' \<noteq> {#} \<longrightarrow> (\<exists>n due task s2. deb_run s' [Wait n, Fire due task] s2))
    \<and> (timers s' = {#} \<longrightarrow> inFlight s' = {} \<and> d_join_ends s')
    \<and> (d_stopping s \<longrightarrow> calls s' = calls s)"
proof -
  have "length (filter is_fire es') \<le> 3 * size (timers s)"
    using fires_bounded [OF assms(2,3)] weight_bound [of s] by simp
  moreover have inv: "deb_inv s'"
    by (rule deb_inv_run [OF assms(2) deb_inv_run [OF assms(1) deb_inv_new]])
  then have "inFlight s' = {} \<and> d_join_ends s'" if "timers s' = {#}"
    using that by (auto simp: deb_inv_def d_join_ends_def tasks_def)
  ultimately show ?thesis
    using a_timer_can_fire [of s'] no_calls_when_stopped [OF assms(2)] by blast
qed

theorem queue_drains_witness:
  "d_join_ends ((new_Debouncer 5 30 :: string debouncer)\<lparr>now := 35, calls := [(5, ''c'')]\<rparr>)"
proof -
  have "deb_run (new_Debouncer 5 30) [Write ''c''] (d_write ''c'' (new_Debouncer 5 30))" by simp
  from queue_drains [OF this two_writes [unfolded Let_def]] show ?thesis by simp
qed

end
