(* ===== verification/UpdateWorker.thy ===== *)
theory UpdateWorker
  imports Debouncer
begin

text \<open>
  \<open>centroid_update_worker/CentroidUpdateWorker.cpp\<close> as a step relation: the requests for updates, the
  tasks of the thread pool, the runs of the updaters and the delayed completions interleave in any
  order.  A step is a stretch of the code between two points where another thread can come in that
  matters: a critical section together with the counter changes around it, the start and the end of
  a run, a continuation.  The short delays of the completions are left open: they end at any time.
\<close>

section \<open>State and operations\<close>

text \<open>
  \<open>u_pool\<close> holds the tasks that wait for a thread, \<open>u_running\<close> the updaters at work, \<open>u_results\<close> the
  completions that wait for the update delay and \<open>u_decrs\<close> the number of delayed decrements.  The
  callbacks of \<open>joinUpdate\<close> are numbered promises; \<open>u_answers\<close> lists the promises that were
  fulfilled, \<open>u_callbacks\<close> the callbacks of \<open>onUpdate\<close>, by number, \<open>u_updated\<close> their calls, and \<open>u_thrown\<close> the centroids
  whose task ended with an exception of the updater.
\<close>

record worker =
  u_queue :: "string debouncer"
  u_pool :: "string multiset"
  u_updating :: "string set"
  u_running :: "string multiset"
  u_results :: "(string \<times> bool Try) multiset"
  u_decrs :: nat
  u_inProgress :: "64 word"
  u_stopping :: bool
  u_waiting :: "string \<Rightarrow> nat list"
  u_promises :: nat
  u_answers :: "(nat \<times> string) list"
  u_callbacks :: "nat list"
  u_updated :: "(nat \<times> string) list"
  u_thrown :: "string list"

text \<open>After \<open>initialize\<close>, which makes the queue.\<close>

definition uw_initialize :: worker where
  "uw_initialize = \<lparr>u_queue = new_Debouncer 5000 30000, u_pool = {#}, u_updating = {}, u_running = {#},
     u_results = {#}, u_decrs = 0, u_inProgress = 0, u_stopping = False, u_waiting = (\<lambda>i. []),
     u_promises = 0, u_answers = [], u_callbacks = [], u_updated = [], u_thrown = []\<rparr>"

definition incrInProgress :: "worker \<Rightarrow> worker" where
  "incrInProgress s = s\<lparr>u_inProgress := u_inProgress s + 1\<rparr>"

definition decrInProgress :: "worker \<Rightarrow> worker" where
  "decrInProgress s = s\<lparr>u_decrs := u_decrs s + 1\<rparr>"

definition decr_later :: "worker \<Rightarrow> worker" where
  "decr_later s = s\<lparr>u_decrs := u_decrs s - 1, u_inProgress := u_inProgress s - 1\<rparr>"

definition uw_stop :: "worker \<Rightarrow> worker" where
  "uw_stop s = (if \<not> u_stopping s then s\<lparr>u_stopping := True, u_queue := d_stop (u_queue s)\<rparr> else s)"

definition uw_update_delayed :: "string \<Rightarrow> worker \<Rightarrow> worker" where
  "uw_update_delayed i s = s\<lparr>u_pool := add_mset i (u_pool s)\<rparr>"

definition uw_update :: "string \<Rightarrow> worker \<Rightarrow> worker" where
  "uw_update i s = (if u_stopping s then s else uw_update_delayed i s)"

text \<open>The task, until the updater runs.\<close>

definition uw_task :: "string \<Rightarrow> worker \<Rightarrow> worker" where
  "uw_task i s =
     (let shouldUpdate = i \<notin> u_updating s;
          s = (if shouldUpdate then s\<lparr>u_updating := insert i (u_updating s)\<rparr> else s)
      in if \<not> shouldUpdate \<or> u_stopping s then s
         else (incrInProgress s)\<lparr>u_running := add_mset i (u_running s)\<rparr>)"

text \<open>The task, after the updater has returned.\<close>

definition uw_task_end :: "string \<Rightarrow> bool Try \<Rightarrow> worker \<Rightarrow> worker" where
  "uw_task_end i result s =
     (if u_stopping s then decrInProgress s else s\<lparr>u_results := add_mset (i, result) (u_results s)\<rparr>)"

text \<open>
  The callbacks of every update, and then those of the centroid, which are taken out; they are left
  when the worker is stopping.
\<close>

definition echoUpdated :: "string \<Rightarrow> worker \<Rightarrow> worker" where
  "echoUpdated i s =
     (let s = s\<lparr>u_updated := u_updated s @ map (\<lambda>cb. (cb, i)) (u_callbacks s)\<rparr>;
          forCentroid = u_waiting s i;
          s = s\<lparr>u_waiting := (u_waiting s)(i := [])\<rparr>
      in if u_stopping s then s else s\<lparr>u_answers := u_answers s @ map (\<lambda>p. (p, i)) forCentroid\<rparr>)"

text \<open>The continuation after the delay.\<close>

definition uw_complete :: "string \<Rightarrow> bool Try \<Rightarrow> worker \<Rightarrow> worker" where
  "uw_complete i result s =
     (let s = s\<lparr>u_updating := u_updating s - {i}\<rparr>;
          s = (if \<not> hasException result then echoUpdated i s else s)
      in decrInProgress s)"

definition onUpdate :: "nat \<Rightarrow> worker \<Rightarrow> worker" where
  "onUpdate callback s = s\<lparr>u_callbacks := u_callbacks s @ [callback]\<rparr>"

definition onUpdateSpecificOnce :: "string \<Rightarrow> nat \<Rightarrow> worker \<Rightarrow> worker" where
  "onUpdateSpecificOnce i promise s = s\<lparr>u_waiting := (u_waiting s)(i := u_waiting s i @ [promise])\<rparr>"

definition uw_joinUpdate :: "string \<Rightarrow> worker \<Rightarrow> worker" where
  "uw_joinUpdate i s =
     (let promise = u_promises s;
          s = s\<lparr>u_promises := promise + 1\<rparr>;
          s = onUpdateSpecificOnce i promise s
      in uw_update i s)"

definition uw_triggerUpdate :: "string \<Rightarrow> worker \<Rightarrow> worker" where
  "uw_triggerUpdate i s = (if \<not> u_stopping s then s\<lparr>u_queue := d_write i (u_queue s)\<rparr> else s)"

text \<open>What \<open>join\<close> waits for after the stop.\<close>

definition uw_join_ends :: "worker \<Rightarrow> bool" where
  "uw_join_ends s \<longleftrightarrow> d_join_ends (u_queue s) \<and> u_inProgress s = 0"

text \<open>The calls of the queue's callback since the state \<open>q\<close>: each asks for an update.\<close>

definition queue_step :: "string debouncer \<Rightarrow> worker \<Rightarrow> worker" where
  "queue_step q s =
     foldl (\<lambda>s call. uw_update (snd call) s) (s\<lparr>u_queue := q\<rparr>) (drop (length (calls (u_queue s))) (calls q))"

section \<open>Steps\<close>

datatype worker_event =
  OnUpdate nat | Update string | UpdateDelayed string | Join string | Trigger string | Stop
| Timer "string deb_event"
| Start string | Finish string "bool Try" | Throw string
| Complete string "bool Try" | Decrement

inductive worker_step :: "worker \<Rightarrow> worker_event \<Rightarrow> worker \<Rightarrow> bool" where
  "worker_step s (OnUpdate callback) (onUpdate callback s)"
| "worker_step s (Update i) (uw_update i s)"
| "worker_step s (UpdateDelayed i) (uw_update_delayed i s)"
| "worker_step s (Join i) (uw_joinUpdate i s)"
| "worker_step s (Trigger i) (uw_triggerUpdate i s)"
| "worker_step s Stop (uw_stop s)"
| "is_fire e \<or> is_wait e \<Longrightarrow> deb_step (u_queue s) e q \<Longrightarrow> worker_step s (Timer e) (queue_step q s)"
| "i \<in># u_pool s \<Longrightarrow> worker_step s (Start i) (uw_task i (s\<lparr>u_pool := u_pool s - {#i#}\<rparr>))"
| "i \<in># u_running s \<Longrightarrow>
     worker_step s (Finish i result) (uw_task_end i result (s\<lparr>u_running := u_running s - {#i#}\<rparr>))"
| "i \<in># u_running s \<Longrightarrow>
     worker_step s (Throw i) (s\<lparr>u_running := u_running s - {#i#}, u_thrown := i # u_thrown s\<rparr>)"
| "(i, result) \<in># u_results s \<Longrightarrow>
     worker_step s (Complete i result) (uw_complete i result (s\<lparr>u_results := u_results s - {#(i, result)#}\<rparr>))"
| "u_decrs s > 0 \<Longrightarrow> worker_step s Decrement (decr_later s)"

inductive_simps worker_step_simps:
  "worker_step s (OnUpdate callback) s'" "worker_step s (Update i) s'" "worker_step s (UpdateDelayed i) s'" "worker_step s (Join i) s'"
  "worker_step s (Trigger i) s'" "worker_step s Stop s'" "worker_step s (Timer e) s'"
  "worker_step s (Start i) s'" "worker_step s (Finish i result) s'" "worker_step s (Throw i) s'"
  "worker_step s (Complete i result) s'" "worker_step s Decrement s'"

fun worker_run :: "worker \<Rightarrow> worker_event list \<Rightarrow> worker \<Rightarrow> bool" where
  "worker_run s [] s' \<longleftrightarrow> s' = s"
| "worker_run s (e # es) s' \<longleftrightarrow> (\<exists>s1. worker_step s e s1 \<and> worker_run s1 es s')"

lemma worker_run_keeps:
  assumes "worker_run s es s'" and "P s" and "\<And>s e s'. P s \<Longrightarrow> e \<in> set es \<Longrightarrow> worker_step s e s' \<Longrightarrow> P s'"
  shows "P s'"
  using assms
proof (induction es arbitrary: s)
  case (Cons e es)
  from Cons.prems(1) obtain s1 where "worker_step s e s1" "worker_run s1 es s'" by auto
  with Cons.prems(2,3) show ?case by (intro Cons.IH [of s1]) (auto intro: Cons.prems(3))
qed simp

lemmas uw_defs = onUpdate_def uw_update_def uw_update_delayed_def uw_joinUpdate_def onUpdateSpecificOnce_def
  uw_triggerUpdate_def uw_stop_def uw_task_def uw_task_end_def uw_complete_def echoUpdated_def
  incrInProgress_def decrInProgress_def decr_later_def

text \<open>A step of the queue only asks for updates.\<close>

lemma foldl_uw_update: "foldl (\<lambda>s call. uw_update (snd call) s) s cs =
   (if u_stopping s then s else s\<lparr>u_pool := u_pool s + mset (map snd cs)\<rparr>)"
  by (induction cs arbitrary: s) (simp_all add: uw_update_def uw_update_delayed_def)

lemma queue_step_eq: "queue_step q s =
   s\<lparr>u_queue := q, u_pool := u_pool s + (if u_stopping s then {#}
      else mset (map snd (drop (length (calls (u_queue s))) (calls q))))\<rparr>"
  by (simp add: queue_step_def foldl_uw_update)

lemma queue_step_simps [simp]:
  "u_queue (queue_step q s) = q" "u_updating (queue_step q s) = u_updating s"
  "u_running (queue_step q s) = u_running s" "u_results (queue_step q s) = u_results s"
  "u_decrs (queue_step q s) = u_decrs s" "u_inProgress (queue_step q s) = u_inProgress s"
  "u_stopping (queue_step q s) = u_stopping s" "u_waiting (queue_step q s) = u_waiting s"
  "u_promises (queue_step q s) = u_promises s" "u_answers (queue_step q s) = u_answers s"
  "u_thrown (queue_step q s) = u_thrown s" "u_callbacks (queue_step q s) = u_callbacks s" "u_updated (queue_step q s) = u_updated s"
  by (simp_all add: queue_step_eq)

text \<open>The steps, with what they take split off.\<close>

lemma worker_step_cases [consumes 1, case_names quiet task finish throw complete decrement]:
  assumes "worker_step s e s'"
    and quiet: "\<And>q pool waiting promises callbacks. \<lbrakk>\<forall>i. e \<noteq> Start i; (waiting, promises) = (u_waiting s, u_promises s)
        \<or> (\<exists>i. e = Join i \<and> waiting = (u_waiting s)(i := u_waiting s i @ [u_promises s]) \<and> promises = u_promises s + 1
             \<and> (\<not> u_stopping s \<longrightarrow> i \<in># pool));
        u_pool s \<subseteq># pool;
        s' = s\<lparr>u_queue := q, u_pool := pool, u_waiting := waiting, u_promises := promises, u_callbacks := callbacks, u_stopping := u_stopping s \<or> e = Stop\<rparr>\<rbrakk> \<Longrightarrow> thesis"
    and task: "\<And>i pool. \<lbrakk>e = Start i; u_pool s = add_mset i pool; s' = uw_task i (s\<lparr>u_pool := pool\<rparr>)\<rbrakk> \<Longrightarrow> thesis"
    and finish: "\<And>i r rest. \<lbrakk>e = Finish i r; u_running s = add_mset i rest; s' = uw_task_end i r (s\<lparr>u_running := rest\<rparr>)\<rbrakk> \<Longrightarrow> thesis"
    and throw: "\<And>i rest. \<lbrakk>e = Throw i; u_running s = add_mset i rest; s' = s\<lparr>u_running := rest, u_thrown := i # u_thrown s\<rparr>\<rbrakk> \<Longrightarrow> thesis"
    and complete: "\<And>i r rest. \<lbrakk>e = Complete i r; u_results s = add_mset (i, r) rest; s' = uw_complete i r (s\<lparr>u_results := rest\<rparr>)\<rbrakk> \<Longrightarrow> thesis"
    and decrement: "\<And>n. \<lbrakk>e = Decrement; u_decrs s = Suc n; s' = s\<lparr>u_decrs := n, u_inProgress := u_inProgress s - 1\<rparr>\<rbrakk> \<Longrightarrow> thesis"
  shows thesis
proof (cases e)
  case (Start i)
  with assms(1) show thesis by (auto simp: worker_step_simps intro: task dest!: multi_member_split)
next
  case (Finish i r)
  with assms(1) show thesis by (auto simp: worker_step_simps intro: finish dest!: multi_member_split)
next
  case (Throw i)
  with assms(1) show thesis by (auto simp: worker_step_simps intro: throw dest!: multi_member_split)
next
  case (Complete i r)
  with assms(1) show thesis by (auto simp: worker_step_simps intro: complete dest!: multi_member_split)
next
  case Decrement
  with assms(1) show thesis
    by (cases "u_decrs s") (auto simp: worker_step_simps decr_later_def intro: decrement)
next
  case (OnUpdate callback)
  with assms(1) show thesis
    by (intro quiet [of "u_waiting s" "u_promises s" "u_pool s" "u_callbacks s'" "u_queue s"]) (auto simp: worker_step_simps uw_defs)
next
  case (Update i)
  with assms(1) show thesis
    by (intro quiet [of "u_waiting s" "u_promises s" "u_pool s'" "u_callbacks s" "u_queue s"]) (auto simp: worker_step_simps uw_defs)
next
  case (UpdateDelayed i)
  with assms(1) show thesis
    by (intro quiet [of "u_waiting s" "u_promises s" "u_pool s'" "u_callbacks s" "u_queue s"]) (auto simp: worker_step_simps uw_defs)
next
  case (Join i)
  with assms(1) show thesis
    by (intro quiet [of "u_waiting s'" "u_promises s'" "u_pool s'" "u_callbacks s" "u_queue s"]) (auto simp: worker_step_simps uw_defs Let_def)
next
  case (Trigger i)
  with assms(1) show thesis
    by (intro quiet [of "u_waiting s" "u_promises s" "u_pool s" "u_callbacks s" "u_queue s'"]) (auto simp: worker_step_simps uw_defs)
next
  case Stop
  with assms(1) show thesis
    by (intro quiet [of "u_waiting s" "u_promises s" "u_pool s" "u_callbacks s" "u_queue s'"]) (auto simp: worker_step_simps uw_defs)
next
  case (Timer d)
  with assms(1) show thesis
    by (intro quiet [of "u_waiting s" "u_promises s" "u_pool s'" "u_callbacks s" "u_queue s'"])
      (auto simp: worker_step_simps queue_step_eq)
qed

section \<open>One update per centroid\<close>

text \<open>The updates that have started and are not completed.\<close>

definition active :: "worker \<Rightarrow> string multiset" where
  "active s = u_running s + image_mset fst (u_results s)"

definition no_doubles :: "'a multiset \<Rightarrow> bool" where
  "no_doubles A \<longleftrightarrow> (\<forall>x. count A x \<le> 1)"

lemma no_doubles_empty [simp]: "no_doubles {#}"
  by (simp add: no_doubles_def)

lemma no_doubles_add [simp]: "no_doubles (add_mset x A) \<longleftrightarrow> x \<notin># A \<and> no_doubles A"
proof -
  have "count (add_mset x A) y \<le> 1 \<longleftrightarrow> (y = x \<longrightarrow> x \<notin># A) \<and> count A y \<le> 1" for y
    by (simp add: not_in_iff) linarith
  then show ?thesis by (auto simp: no_doubles_def)
qed

definition counted :: "worker \<Rightarrow> bool" where
  "counted s \<longleftrightarrow> no_doubles (active s) \<and> set_mset (active s) \<subseteq> u_updating s
     \<and> u_inProgress s = of_nat (size (active s) + u_decrs s + length (u_thrown s))"

lemma counted_initialize: "counted uw_initialize"
  by (simp add: counted_def active_def uw_initialize_def)

lemma counted_step: "worker_step s e s' \<Longrightarrow> counted s \<Longrightarrow> counted s'"
proof (induction rule: worker_step_cases)
  case (task i pool)
  then show ?case by (auto simp: counted_def uw_task_def incrInProgress_def active_def Let_def)
next
  case (finish i r rest)
  then show ?case by (auto simp: counted_def uw_task_end_def decrInProgress_def active_def)
next
  case (complete i r rest)
  then show ?case
    by (auto simp: counted_def uw_complete_def echoUpdated_def decrInProgress_def active_def Let_def)
qed (auto simp: counted_def active_def)

lemma counted_run: "worker_run uw_initialize es s \<Longrightarrow> counted s"
  by (rule worker_run_keeps [of uw_initialize es s counted]) (auto intro: counted_initialize counted_step)

text \<open>
  C26.  However requests, timers and tasks interleave, no two updates of a centroid overlap: from its
  start to its completion a second one does not start.
\<close>

theorem one_update_per_centroid:
  assumes "worker_run uw_initialize es s"
  shows "count (u_running s) i + count (image_mset fst (u_results s)) i \<le> 1
    \<and> (i \<in># u_running s \<and> worker_step s (Start i) s' \<longrightarrow> u_running s' = u_running s)"
proof (intro conjI impI)
  from counted_run [OF assms] have counted: "counted s" .
  then show "count (u_running s) i + count (image_mset fst (u_results s)) i \<le> 1"
    by (simp add: counted_def active_def no_doubles_def)
  assume "i \<in># u_running s \<and> worker_step s (Start i) s'"
  with counted show "u_running s' = u_running s"
    by (auto simp: worker_step_simps uw_task_def counted_def active_def Let_def)
qed

theorem one_update_per_centroid_witness:
  "let s = uw_initialize\<lparr>u_pool := {#''c''#}, u_updating := {''c''}, u_running := {#''c''#}, u_inProgress := 1\<rparr>;
       s' = s\<lparr>u_pool := {#}\<rparr>
   in worker_step s (Start ''c'') s' \<and> u_running s' = u_running s"
proof -
  let ?s = "uw_initialize\<lparr>u_pool := {#''c''#}, u_updating := {''c''}, u_running := {#''c''#}, u_inProgress := 1\<rparr>"
  have run: "worker_run uw_initialize [Update ''c'', Start ''c'', Update ''c''] ?s"
    by (simp add: worker_step_simps uw_defs uw_initialize_def Let_def)
  have step: "worker_step ?s (Start ''c'') (?s\<lparr>u_pool := {#}\<rparr>)"
    by (simp add: worker_step_simps uw_defs uw_initialize_def Let_def)
  have "''c'' \<in># u_running ?s" by simp
  with step have "u_running (?s\<lparr>u_pool := {#}\<rparr>) = u_running ?s"
    using one_update_per_centroid [OF run, of "''c''" "?s\<lparr>u_pool := {#}\<rparr>"] by blast
  with step show ?thesis unfolding Let_def by (rule conjI)
qed

section \<open>Shutting down\<close>

text \<open>
  \<open>join\<close> waits for the updates: when it ends, none is at work and none is to be completed.  An
  update that threw was never counted back, so that from then on \<open>join\<close> does not end.
\<close>

theorem join_waits_for_updates:
  assumes "worker_run uw_initialize es s" and "uw_join_ends s"
    and "size (u_running s) + size (u_results s) + u_decrs s + length (u_thrown s) < 2 ^ 64"
  shows "u_running s = {#} \<and> u_results s = {#} \<and> u_decrs s = 0 \<and> u_thrown s = []"
proof -
  from counted_run [OF assms(1)] assms(2) have
    "(of_nat (size (active s) + u_decrs s + length (u_thrown s)) :: 64 word) = 0"
    by (simp add: counted_def uw_join_ends_def)
  then have "2 ^ 64 dvd size (active s) + u_decrs s + length (u_thrown s)"
    by (simp only: word_of_nat_eq_0_iff) simp
  moreover have "size (active s) = size (u_running s) + size (u_results s)" by (simp add: active_def)
  ultimately have "size (active s) + u_decrs s + length (u_thrown s) = 0"
    using assms(3) by (metis nat_dvd_not_less not_gr_zero)
  then show ?thesis by (simp add: active_def)
qed

theorem join_waits_for_updates_witness: "u_running (uw_stop uw_initialize) = {#}"
  using join_waits_for_updates [of "[Stop]" "uw_stop uw_initialize"]
  by (simp add: worker_step_simps uw_join_ends_def d_join_ends_def uw_stop_def d_stop_def uw_initialize_def)

section \<open>Answers to joins\<close>

text \<open>The promises that are still owed, and those that were answered, are all different.\<close>

definition promises_ok :: "worker \<Rightarrow> bool" where
  "promises_ok s \<longleftrightarrow> distinct (map fst (u_answers s)) \<and> (\<forall>i. distinct (u_waiting s i))
     \<and> (\<forall>i p. p \<in> set (u_waiting s i) \<longrightarrow> p < u_promises s
          \<and> (\<forall>j. p \<in> set (u_waiting s j) \<longrightarrow> j = i) \<and> (\<forall>j. (p, j) \<notin> set (u_answers s)))
     \<and> (\<forall>p j. (p, j) \<in> set (u_answers s) \<longrightarrow> p < u_promises s)"

lemma promises_ok_initialize: "promises_ok uw_initialize"
  by (simp add: promises_ok_def uw_initialize_def)

lemma promises_ok_step: "worker_step s e s' \<Longrightarrow> promises_ok s \<Longrightarrow> promises_ok s'"
proof (induction rule: worker_step_cases)
  case (task i pool)
  then show ?case by (simp add: promises_ok_def uw_task_def incrInProgress_def Let_def)
next
  case (finish i r rest)
  then show ?case by (simp add: promises_ok_def uw_task_end_def decrInProgress_def)
next
  case (complete i r rest)
  have fst: "map (fst \<circ> (\<lambda>p. (p, i))) ps = ps" for ps :: "nat list" by (simp add: comp_def)
  from complete show ?case
    by (auto simp: promises_ok_def uw_complete_def echoUpdated_def decrInProgress_def Let_def fst)
next
  case (quiet q pool waiting promises callbacks)
  from quiet(2) show ?case
  proof (elim disjE exE conjE)
    assume "(waiting, promises) = (u_waiting s, u_promises s)"
    with quiet show ?case by (simp add: promises_ok_def)
  next
    fix i assume *: "waiting = (u_waiting s)(i := u_waiting s i @ [u_promises s])" "promises = u_promises s + 1"
    have "u_promises s \<notin> set (u_waiting s j)" "(u_promises s, k) \<notin> set (u_answers s)" for j k
      using quiet(5) by (auto simp: promises_ok_def)
    with * quiet(4,5) show ?case by (auto simp: promises_ok_def less_Suc_eq)
  qed
qed (simp_all add: promises_ok_def)

text \<open>
  While nothing fails and the worker is not stopped, a centroid that a join waits for has a task or an
  update, a mark has its update, and every promise is owed or answered.
\<close>

definition harmless :: "worker_event \<Rightarrow> bool" where
  "harmless e \<longleftrightarrow> e \<noteq> Stop \<and> (\<forall>i. e \<noteq> Throw i) \<and> (\<forall>i x. e \<noteq> Finish i (Inl x))"

definition answering :: "worker \<Rightarrow> bool" where
  "answering s \<longleftrightarrow> \<not> u_stopping s \<and> (\<forall>i r. (i, r) \<in># u_results s \<longrightarrow> \<not> hasException r)
     \<and> u_updating s \<subseteq> set_mset (active s)
     \<and> (\<forall>i. u_waiting s i \<noteq> [] \<longrightarrow> i \<in># u_pool s \<or> i \<in># active s)
     \<and> (\<forall>p < u_promises s. (\<exists>i. (p, i) \<in> set (u_answers s)) \<or> (\<exists>i. p \<in> set (u_waiting s i)))"

lemma answering_initialize: "answering uw_initialize"
  by (simp add: answering_def uw_initialize_def)

text \<open>A completion takes no promise away unanswered.\<close>

lemma complete_owes:
  assumes "\<not> u_stopping s" and "(p, j) \<in> set (u_answers s) \<or> p \<in> set (u_waiting s j)"
  shows "\<exists>j. (p, j) \<in> set (u_answers (uw_complete i r s)) \<or> p \<in> set (u_waiting (uw_complete i r s) j)"
  using assms
  by (cases "j = i") (auto simp: uw_complete_def echoUpdated_def decrInProgress_def Let_def intro!: exI [of _ j])

lemma answering_step:
  "worker_step s e s' \<Longrightarrow> answering s \<Longrightarrow> harmless e \<Longrightarrow> answering s'"
proof (induction rule: worker_step_cases)
  case (task i pool)
  then show ?case
    by (auto simp: answering_def uw_task_def incrInProgress_def active_def Let_def)
next
  case (finish i r rest)
  then show ?case
    by (auto simp: answering_def uw_task_end_def decrInProgress_def active_def harmless_def
        elim!: hasException.elims split: sum.splits)
next
  case (complete i r rest)
  have "\<exists>j. (p, j) \<in> set (u_answers s') \<or> p \<in> set (u_waiting s' j)" if "p < u_promises s" for p
  proof -
    from that complete(4) obtain j where "(p, j) \<in> set (u_answers s) \<or> p \<in> set (u_waiting s j)"
      unfolding answering_def by blast
    with complete(3,4) complete_owes [of "s\<lparr>u_results := rest\<rparr>" p j i r] show ?thesis
      by (simp add: answering_def)
  qed
  then have "\<forall>p < u_promises s. (\<exists>j. (p, j) \<in> set (u_answers s')) \<or> (\<exists>j. p \<in> set (u_waiting s' j))" by blast
  moreover have "u_promises s' = u_promises s" "\<not> u_stopping s'"
      "\<forall>j r. (j, r) \<in># u_results s' \<longrightarrow> \<not> hasException r" "u_updating s' \<subseteq> set_mset (active s')"
      "\<forall>j. u_waiting s' j \<noteq> [] \<longrightarrow> j \<in># u_pool s' \<or> j \<in># active s'"
    using complete
    by (auto simp: answering_def uw_complete_def echoUpdated_def decrInProgress_def active_def Let_def)
  ultimately show ?case by (simp add: answering_def)
next
  case (quiet q pool waiting promises callbacks)
  from quiet(2) show ?case
  proof (elim disjE exE conjE)
    assume "(waiting, promises) = (u_waiting s, u_promises s)"
    with quiet show ?case
      by (auto simp: answering_def active_def harmless_def dest: mset_subset_eqD)
  next
    fix i assume *: "waiting = (u_waiting s)(i := u_waiting s i @ [u_promises s])" "promises = u_promises s + 1"
      "\<not> u_stopping s \<longrightarrow> i \<in># pool"
    have "\<exists>j. (p, j) \<in> set (u_answers s) \<or> p \<in> set (waiting j)" if "p < promises" for p
    proof (cases "p = u_promises s")
      case False
      with that * quiet(5) obtain j where "(p, j) \<in> set (u_answers s) \<or> p \<in> set (u_waiting s j)"
        unfolding answering_def by (metis Suc_eq_plus1 less_Suc_eq)
      then show ?thesis by (intro exI [of _ j]) (auto simp: *)
    qed (auto simp: * intro!: exI [of _ i])
    then have "\<forall>p < promises. (\<exists>j. (p, j) \<in> set (u_answers s)) \<or> (\<exists>j. p \<in> set (waiting j))" by blast
    moreover have "\<forall>j. waiting j \<noteq> [] \<longrightarrow> j \<in># pool \<or> j \<in># active s"
      using * quiet(3,5) by (auto simp: answering_def dest: mset_subset_eqD)
    ultimately show ?case
      using quiet by (simp add: answering_def active_def harmless_def)
  qed
qed (simp_all add: harmless_def answering_def active_def)

text \<open>
  C25.  Every join is answered, once: when no update fails and the worker is not stopped, and no task, run
  or completion is left, each promise that was given out has been fulfilled exactly once.
\<close>

theorem joins_are_answered_once:
  assumes "worker_run uw_initialize es s" and "\<forall>e \<in> set es. harmless e"
    and "u_pool s = {#}" and "u_running s = {#}" and "u_results s = {#}"
  shows "distinct (map fst (u_answers s)) \<and> set (map fst (u_answers s)) = {..< u_promises s}"
proof -
  have "answering s"
    using assms(1) answering_initialize
    by (rule worker_run_keeps) (use assms(2) in \<open>auto intro: answering_step\<close>)
  moreover from this assms(3-5) have "u_waiting s i = []" for i by (auto simp: answering_def active_def)
  moreover have "promises_ok s"
    using assms(1) promises_ok_initialize by (rule worker_run_keeps) (auto intro: promises_ok_step)
  moreover have "set (map fst (u_answers s)) = {p. \<exists>i. (p, i) \<in> set (u_answers s)}" by force
  ultimately show ?thesis by (auto simp: promises_ok_def answering_def)
qed

text \<open>A join while an update runs: the second task finds the mark and does nothing.\<close>

definition joined_late :: "worker_event list" where
  "joined_late = [Update ''c'', Start ''c'', Join ''c'', Start ''c'', Finish ''c'' (Inr True), Complete ''c'' (Inr True)]"

lemma initial_fields [simp]:
  "u_pool uw_initialize = {#}" "u_updating uw_initialize = {}" "u_running uw_initialize = {#}"
  "u_results uw_initialize = {#}" "u_decrs uw_initialize = 0" "u_inProgress uw_initialize = 0"
  "u_stopping uw_initialize = False" "u_waiting uw_initialize = (\<lambda>i. [])" "u_promises uw_initialize = 0"
  "u_answers uw_initialize = []" "u_callbacks uw_initialize = []" "u_updated uw_initialize = []" "u_thrown uw_initialize = []"
  by (simp_all add: uw_initialize_def)

lemma joined_late_run:
  "worker_run uw_initialize joined_late
     (uw_initialize\<lparr>u_inProgress := 1, u_promises := 1, u_pool := {#}, u_running := {#}, u_results := {#},
        u_updating := {}, u_updated := [], u_waiting := (\<lambda>i. []), u_answers := [(0, ''c'')], u_decrs := 1\<rparr>)"
proof -
  let ?s1 = "uw_initialize\<lparr>u_pool := {#''c''#}\<rparr>"
  let ?s2 = "uw_initialize\<lparr>u_pool := {#}, u_updating := {''c''}, u_inProgress := 1, u_running := {#''c''#}\<rparr>"
  let ?s3 = "?s2\<lparr>u_promises := 1, u_waiting := (\<lambda>i. [])(''c'' := [0]), u_pool := {#''c''#}\<rparr>"
  let ?s4 = "?s3\<lparr>u_pool := {#}\<rparr>"
  let ?s5 = "?s4\<lparr>u_running := {#}, u_results := {#(''c'', Inr True)#}\<rparr>"
  have "worker_step uw_initialize (Update ''c'') ?s1" by (simp add: worker_step_simps uw_defs)
  moreover have "worker_step ?s1 (Start ''c'') ?s2" by (simp add: worker_step_simps uw_defs)
  moreover have "worker_step ?s2 (Join ''c'') ?s3" by (simp add: worker_step_simps uw_defs)
  moreover have "worker_step ?s3 (Start ''c'') ?s4" by (simp add: worker_step_simps uw_defs)
  moreover have "worker_step ?s4 (Finish ''c'' (Inr True)) ?s5" by (simp add: worker_step_simps uw_defs)
  moreover have "worker_step ?s5 (Complete ''c'' (Inr True)) (?s5\<lparr>u_results := {#}, u_updating := {},
      u_updated := [], u_waiting := (\<lambda>i. []), u_answers := [(0, ''c'')], u_decrs := 1\<rparr>)"
    by (simp add: worker_step_simps uw_defs fun_upd_idem)
  ultimately show ?thesis unfolding joined_late_def by (simp only: worker_run.simps) (intro exI conjI; simp)
qed

theorem joins_are_answered_once_witness: "distinct (map fst [(0 :: nat, ''c'')]) \<and> set (map fst [(0 :: nat, ''c'')]) = {..< 1}"
  using joins_are_answered_once [OF joined_late_run]
  by (simp add: joined_late_def harmless_def)

text \<open>
  A join can be answered by an update that had started before: while an updater of the centroid is
  at work, a join is answered as soon as that run is completed, although the update that the join asked
  for is still waiting for a thread, so that what was changed in between may not be counted.
\<close>

theorem join_answered_by_earlier_update:
  assumes "i \<in># u_running s" and "\<not> u_stopping s"
  shows "\<exists>s'. worker_run s [Join i, Finish i (Inr b), Complete i (Inr b)] s'
    \<and> (u_promises s, i) \<in> set (u_answers s') \<and> u_pool s' = add_mset i (u_pool s)"
  using assms by (simp add: worker_step_simps uw_defs Let_def)

theorem join_answered_by_earlier_update_witness:
  "let s = uw_initialize\<lparr>u_updating := {''c''}, u_running := {#''c''#}, u_inProgress := 1\<rparr> in
   \<exists>s'. worker_run s [Join ''c'', Finish ''c'' (Inr True), Complete ''c'' (Inr True)] s'
     \<and> (0, ''c'') \<in> set (u_answers s') \<and> u_pool s' = {#''c''#}"
  using join_answered_by_earlier_update [of "''c''"
      "uw_initialize\<lparr>u_updating := {''c''}, u_running := {#''c''#}, u_inProgress := 1\<rparr>" True]
  by (simp add: Let_def del: worker_run.simps)

end
