(* ===== verification/Updates.thy ===== *)
theory Updates
  imports Server UpdateWorker
begin

text \<open>
  The two views of the update worker agree: the update that the requests of \<open>Server\<close> perform at once
  is one of the interleavings of \<open>UpdateWorker\<close>.
\<close>

lemma reload_keeps_updating: "w_updating (snd (run_state (sw_reloadCentroid api i) w)) = w_updating w"
  by (auto simp: sw_reloadCentroid_def sw_insertOrUpdate_def on_scores_def case_prod_unfold Let_def split: option.splits)

text \<open>The runs of the worker, for the three ends of the updater.\<close>

lemma lone_update_runs:
  assumes "i \<notin> u_updating s" and "\<not> u_stopping s"
  shows "\<exists>s'. worker_run s [Update i, Start i, Finish i result, Complete i result, Decrement] s'
      \<and> u_updating s' = u_updating s \<and> u_inProgress s' = u_inProgress s
      \<and> u_updated s' = u_updated s @ (if hasException result then [] else map (\<lambda>cb. (cb, i)) (u_callbacks s))"
    and "\<exists>s'. worker_run s [Update i, Start i, Throw i] s'
      \<and> u_updating s' = insert i (u_updating s) \<and> u_thrown s' = i # u_thrown s"
    and "\<exists>s'. worker_run s [Update i, Start i] s'
      \<and> u_updating s' = insert i (u_updating s) \<and> u_running s' = add_mset i (u_running s)"
proof -
  have start: "worker_run s (Update i # Start i # es) s' \<longleftrightarrow>
      worker_run (s\<lparr>u_pool := u_pool s, u_updating := insert i (u_updating s),
        u_inProgress := u_inProgress s + 1, u_running := add_mset i (u_running s)\<rparr>) es s'" for es s'
    using assms by (simp add: worker_step_simps uw_defs Let_def)
  show "\<exists>s'. worker_run s [Update i, Start i, Finish i result, Complete i result, Decrement] s'
      \<and> u_updating s' = u_updating s \<and> u_inProgress s' = u_inProgress s
      \<and> u_updated s' = u_updated s @ (if hasException result then [] else map (\<lambda>cb. (cb, i)) (u_callbacks s))"
    unfolding start using assms by (simp add: worker_step_simps uw_defs Let_def)
  show "\<exists>s'. worker_run s [Update i, Start i, Throw i] s'
      \<and> u_updating s' = insert i (u_updating s) \<and> u_thrown s' = i # u_thrown s"
    unfolding start by (simp add: worker_step_simps)
  show "\<exists>s'. worker_run s [Update i, Start i] s'
      \<and> u_updating s' = insert i (u_updating s) \<and> u_running s' = add_mset i (u_running s)"
    unfolding start by simp
qed

lemma cw_update_ends:
  assumes "i \<notin> set (w_updating w)"
  shows "(\<exists>result w'. run_state (cw_update cf i) w = (Ready result, w') \<and> set (w_updating w') = set (w_updating w))
    \<or> (\<exists>w'. run_state (cw_update cf i) w = (Thrown, w') \<and> w_updating w' = i # w_updating w)
    \<or> (\<exists>w'. run_state (cw_update cf i) w = (Pending, w') \<and> w_updating w' = i # w_updating w)"
proof -
  let ?w1 = "w\<lparr>w_updating := i # w_updating w, w_reads := w_reads w + 1\<rparr>"
  obtain outcome w2 where run: "run_state (cw_run cf (w_clock w (w_reads w)) i) ?w1 = (outcome, w2)" by fastforce
  then have w2: "w_updating w2 = i # w_updating w"
    by (auto simp: cw_run_def split: option.splits prod.splits)
  let ?w3 = "w2\<lparr>w_updating := removeAll i (w_updating w2)\<rparr>"
  obtain x w4 where reload: "run_state (sw_reloadCentroid (cf_api cf) i) ?w3 = (x, w4)" by fastforce
  with reload_keeps_updating [of "cf_api cf" i ?w3] w2 assms have "set (w_updating w4) = set (w_updating w)"
    by auto
  with run w2 reload assms show ?thesis
    by (cases outcome) (auto simp: cw_update_def cw_mark_def cw_unmark_def)
qed

text \<open>
  C27.  An update without interference is a run of the step relation: what \<open>cw_update\<close> does in one go is
  the request, the start, the end of the updater, the completion and the delayed decrement, one after
  the other; an updater that throws, or that does not return, leaves the same mark in both.
\<close>

theorem sequential_update_is_a_run:
  assumes "u_updating s = set (w_updating w)" and "i \<notin> set (w_updating w)" and "\<not> u_stopping s"
  shows "case run_state (cw_update cf i) w of
      (Ready result, w') \<Rightarrow> \<exists>s'. worker_run s [Update i, Start i, Finish i result, Complete i result, Decrement] s'
        \<and> u_updating s' = set (w_updating w') \<and> u_inProgress s' = u_inProgress s
        \<and> u_updated s' = u_updated s @ (if hasException result then [] else map (\<lambda>cb. (cb, i)) (u_callbacks s))
    | (Thrown, w') \<Rightarrow> \<exists>s'. worker_run s [Update i, Start i, Throw i] s'
        \<and> u_updating s' = set (w_updating w') \<and> u_thrown s' = i # u_thrown s
    | (Pending, w') \<Rightarrow> \<exists>s'. worker_run s [Update i, Start i] s'
        \<and> u_updating s' = set (w_updating w') \<and> u_running s' = add_mset i (u_running s)"
  using cw_update_ends [OF assms(2), of cf] lone_update_runs [of i s] assms
  by (elim disjE exE conjE) (simp_all del: worker_run.simps)

theorem sequential_update_is_a_run_witness:
  "\<exists>s'. worker_run uw_initialize [Update ''c'', Start ''c'', Finish ''c'' (Inl ECentroidDoesNotExist),
     Complete ''c'' (Inl ECentroidDoesNotExist), Decrement] s' \<and> u_inProgress s' = 0"
proof -
  have missing: "\<not> sp_doesCentroidExist log_env [] ''c''" by (simp add: log_catalog.exists_simps)
  obtain w' where run: "run_state (cw_update demo_config ''c'') (demo_world []) = (Ready (Inl ECentroidDoesNotExist), w')"
    using missing
    by (simp add: cw_update_def cw_mark_def cw_unmark_def cw_run_def updater_run_def demo_config_def demo_world_def
        p_doesCentroidExist_def)
  show ?thesis
    using sequential_update_is_a_run [of uw_initialize "demo_world []" "''c''" demo_config] run
    by (auto simp: demo_world_def simp del: worker_run.simps)
qed

end
