(* ===== verification/Documents.thy ===== *)
theory Documents
  imports Stopwords CentroidUpdate
begin

text \<open>
  What document processing computes: a reference for \<open>DocumentProcessor\<close>, which finds the maximal
  runs of letters of the text, stems them, drops the stopwords and scores every stem with its share.
  With it the similarities of processed documents are bounded.
\<close>

section \<open>The tokens of a text\<close>

lemma scan_advances:
  assumes "scan (drop i t) i 0 i = (i', k, s)" and "k > 2"
  shows "i \<le> s" and "s < i'" and "i' \<le> length t" and "i < i'" and "i < length t"
proof -
  have "i < length t"
  proof (rule ccontr)
    assume "\<not> i < length t"
    with assms show False by simp
  qed
  moreover have "scan_result t i i (i', k, s)" using scan_found [of i t i 0 i] assms(1) \<open>i < length t\<close> by simp
  ultimately show "i \<le> s" and "s < i'" and "i' \<le> length t" and "i < i'" and "i < length t"
    using assms(2) by (auto simp: scan_result_def)
qed

lemma scan_shrinks: "scan (drop i t) i 0 i = (i', k, s) \<Longrightarrow> 2 < k \<Longrightarrow> length t - i' < length t - i"
  using scan_advances(4,5) by (intro diff_less_mono2) auto

text \<open>The starts and lengths of the tokens from position \<open>i\<close> on.\<close>

function token_spans :: "string \<Rightarrow> nat \<Rightarrow> (nat \<times> nat) list" where
  "token_spans t i = (case scan (drop i t) i 0 i of (i', k, s) \<Rightarrow>
     if k > 2 then (s, (if i' \<noteq> length t then i' - 1 else i') - s) # token_spans t i' else [])"
  by pat_completeness auto
termination
  by (relation "measure (\<lambda>(t, i). length t - i)") (auto dest!: sym [of "(_, _, _)"] simp: scan_shrinks)

declare token_spans.simps [simp del]

text \<open>The words of the text, folded to lower case, and the stems of them that are scored.\<close>

definition token_words :: "string \<Rightarrow> string list" where
  "token_words t = map (\<lambda>(s, n). take n (drop s (map lower_char t))) (token_spans t 0)"

definition document_stems :: "(string \<Rightarrow> nat) \<Rightarrow> (string \<Rightarrow> bool) \<Rightarrow> string \<Rightarrow> string list" where
  "document_stems stem stop t =
     filter (\<lambda>b. \<not> stop (take 22 (c_str b))) (map (\<lambda>w. take (min 23 (stem w)) w) (token_words t))"

text \<open>The tokens start where a run of at least three letters starts.\<close>

definition run_start :: "string \<Rightarrow> nat \<Rightarrow> bool" where
  "run_start t s \<longleftrightarrow> s + 2 < length t \<and> three_letters t s \<and> (s = 0 \<or> \<not> ascii_letter (t ! (s - 1)))"

lemma token_starts:
  "i \<le> length t \<Longrightarrow> i = 0 \<or> \<not> ascii_letter (t ! (i - 1)) \<Longrightarrow>
   fst ` set (token_spans t i) = {s. i \<le> s \<and> run_start t s} \<and> sorted_wrt (<) (map fst (token_spans t i))"
proof (induction t i rule: token_spans.induct)
  case (1 t i)
  obtain i' k s where scan: "scan (drop i t) i 0 i = (i', k, s)" by (metis prod_cases3)
  have res: "scan_result t i i (i', k, s)" using scan_found [of i t i 0 i] 1(2) scan by simp
  show ?case
  proof (cases "k > 2")
    case False
    with res have "{s. i \<le> s \<and> run_start t s} = {}" by (auto simp: scan_result_def run_start_def)
    with False show ?thesis by (subst (1 2) token_spans.simps) (simp add: scan)
  next
    case True
    let ?rest = "token_spans t i'"
    have run: "letters_between t s (s + k)" "i \<le> s" "s = i \<or> \<not> ascii_letter (t ! (s - 1))"
      "\<And>j. i \<le> j \<Longrightarrow> j < s \<Longrightarrow> \<not> three_letters t j"
      and stop: "i' = length t \<and> i' = s + k \<or> i' = Suc (s + k) \<and> i' \<le> length t \<and> \<not> ascii_letter (t ! (s + k))"
      using res by (auto simp: scan_result_def)
    have rest: "fst ` set ?rest = {s. i' \<le> s \<and> run_start t s} \<and> sorted_wrt (<) (map fst ?rest)"
    proof (cases "i' = length t \<and> i' = s + k")
      case True
      then have "?rest = []" by (subst token_spans.simps) simp
      moreover have "{s. i' \<le> s \<and> run_start t s} = {}" using True by (auto simp: run_start_def)
      ultimately show ?thesis by simp
    next
      case False
      with stop scan \<open>k > 2\<close> show ?thesis by (intro 1(1)) auto
    qed
    have "run_start t s"
      using run \<open>k > 2\<close> stop 1(3) by (auto simp: run_start_def three_letters_def letters_between_def)
    moreover have "\<not> run_start t j" if "s < j" "j < i'" for j
    proof (cases "j < s + k")
      case True
      with that(1) run(1) have "ascii_letter (t ! (j - 1))" "j \<noteq> 0"
        unfolding letters_between_def by (auto dest: spec [of _ "j - 1"])
      then show ?thesis by (simp add: run_start_def)
    next
      case False
      with that stop have "j = s + k" "\<not> ascii_letter (t ! (s + k))" by auto
      then show ?thesis by (simp add: run_start_def three_letters_def)
    qed
    moreover have "\<not> run_start t j" if "i \<le> j" "j < s" for j using run(4) [OF that] by (simp add: run_start_def)
    moreover have "s < i'" using scan_advances(2) [OF scan True] .
    ultimately have "{j. i \<le> j \<and> run_start t j} = insert s {j. i' \<le> j \<and> run_start t j}"
      using run(2) by (auto simp: not_le [symmetric]) (metis linorder_neqE_nat not_le)+
    moreover have "token_spans t i = (s, (if i' \<noteq> length t then i' - 1 else i') - s) # ?rest"
      using True by (subst token_spans.simps) (simp add: scan)
    moreover have "\<forall>x \<in> fst ` set ?rest. s < x" using rest \<open>s < i'\<close> by auto
    ultimately show ?thesis using rest by auto
  qed
qed

section \<open>Views of a text that is still being folded\<close>

text \<open>
  A view that lies before position \<open>i\<close> is not touched when the text is folded from \<open>i\<close> on: everything
  the accumulator does with such views is the same on two texts that agree before \<open>i\<close>.
\<close>

definition view_before :: "nat \<Rightarrow> StringView \<Rightarrow> bool" where
  "view_before i v \<longleftrightarrow> 0 < sv_len v \<and> sv_len v < 24 \<and> sv_base v + sv_len v \<le> i"

lemma take_drop_agree: "take i a = take i b \<Longrightarrow> m + n \<le> i \<Longrightarrow> take n (drop m a) = take n (drop m b)"
proof -
  assume agree: "take i a = take i b" and "m + n \<le> i"
  then have "take n (drop m x) = drop m (take (m + n) (take i x))" for x :: "'a list"
    by (simp add: take_drop add.commute min_absorb1)
  with agree show ?thesis by metis
qed

lemma sv_bytes_agree: "take i a = take i b \<Longrightarrow> view_before i v \<Longrightarrow> sv_bytes a v = sv_bytes b v"
  by (simp add: sv_bytes_def view_before_def take_drop_agree)

lemma sv_eq_agree:
  assumes "take i a = take i b" and "view_before i w" and "sv_base v \<le> sv_base w"
  shows "sv_eq a w v \<longleftrightarrow> sv_eq b w v"
proof -
  let ?n = "unat (of_nat (sv_len w) - 1 :: 64 word)"
  have "?n = sv_len w - 1"
  proof -
    have "(1 :: 64 word) \<le> of_nat (sv_len w)" using assms(2) by (simp add: view_before_def word_le_nat_alt unat_of_nat)
    then show ?thesis using assms(2) by (simp add: view_before_def unat_sub unat_of_nat)
  qed
  then have "take ?n (drop (sv_base x) a) = take ?n (drop (sv_base x) b)" if "sv_base x \<le> sv_base w" for x
    using that assms(1,2) by (intro take_drop_agree) (auto simp: view_before_def)
  from this [OF assms(3)] this [of w] show ?thesis by (simp add: sv_eq_def strncmp_eq_def take_c_str)
qed

lemma find_word_agree:
  assumes "take i a = take i b" and "view_before i w"
    and "\<forall>p \<in> set table. view_before i (fst p) \<and> sv_base (fst p) \<le> sv_base w"
  shows "find_word env a table w = find_word env b table w"
  using assms(3)
proof (induction table)
  case (Cons p table)
  then show ?case
    using assms(1,2) by (cases p) (simp add: sv_hash_def sv_bytes_agree [OF assms(1)] sv_eq_agree [OF assms(1,2)])
qed simp

lemma assignWord_take: "assignWord buf src n = assignWord buf (take n src) n"
proof -
  have "strncpy buf src m = strncpy buf (take n src) m" if "m \<le> n" for m
  proof -
    have "take m (c_str src @ replicate m NUL) = take m (c_str (take n src) @ replicate m NUL)"
      using that unfolding take_c_str [symmetric] by (cases "length (c_str src) \<le> n") simp_all
    then show ?thesis by (simp add: strncpy_def)
  qed
  from this [of "if n > 23 then 23 else n"] show ?thesis by (simp add: assignWord_def Let_def)
qed

lemma scored_agree:
  assumes "take i a = take i b" and "m + n \<le> i"
  shows "make_ScoredWord1 buf (drop m a) n = make_ScoredWord1 buf (drop m b) n"
  using take_drop_agree [OF assms] assignWord_take [of buf "drop m a" n] assignWord_take [of buf "drop m b" n]
  by (simp add: make_ScoredWord1_def)

lemma scored_word_agree:
  assumes "take i a = take i b" and "m + n \<le> i"
  shows "c_str (sw_word (make_ScoredWord1 (replicate 24 NUL) (drop m a) n))
    = take 22 (c_str (sv_bytes b \<lparr>sv_base = m, sv_len = n\<rparr>))"
  unfolding scored_agree [OF assms]
  by (simp add: make_ScoredWord1_def c_str_assignWord sv_bytes_def take_c_str min.commute)

lemma wa_add_agree:
  assumes "take i a = take i b" and "view_before i w"
    and "\<forall>p \<in> set (wordsByStr acc). view_before i (fst p) \<and> sv_base (fst p) \<le> sv_base w"
  shows "wa_add env rnd a acc w = wa_add env rnd b acc w"
proof -
  have "sv_len w mod 256 = sv_len w" using assms(2) by (simp add: view_before_def)
  moreover have "make_ScoredWord1 buf (drop (sv_base w) a) (sv_len w) = make_ScoredWord1 buf (drop (sv_base w) b) (sv_len w)" for buf
    using assms(2) unfolding view_before_def by (elim conjE) (rule scored_agree [OF assms(1)])
  ultimately show ?thesis using find_word_agree [OF assms(1,2), of "wordsByStr acc" env] assms(3)
    by (simp add: wa_add_def Let_def split: option.split)
qed

lemma wordsByStr_add:
  "view_before i w \<Longrightarrow> \<forall>p \<in> set (wordsByStr acc). view_before i (fst p) \<Longrightarrow>
   \<forall>p \<in> set (wordsByStr (wa_add env rnd buf acc w)). view_before i (fst p)"
  by (auto simp: wa_add_def Let_def split: option.split)

lemma iter_text_agree: "i \<le> length t \<Longrightarrow> take i (ti_text (iter_at t i)) = take i (map lower_char t)"
  by (simp add: iter_at_def take_map)

section \<open>What the processing loop adds\<close>

text \<open>
  A stem of a word is not empty and not longer than the word.  \<open>kept_views\<close> are the views that the loop
  adds, over the folded text.
\<close>

definition stems_shorten :: "(string \<Rightarrow> nat) \<Rightarrow> bool" where
  "stems_shorten stem \<longleftrightarrow> (\<forall>w. w \<noteq> [] \<longrightarrow> 0 < stem w \<and> stem w \<le> length w)"

definition span_view :: "(string \<Rightarrow> nat) \<Rightarrow> string \<Rightarrow> nat \<times> nat \<Rightarrow> StringView" where
  "span_view stem folded_text = (\<lambda>(s, n). \<lparr>sv_base = s, sv_len = min 23 (stem (take n (drop s folded_text)))\<rparr>)"

definition kept_views :: "(string \<Rightarrow> nat) \<Rightarrow> (string \<Rightarrow> bool) \<Rightarrow> string \<Rightarrow> nat \<Rightarrow> StringView list" where
  "kept_views stem stop t i =
     filter (\<lambda>v. \<not> stop (take 22 (c_str (sv_bytes (map lower_char t) v))))
       (map (span_view stem (map lower_char t)) (token_spans t i))"

lemma spans_inside: "i \<le> length t \<Longrightarrow> (s, n) \<in> set (token_spans t i) \<Longrightarrow> 0 < n \<and> s + n \<le> length t"
proof (induction t i rule: token_spans.induct)
  case (1 t i)
  obtain i' k s' where scan: "scan (drop i t) i 0 i = (i', k, s')" by (metis prod_cases3)
  have res: "scan_result t i i (i', k, s')" using scan_found [of i t i 0 i] 1(2) scan by simp
  show ?case
  proof (cases "k > 2")
    case True
    then have "token_spans t i = (s', (if i' \<noteq> length t then i' - 1 else i') - s') # token_spans t i'"
      by (subst token_spans.simps) (simp add: scan)
    with 1(3) consider "s = s'" "n = (if i' \<noteq> length t then i' - 1 else i') - s'" | "(s, n) \<in> set (token_spans t i')"
      by auto
    then show ?thesis
    proof cases
      case 1
      with res True show ?thesis by (auto simp: scan_result_def)
    next
      case 2
      with 1(1) [OF scan [symmetric]] True scan_advances(3) [OF scan True] show ?thesis by simp
    qed
  next
    case False
    then have "token_spans t i = []" by (subst token_spans.simps) (simp add: scan)
    with 1(3) show ?thesis by simp
  qed
qed

lemma stem_bounds: "stems_shorten stem \<Longrightarrow> 0 < n \<Longrightarrow> length w = n \<Longrightarrow> 0 < stem w \<and> stem w \<le> n"
  by (auto simp: stems_shorten_def)

lemma kept_views_bytes:
  assumes "stems_shorten stem"
  shows "map (sv_bytes (map lower_char t)) (kept_views stem stop t 0) = document_stems stem stop t"
proof -
  let ?T = "map lower_char t"
  have "sv_bytes ?T (span_view stem ?T p) = take (min 23 (stem (take (snd p) (drop (fst p) ?T)))) (take (snd p) (drop (fst p) ?T))"
    if "p \<in> set (token_spans t 0)" for p
  proof -
    obtain s n where p: "p = (s, n)" by (cases p)
    from spans_inside [of 0 t s n] that have "0 < n" "s + n \<le> length t" by (simp_all add: p)
    then have "stem (take n (drop s ?T)) \<le> n" using stem_bounds [OF assms, of n "take n (drop s ?T)"] by simp
    then show ?thesis by (simp add: p sv_bytes_def span_view_def min_def)
  qed
  then have "map (sv_bytes ?T \<circ> span_view stem ?T) (token_spans t 0)
      = map (\<lambda>w. take (min 23 (stem w)) w) (token_words t)"
    by (auto simp: token_words_def)
  moreover have "map (sv_bytes ?T) (kept_views stem stop t 0) =
      filter (\<lambda>b. \<not> stop (take 22 (c_str b))) (map (sv_bytes ?T \<circ> span_view stem ?T) (token_spans t 0))"
    by (simp add: kept_views_def filter_map o_def)
  ultimately show ?thesis by (simp add: document_stems_def)
qed

context ascii_codec
begin

lemma process_loop_views:
  assumes "stems_shorten stem"
  shows "is_ascii t \<Longrightarrow> i \<le> length t \<Longrightarrow> \<forall>p \<in> set (wordsByStr acc). view_before i (fst p) \<Longrightarrow>
   \<exists>it. process_loop env rnd stopword (Some stem) lang (iter_at t i) acc =
     Some (Inr (it, foldl (wa_add env rnd (map lower_char t)) acc (kept_views stem (\<lambda>w. stopword w lang) t i)))"
proof (induction "length t - i" arbitrary: i acc rule: less_induct)
  case less
  let ?T = "map lower_char t"
  obtain i' k s where scan: "scan (drop i t) i 0 i = (i', k, s)" by (metis prod_cases3)
  note token = next_token_scan [OF less.prems(1,2) scan]
  show ?case
  proof (cases "k > 2")
    case False
    with token(1) have "process_loop env rnd stopword (Some stem) lang (iter_at t i) acc = Some (Inr (iter_at t i', acc))"
      by (subst process_loop.simps) simp
    moreover have "token_spans t i = []" using False by (subst token_spans.simps) (simp add: scan)
    ultimately show ?thesis by (simp add: kept_views_def)
  next
    case True
    obtain e where e: "e = (if i' \<noteq> length t then i' - 1 else i')" by simp
    let ?n = "e - s" and ?buf = "ti_text (iter_at t i')"
    note adv = scan_advances [OF scan True]
    have spans: "token_spans t i = (s, ?n) # token_spans t i'"
      using True by (subst token_spans.simps) (simp add: scan e)
    have res: "scan_result t i i (i', k, s)" using scan_found [of i t i 0 i] less.prems(2) scan by simp
    then have n: "0 < ?n" "s + ?n \<le> i'" using True by (auto simp: e scan_result_def)
    note agree = iter_text_agree [OF token(3)]
    have word: "take ?n (drop s ?buf) = take ?n (drop s ?T)" using take_drop_agree [OF agree n(2)] .
    let ?len = "min 23 (stem (take ?n (drop s ?T)))"
    let ?v = "\<lparr>sv_base = s, sv_len = ?len\<rparr>"
    have "take ?n (drop s ?T) \<noteq> []" "length (take ?n (drop s ?T)) = ?n" using n adv by auto
    then have "0 < stem (take ?n (drop s ?T)) \<and> stem (take ?n (drop s ?T)) \<le> ?n"
      using stem_bounds [OF assms n(1)] by blast
    then have len: "0 < ?len" "?len \<le> ?n" by (simp_all only: min_less_iff_conj min.coboundedI2 simp_thms)
    moreover have "?len \<le> 23" by (rule min.cobounded1)
    ultimately have view: "view_before i' ?v"
      using n unfolding view_before_def StringView.select_convs by linarith
    have scored: "c_str (sw_word (make_ScoredWord1 (replicate 24 NUL) (drop s ?buf) ?len)) = take 22 (c_str (sv_bytes ?T ?v))"
      using len n by (intro scored_word_agree [OF agree]) linarith
    have old: "\<forall>p \<in> set (wordsByStr acc). view_before i' (fst p) \<and> sv_base (fst p) \<le> sv_base ?v"
      using less.prems(3) adv by (fastforce simp: view_before_def)
    have cut: "(if stem w > 23 then 23 else stem w) = min 23 (stem w)" for w by simp
    let ?acc = "if stopword (take 22 (c_str (sv_bytes ?T ?v))) lang then acc else wa_add env rnd ?T acc ?v"
    have step: "process_loop env rnd stopword (Some stem) lang (iter_at t i) acc =
        process_loop env rnd stopword (Some stem) lang (iter_at t i') ?acc"
      using token(1) [folded e] True wa_add_agree [OF agree view old, of env rnd]
      by (subst process_loop.simps) (simp add: getStemPos_def word scored cut Let_def cong: if_cong)
    have "\<forall>p \<in> set (wordsByStr ?acc). view_before i' (fst p)"
      using old wordsByStr_add [OF view, of acc env rnd ?T] by simp
    from less.hyps [OF _ less.prems(1) token(3) this] adv
    obtain it where "process_loop env rnd stopword (Some stem) lang (iter_at t i') ?acc =
        Some (Inr (it, foldl (wa_add env rnd ?T) ?acc (kept_views stem (\<lambda>w. stopword w lang) t i')))"
      by (metis diff_less_mono2)
    moreover have "kept_views stem (\<lambda>w. stopword w lang) t i = (if stopword (take 22 (c_str (sv_bytes ?T ?v))) lang then []
        else [?v]) @ kept_views stem (\<lambda>w. stopword w lang) t i'"
      by (simp add: kept_views_def spans span_view_def)
    ultimately show ?thesis by (simp add: step)
  qed
qed

end

section \<open>Documents as vectors\<close>

text \<open>The vector of a document, as the similarity score and the accumulator see it.\<close>

definition document_vector :: "ProcessedDocument \<Rightarrow> WordVector" where
  "document_vector doc = \<lparr>wv_scores = map entry (pd_scoredWords doc), wv_magnitude = pd_magnitude doc,
     wv_documentWeight = Num 0\<rparr>"

lemma score_document_vector: "score_document rnd v doc = score_vector rnd v (document_vector doc)"
  by (simp add: score_document_def score_vector_def score_scores_def document_vector_def entry_def [abs_def])

lemma processed_stem_shares:
  assumes "ascii_codec env" and "is_ascii (d_text doc)"
    and "fst (getStemmer env stemmers (d_language doc)) = Some stem" and "stems_shorten stem"
    and "bs = document_stems stem (\<lambda>w. stopword w (d_language doc)) (d_text doc)"
    and "inj_on (fnv64_buf env) (set bs)"
  shows "\<exists>result stemmers'. worker_processNew env Num stopword epochTime stemmers doc = Some (Inr (result, stemmers'))
    \<and> map entry (pd_scoredWords result) =
        map (\<lambda>b. (take 22 (c_str b), Num (real (count_list bs b) / real (length bs)))) (distinct_words bs)
    \<and> pd_magnitude result = Num (sqrt (\<Sum>b\<leftarrow>distinct_words bs. (real (count_list bs b) / real (length bs))\<^sup>2))
    \<and> fst ` set (token_spans (d_text doc) 0) = {s. run_start (d_text doc) s}"
proof -
  let ?t = "d_text doc" and ?stop = "\<lambda>w. stopword w (d_language doc)"
  let ?T = "map lower_char ?t" and ?views = "kept_views stem (\<lambda>w. stopword w (d_language doc)) (d_text doc) 0"
  obtain rest where stemmer: "getStemmer env stemmers (d_language doc) = (Some stem, rest)"
    using assms(3) by (cases "getStemmer env stemmers (d_language doc)") simp
  have start: "new_token_iter ?t = iter_at ?t 0" by (simp add: new_token_iter_def iter_at_def)
  have none: "\<forall>p \<in> set (wordsByStr new_WordAccumulator). view_before 0 (fst p)" by (simp add: new_WordAccumulator_def)
  from ascii_codec.process_loop_views [OF assms(1,4,2) _ none, of Num stopword "d_language doc"] obtain it where
    loop: "process_loop env Num stopword (Some stem) (d_language doc) (new_token_iter ?t) new_WordAccumulator =
      Some (Inr (it, foldl (wa_add env Num ?T) new_WordAccumulator ?views))" by (auto simp: start)
  have bytes: "map (sv_bytes ?T) ?views = bs" unfolding assms(5) by (rule kept_views_bytes [OF assms(4)])
  have "\<forall>w \<in> set ?views. wf_view ?T w"
  proof
    fix w assume "w \<in> set ?views"
    then obtain s n where sn: "(s, n) \<in> set (token_spans ?t 0)" "w = span_view stem ?T (s, n)"
      by (auto simp: kept_views_def)
    with spans_inside [of 0 ?t s n] have n: "0 < n" "s + n \<le> length ?t" by simp_all
    then have "0 < stem (take n (drop s ?T)) \<and> stem (take n (drop s ?T)) \<le> n"
      using assms(4) by (intro stem_bounds) simp_all
    with n show "wf_view ?T w" by (auto simp: sn(2) wf_view_def span_view_def)
  qed
  moreover have "inj_on (fnv64_buf env) (sv_bytes ?T ` set ?views)" using assms(6) bytes by (metis set_map)
  ultimately have "map entry (fst (wa_getScores (wa_build Num (foldl (wa_add env Num ?T) new_WordAccumulator ?views)))) =
        map (\<lambda>b. (take 22 (c_str b), Num (real (count_list bs b) / real (length bs)))) (distinct_words bs)"
      "wa_getMagnitude (wa_build Num (foldl (wa_add env Num ?T) new_WordAccumulator ?views)) =
        Num (sqrt (\<Sum>b\<leftarrow>distinct_words bs. (real (count_list bs b) / real (length bs))\<^sup>2))"
    using accumulator_shares [of ?views ?T env] unfolding bytes by (simp_all add: Let_def)
  moreover have "fst ` set (token_spans ?t 0) = {s. run_start ?t s}" using token_starts [of 0 ?t] by simp
  ultimately show ?thesis
    by (auto simp: worker_processNew_def processNew_def stemmer loop Let_def case_prod_unfold)
qed


definition three_words :: Document where
  "three_words = \<lparr>d_id = ''d'', d_text = ''Cat, dog cat'', d_language = EN\<rparr>"

lemma three_words_stems: "document_stems length (\<lambda>w. False) (d_text three_words) = [''cat'', ''dog'', ''cat'']"
proof -
  have "token_spans ''Cat, dog cat'' 0 = [(0, 3), (5, 3), (9, 3)]"
    by (subst token_spans.simps, simp add: ascii_letter_def)+
  moreover have "map lower_char ''Cat, dog cat'' = ''cat, dog cat''" by code_simp
  ultimately show ?thesis by (simp add: document_stems_def token_words_def three_words_def)
qed


end
