(* ===== verification/Similarity.thy ===== *)
theory Similarity
  imports Documents Server
begin

text \<open>
  From texts to similarities: the vectors of processed documents and of the centroids accumulated from
  them, and the range of the scores between them, with exact arithmetic.
\<close>

section \<open>Documents with shares\<close>

text \<open>
  A document whose words are distinct, with scores that are not negative and a magnitude that is their
  Euclidean norm.
\<close>

definition share_document :: "ProcessedDocument \<Rightarrow> bool" where
  "share_document doc \<longleftrightarrow> wf_vector (document_vector doc)
     \<and> (\<forall>w \<in> set (pd_scoredWords doc). 0 \<le> real_of (sw_score w))"

lemma share_document_finite: "share_document doc \<Longrightarrow> finite_document doc"
  by (auto simp: share_document_def wf_vector_def document_vector_def finite_scores_def finite_document_def entry_def)

lemma sum_list_single_key:
  "distinct (map fst xs) \<Longrightarrow> (\<Sum>p\<leftarrow>xs. if fst p = k then real_of (snd p) else 0) = coord xs k"
proof (induction xs)
  case (Cons p xs)
  have "(\<Sum>p\<leftarrow>xs. if fst p = k then real_of (snd p) else 0) = (0 :: real)" if "k \<notin> fst ` set xs"
    using that by (induction xs) auto
  with Cons show ?case by (cases p) (auto simp: coord_def)
qed (simp add: coord_def)

lemma doc_coord_vector: "share_document doc \<Longrightarrow> doc_coord k doc = coord (wv_scores (document_vector doc)) k"
proof -
  assume "share_document doc"
  then have "distinct (map fst (map entry (pd_scoredWords doc)))"
    by (simp add: share_document_def wf_vector_def document_vector_def)
  from sum_list_single_key [OF this, of k] show ?thesis
    by (simp add: doc_coord_def document_vector_def entry_def [abs_def] o_def cong: if_cong)
qed

lemma coord_nonneg: "share_document doc \<Longrightarrow> 0 \<le> coord (wv_scores (document_vector doc)) k"
  by (auto simp: share_document_def document_vector_def coord_def entry_def split: option.split dest!: map_of_SomeD)

text \<open>The documents that processing yields are of this kind, when cutting the stems keeps them apart.\<close>

lemma processed_share_document:
  assumes "ascii_codec env" and "is_ascii (d_text doc)"
    and "fst (getStemmer env stemmers (d_language doc)) = Some stem" and "stems_shorten stem"
    and bs: "bs = document_stems stem (\<lambda>w. stopword w (d_language doc)) (d_text doc)"
    and "inj_on (fnv64_buf env) (set bs)" and inj: "inj_on (\<lambda>b. take 22 (c_str b)) (set bs)"
    and run: "worker_processNew env Num stopword epochTime stemmers doc = Some (Inr (result, stemmers'))"
  shows "share_document result"
proof -
  let ?share = "\<lambda>b. real (count_list bs b) / real (length bs)" and ?cut = "\<lambda>b. take 22 (c_str b)"
  note d = distinct_words_props [of bs]
  obtain r st where rst: "worker_processNew env Num stopword epochTime stemmers doc = Some (Inr (r, st))"
      "map entry (pd_scoredWords r) = map (\<lambda>b. (?cut b, Num (?share b))) (distinct_words bs)"
      "pd_magnitude r = Num (sqrt (\<Sum>b\<leftarrow>distinct_words bs. (?share b)\<^sup>2))"
    using processed_stem_shares [where stopword = stopword and stemmers = stemmers and epochTime = epochTime, OF assms(1-6)] by blast
  from rst(1) run have "r = result" by (simp del: One_nat_def)
  with rst(2,3) have words: "map entry (pd_scoredWords result) = map (\<lambda>b. (?cut b, Num (?share b))) (distinct_words bs)"
    and mag: "pd_magnitude result = Num (sqrt (\<Sum>b\<leftarrow>distinct_words bs. (?share b)\<^sup>2))" by blast+
  let ?xs = "map (\<lambda>b. (?cut b, Num (?share b))) (distinct_words bs)"
  have dist: "distinct (map fst ?xs)"
    using d inj by (simp add: distinct_map o_def)
  have "(\<Sum>p\<leftarrow>?xs. (real_of (snd p))\<^sup>2) = (\<Sum>k \<in> fst ` set ?xs. (coord ?xs k)\<^sup>2)" by (rule sum_list_coord [OF dist])
  then have "wf_vector (document_vector result)"
    using dist by (simp add: wf_vector_def document_vector_def words mag finite_scores_def o_def)
  moreover have "0 \<le> real_of (sw_score w)" if "w \<in> set (pd_scoredWords result)" for w
  proof -
    have "entry w \<in> set (map entry (pd_scoredWords result))" using that by simp
    then obtain b where "entry w = (?cut b, Num (?share b))" unfolding words by auto
    then show ?thesis by (simp add: entry_def)
  qed
  ultimately show ?thesis by (simp add: share_document_def)
qed

section \<open>The accumulated centroid\<close>

abbreviation centroid_of_documents :: "string \<Rightarrow> ProcessedDocument list \<Rightarrow> Centroid" where
  "centroid_of_documents c docs \<equiv> accumulated_centroid Num c (foldl (addDocument Num) new_accumulator docs)"

lemma centroid_vector:
  assumes "\<forall>d \<in> set docs. share_document d"
  shows "wf_vector (c_wordVector (centroid_of_documents c docs))"
    and "coord (wv_scores (c_wordVector (centroid_of_documents c docs))) k
      = (\<Sum>d\<leftarrow>docs. coord (wv_scores (document_vector d)) k)"
proof -
  have "\<forall>d \<in> set docs. finite_document d" using assms share_document_finite by blast
  note sums = accumulator_sums [OF this, unfolded Let_def]
  then show "wf_vector (c_wordVector (centroid_of_documents c docs))"
    by (simp add: accumulated_centroid_def getScores_def)
  have "(\<Sum>d\<leftarrow>docs. doc_coord k d) = (\<Sum>d\<leftarrow>docs. coord (wv_scores (document_vector d)) k)"
    using assms by (intro arg_cong [where f = sum_list] map_cong) (simp_all add: doc_coord_vector)
  with sums show "coord (wv_scores (c_wordVector (centroid_of_documents c docs))) k
      = (\<Sum>d\<leftarrow>docs. coord (wv_scores (document_vector d)) k)"
    by (simp add: accumulated_centroid_def getScores_def)
qed

lemma magnitude_zero_iff:
  assumes "wf_vector v" and "finite K" and "fst ` set (wv_scores v) \<subseteq> K"
  shows "wv_magnitude v = Num 0 \<longleftrightarrow> (\<forall>k \<in> K. coord (wv_scores v) k = 0)"
proof -
  have "wv_magnitude v = Num 0 \<longleftrightarrow> real_of (wv_magnitude v) = 0" using assms(1) by (auto simp: wf_vector_def)
  also have "\<dots> \<longleftrightarrow> (\<Sum>k \<in> K. (coord (wv_scores v) k)\<^sup>2) = 0" by (simp add: wf_magnitude [OF assms])
  also have "\<dots> \<longleftrightarrow> (\<forall>k \<in> K. coord (wv_scores v) k = 0)" using assms(2) by (subst sum_nonneg_eq_0_iff) auto
  finally show ?thesis .
qed

lemma coord_outside: "k \<notin> fst ` set xs \<Longrightarrow> coord xs k = 0"
  by (auto simp: coord_def kv_key_map_of)

lemma centroid_not_zero:
  assumes "\<forall>d \<in> set docs. share_document d" and "d \<in> set docs" and "pd_magnitude d \<noteq> Num 0"
  shows "wv_magnitude (c_wordVector (centroid_of_documents c docs)) \<noteq> Num 0"
proof
  let ?v = "c_wordVector (centroid_of_documents c docs)"
  let ?K = "fst ` set (wv_scores ?v) \<union> fst ` set (wv_scores (document_vector d))"
  assume "wv_magnitude ?v = Num 0"
  then have zero: "coord (wv_scores ?v) k = 0" if "k \<in> ?K" for k
    using that magnitude_zero_iff [OF centroid_vector(1) [OF assms(1)], of ?K c] by auto
  have "coord (wv_scores (document_vector d)) k = 0" if "k \<in> ?K" for k
  proof -
    have "\<forall>x \<in> set (map (\<lambda>d. coord (wv_scores (document_vector d)) k) docs). 0 \<le> x"
      using assms(1) coord_nonneg by auto
    moreover have "sum_list (map (\<lambda>d. coord (wv_scores (document_vector d)) k) docs) = 0"
      using zero [OF that] centroid_vector(2) [OF assms(1), of c k] by simp
    ultimately have "\<forall>x \<in> set (map (\<lambda>d. coord (wv_scores (document_vector d)) k) docs). x = 0"
      using sum_list_nonneg_eq_0_iff by blast
    then show ?thesis using assms(2) by simp
  qed
  moreover have "wf_vector (document_vector d)" using assms(1,2) by (simp add: share_document_def)
  ultimately have "wv_magnitude (document_vector d) = Num 0" using magnitude_zero_iff [of "document_vector d" ?K] by auto
  with assms(3) show False by (simp add: document_vector_def)
qed

section \<open>Properties of the similarity\<close>

text \<open>
  C4.  Similarities lie between 0 and 1, when no stems are cut together: take documents in which the scored
  words are distinct after the cut to 22 bytes, the scores are not negative and the magnitude is their
  Euclidean norm (as the processor builds them when no two stems agree in 22 bytes).  With exact arithmetic,
  such a document that has words, scored against the centroid accumulated from such documents of which one
  has words, gets a number from 0 to 1, and exactly 1 when the centroid was accumulated from copies of this
  very document (however often the updater added it).
\<close>

theorem similarity_between_0_and_1:
  assumes "\<forall>d \<in> set docs. share_document d" and "d \<in> set docs" and "pd_magnitude d \<noteq> Num 0"
    and "share_document doc" and "pd_magnitude doc \<noteq> Num 0"
  shows "\<exists>x. centroid_score_document Num (centroid_of_documents c docs) doc = Num x \<and> 0 \<le> x \<and> x \<le> 1
    \<and> (set docs = {doc} \<longrightarrow> x = 1)"
proof -
  let ?a = "c_wordVector (centroid_of_documents c docs)" and ?b = "document_vector doc"
  let ?A = "coord (wv_scores ?a)" and ?B = "coord (wv_scores ?b)"
  define K where "K = fst ` set (wv_scores ?a) \<union> fst ` set (wv_scores ?b)"
  have K: "finite K" "fst ` set (wv_scores ?a) \<subseteq> K" "fst ` set (wv_scores ?b) \<subseteq> K" by (auto simp: K_def)
  have wf: "wf_vector ?a" "wf_vector ?b" using centroid_vector(1) [OF assms(1)] assms(4) by (simp_all add: share_document_def)
  have nonzero: "wv_magnitude ?a \<noteq> Num 0" "wv_magnitude ?b \<noteq> Num 0"
    using centroid_not_zero [OF assms(1-3)] assms(5) by (simp_all add: document_vector_def)
  have score: "centroid_score_document Num (centroid_of_documents c docs) doc = Num (cosine K ?a ?b)"
    using score_vector_cosine [OF wf nonzero K] by (simp add: centroid_score_document_def score_document_vector)
  have nonneg: "0 \<le> ?A k" "0 \<le> ?B k" for k
    using assms(1,4) coord_nonneg by (auto simp: centroid_vector(2) [OF assms(1)] intro!: sum_list_nonneg)
  have mags: "real_of (wv_magnitude ?a) = sqrt (\<Sum>k \<in> K. (?A k)\<^sup>2)" "real_of (wv_magnitude ?b) = sqrt (\<Sum>k \<in> K. (?B k)\<^sup>2)"
    using wf K by (simp_all only: wf_magnitude)
  have "0 \<le> cosine K ?a ?b" unfolding cosine_def mags by (intro divide_nonneg_nonneg sum_nonneg mult_nonneg_nonneg nonneg) (auto intro: sum_nonneg)
  moreover have "cosine K ?a ?b \<le> 1" using cosine_bounded [OF wf nonzero K] by simp
  moreover have "cosine K ?a ?b = 1" if "set docs = {doc}"
  proof -
    have "?A k = real (length docs) * ?B k" for k
    proof -
      have "map (\<lambda>d. coord (wv_scores (document_vector d)) k) docs = replicate (length docs) (?B k)"
        using that by (intro replicate_eqI) auto
      then show ?thesis by (simp add: centroid_vector(2) [OF assms(1)] sum_list_replicate)
    qed
    then have A: "?A = (\<lambda>k. real (length docs) * ?B k)" by blast
    have n: "0 < real (length docs)" using assms(2) by (cases docs) auto
    let ?S = "\<Sum>k \<in> K. (?B k)\<^sup>2"
    have S: "0 < ?S" using nonzero(2) wf(2) mags(2) sum_nonneg [of K "\<lambda>k. (?B k)\<^sup>2"] by (auto simp: wf_vector_def less_le)
    have "(\<Sum>k \<in> K. ?A k * ?B k) = real (length docs) * ?S"
      unfolding A by (simp add: sum_distrib_left power2_eq_square mult.assoc)
    moreover have "(\<Sum>k \<in> K. (?A k)\<^sup>2) = (real (length docs))\<^sup>2 * ?S"
      unfolding A by (simp add: sum_distrib_left power_mult_distrib)
    ultimately show ?thesis using n S by (simp add: cosine_def mags real_sqrt_mult)
  qed
  ultimately show ?thesis using score by blast
qed

definition cat_document :: ProcessedDocument where
  "cat_document = \<lparr>pd_id = ''d'', pd_sha1Hash = None, pd_scoredWords = [make_ScoredWord (replicate 24 NUL) ''cat'' 3 (Num 1)],
     pd_magnitude = Num 1, pd_created = 0, pd_updated = 0\<rparr>"

lemma cat_vector: "document_vector cat_document = \<lparr>wv_scores = [(''cat'', Num 1)], wv_magnitude = Num 1, wv_documentWeight = Num 0\<rparr>"
proof -
  have "c_str (sw_word (make_ScoredWord (replicate 24 NUL) ''cat'' 3 (Num 1))) = ''cat''" by code_simp
  moreover have "sw_score (make_ScoredWord (replicate 24 NUL) ''cat'' 3 (Num 1)) = Num 1" by (simp add: make_ScoredWord_def Let_def)
  ultimately show ?thesis by (simp add: document_vector_def cat_document_def entry_def)
qed

theorem similarity_between_0_and_1_witness:
  "\<exists>x. centroid_score_document Num (centroid_of_documents ''c'' [cat_document, cat_document]) cat_document = Num x \<and> x = 1"
proof -
  have "wf_vector (document_vector cat_document)"
    by (simp add: wf_vector_def cat_vector finite_scores_def coord_def)
  moreover have "\<forall>w \<in> set (pd_scoredWords cat_document). 0 \<le> real_of (sw_score w)"
    by (simp add: cat_document_def make_ScoredWord_def Let_def)
  ultimately have "share_document cat_document" by (simp add: share_document_def)
  moreover have "pd_magnitude cat_document \<noteq> Num 0" by (simp add: cat_document_def)
  ultimately show ?thesis
    using similarity_between_0_and_1 [of "[cat_document, cat_document]" cat_document cat_document "''c''"] by auto
qed

section \<open>Stems that are cut together\<close>

text \<open>A hash that tells strings with different last bytes apart.\<close>

definition tail_env :: text_env where
  "tail_env = plain_env\<lparr>fnv64_buf := (\<lambda>s. of_char (last s))\<rparr>"

interpretation tail_codec: ascii_codec tail_env
  by unfold_locales (simp_all add: tail_env_def plain_env_def word_less_nat_alt)

text \<open>Two words of 23 letters that agree in the first 22 of them.\<close>

definition long_words :: Document where
  "long_words = \<lparr>d_id = ''d'', d_text = replicate 22 (CHR ''a'') @ ''b '' @ replicate 22 (CHR ''a'') @ ''c'', d_language = EN\<rparr>"

lemma long_words_stems:
  "document_stems length (\<lambda>w. False) (d_text long_words) = [replicate 22 (CHR ''a'') @ ''b'', replicate 22 (CHR ''a'') @ ''c'']"
proof -
  have "token_spans (replicate 22 (CHR ''a'') @ ''b '' @ replicate 22 (CHR ''a'') @ ''c'') 0 = [(0, 23), (24, 23)]"
    by (simp add: numeral_eq_Suc) (subst token_spans.simps, simp add: ascii_letter_def)+
  moreover have "map lower_char (replicate 22 (CHR ''a'') @ ''b '' @ replicate 22 (CHR ''a'') @ ''c'')
      = replicate 22 (CHR ''a'') @ ''b '' @ replicate 22 (CHR ''a'') @ ''c''" by code_simp
  ultimately show ?thesis by (simp add: document_stems_def token_words_def long_words_def)
qed

text \<open>
  C36.  Similarities can exceed 1 when stems are cut: a scored word keeps 22 bytes of its stem, but two
  stems that agree in them stay two words of the document.  The document of two such stems, scored against
  the centroid accumulated from it alone, gets the square root of 2.
\<close>

theorem cut_stems_score_above_1:
  "\<exists>result stemmers'. worker_processNew tail_env Num (\<lambda>w lang. False) epochTime (\<lambda>lang. None) long_words
      = Some (Inr (result, stemmers'))
    \<and> centroid_score_document Num (centroid_of_documents c [result]) result = Num (sqrt 2)"
proof -
  let ?a = "replicate 22 (CHR ''a'') :: string"
  let ?bs = "[?a @ ''b'', ?a @ ''c'']"
  have ascii: "is_ascii (d_text long_words)" by (simp add: long_words_def is_ascii_def)
  have stemmer: "fst (getStemmer tail_env (\<lambda>lang. None) (d_language long_words)) = Some length"
    by (simp add: getStemmer_def new_Utf8Stemmer_def countryCodeOfThriftLanguage_def tail_env_def plain_env_def long_words_def Let_def)
  have short: "stems_shorten length" by (simp add: stems_shorten_def)
  have inj: "inj_on (fnv64_buf tail_env) (set ?bs)" by (auto simp: inj_on_def tail_env_def plain_env_def)
  have words: "distinct_words ?bs = ?bs" by (simp add: distinct_words_def)
  have cut: "take 22 (c_str b) = ?a" if "b \<in> set ?bs" for b
    using that by (auto simp: c_str_def takeWhile_append)
  obtain r st where run: "worker_processNew tail_env Num (\<lambda>w lang. False) epochTime (\<lambda>lang. None) long_words = Some (Inr (r, st))"
    and entries: "map entry (pd_scoredWords r) = [(?a, Num (1 / 2)), (?a, Num (1 / 2))]"
    and mag: "pd_magnitude r = Num (sqrt (1 / 2))"
    using processed_stem_shares [where stemmers = "\<lambda>lang. None" and stopword = "\<lambda>w lang. False" and epochTime = epochTime,
      OF tail_codec.ascii_codec_axioms ascii stemmer short long_words_stems [symmetric] inj]
    by (auto simp: words cut power2_eq_square)
  have "acc_scores (addDocument Num new_accumulator r)
      = foldl (\<lambda>scores (k, s). add_score Num scores k s) [] (map entry (pd_scoredWords r))"
    by (simp add: addDocument_def new_accumulator_def entry_def foldl_map Let_def)
  then have scores: "acc_scores (addDocument Num new_accumulator r) = [(?a, Num 1)]"
    unfolding entries by (simp add: add_score_def)
  moreover have "staleMagnitude (addDocument Num new_accumulator r)" "documentCount (addDocument Num new_accumulator r) = 1"
    by (simp_all add: addDocument_def new_accumulator_def Let_def)
  ultimately have "c_wordVector (centroid_of_documents c [r]) = \<lparr>wv_scores = [(?a, Num 1)], wv_magnitude = Num 1, wv_documentWeight = Num 1\<rparr>"
    by (simp add: accumulated_centroid_def getMagnitude_def Let_def d_of_nat_def d_square_def)
  then have "centroid_score_document Num (centroid_of_documents c [r]) r = Num (1 / sqrt (1 / 2))"
    by (simp add: centroid_score_document_def score_document_vector score_vector_def score_scores_def document_vector_def entries mag)
  with run show ?thesis by (auto simp: real_sqrt_divide)
qed

end
