(* ===== verification/ColonPrefix.thy ===== *)
theory ColonPrefix
  imports Catalog "HOL-Library.Word"
begin

text \<open>
  \<open>ColonPrefixTransform\<close> of \<open>persistence/RockHandle.cpp\<close>: a prefix extractor for RocksDB that is
  written for the keys of the store, though no option of the handle installs it.  Positions are
  \<open>size_t\<close>, and \<open>string::npos\<close> is the greatest of them.
\<close>

section \<open>The extractor\<close>

definition npos :: "64 word" where
  "npos = - 1"

text \<open>\<open>str.find(':')\<close>\<close>

definition find_colon :: "string \<Rightarrow> 64 word" where
  "find_colon str = (if CHR '':'' \<in> set str then of_nat (length (takeWhile (\<lambda>c. c \<noteq> CHR '':'') str)) else npos)"

definition InDomain :: "string \<Rightarrow> bool" where
  "InDomain src \<longleftrightarrow> find_colon src \<noteq> npos"

text \<open>\<open>None\<close> is a failed assertion.\<close>

definition Transform :: "string \<Rightarrow> string option" where
  "Transform src = (if \<not> InDomain src then None else Some (take (unat (find_colon src + 1)) src))"

definition InRange :: "string \<Rightarrow> bool" where
  "InRange dst \<longleftrightarrow> find_colon dst = of_nat (length dst) - 1"

text \<open>An empty prefix is read at \<open>size() - 1\<close>, outside of its bytes: \<open>None\<close>.\<close>

definition SameResultWhenAppended :: "string \<Rightarrow> bool option" where
  "SameResultWhenAppended p = (if p = [] then None else Some (last p = CHR '':''))"

section \<open>What RocksDB asks of an extractor\<close>

text \<open>Strings that fit into memory.\<close>

abbreviation fits :: "string \<Rightarrow> bool" where
  "fits s \<equiv> length s < 2 ^ 64 - 1"

lemma unat_position: "n < 2 ^ 64 \<Longrightarrow> unat (of_nat n :: 64 word) = n"
  by (simp add: unat_of_nat)

lemma unat_npos: "unat npos = 2 ^ 64 - 1"
  by (simp add: npos_def unsigned_minus_1_eq_mask mask_eq_exp_minus_1)

lemma find_colon_split:
  assumes "plain p" and "fits (p @ CHR '':'' # q)"
  shows "find_colon (p @ CHR '':'' # q) = of_nat (length p)" and "of_nat (length p) \<noteq> npos"
proof -
  have "takeWhile (\<lambda>c. c \<noteq> CHR '':'') (p @ CHR '':'' # q) = p"
    using assms(1) by (subst takeWhile_append2) (auto simp: plain_def)
  then show "find_colon (p @ CHR '':'' # q) = of_nat (length p)" by (simp add: find_colon_def)
  have "unat (of_nat (length p) :: 64 word) = length p" using assms(2) by (intro unat_position) simp
  with unat_npos assms(2) show "of_nat (length p) \<noteq> npos" by auto
qed

lemma in_domain_iff: "fits s \<Longrightarrow> InDomain s \<longleftrightarrow> \<not> plain s"
proof
  assume "InDomain s"
  then show "\<not> plain s" by (auto simp: InDomain_def find_colon_def plain_def split: if_splits)
next
  assume "fits s" and "\<not> plain s"
  then obtain p q where "s = p @ CHR '':'' # q" "plain p"
    by (auto simp: plain_def dest!: split_list_first)
  with find_colon_split [of p q] \<open>fits s\<close> show "InDomain s" by (simp add: InDomain_def)
qed

lemma transform_split:
  assumes "plain p" and "fits (p @ CHR '':'' # q)"
  shows "Transform (p @ CHR '':'' # q) = Some (p @ '':'')"
proof -
  have "unat (of_nat (Suc (length p)) :: 64 word) = Suc (length p)" using assms(2) by (intro unat_position) simp
  then have "unat (of_nat (length p) + 1 :: 64 word) = Suc (length p)" by (simp only: of_nat_Suc add.commute)
  with find_colon_split [OF assms] show ?thesis by (simp add: Transform_def InDomain_def)
qed

text \<open>
  The prefix is a prefix and in the range, extracting it again changes nothing, and neither does
  appending to a string that ends in a colon.
\<close>

lemma transform_laws:
  assumes "fits s" and "Transform s = Some p"
  shows "prefix p s" and "InRange p" and "Transform p = Some p"
proof -
  from assms have "\<not> plain s" using in_domain_iff by (auto simp: Transform_def split: if_splits)
  then obtain a b where s: "s = a @ CHR '':'' # b" "plain a" by (auto simp: plain_def dest!: split_list_first)
  with transform_split [of a b] assms have p: "p = a @ CHR '':'' # []" by simp
  then show "prefix p s" by (simp add: s(1))
  from p s assms(1) have fit: "fits (a @ CHR '':'' # [])" by simp
  from find_colon_split(1) [OF s(2) fit] show "InRange p" by (simp add: InRange_def p)
  from transform_split [OF s(2) fit] show "Transform p = Some p" by (simp add: p)
qed

lemma same_result_when_appended:
  assumes "fits (s @ t)" and "SameResultWhenAppended s = Some True"
  shows "Transform (s @ t) = Transform s"
proof -
  from assms(2) have "s \<noteq> []" and "last s = CHR '':''" by (auto simp: SameResultWhenAppended_def split: if_splits)
  then have "\<not> plain s" by (metis last_in_set plain_def)
  then obtain a b where "s = a @ CHR '':'' # b" "plain a" by (auto simp: plain_def dest!: split_list_first)
  with transform_split [of a b] transform_split [of a "b @ t"] assms(1) show ?thesis by simp
qed

text \<open>The empty string counts as a prefix that was extracted: both sides of the comparison are \<open>npos\<close>.\<close>

lemma empty_in_range: "InRange []" "\<not> (\<exists>s. fits s \<and> Transform s = Some [])"
proof -
  show "InRange []" by (simp add: InRange_def find_colon_def npos_def)
  show "\<not> (\<exists>s. fits s \<and> Transform s = Some [])"
    using transform_laws(3) [of _ "[]"] by (auto simp: Transform_def [of "[]"] InDomain_def find_colon_def)
qed

section \<open>The keys of the store\<close>

text \<open>The extracted prefix of a key is the one that the iterations of the store pass, with the colon.\<close>

lemma extracted_prefixes:
  assumes "length i + length j < 2 ^ 32"
  shows "Transform (getCentroidKey j) = Some (getCentroidsPrefix @ '':'')"
    and "Transform (getDocumentKey j) = Some (getDocumentsPrefix @ '':'')"
    and "plain i \<Longrightarrow> Transform (getCentroidDocumentKey i j) = Some (getCentroidDocumentPrefix i @ '':'')"
    and "plain i \<Longrightarrow> Transform (getDocumentCentroidKey i j) = Some (getDocumentCentroidsPrefix i @ '':'')"
proof -
  show "Transform (getCentroidKey j) = Some (getCentroidsPrefix @ '':'')"
    using transform_split [of getCentroidsPrefix j] assms by (simp add: getCentroidKey_def getCentroidsPrefix_def plain_def)
  show "Transform (getDocumentKey j) = Some (getDocumentsPrefix @ '':'')"
    using transform_split [of getDocumentsPrefix j] assms by (simp add: getDocumentKey_def getDocumentsPrefix_def plain_def)
  show "Transform (getCentroidDocumentKey i j) = Some (getCentroidDocumentPrefix i @ '':'')" if "plain i"
    using transform_split [of "getCentroidDocumentPrefix i" j] assms that
    by (simp add: getCentroidDocumentKey_def getCentroidDocumentPrefix_def plain_def)
  show "Transform (getDocumentCentroidKey i j) = Some (getDocumentCentroidsPrefix i @ '':'')" if "plain i"
    using transform_split [of "getDocumentCentroidsPrefix i" j] assms that
    by (simp add: getDocumentCentroidKey_def getDocumentCentroidsPrefix_def plain_def)
qed

end
