(* ===== verification/UpdaterRace.thy ===== *)
theory UpdaterRace
  imports CentroidUpdate
begin

text \<open>
  \<open>CentroidUpdater::run\<close> with everything that can happen in between.  The thread that runs the updater
  waits where the code calls \<open>get\<close>; the operations it submits without waiting (the next page, the
  documents of a batch, the removal of a missing document, the last timestamp) are run by the pool at
  any later time, and between any two operations the requests of other clients run.  Each operation
  of the store is one step.
\<close>

section \<open>The state of a run\<close>

datatype load = Waiting string | Arrived "ProcessedDocument option option"

datatype next_page = NotAsked | Asked string | Answered "string list option"

text \<open>
  Where the thread is: before the first check, before the first page, before a batch, at the \<open>get\<close> of a
  batch, before the last check, before saving, at the end (\<open>Stopped None\<close> is an exception).
\<close>

datatype place =
    Begin
  | FirstPage
  | InPage "string list" nat DocumentAccumulator
  | Collecting "string list" nat "load list" DocumentAccumulator
  | LastCheck DocumentAccumulator
  | Saving DocumentAccumulator
  | Stopped "bool Try option"

record running_update =
  ru_place :: place
  ru_next :: next_page
  ru_removals :: "string list"
  ru_stamp :: bool

definition new_update :: running_update where
  "new_update = \<lparr>ru_place = Begin, ru_next = NotAsked, ru_removals = [], ru_stamp = False\<rparr>"

section \<open>The thread of the updater\<close>

text \<open>\<open>collect\<close> completes with the first exception, or when everything has arrived.\<close>

definition collect_loads :: "load list \<Rightarrow> ProcessedDocument option list option option" where
  "collect_loads loads =
     (if Arrived None \<in> set loads then Some None
      else if list_ex (\<lambda>l. case l of Waiting i \<Rightarrow> True | Arrived d \<Rightarrow> False) loads then None
      else Some (Some (map (\<lambda>l. case l of Arrived (Some d) \<Rightarrow> d | _ \<Rightarrow> None) loads)))"

text \<open>The loop over \<open>loadedDocuments\<close>: what it submits for removal, and the accumulator.\<close>

fun add_batch ::
  "(real \<Rightarrow> double) \<Rightarrow> string list \<Rightarrow> nat \<Rightarrow> ProcessedDocument option list \<Rightarrow> DocumentAccumulator \<Rightarrow>
     string list \<times> DocumentAccumulator" where
  "add_batch rnd idSet i [] acc = ([], acc)"
| "add_batch rnd idSet i (None # docs) acc =
     (let (removals, acc) = add_batch rnd idSet (i + 1) docs acc in (idSet ! i # removals, acc))"
| "add_batch rnd idSet i (Some doc # docs) acc = add_batch rnd idSet (i + 1) docs (addDocument rnd acc doc)"

text \<open>The head of the loop over the pages: the next page is asked for.\<close>

definition open_page :: "string list \<Rightarrow> DocumentAccumulator \<Rightarrow> running_update \<Rightarrow> running_update" where
  "open_page idSet acc u = u\<lparr>ru_place := InPage idSet 0 acc, ru_next := Asked (last idSet)\<rparr>"

text \<open>What the accumulated centroid is saved as.\<close>

definition updated_centroid :: "(real \<Rightarrow> double) \<Rightarrow> string \<Rightarrow> DocumentAccumulator \<Rightarrow> Centroid" where
  "updated_centroid rnd centroidId accumulator =
     (let centroid = new_Centroid centroidId;
          (mag, accumulator) = getMagnitude rnd accumulator;
          weight = d_of_nat rnd (getCount accumulator);
          (scores, accumulator) = getScores accumulator
      in centroid\<lparr>c_wordVector := \<lparr>wv_scores = scores, wv_magnitude = mag, wv_documentWeight = weight\<rparr>\<rparr>)"

text \<open>One step of the thread; \<open>None\<close> when it waits for the pool or has ended.\<close>

definition thread_step ::
  "('db, 'z) env_scheme \<Rightarrow> (real \<Rightarrow> double) \<Rightarrow> string \<Rightarrow> running_update \<Rightarrow> 'db \<Rightarrow> (running_update \<times> 'db) option" where
  "thread_step api rnd centroidId u db =
     (case ru_place u of
        Begin \<Rightarrow>
          let (exists, db) = run_state (p_doesCentroidExist api centroidId) db in
          Some (u\<lparr>ru_place := if exists then FirstPage else Stopped (Some (Inl ECentroidDoesNotExist))\<rparr>, db)
      | FirstPage \<Rightarrow>
          let (firstIdSet, db) = run_state (p_listCentroidDocumentRangeFromOffsetOption api
                centroidId 0 idListBatchSize) db in
          Some (case firstIdSet of
              None \<Rightarrow> u\<lparr>ru_place := Stopped (Some (Inl ECentroidDoesNotExist))\<rparr>
            | Some idSet \<Rightarrow> if length idSet > 0 then open_page idSet new_accumulator u
                else u\<lparr>ru_place := LastCheck new_accumulator\<rparr>, db)
      | InPage idSet docNum acc \<Rightarrow>
          if docNum < length idSet then
            Some (u\<lparr>ru_place := Collecting idSet docNum (map Waiting (batch_ids idSet docNum)) acc\<rparr>, db)
          else
            (case ru_next u of
               Answered None \<Rightarrow> Some (u\<lparr>ru_place := Stopped (Some (Inl ECentroidDoesNotExist))\<rparr>, db)
             | Answered (Some idSet) \<Rightarrow>
                 Some (if length idSet \<ge> idListBatchSize then open_page idSet acc u
                       else u\<lparr>ru_place := LastCheck acc\<rparr>, db)
             | _ \<Rightarrow> None)
      | Collecting idSet docNum loads acc \<Rightarrow>
          (case collect_loads loads of
             None \<Rightarrow> None
           | Some None \<Rightarrow> Some (u\<lparr>ru_place := Stopped None\<rparr>, db)
           | Some (Some docs) \<Rightarrow>
               let (removals, acc) = add_batch rnd idSet 0 docs acc in
               Some (u\<lparr>ru_place := InPage idSet (docNum + documentBatchSize) acc,
                       ru_removals := ru_removals u @ removals\<rparr>, db))
      | LastCheck acc \<Rightarrow>
          let (exists, db) = run_state (p_doesCentroidExist api centroidId) db in
          Some (u\<lparr>ru_place := if exists then Saving acc else Stopped (Some (Inl ECentroidDoesNotExist))\<rparr>, db)
      | Saving acc \<Rightarrow>
          let (_, db) = run_state (p_saveCentroid api centroidId (updated_centroid rnd centroidId acc)) db in
          Some (u\<lparr>ru_place := Stopped (Some (Inr True)), ru_stamp := True\<rparr>, db)
      | Stopped result \<Rightarrow> None)"

section \<open>The pool and the others\<close>

datatype pool_task = RunNextPage | RunLoad nat | RunRemoval string | RunStamp

definition pool_step ::
  "('db, 'z) env_scheme \<Rightarrow> string \<Rightarrow> 64 word \<Rightarrow> pool_task \<Rightarrow> running_update \<Rightarrow> 'db \<Rightarrow> (running_update \<times> 'db) option" where
  "pool_step api centroidId startTimestamp task u db =
     (case task of
        RunNextPage \<Rightarrow>
          (case ru_next u of
             Asked start \<Rightarrow>
               let (nextIdSet, db) = run_state (p_listCentroidDocumentRangeFromDocumentIdOption api
                     centroidId start idListBatchSize) db
               in Some (u\<lparr>ru_next := Answered nextIdSet\<rparr>, db)
           | _ \<Rightarrow> None)
      | RunLoad j \<Rightarrow>
          (case ru_place u of
             Collecting idSet docNum loads acc \<Rightarrow>
               if j < length loads then
                 (case loads ! j of
                    Waiting i \<Rightarrow>
                      let (doc, db) = run_state (load_option api i) db in
                      Some (u\<lparr>ru_place := Collecting idSet docNum (loads[j := Arrived doc]) acc\<rparr>, db)
                  | Arrived d \<Rightarrow> None)
               else None
           | _ \<Rightarrow> None)
      | RunRemoval d \<Rightarrow>
          if d \<in> set (ru_removals u) then
            let (_, db) = run_state (p_removeDocumentFromCentroid api centroidId d) db in
            Some (u\<lparr>ru_removals := remove1 d (ru_removals u)\<rparr>, db)
          else None
      | RunStamp \<Rightarrow>
          if ru_stamp u then
            let (_, db) = run_state (setLastCalculatedTimestamp api centroidId startTimestamp) db in
            Some (u\<lparr>ru_stamp := False\<rparr>, db)
          else None)"

text \<open>\<open>others db db'\<close> says what the requests of other clients can do to the store.\<close>

inductive race_step ::
  "('db, 'z) env_scheme \<Rightarrow> (real \<Rightarrow> double) \<Rightarrow> string \<Rightarrow> 64 word \<Rightarrow> ('db \<Rightarrow> 'db \<Rightarrow> bool) \<Rightarrow>
     running_update \<times> 'db \<Rightarrow> running_update \<times> 'db \<Rightarrow> bool"
  for api rnd centroidId startTimestamp others where
  thread: "thread_step api rnd centroidId u db = Some s \<Longrightarrow>
    race_step api rnd centroidId startTimestamp others (u, db) s"
| pool: "pool_step api centroidId startTimestamp task u db = Some s \<Longrightarrow>
    race_step api rnd centroidId startTimestamp others (u, db) s"
| interference: "others db db' \<Longrightarrow>
    race_step api rnd centroidId startTimestamp others (u, db) (u, db')"

abbreviation race ::
  "('db, 'z) env_scheme \<Rightarrow> (real \<Rightarrow> double) \<Rightarrow> string \<Rightarrow> 64 word \<Rightarrow> ('db \<Rightarrow> 'db \<Rightarrow> bool) \<Rightarrow>
     running_update \<times> 'db \<Rightarrow> running_update \<times> 'db \<Rightarrow> bool" where
  "race api rnd c t others \<equiv> (race_step api rnd c t others)\<^sup>*\<^sup>*"

text \<open>What can happen in a run on its own: nothing is left to the others.\<close>

abbreviation alone :: "'db \<Rightarrow> 'db \<Rightarrow> bool" where
  "alone db db' \<equiv> False"

text \<open>
  The requests of others as Catalog has them.  They do not save or delete the centroid of the run and
  do not write its time of calculation; its time of change is at least \<open>bound\<close> when they write it.
\<close>

fun beside :: "('db, 'z) env_scheme \<Rightarrow> string \<Rightarrow> 64 word \<Rightarrow> request \<Rightarrow> bool" where
  "beside api c bound (SaveCentroid c' centroid) \<longleftrightarrow> c' \<noteq> c"
| "beside api c bound (DeleteCentroid c') \<longleftrightarrow> c' \<noteq> c"
| "beside api c bound (SetCentroidMetadata c' n v) \<longleftrightarrow>
     c' \<noteq> c \<or> (n \<noteq> ''lastCalculated'' \<and> (n = ''lastDocumentChange'' \<longrightarrow> (\<exists>t \<ge> bound. v = u64_to_string api t)))"
| "beside api c bound _ \<longleftrightarrow> True"

definition requests_beside :: "('db, 'z) env_scheme \<Rightarrow> string \<Rightarrow> 64 word \<Rightarrow> 'db \<Rightarrow> 'db \<Rightarrow> bool" where
  "requests_beside api c bound db db' \<longleftrightarrow>
     (\<exists>r. plain_request r \<and> beside api c bound r \<and> db' = fst (run_request api db r))"

section \<open>The run on its own\<close>

abbreviation alone_race where
  "alone_race api rnd c t \<equiv> race api rnd c t alone"

lemma thread_alone:
  "thread_step api rnd c u db = Some s \<Longrightarrow> alone_race api rnd c t s x \<Longrightarrow> alone_race api rnd c t (u, db) x"
  by (rule converse_rtranclp_into_rtranclp) (rule race_step.thread)

lemma pool_alone:
  "pool_step api c t task u db = Some s \<Longrightarrow> alone_race api rnd c t s x \<Longrightarrow> alone_race api rnd c t (u, db) x"
  by (rule converse_rtranclp_into_rtranclp) (rule race_step.pool)

lemma load_option_keeps: "db_after (load_option api i) db = db"
  by (simp add: load_option_def p_loadDocument_def)

text \<open>All loads of a batch arrive, one after the other.\<close>

lemma loads_arrive:
  "alone_race api rnd c t
     (u\<lparr>ru_place := Collecting idSet docNum (front @ map Waiting ids) acc\<rparr>, db)
     (u\<lparr>ru_place := Collecting idSet docNum (front @ map (\<lambda>i. Arrived (result_of (load_option api i) db)) ids) acc\<rparr>, db)"
proof (induction ids arbitrary: front)
  case (Cons i ids)
  let ?l = "Arrived (result_of (load_option api i) db)"
  have "pool_step api c t (RunLoad (length front)) (u\<lparr>ru_place := Collecting idSet docNum (front @ map Waiting (i # ids)) acc\<rparr>) db
      = Some (u\<lparr>ru_place := Collecting idSet docNum ((front @ [?l]) @ map Waiting ids) acc\<rparr>, db)"
    by (simp add: pool_step_def load_option_keeps case_prod_unfold Let_def)
  from pool_alone [OF this Cons.IH [of "front @ [?l]"]] show ?case by simp
qed simp

lemma collect_arrived:
  "collect_loads (map (\<lambda>i. Arrived (result_of (load_option api i) db)) ids) = Some (result_of (load_batch api ids) db)"
proof (induction ids)
  case Nil
  then show ?case by (simp add: collect_loads_def)
next
  case (Cons i ids)
  have waits: "\<not> list_ex (\<lambda>l. case l of Waiting i \<Rightarrow> True | Arrived d \<Rightarrow> False)
      (map (\<lambda>i. Arrived (result_of (load_option api i) db)) ids)"
    by (simp add: list_ex_iff)
  with Cons show ?case
    by (auto simp: collect_loads_def load_option_keeps run_load_batch_db Let_def case_prod_unfold split: option.splits if_splits)
qed

lemma add_loaded_submits:
  "run_state (add_loaded api rnd c idSet i docs acc) db =
     (case add_batch rnd idSet i docs acc of (removals, acc') \<Rightarrow>
        (acc', foldl (\<lambda>db d. db_after (p_removeDocumentFromCentroid api c d) db) db removals))"
proof (induction docs arbitrary: i acc db)
  case (Cons doc docs)
  then show ?case by (cases doc) (simp_all add: Let_def case_prod_unfold)
qed simp

lemma removals_run:
  "alone_race api rnd c t (u\<lparr>ru_removals := ds\<rparr>, db)
     (u\<lparr>ru_removals := []\<rparr>, foldl (\<lambda>db d. db_after (p_removeDocumentFromCentroid api c d) db) db ds)"
proof (induction ds arbitrary: db)
  case (Cons d ds)
  have "pool_step api c t (RunRemoval d) (u\<lparr>ru_removals := d # ds\<rparr>) db
      = Some (u\<lparr>ru_removals := ds\<rparr>, db_after (p_removeDocumentFromCentroid api c d) db)"
    by (simp add: pool_step_def case_prod_unfold Let_def)
  from pool_alone [OF this Cons.IH] show ?case by simp
qed simp


abbreviation at_place :: "place \<Rightarrow> next_page \<Rightarrow> running_update" where
  "at_place p n \<equiv> \<lparr>ru_place = p, ru_next = n, ru_removals = [], ru_stamp = False\<rparr>"

lemma batch_runs:
  assumes "docNum < length idSet" and load: "result_of (load_batch api (batch_ids idSet docNum)) db = Some docs"
    and add: "run_state (add_loaded api rnd c idSet 0 docs acc) db = (acc', db')"
  shows "alone_race api rnd c t (at_place (InPage idSet docNum acc) n, db)
    (at_place (InPage idSet (docNum + documentBatchSize) acc') n, db')"
proof -
  let ?ids = "batch_ids idSet docNum"
  obtain ds where batch: "add_batch rnd idSet 0 docs acc = (ds, acc')"
    and db': "db' = foldl (\<lambda>db d. db_after (p_removeDocumentFromCentroid api c d) db) db ds"
    using add unfolding add_loaded_submits by (auto split: prod.splits)
  have submit: "thread_step api rnd c (at_place (InPage idSet docNum acc) n) db
      = Some (at_place (Collecting idSet docNum (map Waiting ?ids) acc) n, db)"
    using assms(1) by (simp add: thread_step_def)
  have collect: "thread_step api rnd c (at_place (Collecting idSet docNum
        (map (\<lambda>i. Arrived (result_of (load_option api i) db)) ?ids) acc) n) db
      = Some (at_place (InPage idSet (docNum + documentBatchSize) acc') n\<lparr>ru_removals := ds\<rparr>, db)"
    by (simp add: thread_step_def collect_arrived load batch)
  have arrive: "alone_race api rnd c t (at_place (Collecting idSet docNum (map Waiting ?ids) acc) n, db)
      (at_place (Collecting idSet docNum (map (\<lambda>i. Arrived (result_of (load_option api i) db)) ?ids) acc) n, db)"
    using loads_arrive [where u = "at_place Begin n" and front = "[]"] by simp
  have remove: "alone_race api rnd c t (at_place (InPage idSet (docNum + documentBatchSize) acc') n\<lparr>ru_removals := ds\<rparr>, db)
      (at_place (InPage idSet (docNum + documentBatchSize) acc') n, db')"
    using removals_run [where u = "at_place (InPage idSet (docNum + documentBatchSize) acc') n" and ds = ds and db = db]
    by (simp add: db')
  show ?thesis
    by (rule thread_alone [OF submit rtranclp_trans [OF arrive thread_alone [OF collect remove]]])
qed

lemma throwing_batch_runs:
  assumes "docNum < length idSet" and load: "result_of (load_batch api (batch_ids idSet docNum)) db = None"
  shows "alone_race api rnd c t (at_place (InPage idSet docNum acc) n, db) (at_place (Stopped None) n, db)"
proof -
  let ?ids = "batch_ids idSet docNum"
  have submit: "thread_step api rnd c (at_place (InPage idSet docNum acc) n) db
      = Some (at_place (Collecting idSet docNum (map Waiting ?ids) acc) n, db)"
    using assms(1) by (simp add: thread_step_def)
  have collect: "thread_step api rnd c (at_place (Collecting idSet docNum
        (map (\<lambda>i. Arrived (result_of (load_option api i) db)) ?ids) acc) n) db = Some (at_place (Stopped None) n, db)"
    by (simp add: thread_step_def collect_arrived load)
  have arrive: "alone_race api rnd c t (at_place (Collecting idSet docNum (map Waiting ?ids) acc) n, db)
      (at_place (Collecting idSet docNum (map (\<lambda>i. Arrived (result_of (load_option api i) db)) ?ids) acc) n, db)"
    using loads_arrive [where u = "at_place Begin n" and front = "[]"] by simp
  show ?thesis
    by (rule thread_alone [OF submit rtranclp_trans [OF arrive thread_alone [OF collect rtranclp.rtrancl_refl]]])
qed

lemma page_runs:
  assumes "run_state (process_page api rnd c idSet docNum acc) db = (result, db')"
  shows "\<exists>k \<ge> length idSet. alone_race api rnd c t (at_place (InPage idSet docNum acc) n, db)
    (at_place (case result of None \<Rightarrow> Stopped None | Some acc' \<Rightarrow> InPage idSet k acc') n, db')"
  using assms
proof (induction "length idSet - docNum" arbitrary: docNum acc db rule: less_induct)
  case less
  show ?case
  proof (cases "docNum < length idSet")
    case False
    with less.prems have "result = Some acc" "db' = db" by (subst (asm) process_page.simps; simp)+
    with False show ?thesis by (intro exI [of _ docNum]) simp
  next
    case True
    let ?load = "load_batch api (batch_ids idSet docNum)"
    show ?thesis
    proof (cases "result_of ?load db")
      case None
      with True less.prems have "result = None" "db' = db"
        by (subst (asm) process_page.simps; simp add: Let_def case_prod_unfold run_load_batch_db)+
      with throwing_batch_runs [OF True None] show ?thesis by auto
    next
      case (Some docs)
      obtain acc1 db1 where add: "run_state (add_loaded api rnd c idSet 0 docs acc) db = (acc1, db1)" by fastforce
      have "run_state (process_page api rnd c idSet (docNum + documentBatchSize) acc1) db1 = (result, db')"
        using True less.prems Some add
        by (subst (asm) process_page.simps) (simp add: Let_def case_prod_unfold run_load_batch_db)
      moreover have "length idSet - (docNum + documentBatchSize) < length idSet - docNum" using True by simp
      ultimately obtain k where k: "k \<ge> length idSet"
        "alone_race api rnd c t (at_place (InPage idSet (docNum + documentBatchSize) acc1) n, db1)
          (at_place (case result of None \<Rightarrow> Stopped None | Some acc' \<Rightarrow> InPage idSet k acc') n, db')"
        using less.hyps by blast
      with rtranclp_trans [OF batch_runs [OF True Some add]] show ?thesis by blast
    qed
  qed
qed


text \<open>Where the thread is after the loop over the pages.\<close>

fun place_after :: "DocumentAccumulator page_result \<Rightarrow> place" where
  "place_after Threw = Stopped None"
| "place_after CentroidGone = Stopped (Some (Inl ECentroidDoesNotExist))"
| "place_after (Finished acc) = LastCheck acc"

lemma first_of_page_runs:
  assumes "run_state (process_page api rnd c idSet 0 acc) db = (result, db')"
    and "nxt = sp_listCentroidDocumentRangeFromDocumentIdOption api db c (last idSet) idListBatchSize"
  shows "\<exists>k \<ge> length idSet. alone_race api rnd c t (at_place (InPage idSet 0 acc) (Asked (last idSet)), db)
    (at_place (case result of None \<Rightarrow> Stopped None | Some acc' \<Rightarrow> InPage idSet k acc') (Answered nxt), db')"
proof -
  have "pool_step api c t RunNextPage (at_place (InPage idSet 0 acc) (Asked (last idSet))) db
      = Some (at_place (InPage idSet 0 acc) (Answered nxt), db)"
    by (simp add: pool_step_def p_listCentroidDocumentRangeFromDocumentIdOption_def assms(2))
  from pool_alone [OF this] page_runs [OF assms(1)] show ?thesis by blast
qed

lemma page_loop_runs:
  assumes "page_loop api rnd c idSet acc db = Some (r, db')"
  shows "\<exists>n. alone_race api rnd c t (at_place (InPage idSet 0 acc) (Asked (last idSet)), db) (at_place (place_after r) n, db')"
proof -
  have "\<exists>n. alone_race api rnd c t (at_place (InPage idSet 0 acc) (Asked (last idSet)), db)
      (at_place (place_after (fst x)) n, snd x)" if "page_loop api rnd c idSet acc db = Some x" for x
    using _ that
  proof (rule page_loop.raw_induct
      [where P = "\<lambda>api rnd c idSet acc db x. \<exists>n. alone_race api rnd c t
         (at_place (InPage idSet 0 acc) (Asked (last idSet)), db) (at_place (place_after (fst x)) n, snd x)"], goal_cases)
    case (1 loop api rnd c idSet acc db x)
    let ?next = "sp_listCentroidDocumentRangeFromDocumentIdOption api db c (last idSet) idListBatchSize"
    obtain result db1 where page: "run_state (process_page api rnd c idSet 0 acc) db = (result, db1)" by fastforce
    from first_of_page_runs [OF page refl, of t] obtain k where k: "k \<ge> length idSet"
      and runs: "alone_race api rnd c t (at_place (InPage idSet 0 acc) (Asked (last idSet)), db)
        (at_place (case result of None \<Rightarrow> Stopped None | Some acc' \<Rightarrow> InPage idSet k acc') (Answered ?next), db1)" by blast
    have eq: "(case result of None \<Rightarrow> Some (Threw, db1)
         | Some acc \<Rightarrow> (case ?next of None \<Rightarrow> Some (CentroidGone, db1)
             | Some idSet \<Rightarrow> if length idSet \<ge> idListBatchSize then loop api rnd c idSet acc db1
                 else Some (Finished acc, db1))) = Some x"
      using 1(2) page by (simp add: p_listCentroidDocumentRangeFromDocumentIdOption_def Let_def)
    show ?case
    proof (cases result)
      case None
      with eq runs show ?thesis by auto
    next
      case (Some acc1)
      show ?thesis
      proof (cases ?next)
        case None
        with k Some have "thread_step api rnd c (at_place (InPage idSet k acc1) (Answered ?next)) db1
            = Some (at_place (Stopped (Some (Inl ECentroidDoesNotExist))) (Answered ?next), db1)"
          by (simp add: thread_step_def)
        from rtranclp_trans [OF runs [unfolded Some option.case] thread_alone [OF this rtranclp.rtrancl_refl]]
        show ?thesis using eq Some None by auto
      next
        case (Some ids)
        note nxt = this
        show ?thesis
        proof (cases "length ids \<ge> idListBatchSize")
          case True
          with k nxt have "thread_step api rnd c (at_place (InPage idSet k acc1) (Answered ?next)) db1
              = Some (at_place (InPage ids 0 acc1) (Asked (last ids)), db1)"
            by (simp add: thread_step_def open_page_def)
          moreover from eq nxt True \<open>result = Some acc1\<close> have "loop api rnd c ids acc1 db1 = Some x" by simp
          from 1(1) [OF this] obtain n where "alone_race api rnd c t
              (at_place (InPage ids 0 acc1) (Asked (last ids)), db1) (at_place (place_after (fst x)) n, snd x)" by blast
          ultimately show ?thesis
            using rtranclp_trans [OF runs [unfolded \<open>result = Some acc1\<close> option.case] thread_alone] by blast
        next
          case False
          with k nxt have "thread_step api rnd c (at_place (InPage idSet k acc1) (Answered ?next)) db1
              = Some (at_place (LastCheck acc1) (Answered ?next), db1)"
            by (simp add: thread_step_def)
          from rtranclp_trans [OF runs [unfolded \<open>result = Some acc1\<close> option.case] thread_alone [OF this rtranclp.rtrancl_refl]]
          show ?thesis using eq \<open>result = Some acc1\<close> nxt False by auto
        qed
      qed
    qed
  qed
  from this [OF assms] show ?thesis by simp
qed

lemma finish_runs:
  assumes "run_state (finish_run api rnd c t acc) db = (r, db')"
  shows "alone_race api rnd c t (at_place (LastCheck acc) n, db) (at_place (Stopped (Some r)) n, db')"
proof (cases "sp_doesCentroidExist api db c")
  case False
  then have "thread_step api rnd c (at_place (LastCheck acc) n) db
      = Some (at_place (Stopped (Some (Inl ECentroidDoesNotExist))) n, db)"
    by (simp add: thread_step_def p_doesCentroidExist_def)
  from thread_alone [OF this rtranclp.rtrancl_refl] show ?thesis
    using assms False by (auto simp: finish_run_def p_doesCentroidExist_def Let_def case_prod_unfold)
next
  case True
  let ?saved = "db_after (p_saveCentroid api c (updated_centroid rnd c acc)) db"
  have "thread_step api rnd c (at_place (LastCheck acc) n) db = Some (at_place (Saving acc) n, db)"
    using True by (simp add: thread_step_def p_doesCentroidExist_def)
  moreover have "thread_step api rnd c (at_place (Saving acc) n) db
      = Some (at_place (Stopped (Some (Inr True))) n\<lparr>ru_stamp := True\<rparr>, ?saved)"
    by (simp add: thread_step_def case_prod_unfold Let_def)
  moreover have "pool_step api c t RunStamp (at_place (Stopped (Some (Inr True))) n\<lparr>ru_stamp := True\<rparr>) ?saved
      = Some (at_place (Stopped (Some (Inr True))) n, db_after (setLastCalculatedTimestamp api c t) ?saved)"
    by (simp add: pool_step_def case_prod_unfold Let_def)
  moreover have "r = Inr True" "db' = db_after (setLastCalculatedTimestamp api c t) ?saved"
    using assms True by (auto simp: finish_run_def updated_centroid_def p_doesCentroidExist_def Let_def case_prod_unfold)
  ultimately show ?thesis by (metis thread_alone pool_alone rtranclp.rtrancl_refl)
qed


lemma updater_run_runs:
  assumes "updater_run api rnd t c db = Some (result, db')"
  shows "\<exists>n. alone_race api rnd c t (new_update, db) (at_place (Stopped result) n, db')"
proof (cases "sp_doesCentroidExist api db c")
  case False
  then have "thread_step api rnd c new_update db = Some (at_place (Stopped (Some (Inl ECentroidDoesNotExist))) NotAsked, db)"
    by (simp add: thread_step_def new_update_def p_doesCentroidExist_def)
  from thread_alone [OF this rtranclp.rtrancl_refl] show ?thesis
    using assms False by (auto simp: updater_run_def p_doesCentroidExist_def)
next
  case True
  let ?first = "sp_listCentroidDocumentRangeFromOffsetOption api db c 0 idListBatchSize"
  have start: "thread_step api rnd c new_update db = Some (at_place FirstPage NotAsked, db)"
    using True by (simp add: thread_step_def new_update_def p_doesCentroidExist_def)
  note run = assms [unfolded updater_run_def p_doesCentroidExist_def p_listCentroidDocumentRangeFromOffsetOption_def]
  show ?thesis
  proof (cases ?first)
    case None
    then have "thread_step api rnd c (at_place FirstPage NotAsked) db
        = Some (at_place (Stopped (Some (Inl ECentroidDoesNotExist))) NotAsked, db)"
      by (simp add: thread_step_def p_listCentroidDocumentRangeFromOffsetOption_def)
    from thread_alone [OF start thread_alone [OF this rtranclp.rtrancl_refl]] show ?thesis
      using run True None by auto
  next
    case (Some ids)
    let ?loop = "if length ids > 0 then page_loop api rnd c ids new_accumulator db else Some (Finished new_accumulator, db)"
    obtain r db1 where loop: "?loop = Some (r, db1)"
      using run True Some by (cases ?loop) (auto simp: Let_def)
    have "\<exists>n. alone_race api rnd c t (at_place FirstPage NotAsked, db) (at_place (place_after r) n, db1)"
    proof (cases "ids = []")
      case True
      with Some have "thread_step api rnd c (at_place FirstPage NotAsked) db
          = Some (at_place (LastCheck new_accumulator) NotAsked, db)"
        by (simp add: thread_step_def p_listCentroidDocumentRangeFromOffsetOption_def)
      from thread_alone [OF this rtranclp.rtrancl_refl, where t = t] show ?thesis
        using loop True by (intro exI [of _ NotAsked]) auto
    next
      case False
      with Some have step: "thread_step api rnd c (at_place FirstPage NotAsked) db
          = Some (at_place (InPage ids 0 new_accumulator) (Asked (last ids)), db)"
        by (simp add: thread_step_def p_listCentroidDocumentRangeFromOffsetOption_def open_page_def)
      from loop False have "page_loop api rnd c ids new_accumulator db = Some (r, db1)" by simp
      from page_loop_runs [OF this, where t = t] thread_alone [OF step] show ?thesis by blast
    qed
    then obtain n where pages: "alone_race api rnd c t (new_update, db) (at_place (place_after r) n, db1)"
      using thread_alone [OF start] by blast
    show ?thesis
    proof (cases r)
      case (Finished acc)
      obtain res db2 where "run_state (finish_run api rnd c t acc) db1 = (res, db2)" by fastforce
      with rtranclp_trans [OF pages [unfolded Finished place_after.simps] finish_runs [OF this]] show ?thesis
        using run True Some loop Finished by (auto simp: Let_def)
    qed (use run True Some loop pages in \<open>auto simp: Let_def\<close>)
  qed
qed


section \<open>What the steps do to the timestamps\<close>

lemma split_at_last_colon:
  "plain x \<Longrightarrow> plain y \<Longrightarrow> p @ CHR '':'' # x = q @ CHR '':'' # y \<longleftrightarrow> p = q \<and> x = y"
proof -
  assume "plain x" and "plain y"
  then have "plain (rev x)" "plain (rev y)" by (simp_all add: plain_def)
  from split_at_colon [OF this, of "rev p" "rev q"] have
    "rev (p @ CHR '':'' # x) = rev (q @ CHR '':'' # y) \<longleftrightarrow> p = q \<and> x = y" by auto
  then show ?thesis by (simp only: rev_is_rev_conv)
qed

lemma reference_not_metadata: "plain c \<Longrightarrow> plain n \<Longrightarrow> getDocumentCentroidKey d c \<noteq> getCentroidMetadataKey c n"
  by (simp only: key_forms split_at_last_colon key_tags) simp

lemma references_prefix_not_metadata:
  "plain d \<Longrightarrow> plain c \<Longrightarrow> \<not> prefix (d @ ''__centroids:'') (getCentroidMetadataKey c n)"
  using prefix_key_suffix [of d "''__centroids''" "c @ ''__centroid_metadata''" n]
  by (simp add: key_forms)

context env_contract
begin

lemma metadata_at: "sp_getCentroidMetadata api db c n = map_of (entries db) (getCentroidMetadataKey c n)"
  by (simp add: sp_getCentroidMetadata_def rock_get_eq)

lemma thread_keeps_metadata:
  "thread_step api rnd c u db = Some (u', db') \<Longrightarrow> plain c \<Longrightarrow>
   sp_getCentroidMetadata api db' c n = sp_getCentroidMetadata api db c n"
  by (auto simp: thread_step_def metadata_at p_doesCentroidExist_def p_saveCentroid_def store_saveCentroid key_eqs
      p_listCentroidDocumentRangeFromOffsetOption_def Let_def case_prod_unfold
      split: place.splits option.splits if_splits next_page.splits)

lemma pool_metadata:
  assumes "pool_step api c t task u db = Some (u', db')" and "plain c" and "plain n"
  shows "sp_getCentroidMetadata api db' c n =
    (if task = RunStamp \<and> n = ''lastCalculated'' then Some (u64_to_string api t) else sp_getCentroidMetadata api db c n)"
proof (cases task)
  case (RunRemoval d)
  then show ?thesis
    using assms reference_not_metadata [OF assms(2,3)] reference_not_metadata [OF assms(2,3), THEN not_sym]
    by (auto simp: pool_step_def p_removeDocumentFromCentroid_def sp_removeDocumentFromCentroid_def metadata_at store_del
        key_eqs Let_def case_prod_unfold split: if_splits)
next
  case RunStamp
  then show ?thesis
    using assms by (auto simp: pool_step_def setLastCalculatedTimestamp_def run_setMetadata meta.get_set meta.get_set_other
      Let_def split: if_splits)
qed (use assms in \<open>auto simp: pool_step_def load_option_keeps p_listCentroidDocumentRangeFromDocumentIdOption_def
      Let_def case_prod_unfold split: next_page.splits place.splits load.splits if_splits\<close>)

lemma beside_metadata:
  assumes "requests_beside api c bound db db'" and "plain c"
  shows "sp_getCentroidMetadata api db' c ''lastCalculated'' = sp_getCentroidMetadata api db c ''lastCalculated''"
    and "sp_getCentroidMetadata api db' c ''lastDocumentChange'' = sp_getCentroidMetadata api db c ''lastDocumentChange''
      \<or> (\<exists>t \<ge> bound. sp_getCentroidMetadata api db' c ''lastDocumentChange'' = Some (u64_to_string api t))"
proof -
  from assms(1) obtain r where r: "plain_request r" "beside api c bound r" "db' = fst (run_request api db r)"
    by (auto simp: requests_beside_def)
  have keeps: "sp_getCentroidMetadata api db' c n = sp_getCentroidMetadata api db c n" if "\<And>c' v. r \<noteq> SetCentroidMetadata c' n v" for n
    using r assms(2) that
    by (cases r) (auto simp: metadata_at store_saveDocument store_deleteDocument store_saveCentroid store_deleteCentroid
        sp_saveNewDocument_def sp_createNewCentroid_def sp_addDocumentToCentroid_def sp_removeDocumentFromCentroid_def
        sp_setCentroidMetadata_def metadata_keys_apart references_prefix_not_metadata store_put store_del key_eqs Let_def case_prod_unfold)
  have other: "sp_getCentroidMetadata api db' c n = sp_getCentroidMetadata api db c n"
    if "r = SetCentroidMetadata c' n v" "c' \<noteq> c" for c' n v
    using r that assms(2) meta.get_set_other [of c' c n n db v] by simp
  show "sp_getCentroidMetadata api db' c ''lastCalculated'' = sp_getCentroidMetadata api db c ''lastCalculated''"
    using keeps [of "''lastCalculated''"] other r(2) by (cases r) auto
  show "sp_getCentroidMetadata api db' c ''lastDocumentChange'' = sp_getCentroidMetadata api db c ''lastDocumentChange''
      \<or> (\<exists>t \<ge> bound. sp_getCentroidMetadata api db' c ''lastDocumentChange'' = Some (u64_to_string api t))"
  proof (cases "\<exists>c' v. r = SetCentroidMetadata c' ''lastDocumentChange'' v")
    case True
    then obtain c' v where "r = SetCentroidMetadata c' ''lastDocumentChange'' v" by blast
    with other r(2,3) meta.get_set show ?thesis by (cases "c' = c") auto
  qed (use keeps [of "''lastDocumentChange''"] in blast)
qed

end


section \<open>After an interleaved run\<close>

context env_contract
begin

text \<open>
  The time of calculation is the reading at the start once the run has succeeded and its last write has
  been done; until then nothing of the run touches a timestamp of the centroid.
\<close>

lemma race_stamps:
  assumes "race api rnd c t (requests_beside api c bound) (u, db) (u', db')" and "plain c"
    and "ru_place u = Stopped (Some (Inr True)) \<Longrightarrow> \<not> ru_stamp u \<Longrightarrow>
      sp_getCentroidMetadata api db c ''lastCalculated'' = Some (u64_to_string api t)"
  shows "(ru_place u' = Stopped (Some (Inr True)) \<longrightarrow> \<not> ru_stamp u' \<longrightarrow>
      sp_getCentroidMetadata api db' c ''lastCalculated'' = Some (u64_to_string api t))
    \<and> (sp_getCentroidMetadata api db' c ''lastDocumentChange'' = sp_getCentroidMetadata api db c ''lastDocumentChange''
      \<or> (\<exists>s \<ge> bound. sp_getCentroidMetadata api db' c ''lastDocumentChange'' = Some (u64_to_string api s)))"
  using assms(1)
proof (induction "(u', db')" arbitrary: u' db' rule: rtranclp_induct)
  case base
  with assms(3) show ?case by blast
next
  case (step y)
  obtain u1 db1 where y: "y = (u1, db1)" by fastforce
  note IH = step.hyps(3) [OF y]
  from step.hyps(2) [unfolded y] show ?case
  proof (cases rule: race_step.cases)
    case thread
    then have meta: "sp_getCentroidMetadata api db' c n = sp_getCentroidMetadata api db1 c n" for n
      using thread_keeps_metadata assms(2) by blast
    have "ru_stamp u'" if "ru_place u' = Stopped (Some (Inr True))"
      using thread that
      by (auto simp: thread_step_def open_page_def Let_def case_prod_unfold split: place.splits option.splits if_splits next_page.splits)
    with IH show ?thesis by (auto simp: meta)
  next
    case (pool task)
    have meta: "sp_getCentroidMetadata api db' c n =
        (if task = RunStamp \<and> n = ''lastCalculated'' then Some (u64_to_string api t) else sp_getCentroidMetadata api db1 c n)"
      if "plain n" for n
      using pool_metadata [OF pool assms(2) that] .
    have "ru_place u' = ru_place u1 \<or> (\<exists>a b e d. ru_place u' = Collecting a b e d)" "task \<noteq> RunStamp \<Longrightarrow> ru_stamp u' = ru_stamp u1"
      using pool
      by (auto simp: pool_step_def Let_def case_prod_unfold split: pool_task.splits next_page.splits place.splits load.splits if_splits)
    with IH show ?thesis by (auto simp: meta)
  next
    case interference
    with beside_metadata [of c bound db1 db'] assms(2) IH show ?thesis by auto
  qed
qed

lemma upToDate_of_stamps:
  assumes "sp_getCentroidMetadata api db c ''lastCalculated'' = Some (u64_to_string api t)"
    and "sp_getCentroidMetadata api db c ''lastDocumentChange'' = Some (u64_to_string api s)"
  shows "result_of (isCentroidUpToDate api c) db = Some (Inr (s \<le> t))"
  using assms
  by (auto simp: isCentroidUpToDate_def getLastDocumentChangeTimestamp_def getLastCalculatedTimestamp_def
      run_getMetadata u64_roundtrip)

lemma change_in_a_race:
  assumes "plain c" and "race api rnd c t (requests_beside api c 0) (new_update, db0) (u1, db1)"
    and "db2 = db_after (setLastDocumentChangeTimestamp api c t1) db1" and "t < t1"
    and "race api rnd c t (requests_beside api c t1) (u1, db2) (u2, db3)"
    and "ru_place u2 = Stopped (Some (Inr True))" and "\<not> ru_stamp u2"
  shows "result_of (isCentroidUpToDate api c) db3 = Some (Inr False)"
proof -
  have calculated: "sp_getCentroidMetadata api db2 c ''lastCalculated'' = sp_getCentroidMetadata api db1 c ''lastCalculated''"
    and changed: "sp_getCentroidMetadata api db2 c ''lastDocumentChange'' = Some (u64_to_string api t1)"
    using assms(1) by (simp_all add: assms(3) setLastDocumentChangeTimestamp_def run_setMetadata meta.get_set meta.get_set_other)
  have "ru_place u1 = Stopped (Some (Inr True)) \<longrightarrow> \<not> ru_stamp u1 \<longrightarrow>
      sp_getCentroidMetadata api db1 c ''lastCalculated'' = Some (u64_to_string api t)"
    using race_stamps [OF assms(2,1)] by (simp add: new_update_def)
  with race_stamps [OF assms(5,1)] calculated assms(6,7)
  have "sp_getCentroidMetadata api db3 c ''lastCalculated'' = Some (u64_to_string api t)"
    and late: "sp_getCentroidMetadata api db3 c ''lastDocumentChange'' = Some (u64_to_string api t1)
      \<or> (\<exists>s \<ge> t1. sp_getCentroidMetadata api db3 c ''lastDocumentChange'' = Some (u64_to_string api s))"
    by (auto simp: changed)
  then obtain s where "s \<ge> t1" "sp_getCentroidMetadata api db3 c ''lastDocumentChange'' = Some (u64_to_string api s)" by auto
  with upToDate_of_stamps [OF \<open>_ = Some (u64_to_string api t)\<close>] \<open>t < t1\<close> show ?thesis by auto
qed

end


section \<open>A centroid without documents\<close>

context env_contract
begin

lemma empty_centroid_reaches_saving:
  assumes "plain c" and "sp_doesCentroidExist api db c" and "listAllDocumentsForCentroidRaw api db c = []"
  shows "race api rnd c t others (new_update, db) (at_place (Saving new_accumulator) NotAsked, db)"
proof -
  have first: "sp_listCentroidDocumentRangeFromOffsetOption api db c 0 idListBatchSize = Some []"
    using assms by (simp add: sp_listCentroidDocumentRangeFromOffsetOption_def Let_def centroid_documents_under)
  have "thread_step api rnd c new_update db = Some (at_place FirstPage NotAsked, db)"
    "thread_step api rnd c (at_place FirstPage NotAsked) db = Some (at_place (LastCheck new_accumulator) NotAsked, db)"
    "thread_step api rnd c (at_place (LastCheck new_accumulator) NotAsked) db = Some (at_place (Saving new_accumulator) NotAsked, db)"
    using assms(2) first
    by (simp_all add: thread_step_def new_update_def p_doesCentroidExist_def p_listCentroidDocumentRangeFromOffsetOption_def)
  then show ?thesis by (meson race_step.thread rtranclp.rtrancl_into_rtrancl rtranclp.rtrancl_refl)
qed

lemma saving_ends:
  assumes "plain c"
  shows "\<exists>db'. race api rnd c t others (at_place (Saving acc) n, db) (at_place (Stopped (Some (Inr True))) n, db')
    \<and> sp_doesCentroidExist api db' c"
proof -
  let ?saved = "fst (sp_saveCentroid api db c (updated_centroid rnd c acc))"
  let ?done = "db_after (setLastCalculatedTimestamp api c t) ?saved"
  have "thread_step api rnd c (at_place (Saving acc) n) db = Some (at_place (Stopped (Some (Inr True))) n\<lparr>ru_stamp := True\<rparr>, ?saved)"
    by (simp add: thread_step_def p_saveCentroid_def case_prod_unfold Let_def)
  moreover have "pool_step api c t RunStamp (at_place (Stopped (Some (Inr True))) n\<lparr>ru_stamp := True\<rparr>) ?saved
      = Some (at_place (Stopped (Some (Inr True))) n, ?done)"
    by (simp add: pool_step_def case_prod_unfold Let_def)
  moreover have "sp_doesCentroidExist api ?done c"
    using assms by (simp add: setLastCalculatedTimestamp_def run_setMetadata setMetadata_keeps_existence)
      (simp add: exists_simps store_saveCentroid)
  ultimately show ?thesis
    by (meson race_step.thread race_step.pool rtranclp.rtrancl_into_rtrancl rtranclp.rtrancl_refl)
qed

end

lemma created_centroid_is_empty:
  defines "db \<equiv> fst (sp_createNewCentroid log_env [] ''c'')"
  shows "sp_doesCentroidExist log_env db ''c''" and "listAllDocumentsForCentroidRaw log_env db ''c'' = []"
proof -
  show "sp_doesCentroidExist log_env db ''c''"
    by (simp add: db_def log_catalog.exists_simps sp_createNewCentroid_def sp_saveCentroid_def
        log_catalog.rock_exists_eq log_catalog.store_put Let_def)
  have "d \<notin> set (listAllDocumentsForCentroidRaw log_env db ''c'')" for d
    by (simp add: db_def log_catalog.members_listed log_catalog.catalog_of_mem sp_createNewCentroid_def
        sp_saveCentroid_def log_catalog.rock_exists_eq log_catalog.store_put Let_def key_eqs)
  then show "listAllDocumentsForCentroidRaw log_env db ''c'' = []" by (metis list.set_intros(1) neq_Nil_conv)
qed

section \<open>Properties of the race\<close>

text \<open>
  C21.  The updater as one computation is the run without interference: whatever \<open>updater_run\<close> yields, the
  thread and the pool reach, with the operations submitted early and without waiting run in one
  order that the pool allows, and nothing is left to run.
\<close>

theorem updater_run_is_a_race:
  assumes "updater_run api rnd t c db = Some (result, db')"
  shows "\<exists>u. race api rnd c t (\<lambda>db db'. False) (new_update, db) (u, db')
    \<and> ru_place u = Stopped result \<and> ru_removals u = [] \<and> \<not> ru_stamp u"
  using updater_run_runs [OF assms] by fastforce

theorem updater_run_is_a_race_witness:
  "\<exists>u. race log_env Num ''c'' 7 (\<lambda>db db'. False) (new_update, []) (u, [])
     \<and> ru_place u = Stopped (Some (Inl ECentroidDoesNotExist))"
proof -
  have "updater_run log_env Num 7 ''c'' [] = Some (Some (Inl ECentroidDoesNotExist), [])"
    by (simp add: updater_run_def p_doesCentroidExist_def log_catalog.exists_simps)
  from updater_run_is_a_race [OF this] show ?thesis by blast
qed

text \<open>
  C18.  A change during an update is not forgotten: while the updater of a centroid (without a colon in its
  identifier) runs, interleaved in any way with requests that do not save or delete this centroid, let a
  change of its documents be stamped with a later second than the update started in; later changes are
  stamped with that second or a later one.  When the update has ended and its own stamp is written, the
  centroid does not count as up to date, so that the next join computes it again.
\<close>

theorem change_during_update_is_not_forgotten:
  assumes "env_contract api entries" and "plain c"
    and "race api rnd c t (requests_beside api c 0) (new_update, db0) (u1, db1)"
    and "db2 = db_after (setLastDocumentChangeTimestamp api c t1) db1" and "t < t1"
    and "race api rnd c t (requests_beside api c t1) (u1, db2) (u2, db3)"
    and "ru_place u2 = Stopped (Some (Inr True))" and "\<not> ru_stamp u2"
  shows "result_of (isCentroidUpToDate api c) db3 = Some (Inr False)"
  by (rule env_contract.change_in_a_race [OF assms])

theorem change_during_update_is_not_forgotten_witness:
  "\<exists>u db. race log_env Num ''c'' 7 (requests_beside log_env ''c'' 8)
      (u, db_after (setLastDocumentChangeTimestamp log_env ''c'' 8) (fst (sp_createNewCentroid log_env [] ''c'')))
      (at_place (Stopped (Some (Inr True))) NotAsked, db)
    \<and> result_of (isCentroidUpToDate log_env ''c'') db = Some (Inr False)"
proof -
  let ?db = "fst (sp_createNewCentroid log_env [] ''c'')"
  let ?changed = "db_after (setLastDocumentChangeTimestamp log_env ''c'' 8) ?db"
  have c: "plain ''c''" by (simp add: plain_def)
  note first = log_catalog.empty_centroid_reaches_saving [OF c created_centroid_is_empty, of Num 7 "requests_beside log_env ''c'' 0"]
  obtain db where rest: "race log_env Num ''c'' 7 (requests_beside log_env ''c'' 8)
      (at_place (Saving new_accumulator) NotAsked, ?changed) (at_place (Stopped (Some (Inr True))) NotAsked, db)"
    using log_catalog.saving_ends [OF c] by blast
  from change_during_update_is_not_forgotten [OF log_catalog.env_contract_axioms c first refl _ rest] rest show ?thesis by auto
qed

context env_contract
begin

lemma save_alone:
  assumes "plain c" and "alone_race api rnd c t (at_place (Saving acc) n, db) (u, db')"
  shows "ru_removals u = [] \<and> (ru_place u = Saving acc
    \<or> ru_place u = Stopped (Some (Inr True)) \<and> sp_doesCentroidExist api db' c)"
  using assms(2)
proof (induction "(u, db')" arbitrary: u db' rule: rtranclp_induct)
  case (step y)
  obtain u1 db1 where y: "y = (u1, db1)" by fastforce
  note IH = step.hyps(3) [OF y]
  from step.hyps(2) [unfolded y] show ?case
  proof cases
    case thread
    with IH assms(1) show ?thesis
      by (auto simp: thread_step_def p_saveCentroid_def case_prod_unfold Let_def exists_simps store_saveCentroid)
  next
    case (pool task)
    with IH assms(1) show ?thesis
      by (cases task)
        (auto simp: pool_step_def case_prod_unfold Let_def setLastCalculatedTimestamp_def run_setMetadata
          setMetadata_keeps_existence p_listCentroidDocumentRangeFromDocumentIdOption_def split: next_page.splits if_splits)
  qed simp
qed simp

end

text \<open>
  C35.  A deletion can be undone by an update: let the update of an existing centroid (without a colon in
  its identifier) be before its save, after its last check, when another request deletes the centroid.  The
  centroid is gone; from there on, with nobody else acting, the update ends with success, and whenever it
  has ended the centroid exists again.
\<close>

theorem update_restores_deleted_centroid:
  assumes "env_contract api entries" and "plain c" and "sp_doesCentroidExist api db c"
    and "race api rnd c t (\<lambda>a b. b = fst (sp_deleteCentroid api a c)) (new_update, db0) (at_place (Saving acc) n, db)"
  shows "let gone = fst (sp_deleteCentroid api db c) in
    race api rnd c t (\<lambda>a b. b = fst (sp_deleteCentroid api a c)) (new_update, db0) (at_place (Saving acc) n, gone)
    \<and> \<not> sp_doesCentroidExist api gone c
    \<and> (\<exists>u db'. alone_race api rnd c t (at_place (Saving acc) n, gone) (u, db') \<and> ru_place u = Stopped (Some (Inr True)))
    \<and> (\<forall>u db' result. alone_race api rnd c t (at_place (Saving acc) n, gone) (u, db') \<and> ru_place u = Stopped result \<longrightarrow>
         result = Some (Inr True) \<and> sp_doesCentroidExist api db' c)"
proof -
  let ?others = "\<lambda>a b. b = fst (sp_deleteCentroid api a c)" and ?gone = "fst (sp_deleteCentroid api db c)"
  have "\<not> sp_doesCentroidExist api ?gone c"
    using assms(2,3) by (simp add: env_contract.exists_simps [OF assms(1)] env_contract.store_deleteCentroid [OF assms(1)])
  moreover have "race_step api rnd c t ?others (at_place (Saving acc) n, db) (at_place (Saving acc) n, ?gone)"
    by (rule race_step.interference) simp
  with assms(4) have "race api rnd c t ?others (new_update, db0) (at_place (Saving acc) n, ?gone)"
    by (rule rtranclp.rtrancl_into_rtrancl)
  moreover have "\<exists>u db'. alone_race api rnd c t (at_place (Saving acc) n, ?gone) (u, db') \<and> ru_place u = Stopped (Some (Inr True))"
    using env_contract.saving_ends [OF assms(1,2)] by (metis running_update.select_convs(1))
  moreover have "result = Some (Inr True) \<and> sp_doesCentroidExist api db' c"
    if "alone_race api rnd c t (at_place (Saving acc) n, ?gone) (u, db')" and "ru_place u = Stopped result" for u db' result
    using env_contract.save_alone [OF assms(1,2) that(1)] that(2) by simp
  ultimately show ?thesis unfolding Let_def by blast
qed

theorem update_restores_deleted_centroid_witness:
  "let gone = fst (sp_deleteCentroid log_env (fst (sp_createNewCentroid log_env [] ''c'')) ''c'') in
     \<not> sp_doesCentroidExist log_env gone ''c''
     \<and> (\<exists>u db'. alone_race log_env Num ''c'' 7 (at_place (Saving new_accumulator) NotAsked, gone) (u, db')
          \<and> ru_place u = Stopped (Some (Inr True)) \<and> sp_doesCentroidExist log_env db' ''c'')"
proof -
  have c: "plain ''c''" by (simp add: plain_def)
  from update_restores_deleted_centroid [OF log_catalog.env_contract_axioms c created_centroid_is_empty(1)
      log_catalog.empty_centroid_reaches_saving [OF c created_centroid_is_empty, of Num 7 "\<lambda>a b. b = fst (sp_deleteCentroid log_env a ''c'')"]]
  show ?thesis unfolding Let_def by blast
qed

end
