(* ===== verification/MapItems.thy ===== *)
theory MapItems
  imports ConcurrentMap
begin

text \<open>
  The other operations of the proxies of \<open>util/MultiVersionPtr.h\<close> (assignment, move, construction from a
  parent, \<open>clearAtomic\<close>, the destructor of a node) and the items of \<open>util/ConcurrentMap.h\<close>, from which
  the operations of the map are built.
\<close>

section \<open>Proxies\<close>

text \<open>The assignment counts the new parent before it releases the old one; a proxy can be assigned to itself.\<close>

definition proxy_assign :: "'v mv \<Rightarrow> nat \<Rightarrow> nat \<Rightarrow> 'v mv option" where
  "proxy_assign s p other = (case base_at s other of None \<Rightarrow> None | Some parent \<Rightarrow> setBase s p parent)"

text \<open>The move constructor leaves the other proxy as it is.\<close>

definition proxy_move :: "'v mv \<Rightarrow> nat \<Rightarrow> (nat \<times> 'v mv) option" where
  "proxy_move s other = (case base_at s other of
       None \<Rightarrow> None
     | Some parent \<Rightarrow> let (p, s) = proxy_new s in map_option (Pair p) (setBase s p parent))"

definition proxy_of_parent :: "'v mv \<Rightarrow> nat option \<Rightarrow> (nat \<times> 'v mv) option" where
  "proxy_of_parent s parent =
     (if parent = None then None
      else let (p, s) = proxy_new s in map_option (Pair p) (setBase s p parent))"

definition clearAtomic :: "'v mv \<Rightarrow> nat \<Rightarrow> (nat option \<times> 'v mv) option" where
  "clearAtomic s p = (case base_at s p of
       None \<Rightarrow> None
     | Some prevBase \<Rightarrow> Some (prevBase, s\<lparr>mv_proxies := (mv_proxies s)[p := Some None]\<rparr>))"

text \<open>The values that the destructor of a node deletes: none after the last \<open>decrCount\<close>.\<close>

definition node_deletes :: "'v node \<Rightarrow> 'v list" where
  "node_deletes n = (case node_ptr n of Some v \<Rightarrow> [v] | None \<Rightarrow> [])"

lemma last_release_deletes_once:
  assumes "decrCount s a = Some (0, s')"
  shows "\<exists>n. node_at s' a = Some n \<and> node_deletes n = []"
  using assms by (auto simp: decrCount_def node_at_def node_deletes_def Let_def split: option.splits if_splits)

lemma proxy_move_is_copy: "proxy_move s other = proxy_copy s other"
  by (simp add: proxy_move_def proxy_copy_def)

text \<open>After the assignment both proxies read what the source read; nobody else notices.\<close>

lemma proxy_assign_spec:
  assumes ok: "mv_ok s" and live: "base_at s p = Some b" and src: "base_at s other = Some c"
  obtains s' where "proxy_assign s p other = Some s'" and "mv_ok s'"
    and "base_at s' p = Some c" and "proxy_get s' p = proxy_get s other"
    and "\<And>q. q \<noteq> p \<Longrightarrow> base_at s' q = base_at s q \<and> proxy_get s' q = proxy_get s q"
proof -
  have "\<exists>s'. setBase s p c = Some s' \<and> mv_ok s'
      \<and> (\<forall>q. base_at s' q = (if q = p then Some c else base_at s q))
      \<and> (\<forall>a. refs s' a > 0 \<longrightarrow> ptr_at s' a = ptr_at s a)"
    using balanced_base [OF mv_okD(1) [OF ok], of other] src
    by (intro setBase_spec [OF mv_okD(1) [OF ok] live]) (simp_all add: mv_okD(2) [OF ok])
  then obtain s' where s': "setBase s p c = Some s'" "mv_ok s'"
    "\<And>q. base_at s' q = (if q = p then Some c else base_at s q)"
    "\<And>a. refs s' a > 0 \<Longrightarrow> ptr_at s' a = ptr_at s a" by auto
  have "proxy_get s' p = proxy_get s other"
    using src s'(3) [of p] s'(4) refs_positive [of s' p] by (auto simp: proxy_get_eq split: option.splits)
  moreover have "base_at s' q = base_at s q \<and> proxy_get s' q = proxy_get s q" if "q \<noteq> p" for q
    using that s'(3) [of q] get_after [of s' s q] s'(4) by simp
  ultimately show ?thesis using that [of s'] s' src by (simp add: proxy_assign_def)
qed

text \<open>A cleared proxy has lost its reference: the count stays, and its node is never freed.\<close>

lemma clearAtomic_leaks:
  assumes "mv_ok s" and "base_at s p = Some (Some a)" and "clearAtomic s p = Some (prev, s')"
  shows "prev = Some a" and "node_at s' a = node_at s a" and "\<not> balanced s'"
proof -
  from assms(2,3) have s': "s' = s\<lparr>mv_proxies := (mv_proxies s)[p := Some None]\<rparr>" and "prev = Some a"
    by (simp_all add: clearAtomic_def)
  then show "prev = Some a" "node_at s' a = node_at s a" by simp_all
  from mv_okD(1) [OF assms(1)] assms(2) balanced_base obtain n where n: "node_at s a = Some n" by blast
  with mv_okD(1) [OF assms(1)] have "node_usage n = refs s a" by (auto simp: balanced_def dest: spec [of _ a])
  moreover have "refs s' a + 1 = refs s a" using refs_update [OF assms(2), of "Some None" a] by (simp add: s')
  ultimately show "\<not> balanced s'" using n by (auto simp: balanced_def s' intro!: exI [of _ a])
qed

section \<open>Items\<close>

record map_item =
  mi_key :: string
  mi_val :: nat
  mi_hasValue :: bool

definition item_new :: "'v mv \<Rightarrow> string \<Rightarrow> map_item \<times> 'v mv" where
  "item_new s key = (let (p, s) = proxy_new s in (\<lparr>mi_key = key, mi_val = p, mi_hasValue = False\<rparr>, s))"

definition item_default :: "'v mv \<Rightarrow> map_item \<times> 'v mv" where
  "item_default s = item_new s ''''"

definition item_new_with :: "'v mv \<Rightarrow> string \<Rightarrow> 'v \<Rightarrow> (map_item \<times> 'v mv) option" where
  "item_new_with s key val =
     (let (p, s) = proxy_new s
      in map_option (Pair \<lparr>mi_key = key, mi_val = p, mi_hasValue = True\<rparr>) (proxy_reset s p val))"

text \<open>\<open>getValuePtr\<close> checks that the item has a value; \<open>setValue\<close> does not record that it has one.\<close>

definition getValuePtr :: "'v mv \<Rightarrow> map_item \<Rightarrow> (nat \<times> 'v mv) option" where
  "getValuePtr s item = (if \<not> mi_hasValue item then None else proxy_copy s (mi_val item))"

definition setValue :: "'v mv \<Rightarrow> map_item \<Rightarrow> 'v \<Rightarrow> 'v mv option" where
  "setValue s item val = proxy_reset s (mi_val item) val"

definition item_less :: "map_item \<Rightarrow> map_item \<Rightarrow> bool" where
  "item_less item1 item2 \<longleftrightarrow> mi_key item1 < mi_key item2"

text \<open>The copy and the destruction of an item are those of its members.\<close>

definition item_copy :: "'v mv \<Rightarrow> map_item \<Rightarrow> (map_item \<times> 'v mv) option" where
  "item_copy s item = map_option (map_prod (\<lambda>p. item\<lparr>mi_val := p\<rparr>) id) (proxy_copy s (mi_val item))"

definition item_destroy :: "'v mv \<Rightarrow> map_item \<Rightarrow> 'v mv option" where
  "item_destroy s item = proxy_destroy s (mi_val item)"

lemma item_set_after_new_has_no_value:
  "getValuePtr s' (fst (item_new s key)) = None"
  by (simp add: getValuePtr_def item_new_def proxy_new_def)

section \<open>The map in terms of its items\<close>

text \<open>The item that the map keeps under a key.\<close>

definition stored_item :: "string \<Rightarrow> nat \<Rightarrow> map_item" where
  "stored_item key p = \<lparr>mi_key = key, mi_val = p, mi_hasValue = True\<rparr>"

text \<open>
  \<open>insertOrUpdate\<close> sets the value of the item that is found, or makes one, puts a copy of it into the
  list and destroys the local one; \<open>erase\<close> destroys the item; \<open>getOption\<close> reads its pointer.
\<close>

lemma insertOrUpdate_found:
  assumes "map_of (cm_items m) key = Some p"
  shows "insertOrUpdate m key val = map_option (\<lambda>s. m\<lparr>cm_mem := s\<rparr>) (setValue (cm_mem m) (stored_item key p) val)"
    and "getOption m key = map_option (map_prod Some (\<lambda>s. m\<lparr>cm_mem := s\<rparr>)) (getValuePtr (cm_mem m) (stored_item key p))"
    and "cm_erase m key = map_option (\<lambda>s. (True, m\<lparr>cm_mem := s, cm_items := kv_erase key (cm_items m)\<rparr>))
      (item_destroy (cm_mem m) (stored_item key p))"
  using assms
  by (simp_all add: insertOrUpdate_def getOption_def cm_erase_def setValue_def getValuePtr_def item_destroy_def
      stored_item_def map_prod_def)

lemma insertOrUpdate_absent:
  assumes "map_of (cm_items m) key = None"
  shows "insertOrUpdate m key val =
    (case item_new_with (cm_mem m) key val of
       None \<Rightarrow> None
     | Some (item, s) \<Rightarrow> (case item_copy s item of
           None \<Rightarrow> None
         | Some (kept, s) \<Rightarrow>
             map_option (\<lambda>s. m\<lparr>cm_mem := s, cm_items := kv_put (mi_key kept) (mi_val kept) (cm_items m)\<rparr>)
               (item_destroy s item)))"
  using assms
  by (simp add: insertOrUpdate_def proxy_create_def item_new_with_def item_copy_def item_destroy_def Let_def split_def
      option.map_comp o_def split: option.split)

text \<open>
  Searching with an item that has only a key changes no node, whatever the search compares: the item is
  made with a null proxy, and destroying it releases nothing.
\<close>

lemma search_item_touches_nothing:
  "item_new s key = (item, s') \<Longrightarrow> \<exists>s''. item_destroy s' item = Some s'' \<and> mv_nodes s'' = mv_nodes s
     \<and> (\<forall>q. base_at s'' q = base_at s q)"
  by (auto simp: item_new_def item_destroy_def proxy_destroy_def decrBase_def proxy_new_def base_at_def nth_append
      release_opt_def nth_list_update)

end
