(* ===== verification/StoreRace.thy ===== *)
theory StoreRace
  imports TypedStore
begin

text \<open>
  The operations of \<open>SyncPersistence\<close> below their atomicity.  The pool of \<open>Persistence\<close> has several threads
  and nothing locks: between two calls of RocksDB the other threads run.  Here an operation is a program
  of such calls, and the threads interleave call by call.  An iterator of RocksDB reads the state at its
  creation, so that a whole scan is one call.
\<close>

section \<open>Programs of calls\<close>

datatype 'a store_prog =
    Return 'a
  | DbExists string "bool \<Rightarrow> 'a store_prog"
  | DbPut string string "'a store_prog"
  | DbDelete string "'a store_prog"
  | DbScan string string "(string \<times> string) list \<Rightarrow> 'a store_prog"

text \<open>One call: what is left of the program, and the database.\<close>

definition prog_step :: "('db, 'z) rocksdb_scheme \<Rightarrow> 'a store_prog \<Rightarrow> 'db \<Rightarrow> ('a store_prog \<times> 'db) option" where
  "prog_step api p db = (case p of
       Return x \<Rightarrow> None
     | DbExists key f \<Rightarrow> Some (f (rock_exists api db key), db)
     | DbPut key val p \<Rightarrow> Some (p, fst (rock_put api db key val))
     | DbDelete key p \<Rightarrow> Some (p, fst (db_Delete api db key))
     | DbScan start end f \<Rightarrow> Some (f (takeWhile (\<lambda>e. fst e < end) (db_Seek api db start)), db))"

text \<open>A program run alone.\<close>

primrec exec :: "('db, 'z) rocksdb_scheme \<Rightarrow> 'a store_prog \<Rightarrow> 'db \<Rightarrow> 'db \<times> 'a" where
  "exec api (Return x) db = (db, x)"
| "exec api (DbExists key f) db = exec api (f (rock_exists api db key)) db"
| "exec api (DbPut key val p) db = exec api p (fst (rock_put api db key val))"
| "exec api (DbDelete key p) db = exec api p (fst (db_Delete api db key))"
| "exec api (DbScan start end f) db = exec api (f (takeWhile (\<lambda>e. fst e < end) (db_Seek api db start))) db"

section \<open>The operations as programs\<close>

text \<open>\<open>RockHandle::del\<close> is two calls; \<open>p\<close> is what follows.\<close>

definition del_prog :: "string \<Rightarrow> (bool \<Rightarrow> 'a store_prog) \<Rightarrow> 'a store_prog" where
  "del_prog key p = DbExists key (\<lambda>found. if \<not> found then p False else DbDelete key (p True))"

fun delete_each_prog :: "(string \<times> string) list \<Rightarrow> 'a store_prog \<Rightarrow> 'a store_prog" where
  "delete_each_prog [] p = p"
| "delete_each_prog ((key, val) # es) p = del_prog key (\<lambda>_. delete_each_prog es p)"

text \<open>\<open>iterPrefix\<close> with the callback that deletes.\<close>

definition delete_prefix_prog :: "string \<Rightarrow> 'a store_prog \<Rightarrow> 'a store_prog" where
  "delete_prefix_prog pre p = DbScan (pre @ '':'') (pre @ '';'') (\<lambda>es. delete_each_prog es p)"

definition save_document_prog :: "('db, 'z) env_scheme \<Rightarrow> ProcessedDocument \<Rightarrow> bool Try store_prog" where
  "save_document_prog api doc =
     DbPut (getDocumentKey (pd_id doc)) (binarySerialize_document api doc)
    (DbPut (getDocumentMetadataKey (pd_id doc) ''created_time'') (i64_to_string api (pd_created doc))
    (Return (Inr True)))"

definition save_centroid_prog :: "('db, 'z) env_scheme \<Rightarrow> string \<Rightarrow> Centroid \<Rightarrow> bool Try store_prog" where
  "save_centroid_prog api c centroid =
     DbPut (getCentroidKey c) (binarySerialize_centroid api centroid) (Return (Inr True))"

definition save_new_document_prog :: "('db, 'z) env_scheme \<Rightarrow> ProcessedDocument \<Rightarrow> bool Try store_prog" where
  [simp]: "save_new_document_prog api doc =
     DbExists (getDocumentKey (pd_id doc)) (\<lambda>found.
       if found then Return (Inl EDocumentAlreadyExists) else save_document_prog api doc)"

definition delete_document_prog :: "string \<Rightarrow> bool Try store_prog" where
  [simp]: "delete_document_prog d =
     del_prog (getDocumentKey d) (\<lambda>deleted.
       if deleted then
         delete_prefix_prog (getDocumentCentroidsPrefix d)
        (delete_prefix_prog (d @ ''__document_metadata'')
        (Return (Inr True)))
       else Return (Inl EDocumentDoesNotExist))"

definition create_new_centroid_prog :: "('db, 'z) env_scheme \<Rightarrow> string \<Rightarrow> bool Try store_prog" where
  [simp]: "create_new_centroid_prog api c =
     DbExists (getCentroidKey c) (\<lambda>found.
       if found then Return (Inl ECentroidAlreadyExists) else save_centroid_prog api c (new_Centroid c))"

definition delete_centroid_prog :: "string \<Rightarrow> bool Try store_prog" where
  [simp]: "delete_centroid_prog c =
     del_prog (getCentroidKey c) (\<lambda>deleted.
       if \<not> deleted then Return (Inl ECentroidDoesNotExist)
       else
         delete_prefix_prog (getCentroidDocumentPrefix c)
        (delete_prefix_prog (c @ ''__centroid_metadata'')
        (Return (Inr True))))"

definition add_document_prog :: "string \<Rightarrow> string \<Rightarrow> bool Try store_prog" where
  [simp]: "add_document_prog c d =
     DbExists (getCentroidKey c) (\<lambda>centroidExists.
       if \<not> centroidExists then Return (Inl ECentroidDoesNotExist)
       else DbExists (getDocumentKey d) (\<lambda>documentExists.
         if \<not> documentExists then Return (Inl EDocumentDoesNotExist)
         else DbExists (getCentroidDocumentKey c d) (\<lambda>found.
           if found then Return (Inl EDocumentAlreadyInCentroid)
           else
             DbPut (getCentroidDocumentKey c d) ''1''
            (DbPut (getDocumentCentroidKey d c) ''1''
            (Return (Inr True))))))"

definition remove_document_prog :: "string \<Rightarrow> string \<Rightarrow> bool Try store_prog" where
  [simp]: "remove_document_prog c d =
     DbExists (getCentroidKey c) (\<lambda>centroidExists.
       if \<not> centroidExists then Return (Inl ECentroidDoesNotExist)
       else DbExists (getDocumentKey d) (\<lambda>documentExists.
         if \<not> documentExists then Return (Inl EDocumentDoesNotExist)
         else
           del_prog (getDocumentCentroidKey d c) (\<lambda>_.
           del_prog (getCentroidDocumentKey c d) (\<lambda>deleted.
             Return (if \<not> deleted then Inl EDocumentNotInCentroid else Inr True)))))"

definition set_metadata_prog :: "string \<Rightarrow> string \<Rightarrow> string \<Rightarrow> bool Try store_prog" where
  [simp]: "set_metadata_prog c n v = DbPut (getCentroidMetadataKey c n) v (Return (Inr True))"

fun request_prog :: "('db, 'z) env_scheme \<Rightarrow> request \<Rightarrow> bool Try store_prog" where
  "request_prog api (SaveDocument doc) = save_document_prog api doc"
| "request_prog api (SaveNewDocument doc) = save_new_document_prog api doc"
| "request_prog api (DeleteDocument d) = delete_document_prog d"
| "request_prog api (CreateNewCentroid c) = create_new_centroid_prog api c"
| "request_prog api (SaveCentroid c centroid) = save_centroid_prog api c centroid"
| "request_prog api (DeleteCentroid c) = delete_centroid_prog c"
| "request_prog api (AddDocumentToCentroid c d) = add_document_prog c d"
| "request_prog api (RemoveDocumentFromCentroid c d) = remove_document_prog c d"
| "request_prog api (SetCentroidMetadata c n v) = set_metadata_prog c n v"

section \<open>A program run alone is the operation\<close>

lemma exec_del: "exec api (del_prog key p) db = (let (db', deleted) = rock_del api db key in exec api (p deleted) db')"
  by (simp add: del_prog_def rock_del_def case_prod_unfold Let_def)

lemma exec_delete_each:
  "exec api (delete_each_prog es p) db = exec api p (visit es (delete_key api) db)"
  by (induction es p arbitrary: db rule: delete_each_prog.induct)
    (simp_all add: exec_del delete_key_def case_prod_unfold Let_def)

lemma iter_loop_delete:
  "snd (rock_iter_loop es end (delete_key api) any db) = visit (takeWhile (\<lambda>e. fst e < end) es) (delete_key api) db"
  by (induction es arbitrary: any db) (auto simp: delete_key_def)

lemma exec_delete_prefix:
  "exec api (delete_prefix_prog pre p) db = exec api p (snd (rock_iterPrefix api db pre (delete_key api) db))"
  by (simp add: delete_prefix_prog_def exec_delete_each rock_iterPrefix_def rock_iterRange_def iter_loop_delete)

lemmas exec_simps = exec_del exec_delete_prefix save_document_prog_def save_centroid_prog_def

lemma exec_request: "exec api (request_prog api r) db = run_request api db r"
  by (cases r)
    (simp_all add: exec_simps sp_saveDocument_def sp_saveNewDocument_def sp_deleteDocument_def sp_createNewCentroid_def
      sp_saveCentroid_def sp_deleteCentroid_def sp_addDocumentToCentroid_def sp_removeDocumentFromCentroid_def
      sp_setCentroidMetadata_def sp_doesDocumentExist_def sp_doesCentroidExist_def setDocumentCreatedTime_def
      case_prod_unfold Let_def)


section \<open>Threads\<close>

inductive store_step ::
  "('db, 'z) rocksdb_scheme \<Rightarrow> 'a store_prog list \<times> 'db \<Rightarrow> 'a store_prog list \<times> 'db \<Rightarrow> bool" for api where
  call: "i < length ps \<Longrightarrow> prog_step api (ps ! i) db = Some (p', db') \<Longrightarrow> store_step api (ps, db) (ps[i := p'], db')"

inductive_cases store_stepE: "store_step api (ps, db) x"

abbreviation store_steps ::
  "('db, 'z) rocksdb_scheme \<Rightarrow> 'a store_prog list \<times> 'db \<Rightarrow> 'a store_prog list \<times> 'db \<Rightarrow> bool" where
  "store_steps api \<equiv> (store_step api)\<^sup>*\<^sup>*"

lemma prog_step_exec: "prog_step api p db = Some (p', db') \<Longrightarrow> exec api p db = exec api p' db'"
  by (cases p) (auto simp: prog_step_def)

lemma call_first:
  "i < length ps \<Longrightarrow> prog_step api (ps ! i) db = Some (p', db') \<Longrightarrow> store_steps api (ps[i := p'], db') x \<Longrightarrow>
   store_steps api (ps, db) x"
  by (rule converse_rtranclp_into_rtranclp) (rule store_step.call)

text \<open>A thread can run to its end while the others stand still.\<close>

lemma thread_completes:
  "i < length ps \<Longrightarrow> ps ! i = p \<Longrightarrow>
   store_steps api (ps, db) (ps[i := Return (snd (exec api p db))], fst (exec api p db))"
proof (induction p arbitrary: ps db)
  case (Return x)
  then show ?case using list_update_id [of ps i] by simp
next
  case (DbExists key f)
  have "prog_step api (ps ! i) db = Some (f (rock_exists api db key), db)" using DbExists.prems by (simp add: prog_step_def)
  from call_first [OF DbExists.prems(1) this] DbExists.IH [of "f (rock_exists api db key)" "ps[i := f (rock_exists api db key)]" db]
    DbExists.prems show ?case by simp
next
  case (DbPut key val p)
  have "prog_step api (ps ! i) db = Some (p, fst (rock_put api db key val))" using DbPut.prems by (simp add: prog_step_def)
  from call_first [OF DbPut.prems(1) this] DbPut.IH [of "ps[i := p]" "fst (rock_put api db key val)"] DbPut.prems
  show ?case by simp
next
  case (DbDelete key p)
  have "prog_step api (ps ! i) db = Some (p, fst (db_Delete api db key))" using DbDelete.prems by (simp add: prog_step_def)
  from call_first [OF DbDelete.prems(1) this] DbDelete.IH [of "ps[i := p]" "fst (db_Delete api db key)"] DbDelete.prems
  show ?case by simp
next
  case (DbScan start end' f)
  let ?es = "takeWhile (\<lambda>e. fst e < end') (db_Seek api db start)"
  have "prog_step api (ps ! i) db = Some (f ?es, db)" using DbScan.prems by (simp add: prog_step_def)
  from call_first [OF DbScan.prems(1) this] DbScan.IH [of "f ?es" "ps[i := f ?es]" db] DbScan.prems show ?case by simp
qed

text \<open>One program after the other is one of the interleavings.\<close>

fun exec_all :: "('db, 'z) rocksdb_scheme \<Rightarrow> 'a store_prog list \<Rightarrow> 'db \<Rightarrow> 'db \<times> 'a list" where
  "exec_all api [] db = (db, [])"
| "exec_all api (p # ps) db =
     (let (db', x) = exec api p db; (db'', xs) = exec_all api ps db' in (db'', x # xs))"

lemma exec_all_requests: "exec_all api (map (request_prog api) rs) db = run_requests api db rs"
  by (induction rs arbitrary: db) (simp_all add: exec_request)

lemma programs_in_order_after:
  "store_steps api (map Return results @ ps, db)
     (map Return (results @ snd (exec_all api ps db)), fst (exec_all api ps db))"
proof (induction ps arbitrary: results db)
  case (Cons p ps)
  let ?ps = "map Return results @ p # ps"
  obtain db' x where run: "exec api p db = (db', x)" by fastforce
  have "store_steps api (?ps, db) (?ps[length results := Return x], db')"
    using thread_completes [of "length results" ?ps p api db] run by (simp add: nth_append)
  moreover have "?ps[length results := Return x] = map Return (results @ [x]) @ ps"
    by (simp add: list_update_append)
  ultimately show ?case
    using rtranclp_trans [OF _ Cons.IH [of "results @ [x]" db']] run by (simp add: case_prod_unfold Let_def)
qed simp

lemmas programs_in_order = programs_in_order_after [of _ "[]", simplified]

section \<open>Footprints\<close>

text \<open>
  The program reads the keys of \<open>R\<close> and \<open>W\<close> only, and writes those of \<open>W\<close> and \<open>X\<close> only: those of \<open>X\<close> blindly.
\<close>

primrec stays_in :: "string set \<Rightarrow> string set \<Rightarrow> string set \<Rightarrow> 'a store_prog \<Rightarrow> bool" where
  "stays_in R W X (Return x) \<longleftrightarrow> True"
| "stays_in R W X (DbExists key f) \<longleftrightarrow> key \<in> R \<union> W \<and> (\<forall>b. stays_in R W X (f b))"
| "stays_in R W X (DbPut key val p) \<longleftrightarrow> key \<in> W \<union> X \<and> stays_in R W X p"
| "stays_in R W X (DbDelete key p) \<longleftrightarrow> key \<in> W \<union> X \<and> stays_in R W X p"
| "stays_in R W X (DbScan start end f) \<longleftrightarrow> {k. start \<le> k \<and> k < end} \<subseteq> R \<union> W
     \<and> (\<forall>es. (\<forall>e \<in> set es. start \<le> fst e \<and> fst e < end) \<longrightarrow> stays_in R W X (f es))"

text \<open>Two sorted lists that agree on an interval of keys have the same entries there.\<close>

lemma sorted_entries_eq:
  assumes "kv_sorted xs" and "kv_sorted ys" and "map_of xs = map_of ys"
  shows "xs = ys"
proof -
  have "sorted (map fst xs)" "distinct (map fst xs)" "sorted (map fst ys)" "distinct (map fst ys)"
    using assms(1,2) by (simp_all add: strict_sorted_imp_sorted kv_sorted_distinct)
  moreover have "set xs = set ys"
    using kv_mem_map_of [OF assms(1)] kv_mem_map_of [OF assms(2)] assms(3) by auto
  ultimately show ?thesis by (intro map_sorted_distinct_set_unique) (auto simp: inj_on_def distinct_map)
qed

lemma map_of_kv_range: "map_of (kv_range m start end) k = (if start \<le> k \<and> k < end then map_of m k else None)"
  by (induction m) auto

context rocksdb_contract
begin

abbreviation stored :: "'db \<Rightarrow> string \<Rightarrow> string option" where
  "stored db \<equiv> map_of (entries db)"

lemma scan_eq: "takeWhile (\<lambda>e. fst e < end) (db_Seek api db start) = filter (\<lambda>p. start \<le> fst p \<and> fst p < end) (entries db)"
  by (simp add: Seek_entries kv_interval entries_sorted)

lemma scan_local:
  assumes "\<And>k. start \<le> k \<Longrightarrow> k < end \<Longrightarrow> stored db k = stored db' k"
  shows "takeWhile (\<lambda>e. fst e < end) (db_Seek api db start) = takeWhile (\<lambda>e. fst e < end) (db_Seek api db' start)"
  unfolding scan_eq
  by (rule sorted_entries_eq) (use assms in \<open>auto simp: kv_sorted_filter entries_sorted map_of_kv_range fun_eq_iff\<close>)

lemma stored_put: "stored (fst (rock_put api db k v)) = (stored db)(k \<mapsto> v)"
  by (simp add: rock_put_entries map_of_kv_put entries_sorted)

lemma stored_delete: "stored (fst (db_Delete api db k)) = (stored db)(k := None)"
  by (simp add: Delete_entries map_of_kv_erase)

lemma prog_step_within:
  assumes "prog_step api p db = Some (p', db')" and "stays_in R W X p"
  shows "stays_in R W X p'" and "k \<notin> W \<union> X \<Longrightarrow> stored db' k = stored db k"
proof -
  show "stays_in R W X p'" using assms by (cases p) (force simp: prog_step_def scan_eq)+
  show "stored db' k = stored db k" if "k \<notin> W \<union> X"
    using assms that by (cases p) (auto simp: prog_step_def stored_put stored_delete)
qed

text \<open>What a program does depends on what it reads only.\<close>

lemma exec_local:
  "stays_in R W X p \<Longrightarrow> (\<And>k. k \<in> R \<union> W \<Longrightarrow> stored db k = stored db' k) \<Longrightarrow>
   snd (exec api p db) = snd (exec api p db')
   \<and> (\<forall>k \<in> R \<union> W. stored (fst (exec api p db)) k = stored (fst (exec api p db')) k)"
proof (induction p arbitrary: db db')
  case (DbExists key f)
  then have "rock_exists api db' key = rock_exists api db key" by (simp add: rock_exists_eq)
  moreover have "stays_in R W X (f (rock_exists api db key))" using DbExists.prems(1) by simp
  ultimately show ?case using DbExists.IH [of "f (rock_exists api db key)" db db'] DbExists.prems(2) by simp
next
  case (DbPut key val p)
  then show ?case using DbPut.IH [of "fst (rock_put api db key val)" "fst (rock_put api db' key val)"]
    by (simp add: stored_put)
next
  case (DbDelete key p)
  then show ?case using DbDelete.IH [of "fst (db_Delete api db key)" "fst (db_Delete api db' key)"]
    by (simp add: stored_delete)
next
  case (DbScan start end' f)
  let ?es = "takeWhile (\<lambda>e. fst e < end') (db_Seek api db start)"
  have "takeWhile (\<lambda>e. fst e < end') (db_Seek api db' start) = ?es"
    using DbScan.prems by (intro scan_local) auto
  moreover have "stays_in R W X (f ?es)" using DbScan.prems(1) by (simp add: scan_eq)
  ultimately show ?case using DbScan.IH [of "f ?es" db db'] DbScan.prems(2) by simp
qed simp

end


section \<open>Independent programs\<close>

text \<open>
  Program \<open>i\<close> has the footprint \<open>R i\<close>, \<open>W i\<close>, and no program writes where another reads or writes,
  except blindly in \<open>X\<close>.
\<close>

definition apart :: "nat \<Rightarrow> (nat \<Rightarrow> string set) \<Rightarrow> (nat \<Rightarrow> string set) \<Rightarrow> string set \<Rightarrow> bool" where
  "apart n R W X \<longleftrightarrow> (\<forall>i < n. X \<inter> (R i \<union> W i) = {} \<and> (\<forall>j < n. i \<noteq> j \<longrightarrow> W i \<inter> (R j \<union> W j) = {}))"

context rocksdb_contract
begin

text \<open>
  Each program has the result and the writes before it, those in \<open>X\<close> apart, that it has when it starts at \<open>db0\<close>
  and runs alone.
\<close>

definition as_alone ::
  "(nat \<Rightarrow> string set) \<Rightarrow> (nat \<Rightarrow> string set) \<Rightarrow> string set
     \<Rightarrow> 'a store_prog list \<times> 'db \<Rightarrow> 'a store_prog list \<times> 'db \<Rightarrow> bool" where
  "as_alone R W X x0 x \<longleftrightarrow> (case x0 of (ps0, db0) \<Rightarrow> case x of (ps, db) \<Rightarrow>
     length ps = length ps0
   \<and> (\<forall>i < length ps. stays_in (R i) (W i) X (ps ! i) \<and> snd (exec api (ps ! i) db) = snd (exec api (ps0 ! i) db0)
        \<and> (\<forall>k \<in> W i. stored (fst (exec api (ps ! i) db)) k = stored (fst (exec api (ps0 ! i) db0)) k))
   \<and> (\<forall>k. k \<notin> X \<longrightarrow> (\<forall>i < length ps. k \<notin> W i) \<longrightarrow> stored db k = stored db0 k))"

lemma as_alone_step:
  assumes "as_alone R W X (ps0, db0) (ps, db)" and "apart (length ps) R W X"
    and "i < length ps" and "prog_step api (ps ! i) db = Some (p', db')"
  shows "as_alone R W X (ps0, db0) (ps[i := p'], db')"
proof -
  have W_i: "stays_in (R i) (W i) X (ps ! i)" using assms(1,3) by (simp add: as_alone_def)
  note kept = prog_step_within(2) [OF assms(4) W_i]
  have others: "stays_in (R j) (W j) X (ps ! j) \<and> snd (exec api (ps ! j) db') = snd (exec api (ps0 ! j) db0)
      \<and> (\<forall>k \<in> W j. stored (fst (exec api (ps ! j) db')) k = stored (fst (exec api (ps0 ! j) db0)) k)"
    if j: "j < length ps" "j \<noteq> i" for j
  proof -
    have fp: "stays_in (R j) (W j) X (ps ! j)" using assms(1) j by (simp add: as_alone_def)
    have "stored db' k = stored db k" if "k \<in> R j \<union> W j" for k
      using that assms(2,3) j kept unfolding apart_def by blast
    from exec_local [OF fp this] show ?thesis using assms(1) fp j by (simp add: as_alone_def)
  qed
  have "stored db' k = stored db0 k" if "k \<notin> X" and "\<forall>j < length ps. k \<notin> W j" for k
    using that assms(1,3) kept [of k] by (simp add: as_alone_def)
  with others show ?thesis
    using assms(1,3) prog_step_within(1) [OF assms(4) W_i] prog_step_exec [OF assms(4)]
    by (auto simp: as_alone_def nth_list_update)
qed

lemma as_alone_steps:
  assumes "store_steps api (ps0, db0) x" and "apart (length ps0) R W X"
    and "\<And>i. i < length ps0 \<Longrightarrow> stays_in (R i) (W i) X (ps0 ! i)"
  shows "as_alone R W X (ps0, db0) x"
  using assms(1)
proof (induction rule: rtranclp_induct)
  case base
  then show ?case using assms(3) by (simp add: as_alone_def)
next
  case (step x y)
  obtain ps db where x: "x = (ps, db)" by fastforce
  have "apart (length ps) R W X" using step.IH assms(2) by (simp add: x as_alone_def)
  with step.hyps(2) step.IH show ?case by (auto simp: x elim!: store_stepE intro: as_alone_step)
qed

text \<open>All complete interleavings have the results and the store in common.\<close>

lemma interleavings_agree:
  assumes "apart (length ps) R W X" and "\<And>i. i < length ps \<Longrightarrow> stays_in (R i) (W i) X (ps ! i)"
    and "store_steps api (ps, db) (map Return xs, db1)" and "store_steps api (ps, db) (map Return ys, db2)"
  shows "xs = ys" and "k \<notin> X \<Longrightarrow> stored db1 k = stored db2 k"
proof -
  note alone = as_alone_steps [OF assms(3,1,2), simplified] as_alone_steps [OF assms(4,1,2), simplified]
  show "xs = ys" using alone by (auto simp: as_alone_def intro!: nth_equalityI)
  show "stored db1 k = stored db2 k" if "k \<notin> X"
  proof (cases "\<exists>i < length ps. k \<in> W i")
    case True
    then obtain i where "i < length ps" "k \<in> W i" by blast
    with alone show ?thesis by (simp add: as_alone_def)
  next
    case False
    with alone that show ?thesis by (simp add: as_alone_def)
  qed
qed

end

section \<open>The footprints of the operations\<close>

text \<open>The keys that an operation may read without writing them, and those that it may write.\<close>

abbreviation keys_under :: "string \<Rightarrow> string set" where
  "keys_under pre \<equiv> {k. prefix (pre @ '':'') k}"

fun reads :: "request \<Rightarrow> string set" where
  "reads (AddDocumentToCentroid c d) = {getCentroidKey c, getDocumentKey d}"
| "reads (RemoveDocumentFromCentroid c d) = {getCentroidKey c, getDocumentKey d}"
| "reads _ = {}"

fun writes :: "request \<Rightarrow> string set" where
  "writes (SaveDocument doc) = {getDocumentKey (pd_id doc), getDocumentMetadataKey (pd_id doc) ''created_time''}"
| "writes (SaveNewDocument doc) = {getDocumentKey (pd_id doc), getDocumentMetadataKey (pd_id doc) ''created_time''}"
| "writes (DeleteDocument d) =
     {getDocumentKey d} \<union> keys_under (getDocumentCentroidsPrefix d) \<union> keys_under (d @ ''__document_metadata'')"
| "writes (CreateNewCentroid c) = {getCentroidKey c}"
| "writes (SaveCentroid c centroid) = {getCentroidKey c}"
| "writes (DeleteCentroid c) =
     {getCentroidKey c} \<union> keys_under (getCentroidDocumentPrefix c) \<union> keys_under (c @ ''__centroid_metadata'')"
| "writes (AddDocumentToCentroid c d) = {getCentroidDocumentKey c d, getDocumentCentroidKey d c}"
| "writes (RemoveDocumentFromCentroid c d) = {getCentroidDocumentKey c d, getDocumentCentroidKey d c}"
| "writes (SetCentroidMetadata c n v) = {getCentroidMetadataKey c n}"

definition independent :: "request \<Rightarrow> request \<Rightarrow> bool" where
  "independent r r' \<longleftrightarrow> writes r \<inter> (reads r' \<union> writes r') = {} \<and> writes r' \<inter> reads r = {}"

lemma stays_in_del: "key \<in> W \<Longrightarrow> (\<And>b. stays_in R W X (p b)) \<Longrightarrow> stays_in R W X (del_prog key p)"
  by (simp add: del_prog_def)

lemma stays_in_delete_each: "fst ` set es \<subseteq> W \<Longrightarrow> stays_in R W X p \<Longrightarrow> stays_in R W X (delete_each_prog es p)"
  by (induction es p rule: delete_each_prog.induct) (auto simp: stays_in_del)

lemma stays_in_delete_prefix:
  assumes "keys_under pre \<subseteq> W" and "stays_in R W X p"
  shows "stays_in R W X (delete_prefix_prog pre p)"
  using assms by (auto simp: delete_prefix_prog_def colon_range_iff_prefix [of pre, simplified] intro!: stays_in_delete_each)

lemma stays_in_request: "stays_in (reads r) (writes r) X (request_prog api r)"
  by (cases r)
    (auto simp: save_document_prog_def save_centroid_prog_def intro!: stays_in_del stays_in_delete_prefix)

lemma independent_sym: "independent r r' \<longleftrightarrow> independent r' r"
  by (auto simp: independent_def)

lemma apart_requests:
  assumes "sorted_wrt independent rs"
  shows "apart (length rs) (\<lambda>i. reads (rs ! i)) (\<lambda>i. writes (rs ! i)) {}"
  unfolding apart_def Int_empty_left
proof (intro allI impI conjI refl)
  fix i j
  assume "i < length rs" and "j < length rs" and "i \<noteq> j"
  with assms have "independent (rs ! i) (rs ! j)"
    by (metis independent_sym linorder_neqE_nat sorted_wrt_nth_less)
  then show "writes (rs ! i) \<inter> (reads (rs ! j) \<union> writes (rs ! j)) = {}" by (simp add: independent_def)
qed

text \<open>The additions of \<open>addDocumentsToCentroid\<close>, which it starts at once, are independent.\<close>

lemma additions_independent:
  "plain c \<Longrightarrow> list_all plain ds \<Longrightarrow> distinct ds \<Longrightarrow> sorted_wrt independent (map (AddDocumentToCentroid c) ds)"
proof (induction ds)
  case (Cons d ds)
  then have "plain d" by simp
  moreover have "independent (AddDocumentToCentroid c d) (AddDocumentToCentroid c e)" if "e \<in> set ds" for e
    using that Cons.prems calculation by (auto simp: independent_def key_eqs list_all_iff)
  ultimately show ?case using Cons by auto
qed simp

lemma documents_independent:
  assumes "plain (pd_id doc)" and "plain d" and "pd_id doc \<noteq> d"
  shows "independent (SaveNewDocument doc) (DeleteDocument d)"
  using assms by (auto simp: independent_def key_eqs getDocumentCentroidsPrefix_def)


section \<open>Values that are put\<close>

text \<open>All that the program puts satisfies \<open>V\<close>.\<close>

primrec puts_in :: "(string \<Rightarrow> string \<Rightarrow> bool) \<Rightarrow> 'a store_prog \<Rightarrow> bool" where
  "puts_in V (Return x) \<longleftrightarrow> True"
| "puts_in V (DbExists key f) \<longleftrightarrow> (\<forall>b. puts_in V (f b))"
| "puts_in V (DbPut key val p) \<longleftrightarrow> V key val \<and> puts_in V p"
| "puts_in V (DbDelete key p) \<longleftrightarrow> puts_in V p"
| "puts_in V (DbScan start end f) \<longleftrightarrow> (\<forall>es. puts_in V (f es))"

lemma puts_in_delete_each: "puts_in V (delete_each_prog es p) \<longleftrightarrow> puts_in V p"
  by (induction es p rule: delete_each_prog.induct) (auto simp: del_prog_def)

lemma puts_in_delete_prefix: "puts_in V (delete_prefix_prog pre p) \<longleftrightarrow> puts_in V p"
  by (simp add: delete_prefix_prog_def puts_in_delete_each)

lemmas prog_defs = del_prog_def save_document_prog_def save_centroid_prog_def puts_in_delete_prefix

text \<open>What an operation may put under a key of a document or of a centroid.\<close>

fun saves :: "('db, 'z) env_scheme \<Rightarrow> request \<Rightarrow> string \<Rightarrow> string \<Rightarrow> bool" where
  "saves api (SaveDocument doc) k v \<longleftrightarrow> k = getDocumentKey (pd_id doc) \<and> v = binarySerialize_document api doc"
| "saves api (SaveNewDocument doc) k v \<longleftrightarrow> k = getDocumentKey (pd_id doc) \<and> v = binarySerialize_document api doc"
| "saves api (CreateNewCentroid c) k v \<longleftrightarrow> k = getCentroidKey c \<and> v = binarySerialize_centroid api (new_Centroid c)"
| "saves api (SaveCentroid c centroid) k v \<longleftrightarrow> k = getCentroidKey c \<and> v = binarySerialize_centroid api centroid"
| "saves api _ k v \<longleftrightarrow> False"

lemma puts_in_request:
  assumes "plain_request r" and "\<And>k v. saves api r k v \<Longrightarrow> V k v"
    and "\<And>k v. (\<And>i. k \<noteq> getDocumentKey i) \<Longrightarrow> (\<And>i. k \<noteq> getCentroidKey i) \<Longrightarrow> V k v"
  shows "puts_in V (request_prog api r)"
  using assms by (cases r) (auto simp: prog_defs key_eqs)

context rocksdb_contract
begin

lemma puts_step:
  assumes "prog_step api p db = Some (p', db')" and "puts_in V p"
  shows "puts_in V p'" and "stored db' k = Some v \<Longrightarrow> stored db k = Some v \<or> V k v"
  using assms by (cases p; auto simp: prog_step_def stored_put stored_delete split: if_splits)+

lemma puts_steps:
  assumes "store_steps api (ps0, db0) (ps, db)" and "\<And>p. p \<in> set ps0 \<Longrightarrow> puts_in V p"
  shows "(\<forall>p \<in> set ps. puts_in V p) \<and> (\<forall>k v. stored db k = Some v \<longrightarrow> stored db0 k = Some v \<or> V k v)"
  using assms
proof (induction "(ps, db)" arbitrary: ps db rule: rtranclp_induct)
  case (step y)
  obtain ps' db' where y: "y = (ps', db')" by fastforce
  with step.hyps(2) obtain i p'' where i: "i < length ps'" and ps: "ps = ps'[i := p'']"
    and call: "prog_step api (ps' ! i) db' = Some (p'', db)"
    by (auto elim: store_stepE)
  note IH = step.hyps(3) [OF y step.prems, simplified]
  from IH i have "puts_in V (ps' ! i)" by simp
  note now = puts_step [OF call this]
  have "puts_in V p" if "p \<in> set ps" for p
    using that IH now(1) set_update_subset_insert [of ps' i p''] unfolding ps by blast
  moreover have "stored db0 k = Some v \<or> V k v" if "stored db k = Some v" for k v
    using now(2) [OF that] IH by blast
  ultimately show ?case by blast
qed simp

end

text \<open>Under the interleavings, what is stored under such a key was there before or is what an operation saves.\<close>


context env_contract
begin

lemma saved_by_a_request:
  assumes "list_all plain_request rs" and "store_steps api (map (request_prog api) rs, db) (ps, db')"
    and "k = getDocumentKey i \<or> k = getCentroidKey i" and "stored db' k = Some v"
  shows "stored db k = Some v \<or> (\<exists>r \<in> set rs. saves api r k v)"
proof -
  define V where "V k v \<longleftrightarrow> (\<exists>i. k = getDocumentKey i \<or> k = getCentroidKey i) \<longrightarrow> (\<exists>r \<in> set rs. saves api r k v)" for k v
  have "puts_in V p" if "p \<in> set (map (request_prog api) rs)" for p
  proof -
    from that obtain r where "r \<in> set rs" and p: "p = request_prog api r" by auto
    then show ?thesis unfolding p using assms(1)
      by (intro puts_in_request) (auto simp: list_all_iff V_def)
  qed
  from puts_steps [OF assms(2) this] assms(4) have "stored db k = Some v \<or> V k v" by simp
  with assms(3) show ?thesis unfolding V_def by blast
qed

end


lemma prog_step_None: "prog_step api p db = None \<longleftrightarrow> (\<exists>x. p = Return x)"
  by (cases p) (auto simp: prog_step_def)

section \<open>Properties\<close>

text \<open>
  C7.  Operations that touch different keys may run at the same time: when the operations are pairwise
  independent (none writes a key that another reads or writes), every complete interleaving of their calls of
  RocksDB gives the answers and the database that running one after the other gives.
\<close>

theorem independent_requests_serialize:
  assumes "env_contract api entries" and "sorted_wrt independent rs"
    and "store_steps api (map (request_prog api) rs, db) (map Return results, db')"
  shows "results = snd (run_requests api db rs) \<and> entries db' = entries (fst (run_requests api db rs))"
proof -
  note laws = env_contract.axioms(1) [OF assms(1)]
  have alone: "store_steps api (map (request_prog api) rs, db)
      (map Return (snd (run_requests api db rs)), fst (run_requests api db rs))"
    using programs_in_order [of api "map (request_prog api) rs" db] by (simp add: exec_all_requests)
  note agree = rocksdb_contract.interleavings_agree [OF laws _ _ assms(3) alone,
      where R = "\<lambda>i. reads (rs ! i)" and W = "\<lambda>i. writes (rs ! i)" and X = "{}", simplified]
  have "results = snd (run_requests api db rs)"
    using agree(1) [OF apart_requests [OF assms(2)] stays_in_request] .
  moreover have "map_of (entries db') = map_of (entries (fst (run_requests api db rs)))"
    using agree(2) [OF apart_requests [OF assms(2)] stays_in_request] by (simp add: fun_eq_iff)
  ultimately show ?thesis
    using sorted_entries_eq [OF rocksdb_contract.entries_sorted [OF laws] rocksdb_contract.entries_sorted [OF laws]] by blast
qed

text \<open>A thread makes its next call, another runs to its end.\<close>

lemma call_exists:
  assumes "i < length ps" and "ps ! i = DbExists key f" and "store_steps api (ps[i := f (rock_exists api db key)], db) x"
  shows "store_steps api (ps, db) x"
  by (rule call_first [OF assms(1) _ assms(3)]) (simp add: assms(2) prog_step_def)

lemma call_put:
  assumes "i < length ps" and "ps ! i = DbPut key val p" and "store_steps api (ps[i := p], fst (rock_put api db key val)) x"
  shows "store_steps api (ps, db) x"
  by (rule call_first [OF assms(1) _ assms(3)]) (simp add: assms(2) prog_step_def)

lemma run_thread:
  assumes "i < length ps" and "store_steps api (ps[i := Return (snd (exec api (ps ! i) db))], fst (exec api (ps ! i) db)) x"
  shows "store_steps api (ps, db) x"
  using thread_completes [OF assms(1) refl] assms(2) by (rule rtranclp_trans)

lemma two_threads_end: "\<exists>x y db'. store_steps api ([p, q], db) ([Return x, Return y], db')"
  by (intro exI, rule run_thread [of 1], simp, rule run_thread [of 0], simp) (simp, rule rtranclp.rtrancl_refl)

lemma answers_of_two:
  "snd (run_requests api db [r, r']) = [snd (run_request api db r), snd (run_request api (fst (run_request api db r)) r')]"
  by (simp add: case_prod_unfold Let_def)

text \<open>
  C20.  Two requests that create a document with the same, so far unused identifier (without a colon) at the
  same time can both succeed: both look for the document before either saves it.  The document of the first
  is then lost, although it was answered that it was created; one after the other, the second is refused, in
  either order.
\<close>

theorem racing_creations_both_succeed:
  assumes "env_contract api entries" and "pd_id doc' = pd_id doc" and "plain (pd_id doc)"
    and "\<not> sp_doesDocumentExist api db (pd_id doc)"
  shows "(\<exists>db'. store_steps api (map (request_prog api) [SaveNewDocument doc, SaveNewDocument doc'], db)
        (map Return [Inr True, Inr True], db')
      \<and> rock_get api db' (getDocumentKey (pd_id doc)) = Some (binarySerialize_document api doc'))
    \<and> snd (run_requests api db [SaveNewDocument doc, SaveNewDocument doc']) = [Inr True, Inl EDocumentAlreadyExists]
    \<and> snd (run_requests api db [SaveNewDocument doc', SaveNewDocument doc]) = [Inr True, Inl EDocumentAlreadyExists]"
proof (intro conjI)
  note laws = env_contract.axioms(1) [OF assms(1)]
  note store = rocksdb_contract.rock_get_eq [OF laws] env_contract.store_saveDocument [OF assms(1)]
    env_contract.exists_simps [OF assms(1)] rocksdb_contract.rock_exists_eq [OF laws]
  let ?key = "getDocumentKey (pd_id doc)"
  let ?saved = "fst (sp_saveDocument api (fst (sp_saveDocument api db doc)) doc')"
  have saves: "exec api (save_document_prog api t) s = sp_saveDocument api s t" for t s
    using exec_request [of api "SaveDocument t" s] by simp
  have answers: "snd (sp_saveDocument api s t) = Inr True" for t s by (simp add: sp_saveDocument_def Let_def)
  have absent: "\<not> rock_exists api db ?key" using assms(4) by (simp add: sp_doesDocumentExist_def)
  have "store_steps api (map (request_prog api) [SaveNewDocument doc, SaveNewDocument doc'], db)
      (map Return [Inr True, Inr True], ?saved)"
    apply (rule call_exists [of 0], simp, simp, rule call_exists [of 1], simp, simp)
    apply (rule run_thread [of 0], simp, rule run_thread [of 1], simp)
    apply (simp add: absent assms(2) saves answers)
    done
  moreover have "rock_get api ?saved ?key = Some (binarySerialize_document api doc')"
    using assms(2,3) by (simp add: store key_eqs)
  ultimately show "\<exists>db'. store_steps api (map (request_prog api) [SaveNewDocument doc, SaveNewDocument doc'], db)
        (map Return [Inr True, Inr True], db')
      \<and> rock_get api db' ?key = Some (binarySerialize_document api doc')" by blast
next
  note known = env_contract.exists_simps [OF assms(1)] env_contract.store_saveDocument [OF assms(1)]
  have answers: "snd (sp_saveDocument api s t) = Inr True" for t s by (simp add: sp_saveDocument_def Let_def)
  show "snd (run_requests api db [SaveNewDocument doc, SaveNewDocument doc']) = [Inr True, Inl EDocumentAlreadyExists]"
    and "snd (run_requests api db [SaveNewDocument doc', SaveNewDocument doc]) = [Inr True, Inl EDocumentAlreadyExists]"
    using assms(2-4) by (simp_all only: answers_of_two run_request.simps) (simp_all add: sp_saveNewDocument_def answers known key_eqs)
qed


text \<open>
  C19.  Let a centroid and a document exist (no colon in their identifiers), and the document be in no
  centroid.  Its addition to the centroid and its removal can both succeed and leave the two indices at
  odds: when the removal runs between the two writes of the addition, the centroid does not have the
  document and the document counts as being in a centroid, so that it is never unused.  One after the other,
  in either order, the centroid has the document if and only if the document is in a centroid.
\<close>

theorem racing_add_and_remove_disagree:
  assumes "env_contract api entries" and "plain c" and "plain d"
    and "sp_doesCentroidExist api db c" and "sp_doesDocumentExist api db d"
    and "\<not> rock_exists api db (getCentroidDocumentKey c d)" and "\<not> isDocumentInAnyCentroid api db d"
  shows "(\<exists>db'. store_steps api (map (request_prog api) [AddDocumentToCentroid c d, RemoveDocumentFromCentroid c d], db)
        (map Return [Inr True, Inr True], db')
      \<and> sp_doesCentroidHaveDocument api db' c d = Inr False \<and> isDocumentInAnyCentroid api db' d)
    \<and> (\<forall>rs \<in> {[AddDocumentToCentroid c d, RemoveDocumentFromCentroid c d],
            [RemoveDocumentFromCentroid c d, AddDocumentToCentroid c d]}.
         let db' = fst (run_requests api db rs) in
           sp_doesCentroidHaveDocument api db' c d = Inr (isDocumentInAnyCentroid api db' d))"
proof (intro conjI)
  note laws = env_contract.axioms(1) [OF assms(1)]
  note store = rocksdb_contract.rock_exists_eq [OF laws] env_contract.store_put [OF assms(1)] env_contract.store_del [OF assms(1)]
    env_contract.exists_simps [OF assms(1)] rocksdb_contract.rock_del_result [OF laws]
  note any = env_contract.isDocumentInAnyCentroid_iff [OF assms(1)]
  let ?m = "getCentroidDocumentKey c d" and ?b = "getDocumentCentroidKey d c"
  let ?added = "fst (rock_put api db ?m ''1'')"
  let ?removed = "fst (sp_removeDocumentFromCentroid api ?added c d)"
  have found: "rock_exists api db (getCentroidKey c)" "rock_exists api db (getDocumentKey d)" "\<not> rock_exists api db ?m"
    using assms by (simp_all add: sp_doesCentroidExist_def sp_doesDocumentExist_def)
  have removal: "exec api (request_prog api (RemoveDocumentFromCentroid c d)) s = sp_removeDocumentFromCentroid api s c d" for s
    using exec_request [of api "RemoveDocumentFromCentroid c d" s] by simp
  have answer: "snd (sp_removeDocumentFromCentroid api ?added c d) = Inr True"
    using assms(2-5) by (simp add: sp_removeDocumentFromCentroid_def Let_def case_prod_unfold store key_eqs)
  let ?db = "fst (rock_put api ?removed ?b ''1'')"
  have "store_steps api (map (request_prog api) [AddDocumentToCentroid c d, RemoveDocumentFromCentroid c d], db)
      (map Return [Inr True, Inr True], ?db)"
    apply (rule call_exists [of 0], simp, simp, simp only: found, rule call_exists [of 0], simp, simp)
    apply (simp only: found, rule call_exists [of 0], simp, simp, simp only: found, rule call_put [of 0], simp, simp)
    apply (rule run_thread [of 1], simp, rule run_thread [of 0], simp)
    apply (simp add: removal answer del: request_prog.simps)
    done
  moreover have "sp_doesCentroidHaveDocument api ?db c d = Inr False"
    using assms(2-5) by (simp add: sp_doesCentroidHaveDocument_def sp_removeDocumentFromCentroid_def Let_def
        case_prod_unfold store key_eqs)
  moreover have "isDocumentInAnyCentroid api ?db d" by (auto simp: any store)
  ultimately show "\<exists>db'. store_steps api (map (request_prog api) [AddDocumentToCentroid c d, RemoveDocumentFromCentroid c d], db)
        (map Return [Inr True, Inr True], db')
      \<and> sp_doesCentroidHaveDocument api db' c d = Inr False \<and> isDocumentInAnyCentroid api db' d" by blast
  show "\<forall>rs \<in> {[AddDocumentToCentroid c d, RemoveDocumentFromCentroid c d],
            [RemoveDocumentFromCentroid c d, AddDocumentToCentroid c d]}.
         let db' = fst (run_requests api db rs) in
           sp_doesCentroidHaveDocument api db' c d = Inr (isDocumentInAnyCentroid api db' d)"
    using assms(2-7) by (auto simp: any store key_eqs Let_def case_prod_unfold sp_doesCentroidHaveDocument_def
        sp_addDocumentToCentroid_def sp_removeDocumentFromCentroid_def)
qed


lemma saves_cases:
  "saves api r (getDocumentKey d) v \<longleftrightarrow>
     (\<exists>doc. (r = SaveDocument doc \<or> r = SaveNewDocument doc) \<and> pd_id doc = d \<and> v = binarySerialize_document api doc)"
  "saves api r (getCentroidKey c) v \<longleftrightarrow>
     (r = CreateNewCentroid c \<and> v = binarySerialize_centroid api (new_Centroid c)
      \<or> (\<exists>centroid. r = SaveCentroid c centroid \<and> v = binarySerialize_centroid api centroid))"
  by (cases r; auto)+

lemma loads_by_value:
  "sp_loadDocument api db d \<noteq> None \<longleftrightarrow>
     (\<forall>v. rock_get api db (getDocumentKey d) = Some v \<longrightarrow> thrift_de_doc api v \<noteq> None)"
  "sp_loadCentroid api db c \<noteq> None \<longleftrightarrow>
     (\<forall>v. rock_get api db (getCentroidKey c) = Some v \<longrightarrow> thrift_de_centroid api v \<noteq> None)"
  by (auto simp: sp_loadDocument_def sp_loadCentroid_def binaryDeserialize_document_def binaryDeserialize_centroid_def
      split: option.splits)

text \<open>
  C17.  For operations on identifiers without colons, whatever their interleaving and at every point of it,
  the values of documents and centroids are whole: a document that is stored was stored before or is one
  that an operation saves, in full, under its own identifier, and when all loads succeed in the beginning,
  no load throws.  (An addition to a centroid \<open>documents:a\<close> does put a value of its own under
  the key of a document.)
\<close>

theorem interleaved_requests_keep_values_whole:
  assumes "typed_contract api entries" and "list_all plain_request rs"
    and "store_steps api (map (request_prog api) rs, db) (ps, db')"
    and "\<forall>i. sp_loadDocument api db i \<noteq> None \<and> sp_loadCentroid api db i \<noteq> None"
  shows "(\<forall>v. rock_get api db' (getDocumentKey d) = Some v \<longrightarrow> rock_get api db (getDocumentKey d) = Some v
       \<or> (\<exists>doc. (SaveDocument doc \<in> set rs \<or> SaveNewDocument doc \<in> set rs) \<and> pd_id doc = d
            \<and> v = binarySerialize_document api doc))
     \<and> sp_loadDocument api db' d \<noteq> None \<and> sp_loadCentroid api db' c \<noteq> None"
proof -
  note laws = typed_contract.axioms(1) [OF assms(1)]
  note get = rocksdb_contract.rock_get_eq [OF env_contract.axioms(1) [OF laws]]
  note saved = env_contract.saved_by_a_request [OF laws assms(2,3), folded get]
  note start = assms(4) [unfolded loads_by_value]
  have document: "rock_get api db (getDocumentKey d) = Some v
      \<or> (\<exists>doc. (SaveDocument doc \<in> set rs \<or> SaveNewDocument doc \<in> set rs) \<and> pd_id doc = d \<and> v = binarySerialize_document api doc)"
    if "rock_get api db' (getDocumentKey d) = Some v" for v
    using saved [OF disjI1 [OF refl] that] unfolding saves_cases by blast
  moreover have "thrift_de_doc api v \<noteq> None" if "rock_get api db' (getDocumentKey d) = Some v" for v
    using document [OF that] start typed_contract.doc_decodes [OF assms(1)] by (auto simp: binarySerialize_document_def)
  moreover have "thrift_de_centroid api v \<noteq> None" if "rock_get api db' (getCentroidKey c) = Some v" for v
    using saved [OF disjI2 [OF refl] that] start typed_contract.centroid_decodes [OF assms(1)]
    by (auto simp: saves_cases binarySerialize_centroid_def)
  ultimately show ?thesis unfolding loads_by_value by blast
qed


section \<open>Witnesses\<close>

text \<open>A database with a centroid and two documents.\<close>

definition small_store :: memory where
  "small_store = fst (run_requests log_env [] [CreateNewCentroid ''c'', SaveNewDocument (sample_document ''d''),
     SaveNewDocument (sample_document ''e'')])"

lemma small_store_keys:
  "sp_doesCentroidExist log_env small_store ''c''" "sp_doesDocumentExist log_env small_store ''d''"
  "\<not> rock_exists log_env small_store (getCentroidDocumentKey ''c'' ''d'')"
  "\<not> isDocumentInAnyCentroid log_env small_store ''d''"
proof -
  have plain: "plain ''c''" "plain ''d''" "plain ''e''" by (simp_all add: plain_def)
  note eqs = log_catalog.exists_simps log_catalog.store_saveDocument log_catalog.store_saveCentroid log_catalog.rock_exists_eq
    log_catalog.isDocumentInAnyCentroid_iff
  have store: "map_of (log_entries small_store) = map_of (log_entries
      (fst (sp_saveDocument log_env (fst (sp_saveDocument log_env (fst (sp_saveCentroid log_env [] ''c'' (new_Centroid ''c'')))
        (sample_document ''d''))) (sample_document ''e''))))"
    using plain by (simp add: small_store_def case_prod_unfold Let_def sp_saveNewDocument_def sp_createNewCentroid_def
        eqs key_eqs sample_document_def)
  show "sp_doesCentroidExist log_env small_store ''c''" "sp_doesDocumentExist log_env small_store ''d''"
    "\<not> rock_exists log_env small_store (getCentroidDocumentKey ''c'' ''d'')"
    "\<not> isDocumentInAnyCentroid log_env small_store ''d''"
    using plain by (simp_all add: eqs store key_eqs sample_document_def)
qed

theorem racing_add_and_remove_disagree_witness:
  "\<exists>db'. store_steps log_env (map (request_prog log_env) [AddDocumentToCentroid ''c'' ''d'', RemoveDocumentFromCentroid ''c'' ''d''],
        small_store) (map Return [Inr True, Inr True], db')
      \<and> sp_doesCentroidHaveDocument log_env db' ''c'' ''d'' = Inr False \<and> isDocumentInAnyCentroid log_env db' ''d''"
  using racing_add_and_remove_disagree [OF log_catalog.env_contract_axioms _ _ small_store_keys]
  by (simp only: plain_def) simp

theorem racing_creations_both_succeed_witness:
  "\<exists>db'. store_steps log_env (map (request_prog log_env) [SaveNewDocument (sample_document ''d''),
        SaveNewDocument (sample_document ''d'' \<lparr>pd_created := 5\<rparr>)], []) (map Return [Inr True, Inr True], db')
      \<and> rock_get log_env db' (getDocumentKey ''d'')
        = Some (binarySerialize_document log_env (sample_document ''d'' \<lparr>pd_created := 5\<rparr>))"
  using racing_creations_both_succeed [OF log_catalog.env_contract_axioms,
      of "sample_document ''d'' \<lparr>pd_created := 5\<rparr>" "sample_document ''d''" "[]"]
  by (simp add: log_catalog.exists_simps sample_document_def del: request_prog.simps)


text \<open>The second addition runs before the first.\<close>

theorem independent_requests_serialize_witness:
  "\<exists>x y db'. store_steps log_env (map (request_prog log_env) [AddDocumentToCentroid ''c'' ''d'', AddDocumentToCentroid ''c'' ''e''],
        small_store) (map Return [x, y], db')
      \<and> [x, y] = snd (run_requests log_env small_store [AddDocumentToCentroid ''c'' ''d'', AddDocumentToCentroid ''c'' ''e''])
      \<and> log_entries db' = log_entries (fst (run_requests log_env small_store
          [AddDocumentToCentroid ''c'' ''d'', AddDocumentToCentroid ''c'' ''e'']))"
proof -
  let ?rs = "[AddDocumentToCentroid ''c'' ''d'', AddDocumentToCentroid ''c'' ''e'']"
  have "\<exists>x y db'. store_steps log_env (map (request_prog log_env) ?rs, small_store) (map Return [x, y], db')"
    using two_threads_end [of log_env "request_prog log_env (AddDocumentToCentroid ''c'' ''d'')"] by simp
  then obtain x y db' where steps:
    "store_steps log_env (map (request_prog log_env) ?rs, small_store) (map Return [x, y], db')" by blast
  have "sorted_wrt independent ?rs"
    using additions_independent [of "''c''" "[''d'', ''e'']"] by (simp add: plain_def)
  from independent_requests_serialize [OF log_catalog.env_contract_axioms this steps] steps show ?thesis by blast
qed

theorem interleaved_requests_keep_values_whole_witness:
  "let doc = sample_document ''d'' in
     \<exists>ps db'. store_steps log_env (map (request_prog log_env) [SaveDocument doc, DeleteDocument ''d''], []) (ps, db')
       \<and> rock_get log_env db' (getDocumentKey ''d'') = Some (binarySerialize_document log_env doc)
       \<and> sp_loadDocument log_env db' ''d'' \<noteq> None"
proof -
  let ?doc = "sample_document ''d''" and ?db = "fst (rock_put log_env [] (getDocumentKey ''d'') (binarySerialize_document log_env (sample_document ''d'')))"
  let ?ps = "map (request_prog log_env) [SaveDocument ?doc, DeleteDocument ''d'']"
  have call: "prog_step log_env (?ps ! 0) []
      = Some (DbPut (getDocumentMetadataKey ''d'' ''created_time'') (i64_to_string log_env 0) (Return (Inr True)), ?db)"
    by (simp add: prog_step_def save_document_prog_def sample_document_def)
  obtain ps where step: "store_steps log_env (?ps, []) (ps, ?db)"
    using r_into_rtranclp [of "store_step log_env", OF store_step.call [OF _ call]] by auto
  have "list_all plain_request [SaveDocument ?doc, DeleteDocument ''d'']" by (simp add: sample_document_def plain_def)
  moreover have "\<forall>i. sp_loadDocument log_env [] i \<noteq> None \<and> sp_loadCentroid log_env [] i \<noteq> None"
    by (simp only: loads_by_value log_catalog.rock_get_eq) simp
  ultimately have "sp_loadDocument log_env ?db ''d'' \<noteq> None"
    using interleaved_requests_keep_values_whole [OF log_typed.typed_contract_axioms _ step, of "''d''"] by blast
  moreover have "rock_get log_env ?db (getDocumentKey ''d'') = Some (binarySerialize_document log_env ?doc)"
    by (simp add: log_catalog.rock_get_eq log_catalog.store_put)
  ultimately show ?thesis using step unfolding Let_def by blast
qed

end
