(* ===== verification/ServerRace.thy ===== *)
theory ServerRace
  imports StoreRace Server
begin

text \<open>
  \<open>RelevanceServer::addDocumentsToCentroid\<close> starts all its additions at once: the pool of \<open>Persistence\<close> runs them
  at the same time, call by call of RocksDB, and the timestamps of the change are written without waiting.
  \<open>Server\<close> runs the additions one after the other; here both are shown to agree.
\<close>

section \<open>Programs in sequence\<close>

primrec prog_bind :: "'a store_prog \<Rightarrow> ('a \<Rightarrow> 'b store_prog) \<Rightarrow> 'b store_prog" where
  "prog_bind (Return x) g = g x"
| "prog_bind (DbExists key f) g = DbExists key (\<lambda>b. prog_bind (f b) g)"
| "prog_bind (DbPut key val p) g = DbPut key val (prog_bind p g)"
| "prog_bind (DbDelete key p) g = DbDelete key (prog_bind p g)"
| "prog_bind (DbScan start end f) g = DbScan start end (\<lambda>es. prog_bind (f es) g)"

lemma exec_bind: "exec api (prog_bind p g) db = (let (db', x) = exec api p db in exec api (g x) db')"
  by (induction p arbitrary: db) simp_all

lemma stays_in_bind: "stays_in R W X p \<Longrightarrow> (\<And>x. stays_in R W X (g x)) \<Longrightarrow> stays_in R W X (prog_bind p g)"
  by (induction p) auto

section \<open>The tasks of \<open>addDocumentsToCentroid\<close>\<close>

text \<open>
  The continuation of an addition.  The write of the timestamp is a task of its own that nothing waits for; as
  the last call of the thread it can come at any later time.
\<close>

definition note_change_prog ::
  "('db, 'z) env_scheme \<Rightarrow> string \<Rightarrow> 64 word \<Rightarrow> bool Try \<Rightarrow> bool Try store_prog" where
  "note_change_prog api c now result =
     (if hasException result then Return result
      else prog_bind (request_prog api (SetCentroidMetadata c ''lastDocumentChange'' (u64_to_string api now)))
        (\<lambda>_. Return result))"

definition add_one_prog :: "('db, 'z) env_scheme \<Rightarrow> string \<Rightarrow> string \<times> 64 word \<Rightarrow> bool Try store_prog" where
  "add_one_prog api c task =
     prog_bind (request_prog api (AddDocumentToCentroid c (fst task))) (note_change_prog api c (snd task))"

text \<open>The keys of the timestamps are written blindly: no addition reads them.\<close>

abbreviation stamp_keys :: "string \<Rightarrow> string set" where
  "stamp_keys c \<equiv> {getCentroidMetadataKey c ''lastDocumentChange''}"

lemma stays_in_add_one:
  "stays_in (reads (AddDocumentToCentroid c (fst t))) (writes (AddDocumentToCentroid c (fst t))) (stamp_keys c)
     (add_one_prog api c t)"
  unfolding add_one_prog_def
  by (rule stays_in_bind [OF stays_in_request]) (simp add: note_change_prog_def)

lemma apart_additions:
  assumes "plain c" and "list_all plain (map fst ts)" and "distinct (map fst ts)"
  shows "apart (length ts) (\<lambda>i. reads (AddDocumentToCentroid c (fst (ts ! i))))
    (\<lambda>i. writes (AddDocumentToCentroid c (fst (ts ! i)))) (stamp_keys c)"
proof -
  have plain: "plain (fst (ts ! i))" if "i < length ts" for i
    using assms(2) that by (simp add: list_all_length)
  have other: "fst (ts ! i) \<noteq> fst (ts ! j)" if "i < length ts" "j < length ts" "i \<noteq> j" for i j
    using assms(3) that nth_eq_iff_index_eq [of "map fst ts" i j] by simp
  show ?thesis using assms(1) plain other by (auto simp: apart_def key_eqs)
qed

context env_contract
begin

lemma exec_add_one:
  assumes "plain c" and "plain (fst t)"
  shows "(catalog_at (fst (exec api (add_one_prog api c t) db)), snd (exec api (add_one_prog api c t) db))
    = cat_request (catalog_at db) (AddDocumentToCentroid c (fst t))"
proof -
  let ?r = "AddDocumentToCentroid c (fst t)"
  have stamp: "catalog_at (fst (exec api (note_change_prog api c now x) s)) = catalog_at s \<and> snd (exec api (note_change_prog api c now x) s) = x"
    for now x s
    using simulate_setCentroidMetadata [OF assms(1), of s "''lastDocumentChange''" "u64_to_string api now"]
    by (simp add: note_change_prog_def sp_setCentroidMetadata_def)
  have "exec api (add_one_prog api c t) db
      = exec api (note_change_prog api c (snd t) (snd (run_request api db ?r))) (fst (run_request api db ?r))"
    by (simp only: add_one_prog_def exec_bind exec_request case_prod_unfold Let_def)
  then show ?thesis using stamp simulate_request [of ?r db] assms by simp
qed

lemma exec_additions:
  assumes "plain c" and "list_all plain (map fst ts)"
  shows "(catalog_at (fst (exec_all api (map (add_one_prog api c) ts) db)), snd (exec_all api (map (add_one_prog api c) ts) db))
    = cat_requests (catalog_at db) (map (AddDocumentToCentroid c) (map fst ts))"
  using assms(2)
proof (induction ts arbitrary: db)
  case (Cons t ts)
  then have "plain (fst t)" "list_all plain (map fst ts)" by simp_all
  note one = exec_add_one [OF assms(1) this(1), of db, symmetric]
  show ?case
    using Cons.IH [OF \<open>list_all plain (map fst ts)\<close>, of "fst (exec api (add_one_prog api c t) db)"]
    by (simp add: one case_prod_unfold Let_def prod_eq_iff del: cat_request.simps)
qed simp

text \<open>The keys of the timestamps do not count in the catalog.\<close>

lemma catalog_off_stamps:
  assumes "plain c" and "\<And>k. k \<notin> stamp_keys c \<Longrightarrow> m k = m' k"
  shows "catalog_of m = catalog_of m'"
proof -
  have "m (getDocumentKey i) = m' (getDocumentKey i)" "m (getCentroidKey i) = m' (getCentroidKey i)"
    "plain i \<Longrightarrow> m (getCentroidDocumentKey i j) = m' (getCentroidDocumentKey i j)"
    "plain i \<Longrightarrow> m (getDocumentCentroidKey i j) = m' (getDocumentCentroidKey i j)" for i j
    using assms(1) by (auto intro!: assms(2) simp: key_eqs)
  then show ?thesis by (auto simp: catalog_of_def)
qed

end

lemma interleaved_additions:
  assumes "env_contract api entries" and "plain c" and "list_all plain (map fst ts)" and "distinct (map fst ts)"
    and "store_steps api (map (add_one_prog api c) ts, db) (map Return results, db')"
  shows "(catalog_of (map_of (entries db')), results)
    = cat_requests (catalog_of (map_of (entries db))) (map (AddDocumentToCentroid c) (map fst ts))"
proof -
  note agree = rocksdb_contract.interleavings_agree [OF env_contract.axioms(1) [OF assms(1)] _ _ assms(5) programs_in_order,
      OF apart_additions [OF assms(2-4), folded length_map [of "add_one_prog api c" ts]]]
  have fp: "stays_in (reads (AddDocumentToCentroid c (fst (ts ! i)))) (writes (AddDocumentToCentroid c (fst (ts ! i))))
      (stamp_keys c) (map (add_one_prog api c) ts ! i)" if "i < length (map (add_one_prog api c) ts)" for i
    using that stays_in_add_one by simp
  show ?thesis
    using agree(1) [OF fp] env_contract.catalog_off_stamps [OF assms(1,2) agree(2) [OF fp]]
      env_contract.exec_additions [OF assms(1-3), of db]
    by simp
qed


section \<open>Property\<close>

text \<open>
  C12.  The tasks of \<open>addDocumentsToCentroid\<close> for distinct documents may run at the same time
  (no identifier has a colon).  Whatever the order in which the pool makes their calls of RocksDB, when all
  are done the answer, collected in the order of the request, and the documents, centroids and memberships
  in the database are those of the additions one after the other; only the timestamp of the change depends
  on the order.  An error does not stop the others: the answer is the first error that the flags do not
  hide, otherwise it says for each document whether it was added.
\<close>

theorem parallel_additions_serialize:
  assumes "env_contract (cf_api cf) entries" and "plain (ar_centroidId request)"
    and "list_all plain (ar_documentIds request)" and "distinct (ar_documentIds request)"
    and "length nows = length (ar_documentIds request)"
    and "store_steps (cf_api cf) (map (add_one_prog (cf_api cf) (ar_centroidId request)) (zip (ar_documentIds request) nows), w_db w)
      (map Return results, db')"
  shows "let visible = map (\<lambda>r. ignoring (ar_ignoreAlreadyInCentroid request) EDocumentAlreadyInCentroid
                (ignoring (ar_ignoreMissingDocument request) EDocumentDoesNotExist r)) results;
             (answer, w') = run_state (srv_addDocumentsToCentroid cf request) w
    in answer = Ready (map_sum id (\<lambda>added. \<lparr>as_centroidId = ar_centroidId request,
          as_documentIds = ar_documentIds request, as_added = added\<rparr>) (successes visible))
      \<and> cat_requests (catalog_of (map_of (entries (w_db w)))) (map (AddDocumentToCentroid (ar_centroidId request))
          (ar_documentIds request)) = (catalog_of (map_of (entries db')), results)
      \<and> catalog_of (map_of (entries (w_db w'))) = catalog_of (map_of (entries db'))
      \<and> w_triggered w' = replicate (length (filter (\<lambda>r. \<not> hasException r) results)) (ar_centroidId request) @ w_triggered w"
proof -
  let ?ids = "ar_documentIds request"
  have ids: "map fst (zip ?ids nows) = ?ids" using assms(5) by simp
  have "cat_requests (catalog_of (map_of (entries (w_db w)))) (map (AddDocumentToCentroid (ar_centroidId request)) ?ids)
      = (catalog_of (map_of (entries db')), results)"
    using interleaved_additions [OF assms(1,2) _ _ assms(6)] assms(3,4) unfolding ids by simp
  with run_addAll [OF assms(1-3), of w "ar_ignoreMissingDocument request" "ar_ignoreAlreadyInCentroid request"]
  show ?thesis by (auto simp: Let_def srv_addDocumentsToCentroid_def)
qed

text \<open>The second addition runs before the first.\<close>

theorem parallel_additions_serialize_witness:
  "\<exists>x y db'. store_steps log_env (map (add_one_prog log_env ''c'') [(''d'', 7), (''x'', 5)], small_store) (map Return [x, y], db')
     \<and> result_of (srv_addDocumentsToCentroid demo_config \<lparr>ar_centroidId = ''c'', ar_documentIds = [''d'', ''x''],
          ar_ignoreMissingDocument = True, ar_ignoreMissingCentroid = False, ar_ignoreAlreadyInCentroid = False\<rparr>)
          (demo_world small_store)
        = Ready (map_sum id (\<lambda>added. \<lparr>as_centroidId = ''c'', as_documentIds = [''d'', ''x''], as_added = added\<rparr>)
            (successes (map (\<lambda>r. ignoring False EDocumentAlreadyInCentroid (ignoring True EDocumentDoesNotExist r)) [x, y])))"
proof -
  let ?ps = "map (add_one_prog log_env ''c'') [(''d'', 7), (''x'', 5)]"
  let ?request = "\<lparr>ar_centroidId = ''c'', ar_documentIds = [''d'', ''x''], ar_ignoreMissingDocument = True,
    ar_ignoreMissingCentroid = False, ar_ignoreAlreadyInCentroid = False\<rparr>"
  have "\<exists>x y db'. store_steps log_env (?ps, small_store) (map Return [x, y], db')"
    using two_threads_end [of log_env "add_one_prog log_env ''c'' (''d'', 7)"] by simp
  then obtain x y db' where steps: "store_steps log_env (?ps, small_store) (map Return [x, y], db')" by blast
  have "let visible = map (\<lambda>r. ignoring False EDocumentAlreadyInCentroid (ignoring True EDocumentDoesNotExist r)) [x, y];
             (answer, w') = run_state (srv_addDocumentsToCentroid demo_config ?request) (demo_world small_store)
    in answer = Ready (map_sum id (\<lambda>added. \<lparr>as_centroidId = ''c'', as_documentIds = [''d'', ''x''], as_added = added\<rparr>)
          (successes visible))"
    using parallel_additions_serialize [of demo_config log_entries ?request "[7, 5]" "demo_world small_store" "[x, y]" db']
      steps log_catalog.env_contract_axioms
    by (simp add: demo_config_def demo_world_def plain_def Let_def case_prod_unfold)
  with steps show ?thesis by (auto simp: Let_def case_prod_unfold)
qed

end
