(* ===== verification/RockLifecycle.thy ===== *)
theory RockLifecycle
  imports StoreRace
begin

text \<open>
  The life of a \<open>RockHandle\<close>: its pointer to the database is null while the database is closed.  Erasing the
  data closes and opens the database under the feet of the other threads.
\<close>

section \<open>The handle\<close>

text \<open>What lies in the directory \<open>dbPath_\<close>, and whether \<open>db_\<close> holds a database.\<close>

record 'db handle =
  h_dir :: 'db
  h_open :: bool

definition handle_closeDb :: "'db handle \<Rightarrow> 'db handle" where
  "handle_closeDb h = h\<lparr>h_open := False\<rparr>"

text \<open>The \<open>CHECK\<close>s abort the process: \<open>None\<close>.\<close>

definition handle_openDb :: "('db, 'z) rocksdb_scheme \<Rightarrow> 'db handle \<Rightarrow> 'db handle option" where
  "handle_openDb api h =
     (if h_open h then None
      else map_option (\<lambda>db. h\<lparr>h_dir := db, h_open := True\<rparr>) (rock_openDb api (h_dir h)))"

definition new_RockHandle :: "('db, 'z) rocksdb_scheme \<Rightarrow> 'db \<Rightarrow> 'db handle option" where
  "new_RockHandle api dir = handle_openDb api \<lparr>h_dir = dir, h_open = False\<rparr>"

definition handle_eraseEverything :: "('db, 'z) rocksdb_scheme \<Rightarrow> 'db handle \<Rightarrow> ('db handle \<times> bool) option" where
  "handle_eraseEverything api h =
     (let h = handle_closeDb h;
          (dir, status) = db_Destroy api (h_dir h)
      in map_option (\<lambda>h'. (h', status_ok status)) (handle_openDb api (h\<lparr>h_dir := dir\<rparr>)))"

text \<open>Seen from outside, the pointer is never null: an open handle erases as \<open>rock_eraseEverything\<close> does.\<close>

lemma handle_erase_eq:
  "handle_eraseEverything api h =
     map_option (\<lambda>(db, ok). (h\<lparr>h_dir := db, h_open := True\<rparr>, ok)) (rock_eraseEverything api (h_dir h))"
  by (simp add: handle_eraseEverything_def handle_closeDb_def handle_openDb_def rock_eraseEverything_def
      case_prod_unfold Let_def map_option_case split: option.split)

lemma open_twice_aborts: "new_RockHandle api dir = Some h \<Longrightarrow> handle_openDb api h = None"
  by (auto simp: new_RockHandle_def handle_openDb_def split: if_splits)

section \<open>Erasing beside a request\<close>

datatype erase_phase = EraseStart | EraseClosed | EraseDestroyed | EraseDone

fun erase_call :: "('db, 'z) rocksdb_scheme \<Rightarrow> erase_phase \<Rightarrow> 'db handle \<Rightarrow> (erase_phase \<times> 'db handle option) option" where
  "erase_call api EraseStart h = Some (EraseClosed, Some (handle_closeDb h))"
| "erase_call api EraseClosed h = Some (EraseDestroyed, Some (h\<lparr>h_dir := fst (db_Destroy api (h_dir h))\<rparr>))"
| "erase_call api EraseDestroyed h = Some (EraseDone, handle_openDb api h)"
| "erase_call api EraseDone h = None"

text \<open>A call through the null pointer ends the process: \<open>None\<close>.\<close>

inductive beside_step ::
  "('db, 'z) rocksdb_scheme \<Rightarrow> erase_phase \<times> 'a store_prog \<times> 'db handle option
     \<Rightarrow> erase_phase \<times> 'a store_prog \<times> 'db handle option \<Rightarrow> bool" for api where
  erase: "erase_call api ph h = Some (ph', h') \<Longrightarrow> beside_step api (ph, p, Some h) (ph', p, h')"
| request: "h_open h \<Longrightarrow> prog_step api p (h_dir h) = Some (p', db') \<Longrightarrow>
     beside_step api (ph, p, Some h) (ph, p', Some (h\<lparr>h_dir := db'\<rparr>))"
| null: "\<not> h_open h \<Longrightarrow> prog_step api p (h_dir h) \<noteq> None \<Longrightarrow> beside_step api (ph, p, Some h) (ph, p, None)"

lemma request_calls: "prog_step api (request_prog api r) db \<noteq> None"
  by (cases r) (simp_all add: prog_step_None prog_defs)

text \<open>
  With nothing beside it, erasing leaves an open, empty database.  Any request that is beside it can end the
  process: its first call finds the null pointer.
\<close>

theorem erase_beside_requests:
  assumes "rocksdb_contract api entries"
  shows "(\<exists>h. (beside_step api)\<^sup>*\<^sup>* (EraseStart, p, Some \<lparr>h_dir = db, h_open = True\<rparr>) (EraseDone, p, Some h)
       \<and> h_open h \<and> entries (h_dir h) = [])
    \<and> (beside_step api)\<^sup>*\<^sup>* (EraseStart, request_prog api r, Some \<lparr>h_dir = db, h_open = True\<rparr>)
        (EraseClosed, request_prog api r, None)"
proof
  let ?h = "\<lparr>h_dir = db, h_open = True\<rparr>"
  let ?gone = "fst (db_Destroy api db)"
  have opened: "rock_openDb api ?gone = Some (fst (db_Open api ?gone))"
    using rocksdb_contract.Open_status [OF assms] by (simp add: rock_openDb_def status_ok_def case_prod_unfold)
  let ?h' = "\<lparr>h_dir = fst (db_Open api ?gone), h_open = True\<rparr>"
  have one: "beside_step api (EraseStart, q, Some ?h) (EraseClosed, q, Some \<lparr>h_dir = db, h_open = False\<rparr>)" for q :: "'q store_prog"
    by (rule beside_step.erase) (simp add: handle_closeDb_def)
  have two: "beside_step api (EraseClosed, q, Some \<lparr>h_dir = db, h_open = False\<rparr>)
      (EraseDestroyed, q, Some \<lparr>h_dir = ?gone, h_open = False\<rparr>)" for q :: "'q store_prog"
    by (rule beside_step.erase) simp
  have three: "beside_step api (EraseDestroyed, q, Some \<lparr>h_dir = ?gone, h_open = False\<rparr>) (EraseDone, q, Some ?h')" for q :: "'q store_prog"
    by (rule beside_step.erase) (simp add: handle_openDb_def opened)
  show "\<exists>h. (beside_step api)\<^sup>*\<^sup>* (EraseStart, p, Some ?h) (EraseDone, p, Some h) \<and> h_open h \<and> entries (h_dir h) = []"
    using converse_rtranclp_into_rtranclp [OF one converse_rtranclp_into_rtranclp [OF two r_into_rtranclp [of "beside_step api", OF three]]]
      rocksdb_contract.Open_entries [OF assms] by (intro exI [of _ ?h']) simp
  have "beside_step api (EraseClosed, request_prog api r, Some \<lparr>h_dir = db, h_open = False\<rparr>) (EraseClosed, request_prog api r, None)"
    by (rule beside_step.null) (simp_all add: request_calls del: request_prog.simps)
  from converse_rtranclp_into_rtranclp [OF one r_into_rtranclp [of "beside_step api", OF this]]
  show "(beside_step api)\<^sup>*\<^sup>* (EraseStart, request_prog api r, Some ?h) (EraseClosed, request_prog api r, None)"
    .
qed

theorem erase_beside_requests_witness:
  "(beside_step log_env)\<^sup>*\<^sup>* (EraseStart, request_prog log_env (CreateNewCentroid ''c''), Some \<lparr>h_dir = [(''k'', ''v'')], h_open = True\<rparr>)
     (EraseClosed, request_prog log_env (CreateNewCentroid ''c''), None)"
  using erase_beside_requests [OF log_catalog.rocksdb_contract_axioms] by blast

end
