(* ===== verification/ColonCentroid.thy ===== *)
theory ColonCentroid
  imports CentroidUpdate
begin

text \<open>
  The paging of \<open>CentroidUpdater::run\<close> for a centroid whose identifier contains a colon.  The identifiers of a
  page are cut out of the keys at the first colon, so that a page does not lead to the next one.
\<close>

section \<open>A page without documents\<close>

context env_contract
begin

lemma missing_document:
  assumes "\<not> sp_doesDocumentExist api db i"
  shows "run_state (load_option api i) db = (Some None, db)"
    and "run_state (p_removeDocumentFromCentroid api c i) db =
      (if sp_doesCentroidExist api db c then Inl EDocumentDoesNotExist else Inl ECentroidDoesNotExist, db)"
  using assms
  by (simp_all add: load_option_def p_loadDocument_def sp_loadDocument_def exists_simps rock_get_eq
      p_removeDocumentFromCentroid_def sp_removeDocumentFromCentroid_def)

lemma load_missing:
  "\<forall>i \<in> set ids. \<not> sp_doesDocumentExist api db i \<Longrightarrow>
   run_state (load_batch api ids) db = (Some (replicate (length ids) None), db)"
  by (induction ids) (simp_all add: missing_document(1))

lemma add_missing:
  "i + n \<le> length ids \<Longrightarrow> \<forall>i \<in> set ids. \<not> sp_doesDocumentExist api db i \<Longrightarrow>
   run_state (add_loaded api rnd c ids i (replicate n None) acc) db = (acc, db)"
  by (induction n arbitrary: i) (simp_all add: missing_document(2))

lemma process_missing:
  assumes "\<forall>i \<in> set ids. \<not> sp_doesDocumentExist api db i"
  shows "run_state (process_page api rnd c ids docNum acc) db = (Some acc, db)"
proof (induction "length ids - docNum" arbitrary: docNum rule: less_induct)
  case less
  show ?case
  proof (cases "docNum < length ids")
    case True
    have batch: "set (batch_ids ids docNum) \<subseteq> set ids" "length (batch_ids ids docNum) \<le> length ids"
      using True by (auto simp: batch_ids_def Let_def)
    then have "run_state (load_batch api (batch_ids ids docNum)) db
        = (Some (replicate (length (batch_ids ids docNum)) None), db)"
      using assms by (intro load_missing) blast
    moreover have "run_state (process_page api rnd c ids (docNum + documentBatchSize) acc) db = (Some acc, db)"
      using True by (intro less) simp
    ultimately show ?thesis
      using True add_missing [of 0 _ ids db, OF _ assms] batch(2) by (simp add: process_page.simps [of _ _ _ _ docNum])
  qed (simp add: process_page.simps)
qed

text \<open>A full page that leads to itself is read for ever.\<close>

lemma page_loop_stuck:
  assumes "sp_listCentroidDocumentRangeFromDocumentIdOption api db c (last page) idListBatchSize = Some page"
    and "idListBatchSize \<le> length page" and "\<forall>i \<in> set page. \<not> sp_doesDocumentExist api db i"
  shows "page_loop api rnd c page acc db = None"
proof -
  let ?P = "\<lambda>a r ce ids ac d (y :: DocumentAccumulator page_result \<times> 'db).
    \<not> (ids = page \<and> d = db \<and> a = api \<and> ce = c)"
  have "?P a r ce ids ac d y" if "page_loop a r ce ids ac d = Some y" for a r ce ids ac d y
  proof (rule page_loop.raw_induct [where P = ?P, OF _ that], rule notI)
    fix loop r ac and a :: "('db, 'z) env_scheme" and ce ids d y
    assume IH: "\<And>a r ce ids ac d y. loop a r ce ids ac d = Some y \<Longrightarrow> ?P a r ce ids ac d y"
      and same: "ids = page \<and> d = db \<and> a = api \<and> ce = c"
      and body: "(let (nextIdSet, d) = run_state (p_listCentroidDocumentRangeFromDocumentIdOption a ce (last ids) idListBatchSize) d;
            (acc', d) = run_state (process_page a r ce ids 0 ac) d
          in case acc' of None \<Rightarrow> Some (Threw, d)
             | Some acc \<Rightarrow> (case nextIdSet of None \<Rightarrow> Some (CentroidGone, d)
                 | Some idSet \<Rightarrow> if idListBatchSize \<le> length idSet then loop a r ce idSet acc d else Some (Finished acc, d))) = Some y"
    from body same assms process_missing [OF assms(3), of r c 0 ac] have "loop a r ce ids ac d = Some y"
      by (simp add: p_listCentroidDocumentRangeFromDocumentIdOption_def)
    from IH [OF this] same show False by blast
  qed
  then show ?thesis by (cases "page_loop api rnd c page acc db") blast+
qed

end
section \<open>The pages of a colon centroid\<close>

text \<open>The memberships of a centroid, in key order.\<close>

definition member_entries :: "(string \<times> string) list \<Rightarrow> string \<Rightarrow> (string \<times> string) list" where
  "member_entries m c = filter (\<lambda>p. prefix (c @ ''__documents:'') (fst p)) m"

context env_contract
begin

lemma colon_key_id:
  assumes "plain a" and "c = a @ CHR '':'' # b" and "prefix (c @ ''__documents:'') k"
  shows "\<exists>x. k = getCentroidDocumentKey c x \<and> key_id k = b @ ''__documents:'' @ x"
proof -
  from assms(3) obtain x where k: "k = c @ ''__documents:'' @ x" by (auto elim: prefixE)
  have "key_id k = b @ ''__documents:'' @ x" using assms(1) by (simp add: k assms(2) key_id_split)
  with k show ?thesis by (auto simp: getCentroidDocumentKey_def)
qed

lemma first_page:
  "listCentroidDocumentRangeFromOffsetRaw api db c 0 n = map (\<lambda>p. key_id (fst p)) (take n (member_entries (entries db) c))"
  by (simp add: listCentroidDocumentRangeFromOffsetRaw_def iterPrefixFromOffset_eq getCentroidDocumentPrefix_def
      visit_collect_id member_entries_def Let_def)

lemma page_from_colon_member:
  assumes "\<And>k. k \<in> fst ` set (member_entries (entries db) c) \<Longrightarrow> c @ ''__documents:'' @ start \<le> k"
  shows "listCentroidDocumentRangeFromDocumentIdRaw api db c start n = listCentroidDocumentRangeFromOffsetRaw api db c 0 n"
proof -
  have "filter (\<lambda>p. prefix (c @ ''__documents:'') (fst p) \<and> c @ ''__documents:'' @ start \<le> fst p) (entries db)
      = member_entries (entries db) c"
    unfolding member_entries_def by (rule filter_cong [OF refl]) (use assms in \<open>auto simp: member_entries_def\<close>)
  then show ?thesis
    by (simp add: first_page listCentroidDocumentRangeFromDocumentIdRaw_def iterPrefixFromMember_eq getCentroidDocumentPrefix_def
        visit_collect_id Let_def)
qed

text \<open>When all members come after the identifiers that are cut out, every page is the first page.\<close>

lemma colon_page_repeats:
  assumes "plain a" and "c = a @ CHR '':'' # b"
    and later: "\<And>d. map_of (entries db) (getCentroidDocumentKey c d) \<noteq> None \<Longrightarrow> b @ ''__documents;'' \<le> d"
    and page: "page = listCentroidDocumentRangeFromOffsetRaw api db c 0 n" and "page \<noteq> []"
  shows "listCentroidDocumentRangeFromDocumentIdRaw api db c (last page) n = page"
    and "\<forall>i \<in> set page. \<exists>x. i = b @ ''__documents:'' @ x"
proof -
  have cut: "\<exists>x. i = b @ ''__documents:'' @ x" if "i \<in> set page" for i
    using that colon_key_id [OF assms(1,2)] set_take_subset [of n "member_entries (entries db) c"]
    by (fastforce simp: page first_page member_entries_def)
  then show "\<forall>i \<in> set page. \<exists>x. i = b @ ''__documents:'' @ x" by blast
  from cut [OF last_in_set [OF assms(5)]] obtain x where last: "last page = b @ ''__documents:'' @ x" by blast
  have "c @ ''__documents:'' @ last page \<le> k" if "k \<in> fst ` set (member_entries (entries db) c)" for k
  proof -
    from that have "prefix (c @ ''__documents:'') k" and stored: "map_of (entries db) k \<noteq> None"
      unfolding kv_key_map_of [symmetric] by (auto simp: member_entries_def)
    with colon_key_id [OF assms(1,2)] obtain d where k: "k = getCentroidDocumentKey c d" by blast
    have "b @ ''__documents:'' @ x < b @ ''__documents;''"
      by (simp add: append_less_append_iff less_char_def)
    also have "\<dots> \<le> d" using later stored by (simp add: k)
    finally show ?thesis by (simp add: k getCentroidDocumentKey_def last append_le_append_iff)
  qed
  from page_from_colon_member [OF this] show "listCentroidDocumentRangeFromDocumentIdRaw api db c (last page) n = page"
    by (simp add: page)
qed

end

section \<open>Property\<close>

text \<open>
  C34.  The updater does not end for a centroid with a colon in its identifier, \<open>a:b\<close>, that exists and has 500 or
  more documents, if those come in key order after \<open>b__documents:\<close> and no document has an identifier
  that starts with \<open>b__documents:\<close>: the identifiers of the page are cut out of the keys wrongly, none of
  them loads, and the page that starts at the last of them is the same page again.
\<close>

theorem update_of_colon_centroid_never_ends:
  assumes "env_contract api entries" and "plain a" and "c = a @ CHR '':'' # b" and "sp_doesCentroidExist api db c"
    and "500 \<le> length (listAllDocumentsForCentroidRaw api db c)"
    and "\<forall>d. rock_exists api db (getCentroidDocumentKey c d) \<longrightarrow> b @ ''__documents;'' \<le> d"
    and "\<forall>x. \<not> sp_doesDocumentExist api db (b @ ''__documents:'' @ x)"
  shows "updater_run api rnd t c db = None"
proof -
  note laws = env_contract.axioms(1) [OF assms(1)]
  define page where "page = listCentroidDocumentRangeFromOffsetRaw api db c 0 500"
  have "listAllDocumentsForCentroidRaw api db c = map (\<lambda>p. key_id (fst p)) (member_entries (entries db) c)"
    by (simp add: listAllDocumentsForCentroidRaw_def rocksdb_contract.iterPrefix_eq [OF laws] getCentroidDocumentPrefix_def
        visit_collect_id member_entries_def Let_def)
  with assms(5) have full: "length page = 500" by (simp add: page_def env_contract.first_page [OF assms(1)])
  then have some: "page \<noteq> []" by auto
  note repeats = env_contract.colon_page_repeats [OF assms(1-3) _ page_def some]
  have later: "b @ ''__documents;'' \<le> d" if "map_of (entries db) (getCentroidDocumentKey c d) \<noteq> None" for d
    using assms(6) that by (simp add: rocksdb_contract.rock_exists_eq [OF laws])
  have "page_loop api rnd c page acc db = None" for acc
    using full assms(7) repeats [OF later]
    by (intro env_contract.page_loop_stuck [OF assms(1)])
      (auto simp: sp_listCentroidDocumentRangeFromDocumentIdOption_def Let_def)
  with assms(4) full show ?thesis
    by (simp add: updater_run_def p_doesCentroidExist_def p_listCentroidDocumentRangeFromOffsetOption_def
        sp_listCentroidDocumentRangeFromOffsetOption_def Let_def flip: page_def)
qed


text \<open>The store of the witness: 500 documents \<open>c\<close>, \<open>cc\<close>, \<dots> in the centroid \<open>a:b\<close>.\<close>

definition colon_ids :: "string list" where
  "colon_ids = map (\<lambda>n. replicate (Suc n) CHR ''c'') [0..<500]"

definition colon_store :: memory where
  "colon_store = (getCentroidKey ''a:b'', '''') # map (\<lambda>i. (getCentroidDocumentKey ''a:b'' i, ''1'')) colon_ids"

lemma colon_lookup:
  "map_of colon_store (getCentroidKey ''a:b'') \<noteq> None"
  "map_of colon_store (getCentroidDocumentKey ''a:b'' d) = (if d \<in> set colon_ids then Some ''1'' else None)"
  "map_of colon_store (getDocumentKey d) = None"
proof -
  have inj: "inj (getCentroidDocumentKey ''a:b'')" by (simp add: inj_def getCentroidDocumentKey_def)
  have apart: "getCentroidDocumentKey ''a:b'' i \<noteq> getCentroidKey ''a:b''" "getCentroidDocumentKey ''a:b'' i \<noteq> getDocumentKey d" for i
    by (simp_all add: key_forms)
  show "map_of colon_store (getCentroidKey ''a:b'') \<noteq> None" by (simp add: colon_store_def)
  show "map_of colon_store (getCentroidDocumentKey ''a:b'' d) = (if d \<in> set colon_ids then Some ''1'' else None)"
    using map_of_keyed [OF inj, of "\<lambda>_. ''1''" colon_ids d] apart by (simp add: colon_store_def)
  show "map_of colon_store (getDocumentKey d) = None"
    using apart(2) by (simp add: colon_store_def map_of_not_keyed)
qed

lemma colon_members: "500 \<le> length (listAllDocumentsForCentroidRaw log_env colon_store ''a:b'')"
proof -
  let ?entries = "member_entries (log_entries colon_store) ''a:b''"
  have "distinct colon_ids"
    unfolding colon_ids_def by (simp add: distinct_map inj_on_def del: upt_Suc replicate.simps)
  then have "card (set colon_ids) = 500" using distinct_card [of colon_ids] by (simp add: colon_ids_def)
  moreover have "inj (getCentroidDocumentKey ''a:b'')" by (simp add: inj_def getCentroidDocumentKey_def)
  ultimately have "card (getCentroidDocumentKey ''a:b'' ` set colon_ids) = 500"
    by (metis card_image inj_on_subset subset_UNIV)
  moreover have "getCentroidDocumentKey ''a:b'' ` set colon_ids \<subseteq> fst ` set ?entries"
  proof
    fix k
    assume "k \<in> getCentroidDocumentKey ''a:b'' ` set colon_ids"
    then obtain d where k: "k = getCentroidDocumentKey ''a:b'' d" and d: "d \<in> set colon_ids" by blast
    have "k \<in> fst ` set (log_entries colon_store)"
      unfolding kv_key_map_of using d by (simp add: k map_of_log_entries colon_lookup)
    moreover have "prefix (''a:b'' @ ''__documents:'') k" by (simp add: k getCentroidDocumentKey_def)
    ultimately show "k \<in> fst ` set ?entries" by (force simp: member_entries_def)
  qed
  ultimately have "500 \<le> card (fst ` set ?entries)" by (metis card_mono finite_imageI finite_set)
  also have "\<dots> \<le> length ?entries" by (metis card_length length_map set_map)
  also have "\<dots> = length (listAllDocumentsForCentroidRaw log_env colon_store ''a:b'')"
    by (simp add: listAllDocumentsForCentroidRaw_def log_catalog.iterPrefix_eq getCentroidDocumentPrefix_def
        visit_collect_id member_entries_def)
  finally show ?thesis .
qed

theorem update_of_colon_centroid_never_ends_witness: "updater_run log_env Num 7 ''a:b'' colon_store = None"
proof (rule update_of_colon_centroid_never_ends [OF log_catalog.env_contract_axioms, of "''a''" _ "''b''"])
  have "''b__documents;'' \<le> d" if "d \<in> set colon_ids" for d
    using that by (auto simp: colon_ids_def less_char_def)
  then show "\<forall>d. rock_exists log_env colon_store (getCentroidDocumentKey ''a:b'' d) \<longrightarrow> ''b'' @ ''__documents;'' \<le> d"
    by (simp add: log_catalog.rock_exists_eq map_of_log_entries colon_lookup)
qed (simp_all add: plain_def colon_members log_catalog.exists_simps map_of_log_entries colon_lookup del: not_None_eq)

end
