(* ===== verification/Spec2Isabelle.thy ===== *)
theory Spec2Isabelle
  imports ServerBuilder Updates Similarity ColonPrefix UpdaterRace MapItems ServerRace RockLifecycle ColonCentroid
begin

text \<open>
  Relevanced: a server that scores texts against centroids of documents.

  The program.  A client creates documents and centroids and adds documents to centroids.  A document
  is tokenized, stemmed and counted into scored words; a centroid is the normalized sum of its
  documents; a similarity is the cosine of two word vectors.  Everything is stored in RocksDB under
  prefixed keys.  A change of a centroid's documents writes a timestamp and queues an update; the
  update worker recomputes the centroid, and reports to the score worker, which keeps the centroids in
  memory and answers the similarity requests.

  The parts, from the storage up.  Paths are under \<open>src/src\<close>; definitions have the names of the
  functions, with a prefix per class where several classes share a name.

  \<^item> Prelude: byte strings and their order, the exceptions of the protocol, \<open>folly::Try\<close> as a
    sum, \<open>std::map\<close> as a sorted association list.
  \<^item> RockHandle (\<open>persistence/RockHandle.cpp\<close>, \<open>persistence/InMemoryRockHandle.cpp\<close>): the iteration
    loops over a RocksDB that is a record of functions, the in-memory handle of the tests, and the
    locale \<open>rocksdb_contract\<close> of what is relied on; an interpretation on a log-structured memory shows
    that the contract can be met.  Lemmas: which keys an iteration visits, in which order, the window
    of a page, and that the two handles agree.
  \<^item> Models (\<open>models\<close>, \<open>text_util/ScoredWord.cpp\<close>): documents, word vectors, centroids and the
    scores.  A double is a real with a rounding function, an infinity or NaN; exact statements
    take \<open>Num\<close> as the rounding.
  \<^item> Serialization (\<open>serialization\<close>, \<open>RelevancedProtocol.thrift\<close>): the conversions to and from the
    stored structs and JSON values; the Thrift codec is a parameter.
  \<^item> SyncPersistence (\<open>persistence/SyncPersistence.cpp\<close>): the keys and every operation of the store.
    Catalog states what the operations promise: a state of four sets, an operation for each request,
    and the refinement of the catalog by the store.  Listing holds the listings and pages, the
    agreement of the two membership indices, the deletions and the round trip of a document.
  \<^item> Persistence (\<open>persistence/Persistence.cpp\<close>, \<open>persistence/CentroidMetadataDb.cpp\<close>): the same
    operations on the thread pool, as computations of the state monad over the database, and the
    timestamps that say whether a centroid is up to date.
  \<^item> CentroidUpdate (\<open>centroid_update_worker/CentroidUpdater.cpp\<close>, \<open>DocumentAccumulator.cpp\<close>): the
    run of an update.  Its paging loop is a \<open>partial_function (option)\<close>; it is shown to end when the
    centroid has no colon in its identifier, and what it saves is stated for any number of documents.
    ColonCentroid: for a centroid with a colon the loop may never end.  TypedStore: a store in which what lies under a key
    can be decoded as what the key says; every operation keeps a store typed, and the updater
    succeeds on it.  UpdaterRace: the same run as steps of its thread and of the pool, interleaved with the
    requests of others; the run above is the one without interference, and a change during an update
    is not forgotten.
  \<^item> StoreRace: the operations of \<open>SyncPersistence\<close> as programs of single calls of RocksDB, which
    the threads of the pool interleave.  A program run alone is the operation; operations with apart
    footprints serialize, values stay whole, and two races are shown.
    RockLifecycle: opening, closing and erasing the database, and erasing beside a request.
  \<^item> Unicode, CodePoint (\<open>libunicode\<close>): the decision tree of the blocks on 32-bit words, and that it is
    a table of ranges; case folding and letters.
  \<^item> TextProcessing (\<open>text_util\<close>, \<open>tokenizer\<close>, \<open>stemmer\<close>, \<open>document_processing_worker\<close>): the
    accumulator of words, the iterator that folds the text in place, the choice of the stemmer and the
    processor.  Stopwords (\<open>stopwords\<close>): the filter and its tables; no stopword is scored, and the
    processing of an ASCII text ends.  Documents states what the processing of an ASCII text computes
    (its distinct stems with their shares), independently of the iterator.
  \<^item> MultiVersion (\<open>util/MultiVersionPtr.h\<close>) and ConcurrentMap (\<open>util/ConcurrentMap.h\<close>): a heap of
    counted versions behind proxies, where using a deleted node is \<open>None\<close>; the map keeps its counts
    balanced and a reader keeps the version it has got.  The race of a copy with an assignment is a
    pair of small automata.  MapItems: the remaining operations of the proxies, and the items of the map.
  \<^item> Scores (\<open>similarity_score_worker\<close>): the score worker over the map.  A future is a computation on
    the state of the server that ends with a value, with an exception, or not at all.  Similarity
    follows texts through documents and centroids to their scores, which lie between 0 and 1 unless
    stems are cut together.
  \<^item> Debouncer (\<open>util/Debouncer.h\<close>): the queue, its timers as a multiset of due times, the methods and
    firings as a step relation.  Accepted writes are spaced, no write is lost, the queue drains.
  \<^item> UpdateWorker (\<open>centroid_update_worker/CentroidUpdateWorker.cpp\<close>): requests, tasks, runs and delayed
    completions as a step relation over the queue.  Updates of a centroid do not overlap, \<open>join\<close>
    waits for them, and every join of a centroid is answered once when nothing fails.
  \<^item> Server (\<open>server/RelevanceServer.cpp\<close>): every request, with the update worker as the requests see it
    when nothing interferes; Updates shows that this is a run of the step relation.  ThriftServer
    (\<open>server/ThriftRelevanceServer.cpp\<close>): the responses of the protocol.  Requests: the service as one
    function of requests (\<open>serve\<close>) and sessions of them; on a typed store every acceptable request is
    answered, and
    the loaded centroids stay in step with the stored ones.  ServerRace: the tasks of \<open>addDocumentsToCentroid\<close>,
    interleaved call by call, give the answer and the memberships of the additions one after the other.
  \<^item> Options (\<open>buildServerOptions.h\<close>, \<open>server/RelevanceServerOptions.cpp\<close>): the settings and their
    precedence.  ServerBuilder (\<open>server/ServerBuilder.h\<close>, \<open>server/simpleServerBuilders.cpp\<close>,
    \<open>relevanced_server.cpp\<close>): the parts built in the order of the program, with the assertions of the
    builder, up to a server that answers when all its pools have threads.
  \<^item> Utilities (\<open>util/util.h\<close>, \<open>util/util.cpp\<close>, \<open>util/Clock.h\<close>, \<open>release_metadata\<close>): the counter, the
    containers, the clock, the pointer with a deleter, the strings of the build.  ColonPrefix
    (\<open>ColonPrefixTransform\<close> of \<open>persistence/RockHandle.cpp\<close>): the prefix extractor, with what RocksDB
    asks of one.

  How state and effects correspond.  The database is one value; the state of the server is the record
  \<open>world\<close> of Scores: the database, the map of centroids, the stemmers of the thread, the set of centroids
  being updated, the queued updates and the readings of the clock.  Errors of the protocol are left
  sides of sums.  The thread pools run submitted work one task at a time, except in MultiVersion,
  Debouncer, UpdateWorker, UpdaterRace, StoreRace and ServerRace, which have the interleavings.  An \<open>unordered_map\<close> is an association list
  in the order of insertion.

  Side conditions.  Keys are put together from identifiers without escaping; most properties are about plain
  identifiers, those without a colon, and lemmas of Listing and ColonCentroid show what a colon can do.  A request is
  acceptable when its identifiers are plain, its text is ASCII and its language is listed.  Pools have at least
  one thread, except in ServerBuilder, where a server without a thread for the database hangs at its start and the
  sessions of a server with another idle pool are not followed.

  Termination.  No definition takes fuel: a loop that may not end is a \<open>partial_function (option)\<close>, where
  \<open>None\<close> is a loop that does not end, and its end is a theorem (\<open>updater_ends\<close>,
  \<open>ascii_text_is_processed\<close>).  The bounds in the theorems are those of the code: pages of 500 identifiers
  and batches of 20; stored words of 22 bytes; 64-bit counters.

  Third-party code is a parameter: RocksDB, the Thrift codec, the number conversions of folly, the UTF-8
  library, the Snowball stemmers, the hash functions, the rounding of doubles, the process environment
  and the file system.  What is relied on is a named contract, and each contract is interpreted on a
  concrete instance.  The filter and the text functions of Server are fields of its configuration; the
  program passes \<open>isStopword\<close> of Stopwords.

  Not modelled: the Thrift transport and the parsing of the command line; the request
  \<open>getDocumentMetadata\<close>, which the protocol declares and no class implements; the initial tuning options
  of RocksDB and its statistics; the templates of \<open>serialization/serializer_details.h\<close> that choose a serializer by
  type (the definitions call the chosen one); logging; the random UUID, the SHA-1 digest and the reading of the system clock, which are
  arguments; the update delay of 50 and the decrement delay of 10 milliseconds, which end at any time in
  UpdateWorker; the order of memory operations below a single atomic access; the unit and functional
  tests; the clients in other languages and the vendored test frameworks.
\<close>

end
